(* ===== verification/Syngit_Prelude.thy ===== *)
theory Syngit_Prelude
  imports Main
begin

text \<open>
  Shared vocabulary of the development: the fact collections the component proofs
  use, and the generic lemmas on lists, association lists, options and results that
  several components need.

  Go functions that return \<open>(T, error)\<close> are modelled by \<open>'e + 'a\<close>, with \<open>Inl\<close> for
  the error.  A pointer that may be nil is an \<open>option\<close>.  A Go map is an association
  list with distinct keys; where the program ranges over a map, the order of the
  iteration is an argument of the definition, because Go leaves it unspecified.
\<close>

named_theorems cache_simps \<open>unfolding rules of the cache operations\<close>
named_theorems str_simps \<open>rules for the Go string functions\<close>
named_theorems kube_simps \<open>unfolding rules of operations on the Kubernetes objects\<close>
named_theorems pipe_simps \<open>unfolding rules of the interception and git pipelines\<close>

subsection \<open>Association lists\<close>

declare distinct_removeAll [simp]

definition alist_del :: "'k \<Rightarrow> ('k \<times> 'v) list \<Rightarrow> ('k \<times> 'v) list" where
  "alist_del k xs = filter (\<lambda>(k', _). k' \<noteq> k) xs"

definition alist_map :: "('k \<Rightarrow> 'v \<Rightarrow> 'v) \<Rightarrow> ('k \<times> 'v) list \<Rightarrow> ('k \<times> 'v) list" where
  "alist_map f xs = map (\<lambda>(k, v). (k, f k v)) xs"

definition alist_set :: "'k \<Rightarrow> 'v \<Rightarrow> ('k \<times> 'v) list \<Rightarrow> ('k \<times> 'v) list" where
  "alist_set k v xs = (k, v) # alist_del k xs"

definition alist_get :: "('k \<times> string) list \<Rightarrow> 'k \<Rightarrow> string" where
  \<comment> \<open>Indexing a Go \<open>map[K]string\<close>: the zero value when the key is absent.\<close>
  "alist_get xs k = (case map_of xs k of None \<Rightarrow> '''' | Some v \<Rightarrow> v)"

lemma map_of_alist_del [simp]:
  "map_of (alist_del k xs) k' = (if k' = k then None else map_of xs k')"
  by (induction xs) (auto simp: alist_del_def)

lemma fst_set_alist_del [simp]: "fst ` set (alist_del k xs) = fst ` set xs - {k}"
  by (force simp: alist_del_def)

lemma map_fst_alist_del [simp]: "map fst (alist_del k xs) = removeAll k (map fst xs)"
  by (induction xs) (auto simp: alist_del_def)

lemma set_alist_del: "set (alist_del k xs) \<subseteq> set xs"
  by (auto simp: alist_del_def)

lemma distinct_alist_del [simp]:
  "distinct (map fst xs) \<Longrightarrow> distinct (map fst (alist_del k xs))"
  by (simp add: distinct_removeAll)

lemma length_alist_del_le: "length (alist_del k xs) \<le> length xs"
  by (simp add: alist_del_def)

lemma length_alist_del_less: "k \<in> fst ` set xs \<Longrightarrow> length (alist_del k xs) < length xs"
  unfolding alist_del_def by (auto intro: length_filter_less)

lemma length_alist_del_eq:
  "distinct (map fst xs) \<Longrightarrow> k \<in> fst ` set xs \<Longrightarrow> Suc (length (alist_del k xs)) = length xs"
proof (induction xs)
  case Nil
  then show ?case by simp
next
  case (Cons x xs)
  show ?case
  proof (cases "fst x = k")
    case True
    with Cons.prems(1) have "k \<notin> fst ` set xs" by simp
    then have "\<forall>y \<in> set xs. fst y \<noteq> k" by blast
    then have "alist_del k xs = xs"
      by (auto simp: alist_del_def intro!: filter_True)
    with True show ?thesis by (simp add: alist_del_def split_beta)
  next
    case False
    with Cons show ?thesis by (auto simp: alist_del_def split_beta)
  qed
qed

lemma alist_map_simps [simp]:
  "alist_map f [] = []" "alist_map f ((k, v) # xs) = (k, f k v) # alist_map f xs"
  by (simp_all add: alist_map_def)

lemma map_of_alist_map [simp]: "map_of (alist_map f xs) k = map_option (f k) (map_of xs k)"
  by (induction xs) (auto simp: alist_map_def)

lemma map_fst_alist_map [simp]: "map fst (alist_map f xs) = map fst xs"
  by (induction xs) (auto simp: alist_map_def)

lemma length_alist_map [simp]: "length (alist_map f xs) = length xs"
  by (simp add: alist_map_def)

lemma fst_set_alist_map [simp]: "fst ` set (alist_map f xs) = fst ` set xs"
  by (metis list.set_map map_fst_alist_map)

lemma map_of_alist_set [simp]:
  "map_of (alist_set k v xs) k' = (if k' = k then Some v else map_of xs k')"
  by (simp add: alist_set_def)

lemma distinct_alist_set [simp]:
  "distinct (map fst xs) \<Longrightarrow> distinct (map fst (alist_set k v xs))"
  by (auto simp: alist_set_def distinct_removeAll)

lemma map_of_fst_iff: "(map_of xs k \<noteq> None) = (k \<in> fst ` set xs)"
  by (simp add: map_of_eq_None_iff)

text \<open>
  Ranging over a map: \<open>ord n k\<close> is the position class of key \<open>k\<close> in the range over a map of \<open>n\<close>
  entries.  Every order of the entries is the order of some \<open>ord\<close>.
\<close>

definition range_map :: "(nat \<Rightarrow> 'k \<Rightarrow> nat) \<Rightarrow> ('k \<times> 'a) list \<Rightarrow> ('k \<times> 'a) list" where
  "range_map ord es = sort_key (\<lambda>(k, _). ord (length es) k) es"

lemma set_range_map [simp]: "set (range_map ord es) = set es"
  by (simp add: range_map_def)

subsection \<open>Results\<close>

definition res_ok :: "'e + 'a \<Rightarrow> bool" where
  "res_ok r = (case r of Inl _ \<Rightarrow> False | Inr _ \<Rightarrow> True)"

lemma res_ok_simps [simp]: "res_ok (Inr x)" "\<not> res_ok (Inl e)"
  by (simp_all add: res_ok_def)

lemma res_ok_iff: "res_ok r \<longleftrightarrow> (\<exists>x. r = Inr x)"
  by (cases r) auto

subsection \<open>Lists\<close>

lemma takeWhile_snoc_cases:
  "takeWhile P (xs @ [x]) = (if (\<forall>y \<in> set xs. P y) then (if P x then xs @ [x] else xs)
     else takeWhile P xs)"
  by (induction xs) auto

lemma list_update_split: "i < length xs \<Longrightarrow> xs[i := y] = take i xs @ y # drop (Suc i) xs"
  by (simp add: upd_conv_take_nth_drop)

end
