(* ===== verification/Go_Strings.thy ===== *)
theory Go_Strings
  imports Syngit_Prelude
begin

text \<open>
  The functions of Go's \<open>strings\<close>, \<open>bytes\<close>, \<open>strconv\<close> and \<open>fmt\<close> packages that the
  program uses, on \<open>string\<close>, a list of bytes.  They are the byte-level functions; the
  few that Go defines on runes (\<open>ToLower\<close>, \<open>TrimSpace\<close>) are modelled for ASCII text.

  The lemmas at the end are the algebra of \<open>Split\<close> and \<open>Join\<close> that the rewriting of
  multi-document files rests on: joining inverts splitting, and splitting inverts
  joining for documents that hold no separator.
\<close>

subsection \<open>Definitions\<close>

definition HasPrefix :: "string \<Rightarrow> string \<Rightarrow> bool" where
  "HasPrefix s p \<longleftrightarrow> take (length p) s = p"

definition HasSuffix :: "string \<Rightarrow> string \<Rightarrow> bool" where
  "HasSuffix s p \<longleftrightarrow> length p \<le> length s \<and> drop (length s - length p) s = p"

definition TrimPrefix :: "string \<Rightarrow> string \<Rightarrow> string" where
  "TrimPrefix s p = (if HasPrefix s p then drop (length p) s else s)"

fun Index :: "string \<Rightarrow> string \<Rightarrow> nat option" where
  "Index [] sub = (if sub = [] then Some 0 else None)"
| "Index (c # cs) sub =
     (if HasPrefix (c # cs) sub then Some 0 else map_option Suc (Index cs sub))"

definition Contains :: "string \<Rightarrow> string \<Rightarrow> bool" where
  "Contains s sub \<longleftrightarrow> Index s sub \<noteq> None"

definition Cut :: "string \<Rightarrow> string \<Rightarrow> string \<times> string \<times> bool" where
  "Cut s sep = (case Index s sep of
     None \<Rightarrow> (s, [], False)
   | Some i \<Rightarrow> (take i s, drop (i + length sep) s, True))"

lemma Index_Some_bound: "Index s sub = Some i \<Longrightarrow> i + length sub \<le> length s"
proof (induction s arbitrary: i)
  case Nil
  then show ?case by (simp split: if_splits)
next
  case (Cons c cs)
  show ?case
  proof (cases "HasPrefix (c # cs) sub")
    case True
    then have "length (take (length sub) (c # cs)) = length sub"
      by (simp only: HasPrefix_def)
    then have "length sub \<le> length (c # cs)" by simp
    with True Cons.prems show ?thesis by simp
  next
    case False
    with Cons.prems obtain j where "Index cs sub = Some j" and "i = Suc j" by auto
    with Cons.IH show ?thesis by simp
  qed
qed

text \<open>
  \<open>Split s sep\<close> for a non-empty separator cuts at the leftmost separator and goes on
  behind it.  (With an empty separator Go splits into characters.)
\<close>

function Split :: "string \<Rightarrow> string \<Rightarrow> string list" where
  "Split s sep =
     (if sep = [] then map (\<lambda>c. [c]) s
      else case Index s sep of
        None \<Rightarrow> [s]
      | Some i \<Rightarrow> take i s # Split (drop (i + length sep) s) sep)"
  by pat_completeness auto
termination
proof (relation "measure (\<lambda>(s, sep). length s)")
  fix s sep :: string and i
  assume "sep \<noteq> []" and "Index s sep = Some i"
  then have "i + length sep \<le> length s" and "0 < length sep"
    by (auto dest: Index_Some_bound)
  then have "length s - (i + length sep) < length s" by linarith
  then show "((drop (i + length sep) s, sep), s, sep) \<in> measure (\<lambda>(s, sep). length s)"
    by simp
qed simp

declare Split.simps [simp del]

fun Join :: "string list \<Rightarrow> string \<Rightarrow> string" where
  "Join [] sep = []"
| "Join [x] sep = x"
| "Join (x # y # xs) sep = x @ sep @ Join (y # xs) sep"

definition ReplaceAll :: "string \<Rightarrow> string \<Rightarrow> string \<Rightarrow> string" where
  \<comment> \<open>Used with a non-empty \<open>old\<close> only.\<close>
  "ReplaceAll s old new = Join (Split s old) new"

definition TrimRight :: "string \<Rightarrow> char \<Rightarrow> string" where
  "TrimRight s c = rev (dropWhile (\<lambda>x. x = c) (rev s))"

definition newline :: char where
  "newline = CHR 0x0A"

definition is_space :: "char \<Rightarrow> bool" where
  "is_space c \<longleftrightarrow> c \<in> {CHR '' '', CHR 0x09, CHR 0x0A, CHR 0x0B, CHR 0x0C, CHR 0x0D}"

definition TrimSpace :: "string \<Rightarrow> string" where
  "TrimSpace s = rev (dropWhile is_space (rev (dropWhile is_space s)))"

definition lower_char :: "char \<Rightarrow> char" where
  "lower_char c = (if 65 \<le> (of_char c :: nat) \<and> (of_char c :: nat) \<le> 90
                   then char_of ((of_char c :: nat) + 32) else c)"

definition ToLower :: "string \<Rightarrow> string" where
  "ToLower s = map lower_char s"

definition digit_char :: "nat \<Rightarrow> char" where
  "digit_char d = char_of (48 + d)"

fun Itoa :: "nat \<Rightarrow> string" where
  "Itoa n = (if n < 10 then [digit_char n] else Itoa (n div 10) @ [digit_char (n mod 10)])"

declare Itoa.simps [simp del]

text \<open>A document that can stand in front of a separator: no separator begins inside it.\<close>

definition sep_clean :: "string \<Rightarrow> string \<Rightarrow> bool" where
  "sep_clean sep d \<longleftrightarrow> Index (d @ butlast sep) sep = None"

subsection \<open>Prefixes and search\<close>

lemma HasPrefix_append [simp]: "HasPrefix (p @ s) p"
  by (simp add: HasPrefix_def)

lemma HasPrefix_Nil [simp]: "HasPrefix s []"
  by (simp add: HasPrefix_def)

lemma HasPrefix_iff: "HasPrefix s p \<longleftrightarrow> (\<exists>r. s = p @ r)"
  unfolding HasPrefix_def by (metis append_eq_conv_conj append_take_drop_id)

lemma TrimPrefix_append [simp]: "TrimPrefix (p @ s) p = s"
  by (simp add: TrimPrefix_def)

lemma HasPrefix_mono: "HasPrefix s p \<Longrightarrow> HasPrefix (s @ r) p"
  by (auto simp: HasPrefix_iff)

lemma HasPrefix_shrink:
  "HasPrefix (s @ r) p \<Longrightarrow> length p \<le> length s \<Longrightarrow> HasPrefix s p"
  by (simp add: HasPrefix_def)

lemma Index_None_iff: "Index s sub = None \<longleftrightarrow> (\<forall>j \<le> length s. \<not> HasPrefix (drop j s) sub)"
proof (induction s)
  case Nil
  then show ?case by (auto simp: HasPrefix_def)
next
  case (Cons c cs)
  have "(\<forall>j \<le> length (c # cs). \<not> HasPrefix (drop j (c # cs)) sub) \<longleftrightarrow>
    \<not> HasPrefix (c # cs) sub \<and> (\<forall>j \<le> length cs. \<not> HasPrefix (drop j cs) sub)"
    (is "?all \<longleftrightarrow> ?first \<and> ?rest")
  proof
    assume all: ?all
    have ?first using all [rule_format, of 0] by simp
    moreover have ?rest using all by (metis Suc_le_mono drop_Suc_Cons length_Cons)
    ultimately show "?first \<and> ?rest" ..
  next
    assume split: "?first \<and> ?rest"
    show ?all
    proof (intro allI impI)
      fix j
      assume "j \<le> length (c # cs)"
      with split show "\<not> HasPrefix (drop j (c # cs)) sub" by (cases j) auto
    qed
  qed
  with Cons show ?case by simp
qed

lemma Index_Some_least:
  "Index s sub = Some i \<Longrightarrow> j < i \<Longrightarrow> \<not> HasPrefix (drop j s) sub"
proof (induction s arbitrary: i j)
  case Nil
  then show ?case by (simp split: if_splits)
next
  case (Cons c cs)
  then have nf: "\<not> HasPrefix (c # cs) sub" by (auto split: if_splits)
  with Cons.prems obtain k where k: "Index cs sub = Some k" "i = Suc k" by auto
  show ?case
  proof (cases j)
    case 0
    with nf show ?thesis by simp
  next
    case (Suc l)
    with Cons.IH [OF k(1)] Cons.prems k show ?thesis by simp
  qed
qed

lemma Index_Some_prefix: "Index s sub = Some i \<Longrightarrow> HasPrefix (drop i s) sub"
  by (induction s arbitrary: i) (auto split: if_splits)

lemma Index_Some_decomp:
  assumes "Index s sub = Some i"
  shows "s = take i s @ sub @ drop (i + length sub) s"
proof -
  from Index_Some_prefix [OF assms] have "take (length sub) (drop i s) = sub"
    by (simp add: HasPrefix_def)
  then have "drop i s = sub @ drop (length sub) (drop i s)"
    by (metis append_take_drop_id)
  then show ?thesis by (metis add.commute append_take_drop_id drop_drop)
qed

lemma Contains_iff: "Contains s sub \<longleftrightarrow> (\<exists>a b. s = a @ sub @ b)"
proof
  assume "Contains s sub"
  then obtain i where "Index s sub = Some i" by (auto simp: Contains_def)
  then show "\<exists>a b. s = a @ sub @ b" by (metis Index_Some_decomp)
next
  assume "\<exists>a b. s = a @ sub @ b"
  then obtain a b where s: "s = a @ sub @ b" by blast
  then have "HasPrefix (drop (length a) s) sub" and "length a \<le> length s" by auto
  then show "Contains s sub" by (auto simp: Contains_def Index_None_iff)
qed

lemma Index_None_append1: "Index (a @ b) sub = None \<Longrightarrow> Index a sub = None"
  by (metis Contains_def Contains_iff append.assoc)

subsection \<open>Separators\<close>

lemma sep_clean_Index_None: "sep_clean sep d \<Longrightarrow> Index d sep = None"
  by (auto simp: sep_clean_def dest: Index_None_append1)

lemma Index_at_separator:
  assumes "sep_clean sep d"
  shows "Index (d @ sep @ r) sep = Some (length d)"
  using assms
proof (induction d)
  case Nil
  have "HasPrefix (sep @ r) sep" by simp
  then have "Index (sep @ r) sep = Some 0"
    by (metis HasPrefix_iff Index.elims append_is_Nil_conv)
  then show ?case by simp
next
  case (Cons c d)
  from Cons.prems have clean: "Index (c # d @ butlast sep) sep = None"
    by (simp add: sep_clean_def)
  then have "\<not> HasPrefix (c # d @ butlast sep) sep" and "Index (d @ butlast sep) sep = None"
    by (auto split: if_splits)
  moreover have "c # d @ sep @ r = (c # d @ butlast sep) @ drop (length sep - 1) sep @ r"
    by (simp add: butlast_conv_take)
  ultimately have "\<not> HasPrefix (c # d @ sep @ r) sep"
    by (metis HasPrefix_shrink One_nat_def Suc_pred' add_Suc_right diff_0_eq_0 le_add2 length_Cons
        length_append length_butlast length_0_conv linorder_not_less not_less_eq_eq
        HasPrefix_Nil neq0_conv)
  moreover from Cons.IH \<open>Index (d @ butlast sep) sep = None\<close>
  have "Index (d @ sep @ r) sep = Some (length d)" by (simp add: sep_clean_def)
  ultimately show ?case by simp
qed

lemma sep_clean_take:
  assumes "Index s sep = Some i" and "sep \<noteq> []"
  shows "sep_clean sep (take i s)"
proof -
  let ?t = "take i s @ butlast sep"
  have s: "s = ?t @ [last sep] @ drop (i + length sep) s"
    using Index_Some_decomp [OF assms(1)] append_butlast_last_id [OF assms(2)]
    by (metis append_assoc)
  have len: "length ?t = i + length sep - 1"
    using Index_Some_bound [OF assms(1)] assms(2) by (cases sep) auto
  have "\<not> HasPrefix (drop j ?t) sep" if "j \<le> length ?t" for j
  proof (cases "j < i")
    case True
    have "drop j s = drop j ?t @ [last sep] @ drop (i + length sep) s"
      by (subst s) (use that in \<open>simp only: drop_append diff_is_0_eq' drop0\<close>)
    with Index_Some_least [OF assms(1) True] show ?thesis by (metis HasPrefix_mono)
  next
    case False
    then have "length (drop j ?t) < length sep" using len assms(2) by (cases sep) auto
    then show ?thesis by (metis HasPrefix_iff le_add1 length_append linorder_not_less)
  qed
  then show ?thesis by (simp add: sep_clean_def Index_None_iff)
qed

subsection \<open>Splitting and joining\<close>

lemma Split_None: "sep \<noteq> [] \<Longrightarrow> Index s sep = None \<Longrightarrow> Split s sep = [s]"
  by (simp add: Split.simps)

lemma Split_Some:
  "sep \<noteq> [] \<Longrightarrow> Index s sep = Some i \<Longrightarrow>
   Split s sep = take i s # Split (drop (i + length sep) s) sep"
  by (simp add: Split.simps [of s])

lemma Split_not_Nil: "sep \<noteq> [] \<Longrightarrow> Split s sep \<noteq> []"
  by (cases "Index s sep") (simp_all add: Split_None Split_Some)

lemma Join_Cons: "xs \<noteq> [] \<Longrightarrow> Join (x # xs) sep = x @ sep @ Join xs sep"
  by (cases xs) auto

text \<open>Joining what was split gives the text back, byte for byte.\<close>

lemma Join_Split: "sep \<noteq> [] \<Longrightarrow> Join (Split s sep) sep = s"
proof (induction s sep rule: Split.induct)
  case (1 s sep)
  show ?case
  proof (cases "Index s sep")
    case None
    with "1.prems" show ?thesis by (simp add: Split_None)
  next
    case (Some i)
    with 1 have "Join (Split (drop (i + length sep) s) sep) sep = drop (i + length sep) s"
      by simp
    with Some "1.prems" show ?thesis
      by (simp add: Split_Some Join_Cons Split_not_Nil Index_Some_decomp [OF Some, symmetric])
  qed
qed

lemma Split_pieces:
  "sep \<noteq> [] \<Longrightarrow>
   (\<forall>d \<in> set (butlast (Split s sep)). sep_clean sep d) \<and> Index (last (Split s sep)) sep = None"
proof (induction s sep rule: Split.induct)
  case (1 s sep)
  show ?case
  proof (cases "Index s sep")
    case None
    with "1.prems" show ?thesis by (simp add: Split_None)
  next
    case (Some i)
    with 1 show ?thesis
      by (auto simp: Split_Some Split_not_Nil sep_clean_take)
  qed
qed

text \<open>Splitting what was joined gives the pieces back, when no piece holds a separator.\<close>

lemma Split_Join:
  assumes "sep \<noteq> []" and "ds \<noteq> []"
    and "\<forall>d \<in> set (butlast ds). sep_clean sep d" and "Index (last ds) sep = None"
  shows "Split (Join ds sep) sep = ds"
  using assms(2-)
proof (induction ds)
  case Nil
  then show ?case by simp
next
  case (Cons d ds)
  show ?case
  proof (cases "ds = []")
    case True
    with Cons.prems assms(1) show ?thesis by (simp add: Split_None)
  next
    case False
    with Cons.prems have "Index (d @ sep @ Join ds sep) sep = Some (length d)"
      by (intro Index_at_separator) simp
    with Cons False assms(1) show ?thesis by (simp add: Join_Cons Split_Some)
  qed
qed

lemma Join_append_last:
  "ds \<noteq> [] \<Longrightarrow> Join ds sep @ t = Join (butlast ds @ [last ds @ t]) sep"
  by (induction ds) (auto simp: Join_Cons)

subsection \<open>Trimming and case\<close>

lemma TrimRight_idem [simp]: "TrimRight (TrimRight s c) c = TrimRight s c"
  by (simp add: TrimRight_def)

lemma TrimRight_append_char [simp]: "TrimRight (s @ [c]) c = TrimRight s c"
  by (simp add: TrimRight_def)

lemma HasSuffix_singleton: "HasSuffix s [c] \<longleftrightarrow> s \<noteq> [] \<and> last s = c"
  by (cases s rule: rev_cases) (auto simp: HasSuffix_def)

lemma lower_char_idem [simp]: "lower_char (lower_char c) = lower_char c"
proof (cases "65 \<le> (of_char c :: nat) \<and> (of_char c :: nat) \<le> 90")
  case True
  then have "(of_char c :: nat) + 32 < 256" by simp
  then have "(of_char (lower_char c) :: nat) = of_char c + 32"
    using True by (simp add: lower_char_def)
  with True show ?thesis by (simp add: lower_char_def)
qed (auto simp: lower_char_def)

lemma ToLower_idem [simp]: "ToLower (ToLower s) = ToLower s"
  by (simp add: ToLower_def)

lemma ToLower_append [simp]: "ToLower (a @ b) = ToLower a @ ToLower b"
  by (simp add: ToLower_def)

end
