(* ===== verification/Api_Types.thy ===== *)
theory Api_Types
  imports Go_Strings
begin

text \<open>
  The data model: the Kubernetes API structs the program reads and writes, the custom
  resources of \<open>pkg/api/v1beta5\<close> and the string constants of their fields.

  A custom resource is a \<open>kobj\<close> of its spec and status types; the Go enumerations are
  string types, and stay strings here, since the program compares them with constants
  and accepts any other value.  Maps of labels and annotations are association lists,
  optional pointers are options, times are seconds.  Type metadata and the list types are left out.
\<close>

subsection \<open>Kubernetes structs\<close>

type_synonym labels = "(string \<times> string) list"

record NamespacedName =
  NsnNamespace :: string
  NsnName :: string

record ObjectMeta =
  Name :: string
  Namespace :: string
  UID :: string
  Generation :: int
  Labels :: labels
  Annotations :: labels
  Finalizers :: "string list"
  DeletionTimestamp :: "int option"

record ('spec, 'status) kobj =
  Meta :: ObjectMeta
  Spec :: 'spec
  Status :: 'status

record ObjectReference =
  RefKind :: string
  RefNamespace :: string
  RefName :: string
  RefUID :: string
  RefAPIVersion :: string
  RefResourceVersion :: string
  RefFieldPath :: string

record SecretReference =
  SecName :: string
  SecNamespace :: string

record Subject =
  SubjKind :: string
  SubjAPIGroup :: string
  SubjName :: string
  SubjNamespace :: string

record LabelSelectorRequirement =
  ReqKey :: string
  ReqOperator :: string
  ReqValues :: "string list"

record LabelSelector =
  MatchLabels :: labels
  MatchExpressions :: "LabelSelectorRequirement list"

record Condition =
  CondType :: string
  CondStatus :: string
  ObservedGeneration :: int
  LastTransitionTime :: int
  Reason :: string
  Message :: string

record UserInfo =
  Username :: string
  UserUID :: string
  Groups :: "string list"
  Extra :: "(string \<times> string list) list"

record GroupVersionResource =
  Group :: string
  Version :: string
  Resource :: string

record GroupVersionKind =
  GvkGroup :: string
  GvkVersion :: string
  Kind :: string

record RuleWithOperations =
  Operations :: "string list"
  APIGroups :: "string list"
  APIVersions :: "string list"
  Resources :: "string list"
  Scope :: "string option"

subsection \<open>Syncers\<close>

record ScopedResources =
  MatchPolicy :: "string option"
  ScopedObjectSelector :: "LabelSelector option"
  Rules :: "RuleWithOperations list"

record SOPSConfig =
  SopsEnabled :: bool
  SopsSecretRef :: SecretReference

record RemoteSyncerSpec =
  RemoteRepository :: string
  DefaultBranch :: string
  ScopedRes :: ScopedResources
  Strategy :: string
  TargetStrategy :: string
  RemoteTargetSelector :: "LabelSelector option"
  DefaultBlockAppliedMessage :: string
  ExcludedFields :: "string list"
  ExcludedFieldsConfigMapsRef :: "ObjectReference option list"
  RootPath :: string
  ResourceFinder :: bool
  RemoteUserBindingSelector :: "LabelSelector option"
  BypassInterceptionSubjects :: "Subject list"
  BypassAllServiceAccounts :: bool
  DefaultUnauthorizedUserMode :: string
  DefaultPushErrorBehavior :: string
  PushErrorRetryNumber :: int
  DefaultRemoteUserRef :: "ObjectReference option"
  DefaultRemoteTargetRef :: "ObjectReference option"
  InsecureSkipTlsVerify :: bool
  CABundleSecretRef :: SecretReference
  SOPS :: SOPSConfig

record JsonGVRN =
  JGroup :: string
  JVersion :: string
  JResource :: string
  JName :: string

record LastBypassedObjectState =
  LastBypassedObjectTime :: int
  LastBypassedObjectUserInfo :: UserInfo
  LastBypassedObject :: JsonGVRN

record LastObservedObjectState =
  LastObservedObjectTime :: int
  LastObservedObjectUsername :: string
  LastObservedObject :: JsonGVRN

record LastPushedObjectState =
  LastPushedObjectTime :: int
  LastPushedGitUser :: string
  LastPushedObjectGitRepos :: "string list"
  LastPushedObjectGitPaths :: "string list"
  LastPushedObjectGitCommitHashes :: "string list"
  LastPushedObject :: JsonGVRN
  LastPushedObjectStatus :: string

record RemoteSyncerStatus =
  SyncerConditions :: "Condition list"
  LastBypassed :: LastBypassedObjectState
  LastObserved :: LastObservedObjectState
  LastPushed :: LastPushedObjectState

type_synonym RemoteSyncer = "(RemoteSyncerSpec, RemoteSyncerStatus) kobj"

record ClusterWideRemoteSyncerSpec =
  InlineSpec :: RemoteSyncerSpec
  NamespaceSelector :: "LabelSelector option"
  IdentityStoreNamespace :: string

type_synonym ClusterWideRemoteSyncer = "(ClusterWideRemoteSyncerSpec, RemoteSyncerStatus) kobj"

text \<open>The \<open>Syncer\<close> interface has these two implementations.\<close>

datatype Syncer =
  NamespacedSyncer RemoteSyncer
| ClusterSyncer ClusterWideRemoteSyncer

fun SyncerSpec :: "Syncer \<Rightarrow> RemoteSyncerSpec" where
  "SyncerSpec (NamespacedSyncer r) = Spec r"
| "SyncerSpec (ClusterSyncer r) = InlineSpec (Spec r)"

fun IdentityNamespace :: "Syncer \<Rightarrow> string" where
  "IdentityNamespace (NamespacedSyncer r) = Namespace (Meta r)"
| "IdentityNamespace (ClusterSyncer r) = IdentityStoreNamespace (Spec r)"

fun SyncerMeta :: "Syncer \<Rightarrow> ObjectMeta" where
  "SyncerMeta (NamespacedSyncer r) = Meta r"
| "SyncerMeta (ClusterSyncer r) = Meta r"

fun SyncerStatus :: "Syncer \<Rightarrow> RemoteSyncerStatus" where
  "SyncerStatus (NamespacedSyncer r) = Status r"
| "SyncerStatus (ClusterSyncer r) = Status r"

subsection \<open>Users, bindings and targets\<close>

record RemoteUserSpec =
  SecretRef :: SecretReference
  Email :: string
  GitBaseDomainFQDN :: string

record RemoteUserConnexionStatus =
  ConnStatus :: string
  ConnDetails :: string

record RemoteUserStatus =
  UserConditions :: "Condition list"
  ConnexionStatus :: RemoteUserConnexionStatus
  GitUser :: string
  SecretBoundStatus :: string

type_synonym RemoteUser = "(RemoteUserSpec, RemoteUserStatus) kobj"

record RemoteUserBindingSpec =
  RubSubject :: Subject
  RemoteUserRefs :: "ObjectReference list"
  RemoteTargetRefs :: "ObjectReference list"

record RemoteUserHost =
  RemoteUserUsed :: string
  HostSecretRef :: SecretReference
  GitFQDN :: string
  HostState :: string

record RemoteUserBindingStatus =
  RubConditions :: "Condition list"
  RemoteUserState :: string
  RemoteUserHosts :: "RemoteUserHost list"
  UserKubernetesID :: string

type_synonym RemoteUserBinding = "(RemoteUserBindingSpec, RemoteUserBindingStatus) kobj"

record RemoteTargetSpec =
  UpstreamRepository :: string
  UpstreamBranch :: string
  TargetRepository :: string
  TargetBranch :: string
  MergeStrategy :: string

type_synonym RemoteTarget = "(RemoteTargetSpec, Condition list) kobj"

subsection \<open>Constants\<close>

definition OneTarget :: string where "OneTarget = ''OneTarget''"
definition MultipleTarget :: string where "MultipleTarget = ''MultipleTarget''"
definition CommitOnly :: string where "CommitOnly = ''CommitOnly''"
definition CommitApply :: string where "CommitApply = ''CommitApply''"
definition BlockDefaultUser :: string where "BlockDefaultUser = ''Block''"
definition UseDefaultUser :: string where "UseDefaultUser = ''UseDefaultUser''"
definition BlockPushError :: string where "BlockPushError = ''Block''"
definition Pass :: string where "Pass = ''Pass''"
definition RubNamePrefix :: string where "RubNamePrefix = ''associated-rub''"
definition RubAnnotationKeyManaged :: string where
  "RubAnnotationKeyManaged = ''syngit.io/remoteuserbinding.managed''"
definition RtManagedNamePrefix :: string where "RtManagedNamePrefix = ''rt''"
definition RtAnnotationKeyUserSpecific :: string where
  "RtAnnotationKeyUserSpecific = ''syngit.io/remotetarget.policy.user-specific''"
definition RtAnnotationKeyOneOrManyBranches :: string where
  "RtAnnotationKeyOneOrManyBranches = ''syngit.io/remotetarget.policy.one-or-many-branches''"
definition RtLabelKeyAllowInjection :: string where
  "RtLabelKeyAllowInjection = ''syngit.io/remotetarget.allow-injection''"
definition RtLabelKeyBranch :: string where "RtLabelKeyBranch = ''syngit.io/remotetarget.branch''"
definition RtLabelKeyPolicy :: string where "RtLabelKeyPolicy = ''syngit.io/remotetarget.policy''"
definition RtLabelValueOneOrManyBranches :: string where
  "RtLabelValueOneOrManyBranches = ''one-or-many-branches''"
definition RtLabelValueOneUserOneBranch :: string where
  "RtLabelValueOneUserOneBranch = ''user-specific.one-user-one-branch''"
definition RtAnnotationValueOneUserOneBranch :: string where
  "RtAnnotationValueOneUserOneBranch = ''one-user-one-branch''"
definition TryFastForwardOrDie :: string where "TryFastForwardOrDie = ''TryFastForwardOrDie''"
definition TryFastForwardOrHardReset :: string where
  "TryFastForwardOrHardReset = ''TryFastForwardOrHardReset''"
definition TryHardResetOrDie :: string where "TryHardResetOrDie = ''TryHardResetOrDie''"
definition GitAuthenticated :: string where "GitAuthenticated = ''Authenticated''"
definition SecretBound :: string where "SecretBound = ''Secret bound''"
definition SecretNotFound :: string where "SecretNotFound = ''Secret not found''"
definition SecretWrongType :: string where
  "SecretWrongType = ''Secret type is not set to BasicAuth''"
definition PartiallyBound :: string where "PartiallyBound = ''PartiallyBound''"
definition Bound :: string where "Bound = ''Bound''"
definition NotBound :: string where "NotBound = ''NotBound''"

subsection \<open>Zero values\<close>

definition no_ref :: ObjectReference where
  "no_ref = \<lparr>RefKind = '''', RefNamespace = '''', RefName = '''', RefUID = '''',
     RefAPIVersion = '''', RefResourceVersion = '''', RefFieldPath = ''''\<rparr>"

definition name_ref :: "string \<Rightarrow> ObjectReference" where
  "name_ref n = no_ref\<lparr>RefName := n\<rparr>"

definition no_meta :: ObjectMeta where
  "no_meta = \<lparr>Name = '''', Namespace = '''', UID = '''', Generation = 0, Labels = [],
     Annotations = [], Finalizers = [], DeletionTimestamp = None\<rparr>"

definition no_subject :: Subject where
  "no_subject = \<lparr>SubjKind = '''', SubjAPIGroup = '''', SubjName = '''', SubjNamespace = ''''\<rparr>"

definition no_secret_ref :: SecretReference where
  "no_secret_ref = \<lparr>SecName = '''', SecNamespace = ''''\<rparr>"

definition no_gvrn :: JsonGVRN where
  "no_gvrn = \<lparr>JGroup = '''', JVersion = '''', JResource = '''', JName = ''''\<rparr>"

definition no_user :: UserInfo where
  "no_user = \<lparr>Username = '''', UserUID = '''', Groups = [], Extra = []\<rparr>"

definition no_syncer_spec :: RemoteSyncerSpec where
  "no_syncer_spec = \<lparr>RemoteRepository = '''', DefaultBranch = '''',
     ScopedRes = \<lparr>MatchPolicy = None, ScopedObjectSelector = None, Rules = []\<rparr>,
     Strategy = '''', TargetStrategy = '''', RemoteTargetSelector = None,
     DefaultBlockAppliedMessage = '''', ExcludedFields = [], ExcludedFieldsConfigMapsRef = [],
     RootPath = '''', ResourceFinder = False, RemoteUserBindingSelector = None,
     BypassInterceptionSubjects = [], BypassAllServiceAccounts = False,
     DefaultUnauthorizedUserMode = '''', DefaultPushErrorBehavior = '''', PushErrorRetryNumber = 0,
     DefaultRemoteUserRef = None, DefaultRemoteTargetRef = None, InsecureSkipTlsVerify = False,
     CABundleSecretRef = no_secret_ref, SOPS = \<lparr>SopsEnabled = False, SopsSecretRef = no_secret_ref\<rparr>\<rparr>"

definition no_syncer_status :: RemoteSyncerStatus where
  "no_syncer_status = \<lparr>SyncerConditions = [],
     LastBypassed = \<lparr>LastBypassedObjectTime = 0, LastBypassedObjectUserInfo = no_user, LastBypassedObject = no_gvrn\<rparr>,
     LastObserved = \<lparr>LastObservedObjectTime = 0, LastObservedObjectUsername = '''', LastObservedObject = no_gvrn\<rparr>,
     LastPushed = \<lparr>LastPushedObjectTime = 0, LastPushedGitUser = '''', LastPushedObjectGitRepos = [],
       LastPushedObjectGitPaths = [], LastPushedObjectGitCommitHashes = [], LastPushedObject = no_gvrn,
       LastPushedObjectStatus = ''''\<rparr>\<rparr>"

definition no_rub_status :: RemoteUserBindingStatus where
  "no_rub_status = \<lparr>RubConditions = [], RemoteUserState = '''', RemoteUserHosts = [], UserKubernetesID = ''''\<rparr>"

definition no_user_status :: RemoteUserStatus where
  "no_user_status = \<lparr>UserConditions = [], ConnexionStatus = \<lparr>ConnStatus = '''', ConnDetails = ''''\<rparr>,
     GitUser = '''', SecretBoundStatus = ''''\<rparr>"

end
