(* ===== verification/Syngit_Errors.thy ===== *)
theory Syngit_Errors
  imports Api_Types
begin

text \<open>
  The error values of \<open>pkg/errors\<close>: one constructor per error struct, with the struct's
  fields, one for the package-level sentinel of each struct (a pointer of its own, so it
  differs from every other value), and the errors that come from elsewhere.

  \<open>Error\<close> renders a value, \<open>Unwrap\<close> gives its children, \<open>Is\<close> is the package's text-based
  classification, and \<open>errors_Is\<close> is the walk of the standard library's \<open>errors.Is\<close>
  along \<open>Unwrap\<close>, where not returning is \<open>None\<close>.  How \<open>fmt\<close> prints a \<open>UserInfo\<close> is a
  parameter of \<open>Error\<close>.
\<close>

subsection \<open>Error values\<close>

datatype err_kind =
  KResourceScopeForbidden | KRemoteUserDenied | KRemoteTargetDenied | KRemoteUserBindingNotFound
| KWrongRemoteTargetConfig | KWrongRemoteSyncerConfig | KRemoteTargetNotFound | KRemoteUserNotFound
| KCredentialsNotFound | KTooMuchRemoteTarget | KWrongLabelParsing | KTooMuchRemoteUserBinding
| KTooMuchRemoteUser | KTooMuchSubject | KWrongYAMLFormat | KGitPipeline | KInterceptorPipeline
| KProviderDenied | KCrossNamespaceRefDenied | KMissingRefNamespace

datatype api_error = NotFound | AlreadyExists | Conflict | Forbidden | ApiOther string

datatype git_sentinel = NoErrAlreadyUpToDate | ErrRemoteNotFound | ErrReferenceNotFound | ErrEmptyCommit

datatype go_error =
  ResourceScopeForbidden UserInfo "string list"
| RemoteUserDenied UserInfo ObjectReference
| RemoteTargetDenied UserInfo ObjectReference
| RemoteUserBindingNotFound string
| WrongRemoteTargetConfig string RemoteUser
| WrongRemoteSyncerConfig string
| RemoteTargetNotFound string
| RemoteUserNotFound string
| CredentialsNotFound string string
| TooMuchRemoteTarget string nat
| WrongLabelParsing string
| TooMuchRemoteUserBinding string nat
| TooMuchRemoteUser string nat
| TooMuchSubject string
| WrongYAMLFormat string
| GitPipeline string go_error
| InterceptorPipeline string
| ProviderDenied string
| CrossNamespaceRefDenied UserInfo string string string string
| MissingRefNamespace string
| Sentinel err_kind
| PlainError string
| WrapError string go_error
| TextError string go_error string
| ApiError api_error
| GitSentinel git_sentinel

text \<open>
  \<open>WrapError m e\<close> is \<open>fmt.Errorf("m: %w", e)\<close> and \<open>TextError a e b\<close> is \<open>fmt.Errorf("a%vb", e)\<close>, which
  keeps the text of \<open>e\<close> only.  \<open>GitSentinel\<close> are the error values of go-git the program compares with.
\<close>

fun marker :: "err_kind \<Rightarrow> string" where
  "marker KResourceScopeForbidden = ''resource scope forbidden''"
| "marker KRemoteUserDenied = ''get remote user denied''"
| "marker KRemoteTargetDenied = ''get remote target denied''"
| "marker KRemoteUserBindingNotFound = ''remote user binding not found''"
| "marker KWrongRemoteTargetConfig = ''wrong remote target config''"
| "marker KWrongRemoteSyncerConfig = ''wrong remote syncer config''"
| "marker KRemoteTargetNotFound = ''no remote target found''"
| "marker KRemoteUserNotFound = ''remote user not found''"
| "marker KCredentialsNotFound = ''credential not found''"
| "marker KTooMuchRemoteTarget = ''too much remote target found''"
| "marker KWrongLabelParsing = ''wrong label parsing''"
| "marker KTooMuchRemoteUserBinding = ''too much remote user binding found''"
| "marker KTooMuchRemoteUser = ''too much remote user found''"
| "marker KTooMuchSubject = ''too much subjects''"
| "marker KWrongYAMLFormat = ''wrong yaml format''"
| "marker KGitPipeline = ''git pipeline processing error''"
| "marker KInterceptorPipeline = ''interceptor pipeline processing error''"
| "marker KProviderDenied = ''provider denied the change''"
| "marker KCrossNamespaceRefDenied = ''cross-namespace reference denied''"
| "marker KMissingRefNamespace = ''missing reference namespace''"

definition resourceScopeForbidden_Error :: "string \<Rightarrow> string list \<Rightarrow> string" where
  "resourceScopeForbidden_Error user rs =
     ''resource scope forbidden: the user '' @ user @ '' is not allowed to scope: '' @ [newline] @ ''- ''
       @ Join rs ([newline] @ ''- '')"

definition denyGetRemoteUser_Error :: "string \<Rightarrow> ObjectReference \<Rightarrow> string" where
  "denyGetRemoteUser_Error user ref =
     ''get remote user denied: the user '' @ user
       @ '' is not allowed to get the referenced remoteuser: '' @ RefName ref"

definition denyGetRemoteTarget_Error :: "string \<Rightarrow> ObjectReference \<Rightarrow> string" where
  "denyGetRemoteTarget_Error user ref =
     ''get remote target denied: the user '' @ user
       @ '' is not allowed to get the referenced remotetarget: '' @ RefName ref"

definition remoteUserBindingNotFound_Error :: "string \<Rightarrow> string" where
  "remoteUserBindingNotFound_Error username =
     ''remote user binding not found: no RemoteUserBinding found for the user '' @ username"

definition wrongRemoteTargetConfig_Error :: "string \<Rightarrow> string \<Rightarrow> string" where
  "wrongRemoteTargetConfig_Error syncerName remoteUserName =
     ''wrong remote target config: the fqdn of the default RemoteUser does not match the associated RemoteSyncer (''
       @ syncerName @ '') fqdn ('' @ remoteUserName @ '')''"

definition wrongRemoteSyncerConfig_Error :: "string \<Rightarrow> string" where
  "wrongRemoteSyncerConfig_Error msg = ''wrong remote syncer config: '' @ msg"

definition remoteTargetNotFound_Error :: "string \<Rightarrow> string" where
  "remoteTargetNotFound_Error details = ''no remote target found: '' @ details"

definition remoteUserNotFound_Error :: "string \<Rightarrow> string" where
  "remoteUserNotFound_Error details = ''remote user not found: '' @ details"

definition credentialsNotFound_Error :: "string \<Rightarrow> string \<Rightarrow> string" where
  "credentialsNotFound_Error details secretName =
     ''credential not found (secret name: '' @ [CHR 0x22] @ secretName @ [CHR 0x22] @ ''): '' @ details"

definition tooMuchRemoteTarget_Error :: "string \<Rightarrow> nat \<Rightarrow> string" where
  "tooMuchRemoteTarget_Error details n = ''too much remote target found ('' @ Itoa n @ ''): '' @ details"

definition wrongLabelParsing_Error :: "string \<Rightarrow> string" where
  "wrongLabelParsing_Error details = ''wrong label parsing: '' @ details"

definition tooMuchRemoteUserBinding_Error :: "string \<Rightarrow> nat \<Rightarrow> string" where
  "tooMuchRemoteUserBinding_Error details n =
     ''too much remote user binding found ('' @ Itoa n @ ''): '' @ details"

definition tooMuchRemoteUser_Error :: "string \<Rightarrow> nat \<Rightarrow> string" where
  "tooMuchRemoteUser_Error details n = ''too much remote user found ('' @ Itoa n @ ''): '' @ details"

definition tooMuchSubject_Error :: "string \<Rightarrow> string" where
  "tooMuchSubject_Error details = ''too much subjects: '' @ details"

definition wrongYamlFormat_Error :: string where
  "wrongYamlFormat_Error = ''wrong yaml format''"

definition gitPipeline_Error :: "string \<Rightarrow> string \<Rightarrow> string" where
  "gitPipeline_Error details inner = ''git pipeline processing error: '' @ details @ '': '' @ inner"

definition interceptorPipeline_Error :: "string \<Rightarrow> string" where
  "interceptorPipeline_Error details = ''interceptor pipeline processing error: '' @ details"

definition providerDenied_Error :: "string \<Rightarrow> string" where
  "providerDenied_Error details = ''provider denied the change: '' @ details"

definition crossNamespaceRefDenied_Error ::
  "string \<Rightarrow> string \<Rightarrow> string \<Rightarrow> string \<Rightarrow> string \<Rightarrow> string" where
  "crossNamespaceRefDenied_Error user fieldPath resource namespace name =
     ''cross-namespace reference denied: the user '' @ user @ '' is not allowed to get the ''
       @ resource @ '' '' @ namespace @ ''/'' @ name @ '' referenced by '' @ fieldPath"

definition missingRefNamespace_Error :: "string \<Rightarrow> string" where
  "missingRefNamespace_Error fieldPath =
     ''missing reference namespace: '' @ fieldPath
       @ '' must set a namespace because the referencing object is cluster-scoped''"

definition BuildInterceptorPipelineErr :: "string \<Rightarrow> string" where
  "BuildInterceptorPipelineErr details = interceptorPipeline_Error details"

fun sentinel_text :: "(UserInfo \<Rightarrow> string) \<Rightarrow> err_kind \<Rightarrow> string" where
  "sentinel_text u KResourceScopeForbidden = resourceScopeForbidden_Error (u no_user) []"
| "sentinel_text u KRemoteUserDenied = denyGetRemoteUser_Error (u no_user) no_ref"
| "sentinel_text u KRemoteTargetDenied = denyGetRemoteTarget_Error (u no_user) no_ref"
| "sentinel_text u KRemoteUserBindingNotFound = remoteUserBindingNotFound_Error ''''"
| "sentinel_text u KWrongRemoteTargetConfig = wrongRemoteTargetConfig_Error '''' ''''"
| "sentinel_text u KWrongRemoteSyncerConfig = wrongRemoteSyncerConfig_Error ''''"
| "sentinel_text u KRemoteTargetNotFound = remoteTargetNotFound_Error ''''"
| "sentinel_text u KRemoteUserNotFound = remoteUserNotFound_Error ''''"
| "sentinel_text u KCredentialsNotFound = credentialsNotFound_Error '''' ''''"
| "sentinel_text u KTooMuchRemoteTarget = tooMuchRemoteTarget_Error '''' 0"
| "sentinel_text u KWrongLabelParsing = wrongLabelParsing_Error ''''"
| "sentinel_text u KTooMuchRemoteUserBinding = tooMuchRemoteUserBinding_Error '''' 0"
| "sentinel_text u KTooMuchRemoteUser = tooMuchRemoteUser_Error '''' 0"
| "sentinel_text u KTooMuchSubject = tooMuchSubject_Error ''''"
| "sentinel_text u KWrongYAMLFormat = wrongYamlFormat_Error"
| "sentinel_text u KGitPipeline = gitPipeline_Error '''' ''<nil>''"
| "sentinel_text u KInterceptorPipeline = interceptorPipeline_Error ''''"
| "sentinel_text u KProviderDenied = providerDenied_Error ''''"
| "sentinel_text u KCrossNamespaceRefDenied = crossNamespaceRefDenied_Error (u no_user) '''' '''' '''' ''''"
| "sentinel_text u KMissingRefNamespace = missingRefNamespace_Error ''''"

fun api_text :: "api_error \<Rightarrow> string" where
  "api_text NotFound = ''not found''"
| "api_text AlreadyExists = ''already exists''"
| "api_text Conflict = ''conflict''"
| "api_text Forbidden = ''forbidden''"
| "api_text (ApiOther m) = m"

fun git_text :: "git_sentinel \<Rightarrow> string" where
  "git_text NoErrAlreadyUpToDate = ''already up-to-date''"
| "git_text ErrRemoteNotFound = ''remote not found''"
| "git_text ErrReferenceNotFound = ''reference not found''"
| "git_text ErrEmptyCommit = ''cannot create empty commit: clean working tree''"

fun Error :: "(UserInfo \<Rightarrow> string) \<Rightarrow> go_error \<Rightarrow> string" where
  "Error u (ResourceScopeForbidden user rs) = resourceScopeForbidden_Error (u user) rs"
| "Error u (RemoteUserDenied user ref) = denyGetRemoteUser_Error (u user) ref"
| "Error u (RemoteTargetDenied user ref) = denyGetRemoteTarget_Error (u user) ref"
| "Error u (RemoteUserBindingNotFound n) = remoteUserBindingNotFound_Error n"
| "Error u (WrongRemoteTargetConfig s r) = wrongRemoteTargetConfig_Error s (Name (Meta r))"
| "Error u (WrongRemoteSyncerConfig m) = wrongRemoteSyncerConfig_Error m"
| "Error u (RemoteTargetNotFound d) = remoteTargetNotFound_Error d"
| "Error u (RemoteUserNotFound d) = remoteUserNotFound_Error d"
| "Error u (CredentialsNotFound d s) = credentialsNotFound_Error d s"
| "Error u (TooMuchRemoteTarget d n) = tooMuchRemoteTarget_Error d n"
| "Error u (WrongLabelParsing d) = wrongLabelParsing_Error d"
| "Error u (TooMuchRemoteUserBinding d n) = tooMuchRemoteUserBinding_Error d n"
| "Error u (TooMuchRemoteUser d n) = tooMuchRemoteUser_Error d n"
| "Error u (TooMuchSubject d) = tooMuchSubject_Error d"
| "Error u (WrongYAMLFormat d) = wrongYamlFormat_Error"
| "Error u (GitPipeline d e) = gitPipeline_Error d (Error u e)"
| "Error u (InterceptorPipeline d) = interceptorPipeline_Error d"
| "Error u (ProviderDenied d) = providerDenied_Error d"
| "Error u (CrossNamespaceRefDenied user f r ns n) = crossNamespaceRefDenied_Error (u user) f r ns n"
| "Error u (MissingRefNamespace f) = missingRefNamespace_Error f"
| "Error u (Sentinel k) = sentinel_text u k"
| "Error u (PlainError m) = m"
| "Error u (WrapError m e) = m @ '': '' @ Error u e"
| "Error u (TextError a e b) = a @ Error u e @ b"
| "Error u (ApiError a) = api_text a"
| "Error u (GitSentinel g) = git_text g"

fun err_kind_of :: "go_error \<Rightarrow> err_kind option" where
  "err_kind_of (ResourceScopeForbidden _ _) = Some KResourceScopeForbidden"
| "err_kind_of (RemoteUserDenied _ _) = Some KRemoteUserDenied"
| "err_kind_of (RemoteTargetDenied _ _) = Some KRemoteTargetDenied"
| "err_kind_of (RemoteUserBindingNotFound _) = Some KRemoteUserBindingNotFound"
| "err_kind_of (WrongRemoteTargetConfig _ _) = Some KWrongRemoteTargetConfig"
| "err_kind_of (WrongRemoteSyncerConfig _) = Some KWrongRemoteSyncerConfig"
| "err_kind_of (RemoteTargetNotFound _) = Some KRemoteTargetNotFound"
| "err_kind_of (RemoteUserNotFound _) = Some KRemoteUserNotFound"
| "err_kind_of (CredentialsNotFound _ _) = Some KCredentialsNotFound"
| "err_kind_of (TooMuchRemoteTarget _ _) = Some KTooMuchRemoteTarget"
| "err_kind_of (WrongLabelParsing _) = Some KWrongLabelParsing"
| "err_kind_of (TooMuchRemoteUserBinding _ _) = Some KTooMuchRemoteUserBinding"
| "err_kind_of (TooMuchRemoteUser _ _) = Some KTooMuchRemoteUser"
| "err_kind_of (TooMuchSubject _) = Some KTooMuchSubject"
| "err_kind_of (WrongYAMLFormat _) = Some KWrongYAMLFormat"
| "err_kind_of (GitPipeline _ _) = Some KGitPipeline"
| "err_kind_of (InterceptorPipeline _) = Some KInterceptorPipeline"
| "err_kind_of (ProviderDenied _) = Some KProviderDenied"
| "err_kind_of (CrossNamespaceRefDenied _ _ _ _ _) = Some KCrossNamespaceRefDenied"
| "err_kind_of (MissingRefNamespace _) = Some KMissingRefNamespace"
| "err_kind_of (Sentinel k) = Some k"
| "err_kind_of (PlainError _) = None"
| "err_kind_of (WrapError _ _) = None"
| "err_kind_of (TextError _ _ _) = None"
| "err_kind_of (ApiError _) = None"
| "err_kind_of (GitSentinel _) = None"

fun Unwrap :: "go_error \<Rightarrow> go_error list" where
  "Unwrap (GitPipeline d e) = [Sentinel KGitPipeline, e]"
| "Unwrap (Sentinel k) = (if k = KGitPipeline \<or> k = KProviderDenied then [] else [Sentinel k])"
| "Unwrap (WrapError m e) = [e]"
| "Unwrap e = (case err_kind_of e of None \<Rightarrow> [] | Some k \<Rightarrow> [Sentinel k])"

definition ShouldContains :: "(UserInfo \<Rightarrow> string) \<Rightarrow> err_kind \<Rightarrow> go_error \<Rightarrow> bool" where
  "ShouldContains u k e = Contains (Error u e) (marker k)"

definition Is :: "(UserInfo \<Rightarrow> string) \<Rightarrow> go_error \<Rightarrow> err_kind \<Rightarrow> bool" where
  "Is u e target = ShouldContains u target e"

text \<open>
  The standard library's walk: compare, else try the children from the first to the
  last, where \<open>es\<close> is the list of values still to visit.
\<close>

partial_function (option) errors_Is_walk :: "go_error list \<Rightarrow> go_error \<Rightarrow> bool option" where
  "errors_Is_walk es target =
     (if es = [] then Some False
      else if hd es = target then Some True
      else errors_Is_walk (Unwrap (hd es) @ tl es) target)"

declare errors_Is_walk.simps [code]

definition errors_Is :: "go_error \<Rightarrow> go_error \<Rightarrow> bool option" where
  "errors_Is e target = errors_Is_walk [e] target"

subsection \<open>Classification by text\<close>

text \<open>The kinds an error carries: its own and those of the errors it wraps.\<close>

fun carries :: "err_kind \<Rightarrow> go_error \<Rightarrow> bool" where
  "carries k (GitPipeline d e) = (k = KGitPipeline \<or> carries k e)"
| "carries k (WrapError m e) = carries k e"
| "carries k (TextError a e b) = carries k e"
| "carries k e = (err_kind_of e = Some k)"

lemma Contains_in_middle: "Contains b m \<Longrightarrow> Contains (a @ b @ c) m"
  unfolding Contains_iff by (metis append.assoc)

lemma Contains_at_end: "Contains b m \<Longrightarrow> Contains (a @ b) m"
  using Contains_in_middle [of b m a "[]"] by simp

lemma Contains_prefix: "HasPrefix s m \<Longrightarrow> Contains s m"
  unfolding HasPrefix_iff Contains_iff by (metis append_Nil)

lemmas error_texts =
  resourceScopeForbidden_Error_def denyGetRemoteUser_Error_def denyGetRemoteTarget_Error_def
  remoteUserBindingNotFound_Error_def wrongRemoteTargetConfig_Error_def
  wrongRemoteSyncerConfig_Error_def remoteTargetNotFound_Error_def remoteUserNotFound_Error_def
  credentialsNotFound_Error_def tooMuchRemoteTarget_Error_def wrongLabelParsing_Error_def
  tooMuchRemoteUserBinding_Error_def tooMuchRemoteUser_Error_def tooMuchSubject_Error_def
  wrongYamlFormat_Error_def gitPipeline_Error_def interceptorPipeline_Error_def
  providerDenied_Error_def crossNamespaceRefDenied_Error_def missingRefNamespace_Error_def

lemma sentinel_marker: "HasPrefix (sentinel_text u k) (marker k)"
  by (cases k) (simp_all add: error_texts HasPrefix_def)

lemma own_marker: "err_kind_of e = Some k \<Longrightarrow> HasPrefix (Error u e) (marker k)"
  by (cases e) (auto simp: sentinel_marker [unfolded HasPrefix_def] error_texts HasPrefix_def)

lemma carries_marker: "carries k e \<Longrightarrow> Contains (Error u e) (marker k)"
proof (induction k e rule: carries.induct)
  case (1 k d e)
  show ?case
  proof (cases "k = KGitPipeline")
    case True
    then show ?thesis by (intro Contains_prefix own_marker) simp
  next
    case False
    with 1 have "Contains (Error u e) (marker k)" by simp
    then show ?thesis by (simp add: gitPipeline_Error_def Contains_at_end del: append_Cons)
  qed
next
  case (2 k m e)
  then have "Contains (Error u e) (marker k)" by simp
  from Contains_at_end [OF this, of "m @ '': ''"] show ?case by simp
next
  case (3 k a e b)
  then have "Contains (Error u e) (marker k)" by simp
  from Contains_in_middle [OF this, of a b] show ?case by simp
qed (rule Contains_prefix, rule own_marker, simp)+

subsection \<open>The walk along \<open>Unwrap\<close>\<close>

lemma walk_unfold:
  "errors_Is_walk [] t = Some False"
  "errors_Is_walk (e # es) t = (if e = t then Some True else errors_Is_walk (Unwrap e @ es) t)"
  by (subst errors_Is_walk.simps; simp)+

lemma walk_stuck_at_sentinel:
  assumes "errors_Is_walk es t = Some y" and "k \<notin> {KGitPipeline, KProviderDenied}"
    and "t \<noteq> Sentinel k"
  shows "es = [] \<or> hd es \<noteq> Sentinel k"
proof (rule errors_Is_walk.raw_induct [OF _ assms(1),
      where P = "\<lambda>es t' y. t' = t \<longrightarrow> es = [] \<or> hd es \<noteq> Sentinel k", THEN mp])
  fix walk es t' y
  assume ih: "\<And>es t' y. walk es t' = Some y \<Longrightarrow> t' = t \<longrightarrow> es = [] \<or> hd es \<noteq> Sentinel k"
    and body: "(if es = [] then Some False else if hd es = t' then Some True
                else walk (Unwrap (hd es) @ tl es) t') = Some y"
  show "t' = t \<longrightarrow> es = [] \<or> hd es \<noteq> Sentinel k"
  proof (intro impI, rule ccontr)
    assume t: "t' = t" and "\<not> (es = [] \<or> hd es \<noteq> Sentinel k)"
    then have es: "es \<noteq> []" "hd es = Sentinel k" by auto
    with body t assms(2,3) have "walk (Sentinel k # tl es) t = Some y" by (auto split: if_splits)
    from ih [OF this] show False by simp
  qed
qed simp

lemma Unwrap_own_sentinel:
  "err_kind_of e = Some k \<Longrightarrow> k \<notin> {KGitPipeline, KProviderDenied} \<Longrightarrow> Unwrap e = [Sentinel k]"
  by (cases e) auto

subsection \<open>Properties\<close>

text \<open>
  C33. Every error is recognised by the sentinel of each kind it carries, however often it
  has been wrapped with \<open>fmt.Errorf\<close> or put into a git pipeline error.
\<close>

theorem Is_recognises_wrapped_kinds:
  assumes "carries k e"
  shows "Is u e k"
  using carries_marker [OF assms] by (simp add: Is_def ShouldContains_def)

theorem Is_recognises_wrapped_kinds_witness:
  "Is Username (GitPipeline ''push'' (WrapError ''auth'' (CredentialsNotFound ''none'' ''s'')))
     KCredentialsNotFound"
  by (rule Is_recognises_wrapped_kinds) simp

text \<open>
  C38. The standard \<open>errors.Is\<close> never returns when it is asked whether such an error is some
  other value: the \<open>Unwrap\<close> of the sentinel of its kind gives that sentinel again.  Only
  the git pipeline and provider-denied kinds, which guard against it, are exempt.
\<close>

theorem errors_Is_diverges:
  assumes "err_kind_of e = Some k" and "k \<notin> {KGitPipeline, KProviderDenied}"
    and "t \<noteq> e" and "t \<noteq> Sentinel k"
  shows "errors_Is e t = None"
proof -
  have "errors_Is e t = errors_Is_walk [Sentinel k] t"
    using assms(3) unfolding errors_Is_def walk_unfold(2) [of e "[]"]
    by (simp add: Unwrap_own_sentinel [OF assms(1,2)])
  moreover have "errors_Is_walk [Sentinel k] t \<noteq> Some y" for y
    using walk_stuck_at_sentinel [of "[Sentinel k]" t y k] assms(2,4) by auto
  ultimately show ?thesis by (metis not_Some_eq)
qed

theorem errors_Is_diverges_witness:
  "errors_Is (RemoteUserNotFound ''none'') (ApiError NotFound) = None"
  by (rule errors_Is_diverges [where k = KRemoteUserNotFound]) simp_all

end
