(* ===== verification/Syncer_Context.thy ===== *)
theory Syncer_Context
  imports Syngit_Errors
begin

text \<open>
  The values that travel through the interception pipeline (\<open>pkg/interceptor\<close>): the
  syncer resolved for one request, the parameters of a git pipeline, the worktree paths a
  provider claims, the response of a push; and the condition and requeue helpers of
  \<open>pkg/kube\<close>.
\<close>

subsection \<open>Pipeline values\<close>

record GitUserInfo =
  GitUserName :: string
  GitEmail :: string
  Token :: string

record SyncerContext =
  ScSpec :: RemoteSyncerSpec
  Ref :: NamespacedName
  ScAnnotations :: labels
  ClusterWide :: bool
  InterceptedNamespace :: string
  RUBNamespace :: string
  RefOwnerNamespace :: string

record GitPipelineParams =
  GppSyncer :: SyncerContext
  GppRemoteTarget :: RemoteTarget
  InterceptedManifest :: string
  DeletedManifest :: string
  InterceptedGVR :: GroupVersionResource
  InterceptedName :: string
  GppGitUserInfo :: GitUserInfo
  Operation :: string
  CABundle :: "string option"

record ClaimedPaths =
  Add :: "string list"
  DeletePaths :: "string list"

record GitPushResponse =
  Paths :: "string list"
  CommitHash :: string
  PushURL :: string

definition NewRemoteSyncerContext :: "RemoteSyncer \<Rightarrow> string \<Rightarrow> SyncerContext" where
  "NewRemoteSyncerContext rs interceptedNamespace =
     \<lparr>ScSpec = Spec rs,
      Ref = \<lparr>NsnNamespace = Namespace (Meta rs), NsnName = Name (Meta rs)\<rparr>,
      ScAnnotations = Annotations (Meta rs),
      ClusterWide = False,
      InterceptedNamespace = interceptedNamespace,
      RUBNamespace = Namespace (Meta rs),
      RefOwnerNamespace = Namespace (Meta rs)\<rparr>"

definition NewClusterWideSyncerContext :: "ClusterWideRemoteSyncer \<Rightarrow> string \<Rightarrow> SyncerContext" where
  "NewClusterWideSyncerContext cwrs interceptedNamespace =
     \<lparr>ScSpec = InlineSpec (Spec cwrs),
      Ref = \<lparr>NsnNamespace = '''', NsnName = Name (Meta cwrs)\<rparr>,
      ScAnnotations = Annotations (Meta cwrs),
      ClusterWide = True,
      InterceptedNamespace = interceptedNamespace,
      RUBNamespace = IdentityStoreNamespace (Spec cwrs),
      RefOwnerNamespace = ''''\<rparr>"

definition sc_String :: "SyncerContext \<Rightarrow> string" where
  "sc_String sc = (if ClusterWide sc then NsnName (Ref sc)
                   else NsnNamespace (Ref sc) @ ''/'' @ NsnName (Ref sc))"

definition ClusterScopedPathSegment :: string where
  "ClusterScopedPathSegment = ''_cluster''"

definition NewClaimedPaths :: ClaimedPaths where
  "NewClaimedPaths = \<lparr>Add = [], DeletePaths = []\<rparr>"

definition ClaimExists :: "ClaimedPaths \<Rightarrow> bool" where
  "ClaimExists mp \<longleftrightarrow> length (Add mp) > 0 \<or> length (DeletePaths mp) > 0"

definition AppendAddedPath :: "string \<Rightarrow> ClaimedPaths \<Rightarrow> ClaimedPaths" where
  "AppendAddedPath p mp = mp\<lparr>Add := Add mp @ [p]\<rparr>"

definition AppendDeletedPath :: "string \<Rightarrow> ClaimedPaths \<Rightarrow> ClaimedPaths" where
  "AppendDeletedPath p mp = mp\<lparr>DeletePaths := DeletePaths mp @ [p]\<rparr>"

definition AppendClaimedPaths :: "ClaimedPaths \<Rightarrow> ClaimedPaths \<Rightarrow> ClaimedPaths" where
  "AppendClaimedPaths ps mp =
     mp\<lparr>DeletePaths := DeletePaths mp @ DeletePaths ps, Add := Add mp @ Add ps\<rparr>"

subsection \<open>Conditions and requeues\<close>

fun last_of_type :: "string \<Rightarrow> nat \<Rightarrow> Condition list \<Rightarrow> nat option \<Rightarrow> nat option" where
  "last_of_type t i [] removeIndex = removeIndex"
| "last_of_type t i (c # cs) removeIndex =
     last_of_type t (Suc i) cs (if t = CondType c then Some i else removeIndex)"

definition RemoveCondition :: "Condition list \<Rightarrow> string \<Rightarrow> Condition list" where
  "RemoveCondition conditions typeKind =
     (case last_of_type typeKind 0 conditions None of
        None \<Rightarrow> conditions
      | Some i \<Rightarrow> take i conditions @ drop (Suc i) conditions)"

definition SetCondition :: "Condition list \<Rightarrow> Condition \<Rightarrow> Condition list" where
  "SetCondition conditions c = RemoveCondition conditions (CondType c) @ [c]"

definition MergeResults :: "int \<Rightarrow> int \<Rightarrow> int" where
  \<comment> \<open>A \<open>ctrl.Result\<close> is its \<open>RequeueAfter\<close>.\<close>
  "MergeResults a b = (if b > 0 \<and> (a = 0 \<or> b < a) then b else a)"

lemma last_of_type_absent: "t \<notin> CondType ` set cs \<Longrightarrow> last_of_type t i cs r = r"
  by (induction cs arbitrary: i r) auto

lemma last_of_type_unique:
  assumes "distinct (map CondType cs)" and "j < length cs" and "CondType (cs ! j) = t"
  shows "last_of_type t i cs r = Some (i + j)"
  using assms
proof (induction cs arbitrary: i j r)
  case Nil
  then show ?case by simp
next
  case (Cons c cs)
  show ?case
  proof (cases j)
    case 0
    with Cons.prems show ?thesis by (simp add: last_of_type_absent)
  next
    case (Suc l)
    with Cons.prems have "l < length cs" "CondType (cs ! l) = t" by auto
    with Cons.IH [of l "Suc i"] Cons.prems Suc show ?thesis by simp
  qed
qed

lemma remove_nth_filter:
  assumes "distinct (map CondType cs)" and "j < length cs"
  shows "take j cs @ drop (Suc j) cs = filter (\<lambda>c. CondType c \<noteq> CondType (cs ! j)) cs"
  using assms
proof (induction cs arbitrary: j)
  case Nil
  then show ?case by simp
next
  case (Cons c cs)
  show ?case
  proof (cases j)
    case 0
    from Cons.prems(1) have "CondType c \<notin> CondType ` set cs" by simp
    then have "\<forall>d \<in> set cs. CondType d \<noteq> CondType c" by (metis image_eqI)
    with 0 show ?thesis by (simp add: filter_True)
  next
    case (Suc l)
    with Cons.prems have l: "l < length cs" by simp
    then have "CondType (cs ! l) \<in> CondType ` set cs" by simp
    with Cons.prems have "CondType c \<noteq> CondType (cs ! l)" by auto
    with Cons.IH [OF _ l] Cons.prems Suc show ?thesis by simp
  qed
qed

lemma RemoveCondition_filter:
  assumes "distinct (map CondType cs)"
  shows "RemoveCondition cs t = filter (\<lambda>c. CondType c \<noteq> t) cs"
proof (cases "t \<in> CondType ` set cs")
  case True
  then obtain j where j: "j < length cs" "CondType (cs ! j) = t" by (auto simp: in_set_conv_nth)
  with assms show ?thesis
    using last_of_type_unique [OF assms j] remove_nth_filter [OF assms j(1)]
    by (simp add: RemoveCondition_def)
next
  case False
  moreover from False have "filter (\<lambda>c. CondType c \<noteq> t) cs = cs" by (auto intro!: filter_True)
  ultimately show ?thesis by (simp add: RemoveCondition_def last_of_type_absent)
qed

lemma SetCondition_distinct:
  assumes "distinct (map CondType cs)"
  shows "distinct (map CondType (SetCondition cs c))"
  using assms by (auto simp: SetCondition_def RemoveCondition_filter distinct_map inj_on_def)

text \<open>
  Setting a condition on a list with at most one condition per type leaves exactly one
  condition of that type, the given one, stored as it is, keeps every condition of another
  type in its order, and so keeps one condition per type.
\<close>

theorem SetCondition_replaces:
  assumes "distinct (map CondType cs)"
  shows "filter (\<lambda>d. CondType d = CondType c) (SetCondition cs c) = [c] \<and>
    filter (\<lambda>d. CondType d \<noteq> CondType c) (SetCondition cs c) = filter (\<lambda>d. CondType d \<noteq> CondType c) cs \<and>
    distinct (map CondType (SetCondition cs c))"
  using SetCondition_distinct [OF assms, of c]
  by (simp add: SetCondition_def RemoveCondition_filter [OF assms])

definition a_condition :: "string \<Rightarrow> string \<Rightarrow> Condition" where
  "a_condition t r = \<lparr>CondType = t, CondStatus = ''True'', ObservedGeneration = 0,
     LastTransitionTime = 0, Reason = r, Message = ''''\<rparr>"

theorem SetCondition_replaces_witness:
  "filter (\<lambda>d. CondType d = ''Ready'')
     (SetCondition [a_condition ''Ready'' ''old'', a_condition ''Synced'' ''s''] (a_condition ''Ready'' ''new''))
   = [a_condition ''Ready'' ''new'']"
  using SetCondition_replaces [of "[a_condition ''Ready'' ''old'', a_condition ''Synced'' ''s'']"
      "a_condition ''Ready'' ''new''"]
  by (simp add: a_condition_def)

end
