(* ===== verification/Kube_Json.thy ===== *)
theory Kube_Json
  imports Go_Strings
begin

text \<open>
  Decoded JSON values as Go's \<open>map[string]interface{}\<close> has them, with the type
  assertions and the nested access the program uses on them.  An object is an
  association list from field to value; a number is kept as its literal.
\<close>

datatype json =
  JNull
| JBool bool
| JNum string
| JStr string
| JArr "json list"
| JObj "(string \<times> json) list"

type_synonym jobj = "(string \<times> json) list"

fun assert_string :: "json option \<Rightarrow> string" where
  \<comment> \<open>\<open>s, _ := v.(string)\<close>\<close>
  "assert_string (Some (JStr s)) = s"
| "assert_string _ = ''''"

fun assert_obj :: "json option \<Rightarrow> jobj option" where
  \<comment> \<open>\<open>m, ok := v.(map[string]interface{})\<close>\<close>
  "assert_obj (Some (JObj m)) = Some m"
| "assert_obj _ = None"

fun assert_arr :: "json option \<Rightarrow> json list option" where
  "assert_arr (Some (JArr xs)) = Some xs"
| "assert_arr _ = None"

fun update_field :: "string \<Rightarrow> json \<Rightarrow> jobj \<Rightarrow> jobj" where
  \<comment> \<open>\<open>m[k] = v\<close>\<close>
  "update_field k v [] = [(k, v)]"
| "update_field k v ((k', v') # m) = (if k' = k then (k, v) # m else (k', v') # update_field k v m)"

lemma map_of_update_field [simp]: "map_of (update_field k v m) = (map_of m)(k \<mapsto> v)"
  by (induction m) auto

end
