(* ===== verification/Walker_Docs.thy ===== *)
theory Walker_Docs
  imports Syncer_Context Kube_Json
begin

text \<open>
  Documents inside a worktree file (\<open>internal/walker/selector.go\<close> and \<open>document.go\<close>): how
  a document is matched against a selector, and how one document of a multi-document YAML
  file is replaced, dropped, appended or transformed while its siblings stay as they are.

  YAML decoding and the kind-to-resource guess of the Kubernetes libraries are the
  parameter \<open>docs_lib\<close>.  A decoding error leaves the map empty.
\<close>

subsection \<open>Selectors\<close>

record docs_lib =
  Unmarshal :: "string \<Rightarrow> jobj option"
  guessResource :: "string \<Rightarrow> string"

record ObjectSelector =
  SelGVR :: GroupVersionResource
  SelName :: string
  SelNamespace :: string
  CommentPrefix :: string

definition docSeparator :: string where
  "docSeparator = [newline] @ ''---'' @ [newline]"

definition kindToResource :: "docs_lib \<Rightarrow> string \<Rightarrow> string" where
  "kindToResource lib kind = (if kind = '''' then '''' else guessResource lib kind)"

definition matchComment :: "string \<Rightarrow> ObjectSelector \<Rightarrow> bool" where
  "matchComment doc sel =
     (if CommentPrefix sel = '''' then False
      else let (firstLine, _, _) = Cut doc [newline];
               markerLine = TrimSpace (TrimPrefix (TrimSpace firstLine) ''#'');
               pre = CommentPrefix sel
           in if \<not> HasPrefix markerLine pre then False
              else let val = TrimPrefix markerLine pre;
                       (ns0, name0, hasSep) = Cut val ''/'';
                       name = (if hasSep then name0 else ns0);
                       ns = (if hasSep then ns0 else '''')
                   in name = SelName sel \<and> ns = SelNamespace sel)"

definition doc_group :: "jobj \<Rightarrow> string" where
  "doc_group m = (let (g, _, ok) = Cut (assert_string (map_of m ''apiVersion'')) ''/''
                  in if ok then g else '''')"

definition doc_meta :: "jobj \<Rightarrow> string \<times> string" where
  "doc_meta m = (case assert_obj (map_of m ''metadata'') of
     None \<Rightarrow> ('''', '''')
   | Some md \<Rightarrow> (assert_string (map_of md ''name''), assert_string (map_of md ''namespace'')))"

definition matchDoc :: "docs_lib \<Rightarrow> string \<Rightarrow> ObjectSelector \<Rightarrow> bool" where
  "matchDoc lib doc sel =
     (if matchComment doc sel then True
      else case Unmarshal lib doc of
        None \<Rightarrow> False
      | Some m \<Rightarrow>
          if m = [] then False
          else let apiVersion = assert_string (map_of m ''apiVersion'');
                   kind = assert_string (map_of m ''kind'')
               in if apiVersion = '''' \<and> kind = '''' then False
                  else let group = doc_group m; (name, namespace) = doc_meta m
                       in group = Group (SelGVR sel) \<and>
                          kindToResource lib kind = Resource (SelGVR sel) \<and>
                          name = SelName sel \<and>
                          ((SelNamespace sel = '''' \<and> namespace = ''default'')
                            \<or> namespace = SelNamespace sel))"

definition SelectorFromDoc :: "docs_lib \<Rightarrow> string \<Rightarrow> ObjectSelector" where
  "SelectorFromDoc lib doc =
     (let m = (case Unmarshal lib doc of None \<Rightarrow> [] | Some m \<Rightarrow> m);
          group = doc_group m;
          kind = assert_string (map_of m ''kind'');
          (name, namespace) = doc_meta m
      in \<lparr>SelGVR = \<lparr>Group = group, Version = '''', Resource = kindToResource lib kind\<rparr>,
          SelName = name, SelNamespace = namespace, CommentPrefix = ''''\<rparr>)"

subsection \<open>Documents\<close>

type_synonym DocTransform = "(string \<Rightarrow> string option \<Rightarrow> string \<Rightarrow> go_error + string) option"

definition Apply :: "DocTransform \<Rightarrow> string \<Rightarrow> string option \<Rightarrow> string \<Rightarrow> go_error + string" where
  "Apply t relPath existing content = (case t of
     None \<Rightarrow> Inr content
   | Some f \<Rightarrow> if content = '''' then Inr content else f relPath existing content)"

fun first_match :: "(string \<Rightarrow> bool) \<Rightarrow> string list \<Rightarrow> nat option" where
  "first_match P [] = None"
| "first_match P (d # ds) = (if P d then Some 0 else map_option Suc (first_match P ds))"

definition end_newline :: "string \<Rightarrow> string" where
  "end_newline s = (if s \<noteq> '''' \<and> \<not> HasSuffix s [newline] then s @ [newline] else s)"

definition ReplaceDocInContentFunc ::
  "docs_lib \<Rightarrow> string \<Rightarrow> ObjectSelector \<Rightarrow> string \<Rightarrow> string \<Rightarrow> DocTransform
     \<Rightarrow> string \<times> bool \<times> go_error option" where
  "ReplaceDocInContentFunc lib content sel newDoc relPath transform =
     (let docs = Split content docSeparator in
      case first_match (\<lambda>d. matchDoc lib d sel) docs of
        None \<Rightarrow> (content, False, None)
      | Some matched \<Rightarrow>
          if newDoc = '''' then
            (end_newline (Join (take matched docs @ drop (Suc matched) docs) docSeparator), True, None)
          else (case Apply transform relPath (Some (docs ! matched)) newDoc of
             Inl err \<Rightarrow> (content, True, Some err)
           | Inr transformed \<Rightarrow>
               (end_newline (Join (docs[matched := TrimRight transformed newline]) docSeparator),
                True, None)))"

definition ReplaceDocInContent :: "docs_lib \<Rightarrow> string \<Rightarrow> ObjectSelector \<Rightarrow> string \<Rightarrow> string \<times> bool" where
  "ReplaceDocInContent lib content sel newDoc =
     (case ReplaceDocInContentFunc lib content sel newDoc '''' None of (out, found, _) \<Rightarrow> (out, found))"

definition splitDocs :: "string \<Rightarrow> string list" where
  "splitDocs content =
     filter (\<lambda>d. TrimSpace d \<noteq> '''')
       (map (\<lambda>d. TrimRight (TrimPrefix d (''---'' @ [newline])) newline) (Split content docSeparator))"

fun previousDoc :: "docs_lib \<Rightarrow> string list \<Rightarrow> string \<Rightarrow> string option" where
  "previousDoc lib [] doc = None"
| "previousDoc lib (e # es) doc =
     (if SelGVR (SelectorFromDoc lib e) = SelGVR (SelectorFromDoc lib doc) \<and>
         SelName (SelectorFromDoc lib e) = SelName (SelectorFromDoc lib doc)
      then Some e else previousDoc lib es doc)"

fun transform_docs :: "docs_lib \<Rightarrow> string \<Rightarrow> string list \<Rightarrow> DocTransform \<Rightarrow> string list
    \<Rightarrow> go_error + string list" where
  "transform_docs lib relPath existingDocs transform [] = Inr []"
| "transform_docs lib relPath existingDocs transform (doc # docs) =
     (if doc \<in> set existingDocs
      then (case transform_docs lib relPath existingDocs transform docs of
              Inl err \<Rightarrow> Inl err | Inr ds \<Rightarrow> Inr (doc # ds))
      else case Apply transform relPath (previousDoc lib existingDocs doc) doc of
        Inl err \<Rightarrow> Inl err
      | Inr transformed \<Rightarrow>
          (case transform_docs lib relPath existingDocs transform docs of
             Inl err \<Rightarrow> Inl err | Inr ds \<Rightarrow> Inr (TrimRight transformed newline # ds)))"

definition TransformChangedDocs ::
  "docs_lib \<Rightarrow> string \<Rightarrow> string \<Rightarrow> string \<Rightarrow> DocTransform \<Rightarrow> go_error + string" where
  "TransformChangedDocs lib relPath existing content transform =
     (case transform_docs lib relPath (splitDocs existing) transform (splitDocs content) of
        Inl err \<Rightarrow> Inl err
      | Inr docs \<Rightarrow> Inr (Join docs docSeparator @ [newline]))"

definition appendDoc :: "string \<Rightarrow> string \<Rightarrow> string" where
  "appendDoc existing doc =
     (let out = TrimRight existing newline @ docSeparator @ doc
      in if HasSuffix out [newline] then out else out @ [newline])"

subsection \<open>The first matching document\<close>

lemma first_match_Some:
  "first_match P ds = Some i \<longleftrightarrow> i < length ds \<and> P (ds ! i) \<and> (\<forall>j < i. \<not> P (ds ! j))"
proof (induction ds arbitrary: i)
  case Nil
  then show ?case by simp
next
  case (Cons d ds)
  then show ?case by (cases i) (auto simp: nth_Cons split: nat.splits)
qed

lemma first_match_None: "first_match P ds = None \<longleftrightarrow> (\<forall>d \<in> set ds. \<not> P d)"
  by (induction ds) auto

lemma first_match_update:
  "first_match P ds = Some i \<Longrightarrow> P d \<Longrightarrow> first_match P (ds[i := d]) = Some i"
  by (auto simp: first_match_Some nth_list_update)

lemma docSeparator_not_Nil [simp]: "docSeparator \<noteq> []"
  by (simp add: docSeparator_def)

lemma end_newline_cases:
  obtains t where "end_newline s = s @ t" and "t = [] \<or> t = [newline]"
  using that [of "[]"] that [of "[newline]"]
  by (cases "s \<noteq> [] \<and> \<not> HasSuffix s [newline]") (auto simp: end_newline_def)

lemma end_newline_idem [simp]: "end_newline (end_newline s) = end_newline s"
  by (simp add: end_newline_def HasSuffix_singleton)

subsection \<open>What a rewritten file splits into\<close>

lemma clean_snoc_newline:
  "sep_clean docSeparator d \<Longrightarrow> Index (d @ [newline]) docSeparator = None"
proof -
  assume "sep_clean docSeparator d"
  then have "Index ((d @ [newline]) @ ''---'') docSeparator = None"
    by (simp add: sep_clean_def docSeparator_def)
  then show ?thesis by (rule Index_None_append1)
qed

text \<open>
  The documents of a rewritten file are the documents it was joined from: a trailing
  newline may be added to the last one, and nothing else changes.
\<close>

lemma Split_end_newline:
  assumes "ds \<noteq> []" and "\<forall>d \<in> set ds. sep_clean docSeparator d"
    and "end_newline (Join ds docSeparator) = Join ds docSeparator @ t"
    and "t = [] \<or> t = [newline]"
  shows "Split (end_newline (Join ds docSeparator)) docSeparator = butlast ds @ [last ds @ t]"
proof -
  have "end_newline (Join ds docSeparator) = Join (butlast ds @ [last ds @ t]) docSeparator"
    using assms(3) Join_append_last [OF assms(1)] by metis
  moreover have "Index (last ds @ t) docSeparator = None"
    using assms(1,2,4) clean_snoc_newline sep_clean_Index_None by auto
  moreover have "\<forall>d \<in> set (butlast ds). sep_clean docSeparator d"
    using assms(2) by (auto dest: in_set_butlastD)
  ultimately show ?thesis by (simp add: Split_Join)
qed

definition clean_file :: "string \<Rightarrow> bool" where
  \<comment> \<open>No document of the file ends in the start of a separator.\<close>
  "clean_file content = list_all (sep_clean docSeparator) (Split content docSeparator)"

lemma Replace_out:
  assumes "first_match (\<lambda>d. matchDoc lib d sel) (Split content docSeparator) = Some i"
    and "newDoc \<noteq> []"
    and "Apply transform relPath (Some (Split content docSeparator ! i)) newDoc = Inr doc"
  shows "ReplaceDocInContentFunc lib content sel newDoc relPath transform =
    (end_newline (Join ((Split content docSeparator)[i := TrimRight doc newline]) docSeparator), True, None)"
  using assms by (simp add: ReplaceDocInContentFunc_def)

lemma Replace_split:
  assumes fm: "first_match (\<lambda>d. matchDoc lib d sel) (Split content docSeparator) = Some i"
    and "newDoc \<noteq> []"
    and "Apply transform relPath (Some (Split content docSeparator ! i)) newDoc = Inr doc"
    and "clean_file content" and "sep_clean docSeparator (TrimRight doc newline)"
  obtains out t where
    "ReplaceDocInContentFunc lib content sel newDoc relPath transform = (out, True, None)"
    "t = [] \<or> t = [newline]" "out = end_newline out"
    "Split out docSeparator = (let ds = (Split content docSeparator)[i := TrimRight doc newline]
        in butlast ds @ [last ds @ t])"
proof -
  let ?ds = "(Split content docSeparator)[i := TrimRight doc newline]"
  obtain t where t: "end_newline (Join ?ds docSeparator) = Join ?ds docSeparator @ t"
    "t = [] \<or> t = [newline]" by (rule end_newline_cases)
  have "?ds \<noteq> []" by (simp add: Split_not_Nil)
  moreover have "\<forall>d \<in> set ?ds. sep_clean docSeparator d"
    using assms(4,5) set_update_subset_insert [of "Split content docSeparator" i "TrimRight doc newline"]
    by (auto simp: clean_file_def list_all_iff)
  ultimately have "Split (end_newline (Join ?ds docSeparator)) docSeparator = butlast ?ds @ [last ?ds @ t]"
    using t by (rule Split_end_newline)
  with t(2) Replace_out [OF assms(1-3)] show thesis by (intro that) (auto simp: Let_def)
qed

lemma Replace_again:
  fixes ds :: "string list"
  assumes "first_match P (Split content docSeparator) = Some i"
    and ds: "ds = (Split content docSeparator)[i := d]"
    and "P d" and "P (d @ [newline])" and t: "t = [] \<or> t = [newline]"
    and split: "Split out docSeparator = butlast ds @ [last ds @ t]"
  shows "first_match P (Split out docSeparator) = Some i \<and>
    ((Split out docSeparator)[i := d] = ds \<or> (Split out docSeparator)[i := d] = Split out docSeparator)"
proof -
  let ?ds' = "butlast ds @ [last ds @ t]"
  from first_match_update [where ds = "Split content docSeparator", OF assms(1,3)]
  have fm: "first_match P ds = Some i" using ds by simp
  then have i: "i < length ds" and di: "ds ! i = d"
    using assms(1) ds by (auto simp: first_match_Some)
  then have ne: "ds \<noteq> []" by auto
  have nth: "?ds' ! j = (if j = length ds - 1 then ds ! j @ t else ds ! j)" if "j < length ds" for j
    using that ne by (auto simp: nth_append nth_butlast last_conv_nth)
  have "P (?ds' ! i)" using nth [OF i] assms(3,4) di t by auto
  moreover have "\<not> P (?ds' ! j)" if "j < i" for j
    using nth [of j] that i fm by (auto simp: first_match_Some)
  ultimately have "first_match P ?ds' = Some i"
    using i ne by (auto simp: first_match_Some)
  moreover have "?ds'[i := d] = ds \<or> ?ds'[i := d] = ?ds'"
  proof (cases "i = length ds - 1")
    case True
    then have "?ds'[i := d] = butlast ds @ [d]" by (simp add: list_update_append)
    also have "\<dots> = ds" using True di ne by (metis append_butlast_last_id last_conv_nth)
    finally show ?thesis ..
  next
    case False
    then have "?ds' ! i = d" using nth [OF i] di by simp
    then show ?thesis by (metis list_update_id)
  qed
  ultimately show ?thesis using split by simp
qed

lemma matchDoc_own_selector:
  assumes "Unmarshal lib doc = Some m"
    and "assert_string (map_of m ''apiVersion'') \<noteq> '''' \<or> assert_string (map_of m ''kind'') \<noteq> ''''"
  shows "matchDoc lib doc (SelectorFromDoc lib doc)"
proof -
  from assms(2) have "m \<noteq> []" by auto
  with assms show ?thesis
    by (auto simp: matchDoc_def SelectorFromDoc_def Let_def split: prod.splits)
qed

lemma transform_docs_spec:
  "transform_docs lib relPath ex transform docs = Inr ds \<Longrightarrow>
   length ds = length docs \<and>
   (\<forall>i < length docs. if docs ! i \<in> set ex then ds ! i = docs ! i
      else \<exists>r. Apply transform relPath (previousDoc lib ex (docs ! i)) (docs ! i) = Inr r \<and>
               ds ! i = TrimRight r newline)"
proof (induction docs arbitrary: ds)
  case Nil
  then show ?case by simp
next
  case (Cons doc docs)
  then obtain d ds' where ds: "ds = d # ds'" "transform_docs lib relPath ex transform docs = Inr ds'"
    and d: "if doc \<in> set ex then d = doc
       else \<exists>r. Apply transform relPath (previousDoc lib ex doc) doc = Inr r \<and> d = TrimRight r newline"
    by (auto split: if_splits sum.splits)
  with Cons.IH [OF ds(2)] show ?case by (auto simp: nth_Cons split: nat.splits)
qed

subsection \<open>Properties\<close>

text \<open>
  C22. Replacing a document of a multi-document file changes that document and no other:
  split again, the new file has the documents of the old one in the same order, the first
  matching one replaced by the new document without its trailing newlines; at most a final
  newline is added at the end of the file.
\<close>

theorem ReplaceDocInContent_keeps_siblings:
  assumes "first_match (\<lambda>d. matchDoc lib d sel) (Split content docSeparator) = Some i"
    and "newDoc \<noteq> []" and "clean_file content" and "sep_clean docSeparator (TrimRight newDoc newline)"
  shows "\<exists>out t. ReplaceDocInContent lib content sel newDoc = (out, True) \<and>
    (t = [] \<or> t = [newline]) \<and>
    Split out docSeparator =
      (let ds = (Split content docSeparator)[i := TrimRight newDoc newline] in butlast ds @ [last ds @ t])"
proof -
  have "Apply None '''' (Some (Split content docSeparator ! i)) newDoc = Inr newDoc"
    by (simp add: Apply_def)
  from Replace_split [OF assms(1,2) this assms(3,4)] obtain out t where
    "ReplaceDocInContentFunc lib content sel newDoc '''' None = (out, True, None)"
    "t = [] \<or> t = [newline]"
    "Split out docSeparator =
      (let ds = (Split content docSeparator)[i := TrimRight newDoc newline] in butlast ds @ [last ds @ t])"
    by blast
  then show ?thesis by (auto simp: ReplaceDocInContent_def)
qed

text \<open>
  Writing the same document again changes nothing: the second replacement returns the
  file the first one produced, byte for byte.
\<close>

theorem ReplaceDocInContent_idempotent:
  assumes "first_match (\<lambda>d. matchDoc lib d sel) (Split content docSeparator) = Some i"
    and "newDoc \<noteq> []" and "clean_file content" and "sep_clean docSeparator (TrimRight newDoc newline)"
    and "matchDoc lib (TrimRight newDoc newline) sel"
    and "matchDoc lib (TrimRight newDoc newline @ [newline]) sel"
    and "ReplaceDocInContent lib content sel newDoc = (out, found)"
  shows "ReplaceDocInContent lib out sel newDoc = (out, True)"
proof -
  let ?d = "TrimRight newDoc newline" and ?ds = "(Split content docSeparator)[i := TrimRight newDoc newline]"
  have ap: "Apply None '''' x newDoc = Inr newDoc" for x by (simp add: Apply_def)
  from Replace_split [OF assms(1,2) ap assms(3,4)] obtain out' t where
    *: "ReplaceDocInContentFunc lib content sel newDoc '''' None = (out', True, None)"
      "t = [] \<or> t = [newline]" "Split out' docSeparator = butlast ?ds @ [last ?ds @ t]"
      "out' = end_newline out'"
    unfolding Let_def by blast
  with assms(7) have out: "out = out'" by (simp add: ReplaceDocInContent_def)
  from * Replace_out [OF assms(1,2) ap] have o: "out = end_newline (Join ?ds docSeparator)"
    using out by simp
  from Replace_again [OF assms(1) refl assms(5,6) *(2,3)] out
  have fm: "first_match (\<lambda>d. matchDoc lib d sel) (Split out docSeparator) = Some i"
    and upd: "(Split out docSeparator)[i := ?d] = ?ds \<or>
      (Split out docSeparator)[i := ?d] = Split out docSeparator"
    by auto
  from upd have "end_newline (Join ((Split out docSeparator)[i := ?d]) docSeparator) = out"
    using o out *(4) by (auto simp: Join_Split)
  with Replace_out [OF fm assms(2) ap] show ?thesis by (simp add: ReplaceDocInContent_def)
qed

text \<open>
  An empty new document drops the first matching document and nothing else: the other
  documents remain in order, and a file of which it was the only document becomes empty.
\<close>

theorem ReplaceDocInContent_deletes:
  assumes "first_match (\<lambda>d. matchDoc lib d sel) (Split content docSeparator) = Some i"
    and "clean_file content"
  shows "\<exists>out t. ReplaceDocInContent lib content sel '''' = (out, True) \<and> (t = [] \<or> t = [newline]) \<and>
    (let ds = take i (Split content docSeparator) @ drop (Suc i) (Split content docSeparator) in
     if ds = [] then out = '''' else Split out docSeparator = butlast ds @ [last ds @ t])"
proof -
  let ?ds = "take i (Split content docSeparator) @ drop (Suc i) (Split content docSeparator)"
  obtain t where t: "end_newline (Join ?ds docSeparator) = Join ?ds docSeparator @ t"
    "t = [] \<or> t = [newline]" by (rule end_newline_cases)
  have "\<forall>d \<in> set ?ds. sep_clean docSeparator d"
    using assms(2) by (auto simp: clean_file_def list_all_iff dest: in_set_takeD in_set_dropD)
  then have "?ds \<noteq> [] \<Longrightarrow>
    Split (end_newline (Join ?ds docSeparator)) docSeparator = butlast ?ds @ [last ?ds @ t]"
    using t by (intro Split_end_newline)
  moreover have "ReplaceDocInContent lib content sel '''' = (end_newline (Join ?ds docSeparator), True)"
    using assms(1) by (simp add: ReplaceDocInContent_def ReplaceDocInContentFunc_def Let_def)
  moreover have "end_newline (Join [] docSeparator) = ''''" by (simp add: end_newline_def)
  ultimately show ?thesis using t(2) unfolding Let_def by metis
qed

text \<open>
  A document that has an apiVersion or a kind is matched by the selector derived from it,
  so a later write finds the document it wrote.
\<close>

theorem SelectorFromDoc_matches_its_document:
  assumes "Unmarshal lib doc = Some m"
    and "assert_string (map_of m ''apiVersion'') \<noteq> '''' \<or> assert_string (map_of m ''kind'') \<noteq> ''''"
  shows "matchDoc lib doc (SelectorFromDoc lib doc)"
  using matchDoc_own_selector [OF assms] .

text \<open>
  Transforming the changed documents of a file leaves every document that the file
  already had verbatim, and passes each other document to the transform exactly once, with
  the previous document of the same object.
\<close>

theorem TransformChangedDocs_keeps_untouched:
  assumes "TransformChangedDocs lib relPath existing content transform = Inr out"
  shows "\<exists>ds. out = Join ds docSeparator @ [newline] \<and> length ds = length (splitDocs content) \<and>
    (\<forall>i < length ds. let doc = splitDocs content ! i; ex = splitDocs existing in
       if doc \<in> set ex then ds ! i = doc
       else \<exists>r. Apply transform relPath (previousDoc lib ex doc) doc = Inr r \<and>
                ds ! i = TrimRight r newline)"
proof -
  from assms obtain ds where
    ds: "transform_docs lib relPath (splitDocs existing) transform (splitDocs content) = Inr ds"
    "out = Join ds docSeparator @ [newline]"
    by (auto simp: TransformChangedDocs_def split: sum.splits)
  from transform_docs_spec [OF ds(1)] ds(2) show ?thesis unfolding Let_def by metis
qed

subsection \<open>Witnesses\<close>

text \<open>A decoder for documents of two lines, the kind and the name.\<close>

definition two_line_lib :: docs_lib where
  "two_line_lib = \<lparr>
     Unmarshal = (\<lambda>d. case Split d [newline] of
        k # n # _ \<Rightarrow> Some [(''kind'', JStr k), (''metadata'', JObj [(''name'', JStr n)])]
      | _ \<Rightarrow> None),
     guessResource = (\<lambda>k. ToLower k @ ''s'')\<rparr>"

definition two_line_doc :: "string \<Rightarrow> string \<Rightarrow> string \<Rightarrow> string" where
  "two_line_doc kind name rest = kind @ [newline] @ name @ [newline] @ rest"

definition two_line_sel :: ObjectSelector where
  "two_line_sel = \<lparr>SelGVR = \<lparr>Group = '''', Version = ''v1'', Resource = ''pods''\<rparr>,
     SelName = ''b'', SelNamespace = '''', CommentPrefix = ''''\<rparr>"

definition two_line_file :: string where
  "two_line_file = Join [two_line_doc ''Pod'' ''a'' ''x'', two_line_doc ''Pod'' ''b'' ''y'',
     two_line_doc ''Pod'' ''c'' ''z''] docSeparator"

lemma two_line_facts:
  "first_match (\<lambda>d. matchDoc two_line_lib d two_line_sel) (Split two_line_file docSeparator) = Some 1"
  "clean_file two_line_file"
  "sep_clean docSeparator (TrimRight (two_line_doc ''Pod'' ''b'' ''new'') newline)"
  "matchDoc two_line_lib (TrimRight (two_line_doc ''Pod'' ''b'' ''new'') newline) two_line_sel"
  "matchDoc two_line_lib (TrimRight (two_line_doc ''Pod'' ''b'' ''new'') newline @ [newline]) two_line_sel"
  by code_simp+

theorem ReplaceDocInContent_keeps_siblings_witness:
  "\<exists>out t. ReplaceDocInContent two_line_lib two_line_file two_line_sel (two_line_doc ''Pod'' ''b'' ''new'') = (out, True) \<and>
    Split out docSeparator = [two_line_doc ''Pod'' ''a'' ''x'', two_line_doc ''Pod'' ''b'' ''new'',
      two_line_doc ''Pod'' ''c'' ''z'' @ t]"
proof -
  have eq: "(Split two_line_file docSeparator)[1 := TrimRight (two_line_doc ''Pod'' ''b'' ''new'') newline]
    = [two_line_doc ''Pod'' ''a'' ''x'', two_line_doc ''Pod'' ''b'' ''new'', two_line_doc ''Pod'' ''c'' ''z'']"
    by code_simp
  have "two_line_doc ''Pod'' ''b'' ''new'' \<noteq> []" by (simp add: two_line_doc_def)
  from ReplaceDocInContent_keeps_siblings [OF two_line_facts(1) this two_line_facts(2,3)]
  show ?thesis unfolding eq Let_def by (auto simp: two_line_doc_def)
qed

theorem ReplaceDocInContent_idempotent_witness:
  "let out = fst (ReplaceDocInContent two_line_lib two_line_file two_line_sel (two_line_doc ''Pod'' ''b'' ''new''))
   in ReplaceDocInContent two_line_lib out two_line_sel (two_line_doc ''Pod'' ''b'' ''new'') = (out, True)"
proof -
  have "two_line_doc ''Pod'' ''b'' ''new'' \<noteq> []" by (simp add: two_line_doc_def)
  from ReplaceDocInContent_idempotent [OF two_line_facts(1) this two_line_facts(2-5)]
  show ?thesis by (metis prod.collapse)
qed

theorem ReplaceDocInContent_deletes_witness:
  "\<exists>out t. ReplaceDocInContent two_line_lib two_line_file two_line_sel '''' = (out, True) \<and>
    Split out docSeparator = [two_line_doc ''Pod'' ''a'' ''x'', two_line_doc ''Pod'' ''c'' ''z'' @ t]"
proof -
  have eq: "take 1 (Split two_line_file docSeparator) @ drop (Suc 1) (Split two_line_file docSeparator)
    = [two_line_doc ''Pod'' ''a'' ''x'', two_line_doc ''Pod'' ''c'' ''z'']"
    by code_simp
  from ReplaceDocInContent_deletes [OF two_line_facts(1,2)]
  show ?thesis unfolding eq Let_def by (auto simp: two_line_doc_def)
qed

theorem SelectorFromDoc_matches_its_document_witness:
  "matchDoc two_line_lib (two_line_doc ''Pod'' ''b'' ''y'')
     (SelectorFromDoc two_line_lib (two_line_doc ''Pod'' ''b'' ''y''))"
proof -
  have "Unmarshal two_line_lib (two_line_doc ''Pod'' ''b'' ''y'') =
    Some [(''kind'', JStr ''Pod''), (''metadata'', JObj [(''name'', JStr ''b'')])]"
    by code_simp
  from SelectorFromDoc_matches_its_document [OF this] show ?thesis by simp
qed

theorem TransformChangedDocs_keeps_untouched_witness:
  "\<exists>out. TransformChangedDocs two_line_lib ''f.yaml'' two_line_file
     (two_line_file @ docSeparator @ two_line_doc ''Pod'' ''d'' ''w'')
     (Some (\<lambda>_ _ c. Inr (''enc '' @ c))) = Inr out \<and>
     (\<exists>ds. out = Join ds docSeparator @ [newline] \<and> length ds = 4 \<and> ds ! 0 = two_line_doc ''Pod'' ''a'' ''x'')"
proof -
  let ?ex = two_line_file and ?t = "Some (\<lambda>_ _ c. Inr (''enc '' @ c)) :: DocTransform"
  let ?c = "two_line_file @ docSeparator @ two_line_doc ''Pod'' ''d'' ''w''"
  have sp: "splitDocs ?c = [two_line_doc ''Pod'' ''a'' ''x'', two_line_doc ''Pod'' ''b'' ''y'',
      two_line_doc ''Pod'' ''c'' ''z'', two_line_doc ''Pod'' ''d'' ''w'']"
    "splitDocs ?ex = [two_line_doc ''Pod'' ''a'' ''x'', two_line_doc ''Pod'' ''b'' ''y'',
      two_line_doc ''Pod'' ''c'' ''z'']"
    by code_simp+
  have "\<exists>out. TransformChangedDocs two_line_lib ''f.yaml'' ?ex ?c ?t = Inr out"
    unfolding TransformChangedDocs_def sp by (simp add: Apply_def)
  then obtain out where out: "TransformChangedDocs two_line_lib ''f.yaml'' ?ex ?c ?t = Inr out" ..
  from TransformChangedDocs_keeps_untouched [OF out] obtain ds where
    "out = Join ds docSeparator @ [newline]" "length ds = 4"
    "\<forall>i < length ds. let doc = splitDocs ?c ! i; ex = splitDocs ?ex in
       if doc \<in> set ex then ds ! i = doc
       else \<exists>r. Apply ?t ''f.yaml'' (previousDoc two_line_lib ex doc) doc = Inr r \<and>
                ds ! i = TrimRight r newline"
    unfolding sp by auto
  moreover from this(2,3) have "ds ! 0 = two_line_doc ''Pod'' ''a'' ''x''"
    unfolding sp Let_def by (elim allE [of _ 0]) simp
  ultimately show ?thesis using out by blast
qed

end
