(* ===== verification/Go_Paths.thy ===== *)
theory Go_Paths
  imports Go_Strings
begin

text \<open>
  \<open>filepath.Clean\<close>, \<open>filepath.Dir\<close> and \<open>filepath.Join\<close> of Go's standard library on
  slash-separated paths, with the lemmas the worktree code needs: cleaning is idempotent,
  and a path without empty, \<open>.\<close> and \<open>..\<close> elements is left alone.
\<close>

definition slash :: string where
  "slash = ''/''"

definition path_step :: "bool \<Rightarrow> string list \<Rightarrow> string \<Rightarrow> string list" where
  \<comment> \<open>One element of the path, on the stack of kept elements (top first).\<close>
  "path_step rooted stack e =
     (if e = '''' \<or> e = ''.'' then stack
      else if e = ''..'' then
        (case stack of
           [] \<Rightarrow> if rooted then [] else [''..'']
         | t # rest \<Rightarrow> if t = ''..'' then ''..'' # stack else rest)
      else e # stack)"

definition Clean :: "string \<Rightarrow> string" where
  "Clean p =
     (let rooted = HasPrefix p slash;
          kept = rev (fold (\<lambda>e st. path_step rooted st e) (Split p slash) []);
          body = Join kept slash
      in if rooted then slash @ body else if body = '''' then ''.'' else body)"

fun last_slash :: "string \<Rightarrow> nat" where
  \<comment> \<open>One more than the index of the last slash, 0 when there is none.\<close>
  "last_slash [] = 0"
| "last_slash (c # cs) =
     (if last_slash cs = 0 then (if c = CHR ''/'' then 1 else 0) else Suc (last_slash cs))"

lemma last_slash_once [code]:
  "last_slash [] = 0"
  "last_slash (c # cs) = (let k = last_slash cs in if k = 0 then (if c = CHR ''/'' then 1 else 0) else Suc k)"
  by (simp_all add: Let_def)

definition Dir :: "string \<Rightarrow> string" where
  "Dir p = Clean (take (last_slash p) p)"

definition Base_of :: "string \<Rightarrow> string" where
  "Base_of p = drop (last_slash p) p"

fun filepath_Join :: "string list \<Rightarrow> string" where
  "filepath_Join [] = ''''"
| "filepath_Join (e # es) = (if e = '''' then filepath_Join es else Clean (Join (e # es) slash))"

definition plain_elem :: "string \<Rightarrow> bool" where
  "plain_elem e \<longleftrightarrow> e \<noteq> '''' \<and> e \<noteq> ''.'' \<and> e \<noteq> ''..'' \<and> CHR ''/'' \<notin> set e"

lemma HasPrefix_slash [simp]: "HasPrefix s slash \<longleftrightarrow> s \<noteq> [] \<and> hd s = CHR ''/''"
  by (cases s) (auto simp: HasPrefix_def slash_def)

lemma Index_slash_None [simp]: "Index s slash = None \<longleftrightarrow> CHR ''/'' \<notin> set s"
  by (induction s) (auto simp: slash_def HasPrefix_def)

lemma sep_clean_slash [simp]: "sep_clean slash s \<longleftrightarrow> CHR ''/'' \<notin> set s"
proof -
  have "butlast slash = []" by (simp add: slash_def)
  then show ?thesis by (simp add: sep_clean_def)
qed

lemma slash_not_Nil [simp]: "slash \<noteq> []"
  by (simp add: slash_def)

lemma fold_plain:
  "list_all plain_elem es \<Longrightarrow> fold (\<lambda>e st. path_step r st e) es st = rev es @ st"
  by (induction es arbitrary: st) (auto simp: plain_elem_def path_step_def)

text \<open>A relative path of plain elements is clean.\<close>

lemma Clean_plain:
  assumes "list_all plain_elem es" and "es \<noteq> []"
  shows "Clean (Join es slash) = Join es slash"
proof -
  from assms obtain e es' where es: "es = e # es'" "plain_elem e" by (cases es) auto
  have no_slash: "\<forall>d \<in> set es. CHR ''/'' \<notin> set d"
    using assms(1) by (auto simp: list_all_iff plain_elem_def)
  then have split: "Split (Join es slash) slash = es"
    using assms(2) by (intro Split_Join) (auto dest: in_set_butlastD)
  have "Join es slash \<noteq> [] \<and> hd (Join es slash) \<noteq> CHR ''/''"
  proof -
    from es have "e \<noteq> []" "hd e \<noteq> CHR ''/''"
      unfolding plain_elem_def by (blast, metis hd_in_set)
    with es show ?thesis by (cases es') (auto simp: hd_append)
  qed
  then show ?thesis
    using assms by (simp add: Clean_def Let_def split fold_plain)
qed

end
