(* ===== verification/Lfu_Cache.thy ===== *)
theory Lfu_Cache
  imports Syngit_Prelude "HOL-Library.Word"
begin

text \<open>
  The count-bounded least-frequently-used cache of \<open>internal/cache/lfu.go\<close>, the storage
  layer of the document-path cache and of the repository cache.

  A \<open>*LFU\<close> is an \<open>option\<close>: the nil cache is the permanently disabled one.  The counters
  keep their 32 bits.  Go ranges over a map in an unspecified order, so the two
  operations that evict take a rank \<open>ord\<close>: \<open>ord n k\<close> is the position class of key \<open>k\<close>
  in the range over a map of \<open>n\<close> entries.  Every iteration order of a map is the order
  of some rank, and no law on \<open>ord\<close> is needed.  Every method holds the cache's mutex
  from its first access to its return, so a method is one atomic step.

  The theory ends with the contract \<open>bounded_cache\<close> the two clients rely on, proved for
  these operations.
\<close>

subsection \<open>State and operations\<close>

record 'v entry =
  entry_value :: 'v
  useCount :: "32 word"

record ('k, 'v) LFU =
  max_entries :: int
  entries :: "('k \<times> 'v entry) list"

type_synonym ('k, 'v) lfu_ref = "('k, 'v) LFU option"

definition useCountCap :: "32 word" where
  "useCountCap = push_bit 16 1"

definition NewLFU :: "int \<Rightarrow> ('k, 'v) lfu_ref" where
  "NewLFU m = (if m \<le> 0 then None else Some \<lparr>max_entries = m, entries = []\<rparr>)"

definition bump :: "'v entry \<Rightarrow> 'v entry" where
  "bump e = e\<lparr>useCount := useCount e + 1\<rparr>"

definition halve :: "'v entry \<Rightarrow> 'v entry" where
  "halve e = e\<lparr>useCount := drop_bit 1 (useCount e)\<rparr>"

definition reached_cap :: "'k \<Rightarrow> ('k \<times> 'v entry) list \<Rightarrow> bool" where
  "reached_cap key es = (case map_of es key of
     None \<Rightarrow> False
   | Some e \<Rightarrow> useCountCap \<le> useCount e)"

definition touchLocked :: "'k \<Rightarrow> ('k, 'v) LFU \<Rightarrow> ('k, 'v) LFU" where
  "touchLocked key c =
     (let es = alist_map (\<lambda>k e. if k = key then bump e else e) (entries c) in
      c\<lparr>entries := if reached_cap key es then alist_map (\<lambda>_. halve) es else es\<rparr>)"

fun find_victim :: "'k \<Rightarrow> ('k \<times> 'v entry) list \<Rightarrow> ('k \<times> 'v entry) option
    \<Rightarrow> ('k \<times> 'v entry) option" where
  "find_victim exceptKey [] victim = victim"
| "find_victim exceptKey ((k, e) # es) victim =
     (if k = exceptKey then find_victim exceptKey es victim
      else case victim of
        None \<Rightarrow> find_victim exceptKey es (Some (k, e))
      | Some (vk, ve) \<Rightarrow>
          if useCount e < useCount ve then find_victim exceptKey es (Some (k, e))
          else find_victim exceptKey es victim)"

lemma find_victim_mem:
  "find_victim x es v = Some p \<Longrightarrow> v = Some p \<or> p \<in> set es"
  by (induction x es v rule: find_victim.induct) (auto split: if_splits option.splits prod.splits)

function evictLocked :: "(nat \<Rightarrow> 'k \<Rightarrow> nat) \<Rightarrow> 'k \<Rightarrow> ('k, 'v) LFU \<Rightarrow> ('k, 'v) LFU" where
  "evictLocked ord exceptKey c =
     (if int (length (entries c)) > max_entries c then
        (case find_victim exceptKey (range_map ord (entries c)) None of
           None \<Rightarrow> c
         | Some (victimKey, _) \<Rightarrow>
             evictLocked ord exceptKey (c\<lparr>entries := alist_del victimKey (entries c)\<rparr>))
      else c)"
  by pat_completeness auto
termination
proof (relation "measure (\<lambda>(ord, x, c). length (entries c))")
  fix ord :: "nat \<Rightarrow> 'a \<Rightarrow> nat" and x :: 'a and c :: "('a, 'b) LFU" and p k e
  assume "find_victim x (range_map ord (entries c)) None = Some p" and "(k, e) = p"
  then have "(k, e) \<in> set (entries c)" by (auto dest: find_victim_mem)
  then have "k \<in> fst ` set (entries c)" by force
  then show "((ord, x, c\<lparr>entries := alist_del k (entries c)\<rparr>), (ord, x, c))
      \<in> measure (\<lambda>(ord, x, c). length (entries c))"
    by (simp add: length_alist_del_less)
qed simp

declare evictLocked.simps [simp del]

definition Get :: "('k, 'v) lfu_ref \<Rightarrow> 'k \<Rightarrow> 'v option \<times> ('k, 'v) lfu_ref" where
  "Get cr key = (case cr of
     None \<Rightarrow> (None, None)
   | Some c \<Rightarrow> (case map_of (entries c) key of
        None \<Rightarrow> (None, Some c)
      | Some e \<Rightarrow> (Some (entry_value e), Some (touchLocked key c))))"

definition put_entry :: "'k \<Rightarrow> 'v entry \<Rightarrow> ('k, 'v) LFU \<Rightarrow> ('k, 'v) LFU" where
  "put_entry key e c = c\<lparr>entries := alist_set key e (entries c)\<rparr>"

definition Set :: "(nat \<Rightarrow> 'k \<Rightarrow> nat) \<Rightarrow> ('k, 'v) lfu_ref \<Rightarrow> 'k \<Rightarrow> 'v \<Rightarrow> ('k, 'v) lfu_ref" where
  "Set ord cr key v = (case cr of
     None \<Rightarrow> None
   | Some c \<Rightarrow> (case map_of (entries c) key of
        Some e \<Rightarrow> Some (touchLocked key (put_entry key (e\<lparr>entry_value := v\<rparr>) c))
      | None \<Rightarrow> Some (evictLocked ord key (touchLocked key
                  (put_entry key \<lparr>entry_value = v, useCount = 0\<rparr> c)))))"

definition LoadOrStore ::
  "(nat \<Rightarrow> 'k \<Rightarrow> nat) \<Rightarrow> ('k, 'v) lfu_ref \<Rightarrow> 'k \<Rightarrow> 'v \<Rightarrow> ('v \<times> bool) \<times> ('k, 'v) lfu_ref" where
  "LoadOrStore ord cr key v = (case cr of
     None \<Rightarrow> ((v, False), None)
   | Some c \<Rightarrow> (case map_of (entries c) key of
        Some e \<Rightarrow> ((entry_value e, True), Some (touchLocked key c))
      | None \<Rightarrow> ((v, False), Some (evictLocked ord key (touchLocked key
                  (put_entry key \<lparr>entry_value = v, useCount = 0\<rparr> c))))))"

definition Delete :: "('k, 'v) lfu_ref \<Rightarrow> 'k \<Rightarrow> ('k, 'v) lfu_ref" where
  "Delete cr key = map_option (\<lambda>c. c\<lparr>entries := alist_del key (entries c)\<rparr>) cr"

subsection \<open>The map a cache stands for, and its invariant\<close>

definition view :: "('k, 'v) lfu_ref \<Rightarrow> 'k \<Rightarrow> 'v option" where
  "view cr key = (case cr of None \<Rightarrow> None | Some c \<Rightarrow> map_option entry_value (map_of (entries c) key))"

definition lfu_ok :: "('k, 'v) LFU \<Rightarrow> bool" where
  "lfu_ok c \<longleftrightarrow> 0 < max_entries c \<and> distinct (map fst (entries c)) \<and>
     int (length (entries c)) \<le> max_entries c \<and>
     (\<forall>(k, e) \<in> set (entries c). useCount e < useCountCap)"

definition lfu_inv :: "('k, 'v) lfu_ref \<Rightarrow> bool" where
  "lfu_inv cr = (case cr of None \<Rightarrow> True | Some c \<Rightarrow> lfu_ok c)"

definition enabled :: "('k, 'v) lfu_ref \<Rightarrow> bool" where
  "enabled cr \<longleftrightarrow> cr \<noteq> None"

datatype ('k, 'v) cache_op =
  OpGet 'k | OpSet 'k 'v | OpLoadOrStore 'k 'v | OpDelete 'k

fun apply_op :: "(nat \<Rightarrow> 'k \<Rightarrow> nat) \<Rightarrow> ('k, 'v) cache_op \<Rightarrow> ('k, 'v) lfu_ref \<Rightarrow> ('k, 'v) lfu_ref" where
  "apply_op ord (OpGet k) c = snd (Get c k)"
| "apply_op ord (OpSet k v) c = Set ord c k v"
| "apply_op ord (OpLoadOrStore k v) c = snd (LoadOrStore ord c k v)"
| "apply_op ord (OpDelete k) c = Delete c k"

definition run_ops ::
  "((nat \<Rightarrow> 'k \<Rightarrow> nat) \<times> ('k, 'v) cache_op) list \<Rightarrow> ('k, 'v) lfu_ref \<Rightarrow> ('k, 'v) lfu_ref" where
  \<comment> \<open>A sequence of calls, each with the iteration order Go happened to choose.\<close>
  "run_ops ops c = fold (\<lambda>(ord, op). apply_op ord op) ops c"

subsection \<open>Counters\<close>

lemma bump_simps [simp]:
  "entry_value (bump e) = entry_value e" "useCount (bump e) = useCount e + 1"
  by (simp_all add: bump_def)

lemma halve_simps [simp]:
  "entry_value (halve e) = entry_value e" "useCount (halve e) = drop_bit 1 (useCount e)"
  by (simp_all add: halve_def)

lemma unat_useCountCap: "unat useCountCap = 65536"
  by (simp add: useCountCap_def)

lemma unat_below_cap: "w < useCountCap \<Longrightarrow> unat (w + 1) = unat w + 1"
  by (simp add: word_less_nat_alt unat_useCountCap unat_word_ariths)

lemma halved_below_cap: "unat w \<le> 65536 \<Longrightarrow> drop_bit 1 w < useCountCap" for w :: "32 word"
  by (simp add: word_less_nat_alt unat_useCountCap drop_bit_eq_div unat_div)

lemma touchLocked_max [simp]: "max_entries (touchLocked key c) = max_entries c"
  by (simp add: touchLocked_def Let_def)

lemma touchLocked_keys [simp]: "map fst (entries (touchLocked key c)) = map fst (entries c)"
  by (simp add: touchLocked_def Let_def)

lemma touchLocked_length [simp]: "length (entries (touchLocked key c)) = length (entries c)"
  by (metis length_map touchLocked_keys)

lemma touchLocked_value [simp]:
  "map_option entry_value (map_of (entries (touchLocked key c)) k)
     = map_option entry_value (map_of (entries c) k)"
  by (cases "map_of (entries c) k") (simp_all add: touchLocked_def Let_def)

lemma reached_cap_Some:
  "map_of es key = Some e \<Longrightarrow> reached_cap key es \<longleftrightarrow> useCountCap \<le> useCount e"
  by (simp add: reached_cap_def)

lemma touchLocked_no_wrap:
  assumes "distinct (map fst (entries c))"
    and "\<forall>(k, e) \<in> set (entries c). useCount e < useCountCap"
  shows "\<forall>(k, e) \<in> set (entries (touchLocked key c)). useCount e < useCountCap"
proof -
  let ?es = "alist_map (\<lambda>k e. if k = key then bump e else e) (entries c)"
  have le: "unat (useCount e) \<le> 65536" if "(k, e) \<in> set ?es" for k e
  proof -
    from that obtain e0 where e0: "(k, e0) \<in> set (entries c)" "e = e0 \<or> e = bump e0"
      by (auto simp: alist_map_def split: if_splits)
    with assms(2) have "useCount e0 < useCountCap" by blast
    with e0(2) unat_below_cap [of "useCount e0"] show ?thesis
      by (auto simp: word_less_nat_alt unat_useCountCap)
  qed
  show ?thesis
  proof (cases "reached_cap key ?es")
    case True
    have "useCount (halve e) < useCountCap" if "(k, e) \<in> set ?es" for k e
      using halved_below_cap [OF le [OF that]] by simp
    with True show ?thesis
      by (auto simp: touchLocked_def Let_def alist_map_def [of "\<lambda>_. halve"])
  next
    case False
    have d: "distinct (map fst ?es)" using assms(1) by simp
    have "useCount e < useCountCap" if "(key, e) \<in> set ?es" for e
      using reached_cap_Some [OF map_of_is_SomeI [OF d that]] False by auto
    moreover have "useCount e < useCountCap" if "(k, e) \<in> set ?es" "k \<noteq> key" for k e
      using that assms(2) by (auto simp: alist_map_def)
    ultimately have "\<forall>(k, e) \<in> set ?es. useCount e < useCountCap" by blast
    with False show ?thesis by (simp add: touchLocked_def Let_def)
  qed
qed

subsection \<open>Eviction\<close>

lemma find_victim_spec:
  assumes "find_victim x es v = r" and "\<forall>p. v = Some p \<longrightarrow> fst p \<noteq> x"
  shows "case r of
      None \<Rightarrow> v = None \<and> fst ` set es \<subseteq> {x}
    | Some (vk, ve) \<Rightarrow> vk \<noteq> x \<and>
        (\<forall>(k, e) \<in> set es. k \<noteq> x \<longrightarrow> useCount ve \<le> useCount e) \<and>
        (\<forall>p. v = Some p \<longrightarrow> useCount ve \<le> useCount (snd p))"
  using assms
proof (induction es arbitrary: v)
  case Nil
  then show ?case by (auto split: option.splits)
next
  case (Cons p es)
  obtain k e where p: "p = (k, e)" by fastforce
  show ?case
  proof (cases "k = x")
    case True
    with Cons.prems(1) p have "find_victim x es v = r" by simp
    from Cons.IH [OF this Cons.prems(2)] True p show ?thesis by (cases r) auto
  next
    case False
    let ?w = "case v of None \<Rightarrow> Some (k, e)
              | Some (vk, ve) \<Rightarrow> if useCount e < useCount ve then Some (k, e) else v"
    have "find_victim x es ?w = r" using Cons.prems(1) p False
      by (auto split: option.splits if_splits)
    moreover have "\<forall>p. ?w = Some p \<longrightarrow> fst p \<noteq> x"
      using False Cons.prems(2) by (auto split: option.splits if_splits)
    ultimately have "case r of
      None \<Rightarrow> ?w = None \<and> fst ` set es \<subseteq> {x}
    | Some (vk, ve) \<Rightarrow> vk \<noteq> x \<and>
        (\<forall>(k, e) \<in> set es. k \<noteq> x \<longrightarrow> useCount ve \<le> useCount e) \<and>
        (\<forall>p. ?w = Some p \<longrightarrow> useCount ve \<le> useCount (snd p))"
      by (rule Cons.IH)
    then show ?thesis using p False
      by (cases r; cases v) (auto simp: word_le_nat_alt word_less_nat_alt split: if_splits)
  qed
qed

lemma evictLocked_within:
  "int (length (entries c)) \<le> max_entries c \<Longrightarrow> evictLocked ord x c = c"
  by (simp add: evictLocked.simps)

text \<open>One entry too many: exactly one least-used entry other than the new one goes.\<close>

lemma evictLocked_one_over:
  assumes dist: "distinct (map fst (entries c))"
    and over: "int (length (entries c)) = max_entries c + 1" and pos: "0 < max_entries c"
    and mem: "x \<in> fst ` set (entries c)"
  obtains vk ve where "(vk, ve) \<in> set (entries c)" "vk \<noteq> x"
    "\<forall>(k, e) \<in> set (entries c). k \<noteq> x \<longrightarrow> useCount ve \<le> useCount e"
    "evictLocked ord x c = c\<lparr>entries := alist_del vk (entries c)\<rparr>"
    "int (length (alist_del vk (entries c))) = max_entries c"
proof -
  let ?r = "find_victim x (range_map ord (entries c)) None"
  note spec = find_victim_spec [of x "range_map ord (entries c)" None ?r, OF refl]
  have "card (fst ` set (entries c)) = length (entries c)"
    using dist by (metis distinct_card length_map list.set_map)
  with over pos have "1 < card (fst ` set (entries c))" by linarith
  then have "\<not> fst ` set (entries c) \<subseteq> {x}"
    by (metis card.empty card_mono card_insert_disjoint empty_iff finite.emptyI finite.insertI
        linorder_not_less One_nat_def)
  with spec obtain vk ve where v: "?r = Some (vk, ve)"
    by (cases ?r) auto
  with spec have least: "vk \<noteq> x"
      "\<forall>(k, e) \<in> set (entries c). k \<noteq> x \<longrightarrow> useCount ve \<le> useCount e" by auto
  from v have vmem: "(vk, ve) \<in> set (entries c)" by (auto dest: find_victim_mem)
  then have "vk \<in> fst ` set (entries c)" by force
  then have len: "int (length (alist_del vk (entries c))) = max_entries c"
    using length_alist_del_eq [OF dist, of vk] over by linarith
  have "evictLocked ord x c = evictLocked ord x (c\<lparr>entries := alist_del vk (entries c)\<rparr>)"
    using v over by (subst evictLocked.simps) simp
  also have "\<dots> = c\<lparr>entries := alist_del vk (entries c)\<rparr>"
    using len by (intro evictLocked_within) simp
  finally show thesis using that vmem least len by blast
qed

subsection \<open>The operations\<close>

lemma lfu_okD:
  assumes "lfu_ok c"
  shows "0 < max_entries c" "distinct (map fst (entries c))"
    "int (length (entries c)) \<le> max_entries c"
    "\<forall>(k, e) \<in> set (entries c). useCount e < useCountCap"
  using assms by (auto simp: lfu_ok_def)

lemma touchLocked_ok: "lfu_ok c \<Longrightarrow> lfu_ok (touchLocked key c)"
  using touchLocked_no_wrap [of c key] by (simp add: lfu_ok_def)

lemma put_entry_simps [simp]:
  "max_entries (put_entry key e c) = max_entries c"
  "map_of (entries (put_entry key e c)) k = (if k = key then Some e else map_of (entries c) k)"
  "distinct (map fst (entries c)) \<Longrightarrow> distinct (map fst (entries (put_entry key e c)))"
  by (simp_all add: put_entry_def)

lemma put_entry_counts:
  assumes "\<forall>(k, e) \<in> set (entries c). useCount e < useCountCap" and "useCount e < useCountCap"
  shows "\<forall>(k, e) \<in> set (entries (put_entry key e c)). useCount e < useCountCap"
  using assms set_alist_del [of key "entries c"] by (auto simp: put_entry_def alist_set_def)

lemma put_existing_ok:
  assumes "lfu_ok c" and "map_of (entries c) key = Some e"
  shows "lfu_ok (put_entry key (e\<lparr>entry_value := v\<rparr>) c)"
proof -
  from assms(2) have mem: "(key, e) \<in> set (entries c)" by (rule map_of_SomeD)
  then have "key \<in> fst ` set (entries c)" by force
  with lfu_okD [OF assms(1)] have "length (entries (put_entry key (e\<lparr>entry_value := v\<rparr>) c)) = length (entries c)"
    by (simp add: put_entry_def alist_set_def length_alist_del_eq)
  moreover have "useCount (e\<lparr>entry_value := v\<rparr>) < useCountCap"
    using lfu_okD(4) [OF assms(1)] mem by auto
  ultimately show ?thesis
    using lfu_okD [OF assms(1)] put_entry_counts [of c "e\<lparr>entry_value := v\<rparr>" key]
    by (simp add: lfu_ok_def)
qed

definition fresh_put :: "'k \<Rightarrow> 'v \<Rightarrow> ('k, 'v) LFU \<Rightarrow> ('k, 'v) LFU" where
  "fresh_put key v c = touchLocked key (put_entry key \<lparr>entry_value = v, useCount = 0\<rparr> c)"

lemma alist_del_absent: "map_of es key = None \<Longrightarrow> alist_del key es = es"
  by (induction es) (auto simp: alist_del_def split: if_splits)

text \<open>Storing under an absent key adds an entry with count 1 and changes no other entry.\<close>

lemma fresh_put_entries:
  assumes "map_of (entries c) key = None"
  shows "entries (fresh_put key v c) = (key, \<lparr>entry_value = v, useCount = 1\<rparr>) # entries c"
proof -
  have "alist_map (\<lambda>k e. if k = key then bump e else e) (entries c) = entries c"
    using assms by (auto simp: alist_map_def map_of_eq_None_iff intro!: map_idI) (metis fst_conv image_eqI)
  moreover have "\<not> useCountCap \<le> 1" by (simp add: useCountCap_def word_le_nat_alt)
  ultimately show ?thesis
    using assms by (simp add: fresh_put_def touchLocked_def put_entry_def alist_set_def
        alist_del_absent reached_cap_def Let_def bump_def)
qed

lemma fresh_put_max [simp]: "max_entries (fresh_put key v c) = max_entries c"
  by (simp add: fresh_put_def)

text \<open>
  What storing under an absent key leaves: the new entry, and the old entries but for at
  most one, which goes only when the cache was full and is a least-used one.
\<close>

lemma evict_fresh_put:
  assumes ok: "lfu_ok c" and absent: "map_of (entries c) key = None"
    and c'_def: "c' = evictLocked ord key (fresh_put key v c)"
  shows "lfu_ok c' \<and> map_of (entries c') key = Some \<lparr>entry_value = v, useCount = 1\<rparr> \<and>
    (if int (length (entries c)) < max_entries c
     then \<forall>k. k \<noteq> key \<longrightarrow> map_of (entries c') k = map_of (entries c) k
     else \<exists>vk ve. map_of (entries c) vk = Some ve \<and>
       (\<forall>k e. map_of (entries c) k = Some e \<longrightarrow> useCount ve \<le> useCount e) \<and>
       (\<forall>k. k \<noteq> key \<longrightarrow> map_of (entries c') k = (if k = vk then None else map_of (entries c) k)))"
proof -
  note okD = lfu_okD [OF ok]
  let ?p = "fresh_put key v c"
  note ents = fresh_put_entries [OF absent, of v]
  have kf: "key \<notin> fst ` set (entries c)" using absent by (simp add: map_of_eq_None_iff)
  then have dist: "distinct (map fst (entries ?p))" using okD(2) ents by simp
  have counts: "\<forall>(k, e) \<in> set (entries ?p). useCount e < useCountCap"
    using okD(4) ents by (auto simp: useCountCap_def word_less_nat_alt)
  show ?thesis
  proof (cases "int (length (entries c)) < max_entries c")
    case True
    then have "c' = ?p" unfolding c'_def using ents by (intro evictLocked_within) simp
    with True ents dist counts okD show ?thesis by (simp add: lfu_ok_def)
  next
    case False
    then have over: "int (length (entries ?p)) = max_entries ?p + 1" using okD(3) ents by simp
    have mem: "key \<in> fst ` set (entries ?p)" and pos: "0 < max_entries ?p"
      using ents okD(1) by simp_all
    obtain vk ve where
      vm: "(vk, ve) \<in> set (entries ?p)" "vk \<noteq> key"
      and least: "\<forall>(k, e) \<in> set (entries ?p). k \<noteq> key \<longrightarrow> useCount ve \<le> useCount e"
      and c': "c' = ?p\<lparr>entries := alist_del vk (entries ?p)\<rparr>"
      and len: "int (length (alist_del vk (entries ?p))) = max_entries ?p"
      unfolding c'_def by (rule evictLocked_one_over [OF dist over pos mem, of ord])
    have "lfu_ok c'"
      using okD(1) dist counts len c' set_alist_del [of vk "entries ?p"] by (auto simp: lfu_ok_def)
    moreover have "map_of (entries c) vk = Some ve"
      using vm ents okD(2) by simp
    moreover have "useCount ve \<le> useCount e" if "map_of (entries c) k = Some e" for k e
    proof -
      from that absent have "k \<noteq> key" by auto
      moreover from that have "(k, e) \<in> set (entries ?p)" using ents by (simp add: map_of_SomeD)
      ultimately show ?thesis using least by blast
    qed
    ultimately show ?thesis using False c' ents vm(2) by auto
  qed
qed


lemma Set_absent:
  "map_of (entries c) key = None \<Longrightarrow>
   Set ord (Some c) key v = Some (evictLocked ord key (fresh_put key v c))"
  by (simp add: Set_def fresh_put_def)

lemma Set_present:
  "map_of (entries c) key = Some e \<Longrightarrow>
   Set ord (Some c) key v = Some (touchLocked key (put_entry key (e\<lparr>entry_value := v\<rparr>) c))"
  by (simp add: Set_def)

text \<open>\<open>LoadOrStore\<close> is \<open>Get\<close> on a hit and \<open>Set\<close> on a miss.\<close>

lemma LoadOrStore_hit:
  "view cr key = Some w \<Longrightarrow> LoadOrStore ord cr key v = ((w, True), snd (Get cr key))"
  by (auto simp: LoadOrStore_def Get_def view_def split: option.splits)

lemma LoadOrStore_miss:
  "view cr key = None \<Longrightarrow> LoadOrStore ord cr key v = ((v, False), Set ord cr key v)"
  by (auto simp: LoadOrStore_def Set_def view_def split: option.splits)

lemma Get_inv: "lfu_inv cr \<Longrightarrow> lfu_inv (snd (Get cr key))"
  by (auto simp: Get_def lfu_inv_def touchLocked_ok split: option.splits)

lemma Set_inv: "lfu_inv cr \<Longrightarrow> lfu_inv (Set ord cr key v)"
proof (cases cr)
  case None
  then show ?thesis by (simp add: Set_def lfu_inv_def)
next
  case (Some c)
  assume "lfu_inv cr"
  with Some have ok: "lfu_ok c" by (simp add: lfu_inv_def)
  show ?thesis
  proof (cases "map_of (entries c) key")
    case None
    with Some ok show ?thesis
      using evict_fresh_put [OF ok None refl, of ord v] by (simp add: Set_absent lfu_inv_def)
  next
    case e: (Some e)
    with Some ok show ?thesis
      by (simp add: Set_present lfu_inv_def touchLocked_ok put_existing_ok)
  qed
qed

lemma Delete_inv: "lfu_inv cr \<Longrightarrow> lfu_inv (Delete cr key)"
proof (cases cr)
  case None
  then show ?thesis by (simp add: Delete_def lfu_inv_def)
next
  case (Some c)
  assume "lfu_inv cr"
  with Some have ok: "lfu_ok c" by (simp add: lfu_inv_def)
  moreover have "length (alist_del key (entries c)) \<le> length (entries c)"
    by (rule length_alist_del_le)
  ultimately show ?thesis
    using Some set_alist_del [of key "entries c"]
    by (auto simp: Delete_def lfu_inv_def lfu_ok_def)
qed

lemma LoadOrStore_inv: "lfu_inv cr \<Longrightarrow> lfu_inv (snd (LoadOrStore ord cr key v))"
  by (cases "view cr key")
    (simp_all add: LoadOrStore_hit LoadOrStore_miss Get_inv Set_inv)

lemma NewLFU_inv: "lfu_inv (NewLFU m)"
  by (simp add: NewLFU_def lfu_inv_def lfu_ok_def)

lemma apply_op_inv: "lfu_inv cr \<Longrightarrow> lfu_inv (apply_op ord op cr)"
  by (cases op) (simp_all add: Get_inv Set_inv LoadOrStore_inv Delete_inv)

lemma run_ops_inv: "lfu_inv cr \<Longrightarrow> lfu_inv (run_ops ops cr)"
  unfolding run_ops_def
  by (induction ops arbitrary: cr) (auto simp: apply_op_inv)

lemma Get_view [simp]:
  "fst (Get cr key) = view cr key" "view (snd (Get cr key)) = view cr"
  by (auto simp: Get_def view_def fun_eq_iff split: option.splits)

lemma Delete_view: "view (Delete cr key) = (view cr)(key := None)"
  by (cases cr) (auto simp: Delete_def view_def)

lemma Set_view_same: "lfu_inv cr \<Longrightarrow> view (Set ord cr key v) key = (if enabled cr then Some v else None)"
proof (cases cr)
  case None
  then show ?thesis by (simp add: Set_def view_def enabled_def)
next
  case (Some c)
  assume "lfu_inv cr"
  with Some have ok: "lfu_ok c" by (simp add: lfu_inv_def)
  show ?thesis
  proof (cases "map_of (entries c) key")
    case None
    with Some show ?thesis
      using evict_fresh_put [OF ok None refl, of ord v] by (simp add: Set_absent view_def enabled_def)
  qed (simp add: Some Set_present view_def enabled_def)
qed

lemma Set_view_other:
  assumes "lfu_inv cr" and "k \<noteq> key"
  shows "view (Set ord cr key v) k \<in> {view cr k, None}"
proof (cases cr)
  case None
  then show ?thesis by (simp add: Set_def view_def)
next
  case (Some c)
  with assms have ok: "lfu_ok c" by (simp add: lfu_inv_def)
  show ?thesis
  proof (cases "map_of (entries c) key")
    case None
    with Some assms(2) show ?thesis
      using evict_fresh_put [OF ok None refl, of ord v]
      by (auto simp: Set_absent view_def split: if_splits)
  qed (use Some assms(2) in \<open>simp add: Set_present view_def\<close>)
qed


lemma evictLocked_max [simp]: "max_entries (evictLocked ord x c) = max_entries c"
proof (induction ord x c rule: evictLocked.induct)
  case (1 ord x c)
  then show ?case by (subst evictLocked.simps) (auto split: option.splits)
qed

lemma apply_op_max:
  "map_option max_entries (apply_op ord op cr) = map_option max_entries cr"
  by (cases op; cases cr)
    (auto simp: Get_def Set_def LoadOrStore_def Delete_def split: option.splits)

lemma run_ops_max:
  "map_option max_entries (run_ops ops cr) = map_option max_entries cr"
  unfolding run_ops_def by (induction ops arbitrary: cr) (auto simp: apply_op_max)

lemma enabled_max: "enabled cr \<longleftrightarrow> map_option max_entries cr \<noteq> None"
  by (cases cr) (simp_all add: enabled_def)

lemma Set_enabled [simp]: "enabled (Set ord cr key v) = enabled cr"
  using apply_op_max [of ord "OpSet key v" cr] unfolding enabled_max by simp

lemma Delete_enabled [simp]: "enabled (Delete cr key) = enabled cr"
  by (cases cr) (simp_all add: enabled_def Delete_def)

lemma Get_enabled [simp]: "enabled (snd (Get cr key)) = enabled cr"
  using apply_op_max [of undefined "OpGet key" cr] unfolding enabled_max by simp

subsection \<open>The contract of a bounded cache\<close>

text \<open>
  What a client of the cache may rely on: a lookup reads the abstract map and changes
  nothing of it, a store writes its own key and may drop other keys but never changes
  the value of one, a deletion clears its key.  A disabled cache stores nothing.
\<close>

locale bounded_cache =
  fixes get :: "'c \<Rightarrow> 'k \<Rightarrow> 'v option \<times> 'c"
    and put :: "'c \<Rightarrow> 'k \<Rightarrow> 'v \<Rightarrow> 'c"
    and del :: "'c \<Rightarrow> 'k \<Rightarrow> 'c"
    and look :: "'c \<Rightarrow> 'k \<Rightarrow> 'v option"
    and inv :: "'c \<Rightarrow> bool"
    and on :: "'c \<Rightarrow> bool"
  assumes get_look: "fst (get c k) = look c k" "look (snd (get c k)) = look c"
    and get_inv: "inv c \<Longrightarrow> inv (snd (get c k))" "on (snd (get c k)) = on c"
    and put_same: "inv c \<Longrightarrow> look (put c k v) k = (if on c then Some v else None)"
    and put_other: "inv c \<Longrightarrow> k' \<noteq> k \<Longrightarrow> look (put c k v) k' \<in> {look c k', None}"
    and put_inv: "inv c \<Longrightarrow> inv (put c k v)" "on (put c k v) = on c"
    and del_look: "look (del c k) = (look c)(k := None)"
    and del_inv: "inv c \<Longrightarrow> inv (del c k)" "on (del c k) = on c"
begin

text \<open>Whatever holds of every stored value keeps holding of every value found.\<close>

lemma put_sound:
  assumes "inv c" and "\<And>k v. look c k = Some v \<Longrightarrow> P k v" and "P key w"
    and "look (put c key w) k = Some v"
  shows "P k v"
proof (cases "k = key")
  case True
  with assms put_same [OF assms(1), of key w] show ?thesis by (auto split: if_splits)
next
  case False
  with assms put_other [OF assms(1) False, of w] show ?thesis by auto
qed

lemma del_sound:
  assumes "\<And>k v. look c k = Some v \<Longrightarrow> P k v" and "look (del c key) k = Some v"
  shows "P k v"
  using assms by (simp add: del_look split: if_splits)

text \<open>A store is visible to the next lookup, and a deletion too.\<close>

lemma get_put: "inv c \<Longrightarrow> on c \<Longrightarrow> fst (get (put c k v) k) = Some v"
  by (simp add: get_look put_same)

lemma get_del: "fst (get (del c k) k) = None"
  by (simp add: get_look del_look)

end

interpretation lfu: bounded_cache Get "Set ord" Delete view lfu_inv enabled
  for ord :: "nat \<Rightarrow> 'k \<Rightarrow> nat"
  by unfold_locales
    (simp_all add: Get_inv Set_inv Delete_inv Set_view_same Set_view_other Delete_view
      del: insert_iff)

text \<open>The contract of a client that shares values: a lookup that stores a value when there is none.\<close>

locale loading_cache = bounded_cache get put del look inv on
  for get :: "'c \<Rightarrow> 'k \<Rightarrow> 'v option \<times> 'c" and put :: "'c \<Rightarrow> 'k \<Rightarrow> 'v \<Rightarrow> 'c" and del :: "'c \<Rightarrow> 'k \<Rightarrow> 'c"
    and look :: "'c \<Rightarrow> 'k \<Rightarrow> 'v option" and inv :: "'c \<Rightarrow> bool" and on :: "'c \<Rightarrow> bool" +
  fixes load :: "'c \<Rightarrow> 'k \<Rightarrow> 'v \<Rightarrow> ('v \<times> bool) \<times> 'c"
  assumes load_hit: "look c k = Some w \<Longrightarrow> load c k v = ((w, True), snd (get c k))"
    and load_miss: "look c k = None \<Longrightarrow> load c k v = ((v, False), put c k v)"
begin

lemma load_inv: "inv c \<Longrightarrow> inv (snd (load c k v))"
  by (cases "look c k") (simp_all add: load_hit load_miss get_inv put_inv)

lemma load_on: "on (snd (load c k v)) = on c"
  by (cases "look c k") (simp_all add: load_hit load_miss get_inv put_inv)

text \<open>The value handed out is the stored one or the offered one, and the only value that can be new.\<close>

lemma load_result: "fst (fst (load c k v)) = (case look c k of None \<Rightarrow> v | Some w \<Rightarrow> w)"
  by (cases "look c k") (simp_all add: load_hit load_miss)

lemma load_look:
  assumes "inv c" and "look (snd (load c k v)) k' = Some w"
  shows "look c k' = Some w \<or> k' = k \<and> w = v"
proof (cases "look c k")
  case (Some x)
  with assms(2) show ?thesis by (simp add: load_hit get_look)
next
  case None
  with assms(2) put_sound [OF assms(1), of "\<lambda>j x. look c j = Some x \<or> j = k \<and> x = v" k v k' w] show ?thesis
    by (simp add: load_miss)
qed

end

interpretation lfu_load: loading_cache Get "Set ord" Delete view lfu_inv enabled "LoadOrStore ord"
  for ord :: "nat \<Rightarrow> 'k \<Rightarrow> nat"
  by unfold_locales (simp_all add: LoadOrStore_hit LoadOrStore_miss)

subsection \<open>The cache as a map that may forget\<close>

fun spec_op :: "('k, 'v) cache_op \<Rightarrow> ('k \<Rightarrow> 'v option) \<Rightarrow> 'k \<Rightarrow> 'v option" where
  "spec_op (OpGet k) m = m"
| "spec_op (OpSet k v) m = m(k := Some v)"
| "spec_op (OpLoadOrStore k v) m = (case m k of None \<Rightarrow> m(k := Some v) | Some _ \<Rightarrow> m)"
| "spec_op (OpDelete k) m = m(k := None)"

fun op_key :: "('k, 'v) cache_op \<Rightarrow> 'k" where
  "op_key (OpGet k) = k"
| "op_key (OpSet k v) = k"
| "op_key (OpLoadOrStore k v) = k"
| "op_key (OpDelete k) = k"

lemma Set_refines:
  assumes "lfu_inv cr" and "enabled cr"
  shows "view (Set ord cr k v) \<subseteq>\<^sub>m (view cr)(k := Some v)"
  using Set_view_same [OF assms(1), of ord k v] Set_view_other [OF assms(1), of _ k ord v] assms(2)
  by (fastforce simp: map_le_def dom_def split: if_splits)


lemma spec_refines:
  assumes "lfu_inv cr" and "enabled cr"
  shows "view (apply_op ord op cr) \<subseteq>\<^sub>m spec_op op (view cr)"
proof (cases op)
  case (OpLoadOrStore k v)
  with Set_refines [OF assms, of ord k v] show ?thesis
    by (cases "view cr k") (simp_all add: LoadOrStore_hit LoadOrStore_miss)
qed (use Set_refines [OF assms] in \<open>simp_all add: Delete_view\<close>)

lemma spec_own_key:
  assumes "lfu_inv cr" and "enabled cr"
  shows "view (apply_op ord op cr) (op_key op) = spec_op op (view cr) (op_key op)"
proof (cases op)
  case (OpLoadOrStore k v)
  with Set_view_same [OF assms(1), of ord k v] assms(2) show ?thesis
    by (cases "view cr k") (simp_all add: LoadOrStore_hit LoadOrStore_miss)
qed (use Set_view_same [OF assms(1)] assms(2) in \<open>simp_all add: Delete_view\<close>)

subsection \<open>Properties\<close>

text \<open>
  C20. After any sequence of calls on a cache made for \<open>m\<close> entries, whatever orders the map
  iterations took, the cache holds at most \<open>m\<close> entries with distinct keys and every use
  counter is below the aging cap, so the 32-bit counters never wrap around; with \<open>m \<le> 0\<close>
  it stays the disabled cache.
\<close>

theorem lfu_never_exceeds_capacity:
  "case run_ops ops (NewLFU m) of
     None \<Rightarrow> m \<le> 0
   | Some c \<Rightarrow> 0 < m \<and> max_entries c = m \<and> int (length (entries c)) \<le> m \<and>
       distinct (map fst (entries c)) \<and> list_all (\<lambda>(k, e). unat (useCount e) < 65536) (entries c)"
proof -
  have inv: "lfu_inv (run_ops ops (NewLFU m))" by (rule run_ops_inv [OF NewLFU_inv])
  have mx: "map_option max_entries (run_ops ops (NewLFU m)) = (if m \<le> 0 then None else Some m)"
    by (simp add: run_ops_max NewLFU_def)
  show ?thesis
  proof (cases "run_ops ops (NewLFU m)")
    case (Some c)
    with inv mx show ?thesis
      by (auto simp: lfu_inv_def lfu_ok_def list_all_iff word_less_nat_alt unat_useCountCap
          split: if_splits)
  qed (use mx in \<open>simp split: if_splits\<close>)
qed

text \<open>
  C23. The cache refines a plain map that may forget: after any call the stored bindings are
  among those the plain map would hold, and the binding of the key the call names is
  exactly the one of the plain map.
\<close>

theorem lfu_refines_forgetful_map:
  assumes "lfu_inv cr" and "enabled cr"
  shows "view (apply_op ord op cr) \<subseteq>\<^sub>m spec_op op (view cr) \<and>
    view (apply_op ord op cr) (op_key op) = spec_op op (view cr) (op_key op)"
  using spec_refines [OF assms] spec_own_key [OF assms] by blast

text \<open>
  C24. Storing a new key in a full cache evicts exactly one entry, one whose use count is
  minimal, never the new one; every other entry is untouched.
\<close>

theorem lfu_set_evicts_least_used:
  assumes "lfu_inv (Some c)" and "view (Some c) key = None"
    and "int (length (entries c)) = max_entries c"
  shows "\<exists>c' vk ve. Set ord (Some c) key v = Some c' \<and>
    map_of (entries c') key = Some \<lparr>entry_value = v, useCount = 1\<rparr> \<and>
    map_of (entries c) vk = Some ve \<and>
    (\<forall>k e. map_of (entries c) k = Some e \<longrightarrow> useCount ve \<le> useCount e) \<and>
    (\<forall>k. k \<noteq> key \<longrightarrow> map_of (entries c') k = (if k = vk then None else map_of (entries c) k))"
proof -
  from assms have ok: "lfu_ok c" and absent: "map_of (entries c) key = None"
    by (simp_all add: lfu_inv_def view_def)
  show ?thesis
    using evict_fresh_put [OF ok absent refl, of ord v] assms(3) Set_absent [OF absent, of ord v]
    by auto
qed

text \<open>A full cache of two entries with counts 3 and 2.\<close>

definition two_entries :: "(nat, string) LFU" where
  "two_entries = \<lparr>max_entries = 2,
     entries = [(1, \<lparr>entry_value = ''a'', useCount = 3\<rparr>), (2, \<lparr>entry_value = ''b'', useCount = 2\<rparr>)]\<rparr>"

lemma two_entries_ok: "lfu_inv (Some two_entries)"
  by (simp add: lfu_inv_def lfu_ok_def two_entries_def useCountCap_def word_less_nat_alt)

theorem lfu_refines_forgetful_map_witness:
  "view (Set (\<lambda>_ k. k) (Some two_entries) 7 ''c'') \<subseteq>\<^sub>m (view (Some two_entries))(7 := Some ''c'') \<and>
   view (Set (\<lambda>_ k. k) (Some two_entries) 7 ''c'') 7 = Some ''c''"
  using lfu_refines_forgetful_map [OF two_entries_ok, of "\<lambda>_ k. k" "OpSet 7 ''c''"]
  by (simp add: enabled_def)

theorem lfu_set_evicts_least_used_witness:
  "view (Set (\<lambda>_ k. k) (Some two_entries) 7 ''c'') 2 = None"
proof -
  from lfu_set_evicts_least_used [OF two_entries_ok, of 7 "\<lambda>_ k. k" "''c''"]
  obtain c' vk ve where c': "Set (\<lambda>_ k. k) (Some two_entries) 7 ''c'' = Some c'"
    and v: "map_of (entries two_entries) vk = Some ve"
      "\<forall>k e. map_of (entries two_entries) k = Some e \<longrightarrow> useCount ve \<le> useCount e"
      "\<forall>k. k \<noteq> 7 \<longrightarrow> map_of (entries c') k = (if k = vk then None else map_of (entries two_entries) k)"
    by (auto simp: two_entries_def view_def)
  from v(2) [rule_format, of 2] have "useCount ve \<le> 2" by (simp add: two_entries_def)
  with v(1) have "vk = 2" by (auto simp: two_entries_def split: if_splits)
  with v(3) c' show ?thesis by (simp add: view_def)
qed

end
