(* ===== verification/Walker.thy ===== *)
theory Walker
  imports Walker_Docs Go_Paths Lfu_Cache
begin

text \<open>
  The worktree operations of \<open>internal/walker\<close>: the recursive walk, reading and writing
  worktree files, the document-path cache and the object-level API.

  The worktree's filesystem (go-billy) is the parameter \<open>billy\<close>, a record of its calls on a
  state \<open>'fs\<close>; \<open>fs_laws\<close> names what the properties rely on.  The walk descends at most
  \<open>fuel\<close> directories and is \<open>None\<close> when it runs out; \<open>walk_run\<close> shows that the depth of the
  tree is enough.  The package-level cache is passed explicitly.
\<close>

subsection \<open>The worktree filesystem\<close>

datatype stat_result = IsDirectory | IsFile | NotExist go_error | StatFailed go_error

record 'fs billy =
  Root :: string
  Stat :: "'fs \<Rightarrow> string \<Rightarrow> stat_result"
  ReadDir :: "'fs \<Rightarrow> string \<Rightarrow> go_error + (string \<times> bool) list"
  OpenRead :: "'fs \<Rightarrow> string \<Rightarrow> go_error + string"
  MkdirAll :: "string \<Rightarrow> 'fs \<Rightarrow> go_error option \<times> 'fs"
  CreateWrite :: "string \<Rightarrow> string \<Rightarrow> 'fs \<Rightarrow> go_error option \<times> 'fs"
  Remove :: "string \<Rightarrow> 'fs \<Rightarrow> go_error option \<times> 'fs"

definition ReadWorktreeFile :: "'fs billy \<Rightarrow> 'fs \<Rightarrow> string \<Rightarrow> go_error + string" where
  "ReadWorktreeFile wt fs path = OpenRead wt fs path"

definition WriteWorktreeFile :: "'fs billy \<Rightarrow> string \<Rightarrow> string \<Rightarrow> 'fs \<Rightarrow> go_error option \<times> 'fs" where
  "WriteWorktreeFile wt path content fs =
     (let dir = Dir path in
      if dir \<noteq> ''.'' \<and> dir \<noteq> ''/'' then
        (case MkdirAll wt dir fs of
           (Some err, fs1) \<Rightarrow> (Some err, fs1)
         | (None, fs1) \<Rightarrow> CreateWrite wt path content fs1)
      else CreateWrite wt path content fs)"

definition removeWorktreeFile :: "'fs billy \<Rightarrow> string \<Rightarrow> 'fs \<Rightarrow> go_error option \<times> 'fs" where
  "removeWorktreeFile wt path fs = Remove wt path fs"

definition worktreeRelativePath :: "string \<Rightarrow> string \<Rightarrow> string" where
  "worktreeRelativePath root path = TrimPrefix (TrimPrefix (Clean path) (Clean root)) ''/''"

subsection \<open>The walk\<close>

type_synonym ('fs, 'a) visitor = "string \<Rightarrow> string \<Rightarrow> 'fs \<times> 'a \<Rightarrow> (go_error + bool) \<times> 'fs \<times> 'a"

definition entry_path :: "string \<Rightarrow> string \<Rightarrow> string" where
  "entry_path basePath name =
     (if basePath = ''/'' \<or> basePath = '''' then name else basePath @ ''/'' @ name)"

definition is_yaml_name :: "string \<Rightarrow> bool" where
  "is_yaml_name name \<longleftrightarrow> HasSuffix name ''.yaml'' \<or> HasSuffix name ''.yml''"

fun walkWorktreeFiles :: "'fs billy \<Rightarrow> nat \<Rightarrow> string \<Rightarrow> ('fs, 'a) visitor \<Rightarrow> 'fs \<times> 'a
    \<Rightarrow> ((go_error + bool) \<times> 'fs \<times> 'a) option"
and walk_entries :: "'fs billy \<Rightarrow> nat \<Rightarrow> string \<Rightarrow> (string \<times> bool) list \<Rightarrow> ('fs, 'a) visitor
    \<Rightarrow> 'fs \<times> 'a \<Rightarrow> ((go_error + bool) \<times> 'fs \<times> 'a) option" where
  "walkWorktreeFiles wt 0 basePath visit st = None"
| "walkWorktreeFiles wt (Suc fuel) basePath visit st =
     (case ReadDir wt (fst st) basePath of
        Inl err \<Rightarrow> Some (Inl (WrapError (''failed to read directory '' @ basePath) err), st)
      | Inr files \<Rightarrow> walk_entries wt fuel basePath files visit st)"
| "walk_entries wt fuel basePath [] visit st = Some (Inr False, st)"
| "walk_entries wt fuel basePath ((name, isDir) # files) visit st =
     (let path = entry_path basePath name in
      if isDir then
        (case walkWorktreeFiles wt fuel path visit st of
           None \<Rightarrow> None
         | Some (Inl err, st1) \<Rightarrow> Some (Inl err, st1)
         | Some (Inr stop, st1) \<Rightarrow>
             if stop then Some (Inr True, st1)
             else walk_entries wt fuel basePath files visit st1)
      else if \<not> is_yaml_name name then walk_entries wt fuel basePath files visit st
      else case ReadWorktreeFile wt (fst st) path of
        Inl err \<Rightarrow> Some (Inl (WrapError (''failed to read '' @ path) err), st)
      | Inr content \<Rightarrow>
          (case visit path content st of
             (Inl err, st1) \<Rightarrow> Some (Inl err, st1)
           | (Inr stop, st1) \<Rightarrow>
               if stop then Some (Inr True, st1)
               else walk_entries wt fuel basePath files visit st1))"

text \<open>The per-document visitor returns stop and skip.\<close>

type_synonym ('fs, 'a) doc_visitor =
  "string \<Rightarrow> string \<Rightarrow> 'fs \<times> 'a \<Rightarrow> (go_error + bool \<times> bool) \<times> 'fs \<times> 'a"

fun visit_docs :: "('fs, 'a) doc_visitor \<Rightarrow> string \<Rightarrow> string list \<Rightarrow> 'fs \<times> 'a
    \<Rightarrow> (go_error + bool) \<times> 'fs \<times> 'a" where
  "visit_docs visit path [] st = (Inr False, st)"
| "visit_docs visit path (rawDoc # docs) st =
     (case visit path rawDoc st of
        (Inl verr, st1) \<Rightarrow> (Inl verr, st1)
      | (Inr (stop, skip), st1) \<Rightarrow>
          if skip then visit_docs visit path docs st1
          else if stop then (Inr True, st1)
          else visit_docs visit path docs st1)"

definition WalkWorktreeYAML :: "'fs billy \<Rightarrow> nat \<Rightarrow> string \<Rightarrow> ('fs, 'a) doc_visitor \<Rightarrow> 'fs \<times> 'a
    \<Rightarrow> (go_error option \<times> 'fs \<times> 'a) option" where
  "WalkWorktreeYAML wt fuel basePath visit st =
     map_option (\<lambda>(r, st1). (case r of Inl e \<Rightarrow> Some e | Inr _ \<Rightarrow> None, st1))
       (walkWorktreeFiles wt fuel basePath
          (\<lambda>path content. visit_docs visit path (Split content docSeparator)) st)"

subsection \<open>Objects\<close>

record docCacheKey =
  CkScope :: string
  CkSel :: ObjectSelector

record docCacheValue =
  CvPath :: string
  NoCache :: bool

type_synonym docCache = "(docCacheKey, docCacheValue) lfu_ref"

definition InitDocumentCache :: "int \<Rightarrow> docCache" where
  "InitDocumentCache maxEntries = NewLFU maxEntries"

definition recordMatches :: "(nat \<Rightarrow> docCacheKey \<Rightarrow> nat) \<Rightarrow> string \<Rightarrow> ObjectSelector \<Rightarrow> string list
    \<Rightarrow> docCache \<Rightarrow> docCache" where
  "recordMatches ord scope sel matched cache =
     (let key = \<lparr>CkScope = scope, CkSel = sel\<rparr> in
      case matched of
        [] \<Rightarrow> Delete cache key
      | [p] \<Rightarrow> Set ord cache key \<lparr>CvPath = p, NoCache = False\<rparr>
      | _ \<Rightarrow> Set ord cache key \<lparr>CvPath = '''', NoCache = True\<rparr>)"

definition FindObject :: "docs_lib \<Rightarrow> 'fs billy \<Rightarrow> nat \<Rightarrow> ObjectSelector \<Rightarrow> 'fs
    \<Rightarrow> (go_error option \<times> (string \<times> string) option) option" where
  \<comment> \<open>The found path and document; the worktree does not change.\<close>
  "FindObject lib wt fuel sel fs =
     map_option (\<lambda>(err, _, acc). (err, acc))
       (WalkWorktreeYAML wt fuel (Root wt)
          (\<lambda>p rawDoc (fs1, acc).
             if \<not> matchDoc lib rawDoc sel then (Inr (False, True), fs1, acc)
             else (Inr (True, False), fs1, Some (worktreeRelativePath (Root wt) p, rawDoc)))
          (fs, None))"

definition applyReplacement :: "docs_lib \<Rightarrow> 'fs billy \<Rightarrow> string \<Rightarrow> string \<Rightarrow> string \<Rightarrow> ObjectSelector
    \<Rightarrow> string \<Rightarrow> DocTransform \<Rightarrow> 'fs \<times> ClaimedPaths \<Rightarrow> (go_error + bool) \<times> 'fs \<times> ClaimedPaths" where
  "applyReplacement lib wt fsPath relPath fileContent sel content transform st =
     (let (fs, claimed) = st;
          (out, found, err) = ReplaceDocInContentFunc lib fileContent sel content relPath transform;
          claim = (if content = '''' then AppendDeletedPath relPath claimed else AppendAddedPath relPath claimed)
      in if \<not> found then (Inr False, fs, claimed)
         else case err of
           Some e \<Rightarrow> (Inl e, fs, claimed)
         | None \<Rightarrow>
             if out = fileContent then (Inr True, fs, claim)
             else if TrimSpace out = '''' then
               (case removeWorktreeFile wt fsPath fs of
                  (Some rerr, fs1) \<Rightarrow> (Inl (WrapError (''failed to remove '' @ fsPath) rerr), fs1, claimed)
                | (None, fs1) \<Rightarrow> (Inr True, fs1, claim))
             else
               (case WriteWorktreeFile wt fsPath out fs of
                  (Some werr, fs1) \<Rightarrow> (Inl (WrapError (''failed to write '' @ fsPath) werr), fs1, claimed)
                | (None, fs1) \<Rightarrow> (Inr True, fs1, claim)))"

definition replace_visitor :: "docs_lib \<Rightarrow> 'fs billy \<Rightarrow> ObjectSelector \<Rightarrow> string \<Rightarrow> DocTransform
    \<Rightarrow> ('fs, ClaimedPaths \<times> string list) visitor" where
  "replace_visitor lib wt sel content transform path fileContent st =
     (let (fs, claimed, matched) = st; rel = worktreeRelativePath (Root wt) path in
      case applyReplacement lib wt path rel fileContent sel content transform (fs, claimed) of
        (Inl aerr, fs1, claimed1) \<Rightarrow> (Inl aerr, fs1, claimed1, matched)
      | (Inr found, fs1, claimed1) \<Rightarrow>
          (Inr False, fs1, claimed1, if found then matched @ [rel] else matched))"

definition full_replace :: "docs_lib \<Rightarrow> (nat \<Rightarrow> docCacheKey \<Rightarrow> nat) \<Rightarrow> 'fs billy \<Rightarrow> nat \<Rightarrow> string
    \<Rightarrow> ObjectSelector \<Rightarrow> string \<Rightarrow> DocTransform \<Rightarrow> 'fs \<times> docCache
    \<Rightarrow> ((go_error + ClaimedPaths) \<times> 'fs \<times> docCache) option" where
  \<comment> \<open>The full walk of \<open>ReplaceObject\<close>.\<close>
  "full_replace lib ord wt fuel scope sel content transform st =
     (let (fs, cache) = st in
      case walkWorktreeFiles wt fuel (Root wt) (replace_visitor lib wt sel content transform)
             (fs, NewClaimedPaths, []) of
        None \<Rightarrow> None
      | Some (Inl err, fs1, _) \<Rightarrow> Some (Inl err, fs1, cache)
      | Some (Inr _, fs1, claimed, matched) \<Rightarrow>
          Some (Inr claimed, fs1,
            if content = '''' then Delete cache \<lparr>CkScope = scope, CkSel = sel\<rparr>
            else recordMatches ord scope sel matched cache))"

definition ReplaceObject :: "docs_lib \<Rightarrow> (nat \<Rightarrow> docCacheKey \<Rightarrow> nat) \<Rightarrow> 'fs billy \<Rightarrow> nat \<Rightarrow> string
    \<Rightarrow> ObjectSelector \<Rightarrow> string \<Rightarrow> DocTransform \<Rightarrow> 'fs \<times> docCache
    \<Rightarrow> ((go_error + ClaimedPaths) \<times> 'fs \<times> docCache) option" where
  "ReplaceObject lib ord wt fuel scope sel content transform st =
     (let (fs, cache) = st;
          key = \<lparr>CkScope = scope, CkSel = sel\<rparr>;
          (hit, cache1) = Get cache key;
          full = full_replace lib ord wt fuel scope sel content transform
      in case hit of
        None \<Rightarrow> full (fs, cache1)
      | Some v \<Rightarrow>
          if NoCache v then full (fs, cache1)
          else (case ReadWorktreeFile wt fs (CvPath v) of
             Inl _ \<Rightarrow> full (fs, cache1)
           | Inr fileContent \<Rightarrow>
               (case applyReplacement lib wt (CvPath v) (CvPath v) fileContent sel content transform
                       (fs, NewClaimedPaths) of
                  (Inl aerr, fs1, _) \<Rightarrow> Some (Inl aerr, fs1, cache1)
                | (Inr True, fs1, claimed) \<Rightarrow>
                    Some (Inr claimed, fs1, if content = '''' then Delete cache1 key else cache1)
                | (Inr False, fs1, _) \<Rightarrow> full (fs1, cache1))))"

definition WriteObjectAtPath :: "docs_lib \<Rightarrow> 'fs billy \<Rightarrow> string \<Rightarrow> ObjectSelector \<Rightarrow> string
    \<Rightarrow> DocTransform \<Rightarrow> 'fs \<Rightarrow> (go_error + ClaimedPaths) \<times> 'fs" where
  "WriteObjectAtPath lib wt path sel content transform fs =
     (let cleanPath = Clean path in
      if content = '''' then
        (Inr (AppendDeletedPath cleanPath NewClaimedPaths), snd (removeWorktreeFile wt cleanPath fs))
      else
        let existing = ReadWorktreeFile wt fs cleanPath;
            old = (case existing of Inl _ \<Rightarrow> '''' | Inr c \<Rightarrow> c);
            (out0, found, err) = ReplaceDocInContentFunc lib old sel content cleanPath transform;
            write = (\<lambda>out. case WriteWorktreeFile wt cleanPath out fs of
               (Some werr, fs1) \<Rightarrow> (Inl werr, fs1)
             | (None, fs1) \<Rightarrow> (Inr (AppendAddedPath cleanPath NewClaimedPaths), fs1))
        in case err of
          Some e \<Rightarrow> (Inl e, fs)
        | None \<Rightarrow>
            if found then write out0
            else (case Apply transform cleanPath None content of
               Inl terr \<Rightarrow> (Inl terr, fs)
             | Inr transformed \<Rightarrow>
                 write (case existing of Inr c \<Rightarrow> appendDoc c transformed | Inl _ \<Rightarrow> transformed)))"

subsection \<open>What is relied on of the filesystem\<close>

definition rel_clean :: "string \<Rightarrow> bool" where
  "rel_clean p \<longleftrightarrow> Clean p = p \<and> \<not> HasPrefix p slash"

text \<open>
  \<open>file fs p\<close> is the content of the file at the clean relative path \<open>p\<close>.  A file that was
  opened is read to its end, a successful write or removal changes that file alone, making
  the directory of an existing file does nothing, and rewriting an existing file changes
  no directory listing.
\<close>

definition fs_laws :: "'fs billy \<Rightarrow> ('fs \<Rightarrow> string \<Rightarrow> string option) \<Rightarrow> bool" where
  "fs_laws wt file \<longleftrightarrow>
     (\<forall>fs p. rel_clean p \<longrightarrow>
        (case OpenRead wt fs p of Inl _ \<Rightarrow> file fs p = None | Inr c \<Rightarrow> file fs p = Some c)) \<and>
     (\<forall>d fs r fs'. MkdirAll wt d fs = (r, fs') \<longrightarrow> file fs' = file fs) \<and>
     (\<forall>p fs. rel_clean p \<longrightarrow> file fs p \<noteq> None \<longrightarrow> MkdirAll wt (Dir p) fs = (None, fs)) \<and>
     (\<forall>p c fs fs'. rel_clean p \<longrightarrow> CreateWrite wt p c fs = (None, fs') \<longrightarrow>
        (\<forall>q. rel_clean q \<longrightarrow> file fs' q = (if q = p then Some c else file fs q)) \<and>
        (file fs p \<noteq> None \<longrightarrow> ReadDir wt fs' = ReadDir wt fs)) \<and>
     (\<forall>p fs fs'. rel_clean p \<longrightarrow> Remove wt p fs = (None, fs') \<longrightarrow>
        (\<forall>q. rel_clean q \<longrightarrow> file fs' q = (if q = p then None else file fs q)))"

lemma fs_read:
  assumes "fs_laws wt file" and "rel_clean p"
  shows "ReadWorktreeFile wt fs p = Inr c \<longleftrightarrow> file fs p = Some c"
proof -
  from assms have "case OpenRead wt fs p of Inl _ \<Rightarrow> file fs p = None | Inr c \<Rightarrow> file fs p = Some c"
    by (simp add: fs_laws_def)
  then show ?thesis by (auto simp: ReadWorktreeFile_def split: sum.splits)
qed

lemma fs_mkdir:
  "fs_laws wt file \<Longrightarrow> MkdirAll wt d fs = (r, fs') \<Longrightarrow> file fs' = file fs"
  unfolding fs_laws_def by blast

lemma fs_create:
  assumes "fs_laws wt file" and "rel_clean p" and "CreateWrite wt p c fs = (None, fs')"
  shows "rel_clean q \<Longrightarrow> file fs' q = (if q = p then Some c else file fs q)"
    and "file fs p \<noteq> None \<Longrightarrow> ReadDir wt fs' = ReadDir wt fs"
  using assms unfolding fs_laws_def by blast+

lemma fs_write:
  assumes "fs_laws wt file" and "rel_clean p" and "WriteWorktreeFile wt p c fs = (None, fs')"
  shows "rel_clean q \<Longrightarrow> file fs' q = (if q = p then Some c else file fs q)"
    and "file fs p \<noteq> None \<Longrightarrow> ReadDir wt fs' = ReadDir wt fs"
proof -
  from assms(3) obtain fs1 where fs1: "CreateWrite wt p c fs1 = (None, fs')"
    and f: "file fs1 = file fs"
    and mk: "fs1 = fs \<or> MkdirAll wt (Dir p) fs = (None, fs1)"
    using fs_mkdir [OF assms(1), of "Dir p" fs]
    by (auto simp: WriteWorktreeFile_def Let_def split: if_splits prod.splits option.splits)
  show "rel_clean q \<Longrightarrow> file fs' q = (if q = p then Some c else file fs q)"
    using fs_create(1) [OF assms(1,2) fs1] f by simp
  show "ReadDir wt fs' = ReadDir wt fs" if "file fs p \<noteq> None"
  proof -
    have "MkdirAll wt (Dir p) fs = (None, fs)"
      using assms(1,2) that unfolding fs_laws_def by blast
    with mk have "fs1 = fs" by auto
    with fs_create(2) [OF assms(1,2) fs1] that show ?thesis by simp
  qed
qed

subsection \<open>The files of a walk\<close>

text \<open>The YAML files a walk lists under a directory, in its order, from the listings alone.\<close>

fun list_yaml :: "(string \<Rightarrow> go_error + (string \<times> bool) list) \<Rightarrow> nat \<Rightarrow> string \<Rightarrow> string list option"
and list_entries :: "(string \<Rightarrow> go_error + (string \<times> bool) list) \<Rightarrow> nat \<Rightarrow> string
    \<Rightarrow> (string \<times> bool) list \<Rightarrow> string list option" where
  "list_yaml rd 0 base = None"
| "list_yaml rd (Suc fuel) base = (case rd base of Inl _ \<Rightarrow> None | Inr files \<Rightarrow> list_entries rd fuel base files)"
| "list_entries rd fuel base [] = Some []"
| "list_entries rd fuel base ((name, isDir) # files) =
     (let path = entry_path base name in
      if isDir then
        (case list_yaml rd fuel path of None \<Rightarrow> None
         | Some ps \<Rightarrow> map_option (\<lambda>qs. ps @ qs) (list_entries rd fuel base files))
      else if \<not> is_yaml_name name then list_entries rd fuel base files
      else map_option (\<lambda>qs. path # qs) (list_entries rd fuel base files))"

text \<open>
  The visits of the listed files, one after the other, each with the content the file has at
  that time, up to the first error or stop.
\<close>

fun run_visits :: "'fs billy \<Rightarrow> ('fs, 'a) visitor \<Rightarrow> string list \<Rightarrow> 'fs \<times> 'a
    \<Rightarrow> (go_error + bool) \<times> 'fs \<times> 'a" where
  "run_visits wt visit [] st = (Inr False, st)"
| "run_visits wt visit (p # ps) st =
     (case ReadWorktreeFile wt (fst st) p of
        Inl err \<Rightarrow> (Inl (WrapError (''failed to read '' @ p) err), st)
      | Inr c \<Rightarrow> (case visit p c st of
          (Inl err, st1) \<Rightarrow> (Inl err, st1)
        | (Inr stop, st1) \<Rightarrow> if stop then (Inr True, st1) else run_visits wt visit ps st1))"

lemma run_visits_append:
  "run_visits wt visit (ps @ qs) st =
     (case run_visits wt visit ps st of
        (Inl err, st1) \<Rightarrow> (Inl err, st1)
      | (Inr stop, st1) \<Rightarrow> if stop then (Inr True, st1) else run_visits wt visit qs st1)"
  by (induction ps arbitrary: st) (auto split: sum.splits prod.splits)

text \<open>
  A walk with fuel for the listing returns, and is the run over the listed files, when the
  visits after which it goes on keep the listings.
\<close>

definition keeps :: "'fs billy \<Rightarrow> ('fs, 'a) visitor \<Rightarrow> string set \<Rightarrow> ('fs \<times> 'a \<Rightarrow> bool) \<Rightarrow> bool" where
  "keeps wt visit P I \<longleftrightarrow> (\<forall>p c st st'. p \<in> P \<longrightarrow> I st \<longrightarrow>
     ReadWorktreeFile wt (fst st) p = Inr c \<longrightarrow> visit p c st = (Inr False, st') \<longrightarrow> I st')"

lemma keepsD:
  "keeps wt visit P I \<Longrightarrow> p \<in> P \<Longrightarrow> I st \<Longrightarrow> ReadWorktreeFile wt (fst st) p = Inr c \<Longrightarrow>
   visit p c st = (Inr False, st') \<Longrightarrow> I st'"
  unfolding keeps_def by blast

lemma run_visits_keeps:
  "keeps wt visit P I \<Longrightarrow> set ps \<subseteq> P \<Longrightarrow> I st \<Longrightarrow> run_visits wt visit ps st = (Inr False, st') \<Longrightarrow> I st'"
proof (induction ps arbitrary: st)
  case Nil
  then show ?case by simp
next
  case (Cons p ps)
  then obtain c st1 where "ReadWorktreeFile wt (fst st) p = Inr c" "visit p c st = (Inr False, st1)"
    "run_visits wt visit ps st1 = (Inr False, st')"
    by (auto split: sum.splits prod.splits if_splits)
  with Cons keepsD [OF Cons.prems(1), of p st c st1] show ?case by simp
qed

lemma walk_entries_run:
  fixes wt :: "'fs billy" and visit :: "('fs, 'a) visitor"
  assumes keeps: "keeps wt visit P I"
    and dirs: "\<And>base st ps. list_yaml rd fuel base = Some ps \<Longrightarrow> set ps \<subseteq> P \<Longrightarrow> I st \<Longrightarrow>
      walkWorktreeFiles wt fuel base visit st = Some (run_visits wt visit ps st)"
  shows "list_entries rd fuel base files = Some ps \<Longrightarrow> set ps \<subseteq> P \<Longrightarrow> I st \<Longrightarrow>
      walk_entries wt fuel base files visit st = Some (run_visits wt visit ps st)"
proof (induction files arbitrary: st ps)
  case Nil
  then show ?case by simp
next
  case (Cons f files)
  obtain name isDir where f: "f = (name, isDir)" by fastforce
  let ?path = "entry_path base name"
  consider (dir) isDir | (skip) "\<not> isDir" "\<not> is_yaml_name name" | (yaml) "\<not> isDir" "is_yaml_name name"
    by blast
  then show ?case
  proof cases
    case dir
    with Cons.prems(1) f obtain ps1 ps2 where ps: "list_yaml rd fuel ?path = Some ps1"
      "list_entries rd fuel base files = Some ps2" "ps = ps1 @ ps2"
      by (auto simp: Let_def split: option.splits)
    obtain r st1 where r: "run_visits wt visit ps1 st = (r, st1)" by (rule prod.exhaust)
    have w: "walkWorktreeFiles wt fuel ?path visit st = Some (r, st1)"
      using dirs [OF ps(1)] Cons.prems(2,3) ps(3) r by simp
    have "I st1" if "r = Inr False"
      by (rule run_visits_keeps [OF keeps _ Cons.prems(3), of ps1])
        (use that r Cons.prems(2) ps(3) in simp_all)
    with Cons.IH [OF ps(2)] Cons.prems(2) ps(3) r w f dir show ?thesis
      by (cases r) (auto simp: Let_def run_visits_append)
  next
    case skip
    with Cons.prems f Cons.IH show ?thesis by (simp add: Let_def)
  next
    case yaml
    with Cons.prems(1) f obtain ps2 where ps: "list_entries rd fuel base files = Some ps2"
      "ps = ?path # ps2" by (auto simp: Let_def)
    show ?thesis
    proof (cases "ReadWorktreeFile wt (fst st) ?path")
      case (Inr c)
      obtain r st1 where v: "visit ?path c st = (r, st1)" by (rule prod.exhaust)
      have "I st1" if "r = Inr False"
        by (rule keepsD [OF keeps _ Cons.prems(3) Inr]) (use v that Cons.prems(2) ps(2) in simp_all)
      with Cons.IH [OF ps(1)] Cons.prems(2) ps(2) v Inr f yaml show ?thesis
        by (cases r) (auto simp: Let_def)
    qed (use f yaml ps in \<open>simp add: Let_def\<close>)
  qed
qed

lemma walk_run:
  fixes wt :: "'fs billy" and visit :: "('fs, 'a) visitor"
  assumes keeps: "keeps wt visit P I" and rd: "\<And>st. I st \<Longrightarrow> ReadDir wt (fst st) = rd"
  shows "list_yaml rd fuel base = Some ps \<Longrightarrow> set ps \<subseteq> P \<Longrightarrow> I st \<Longrightarrow>
      walkWorktreeFiles wt fuel base visit st = Some (run_visits wt visit ps st)"
proof (induction fuel arbitrary: base st ps)
  case 0
  then show ?case by simp
next
  case (Suc fuel)
  from rd [OF Suc.prems(3)] Suc.prems(1) obtain files where
    "ReadDir wt (fst st) base = Inr files" and l: "list_entries rd fuel base files = Some ps"
    by (auto split: sum.splits)
  moreover have "walk_entries wt fuel base files visit st = Some (run_visits wt visit ps st)"
    by (rule walk_entries_run [where I = I, OF keeps _ l Suc.prems(2,3)])
      (rule Suc.IH, assumption+)
  ultimately show ?case by simp
qed

subsection \<open>Replacing an object in every file\<close>

lemma TrimSpace_blank: "TrimSpace s = [] \<longleftrightarrow> list_all is_space s"
  by (auto simp: TrimSpace_def list_all_iff dropWhile_eq_Nil_conv
      dest: set_dropWhileD) (metis (no_types, lifting) Un_iff dropWhile_eq_Nil_conv set_append takeWhile_dropWhile_id set_takeWhileD)

lemma set_TrimRight: "x \<in> set s \<Longrightarrow> x \<noteq> c \<Longrightarrow> x \<in> set (TrimRight s c)"
  unfolding TrimRight_def
  by (metis (mono_tags, lifting) Un_iff set_append set_rev set_takeWhileD takeWhile_dropWhile_id)

lemma set_Join: "d \<in> set ds \<Longrightarrow> set d \<subseteq> set (Join ds sep)"
proof (induction ds)
  case (Cons e ds)
  then show ?case by (cases ds) (auto simp: Join_Cons)
qed simp

definition visible :: "string \<Rightarrow> bool" where
  "visible s \<longleftrightarrow> \<not> list_all is_space s"

lemma replaced_visible:
  assumes "ReplaceDocInContentFunc lib c sel newDoc p None = (out, True, None)" and "visible newDoc"
  shows "TrimSpace out \<noteq> []"
proof -
  from assms(2) obtain x where x: "x \<in> set newDoc" "\<not> is_space x"
    by (auto simp: visible_def list_all_iff)
  then have nl: "x \<noteq> newline" and ne: "newDoc \<noteq> []" by (auto simp: is_space_def newline_def)
  from assms(1) ne obtain i where i: "i < length (Split c docSeparator)"
    and out: "out = end_newline (Join ((Split c docSeparator)[i := TrimRight newDoc newline]) docSeparator)"
    by (auto simp: ReplaceDocInContentFunc_def Let_def Apply_def first_match_Some split: option.splits)
  have "TrimRight newDoc newline \<in> set ((Split c docSeparator)[i := TrimRight newDoc newline])"
    using i by (rule set_update_memI)
  with set_Join set_TrimRight [OF x(1) nl]
  have "x \<in> set (Join ((Split c docSeparator)[i := TrimRight newDoc newline]) docSeparator)" by blast
  then have "x \<in> set out" using out by (auto simp: end_newline_def)
  with x(2) show ?thesis by (auto simp: TrimSpace_blank list_all_iff)
qed

definition matches_file :: "docs_lib \<Rightarrow> ObjectSelector \<Rightarrow> string \<Rightarrow> bool" where
  "matches_file lib sel c = list_ex (\<lambda>d. matchDoc lib d sel) (Split c docSeparator)"

definition new_content :: "docs_lib \<Rightarrow> ObjectSelector \<Rightarrow> string \<Rightarrow> string \<Rightarrow> string" where
  "new_content lib sel newDoc c = fst (ReplaceDocInContent lib c sel newDoc)"

lemma Replace_None_transform:
  "ReplaceDocInContentFunc lib c sel newDoc p None =
     (new_content lib sel newDoc c, matches_file lib sel c, None)"
proof -
  let ?m = "first_match (\<lambda>d. matchDoc lib d sel) (Split c docSeparator)"
  have "matches_file lib sel c \<longleftrightarrow> ?m \<noteq> None"
    by (auto simp: matches_file_def first_match_None list_ex_iff)
  then show ?thesis
    by (cases ?m) (auto simp: new_content_def ReplaceDocInContent_def ReplaceDocInContentFunc_def
        Let_def Apply_def)
qed

lemma new_content_unmatched: "\<not> matches_file lib sel c \<Longrightarrow> new_content lib sel newDoc c = c"
  by (auto simp: new_content_def ReplaceDocInContent_def ReplaceDocInContentFunc_def Let_def
      matches_file_def list_ex_iff first_match_None [THEN iffD2])

text \<open>One file: the outcome of the replacement when it reports no error.\<close>

lemma applyReplacement_ok:
  assumes laws: "fs_laws wt file" and p: "rel_clean p" and c: "file fs p = Some c" and vis: "visible newDoc"
    and ok: "applyReplacement lib wt p rel c sel newDoc None (fs, claimed) = (Inr found, fs', claimed')"
  shows "found = matches_file lib sel c \<and>
    claimed' = (if found then AppendAddedPath rel claimed else claimed) \<and>
    (\<forall>q. rel_clean q \<longrightarrow> file fs' q = (if q = p then Some (new_content lib sel newDoc c) else file fs q)) \<and>
    ReadDir wt fs' = ReadDir wt fs"
proof (cases "matches_file lib sel c")
  case False
  with ok c new_content_unmatched [OF False] show ?thesis
    by (auto simp: applyReplacement_def Replace_None_transform)
next
  case True
  have ne: "newDoc \<noteq> []" using vis by (auto simp: visible_def)
  have nb: "TrimSpace (new_content lib sel newDoc c) \<noteq> []"
    using True replaced_visible [OF _ vis] Replace_None_transform by metis
  show ?thesis
  proof (cases "new_content lib sel newDoc c = c")
    case same: True
    with ok c True ne show ?thesis by (auto simp: applyReplacement_def Replace_None_transform)
  next
    case False
    with ok True ne nb have w: "WriteWorktreeFile wt p (new_content lib sel newDoc c) fs = (None, fs')"
      and "found" "claimed' = AppendAddedPath rel claimed"
      by (auto simp: applyReplacement_def Replace_None_transform split: prod.splits option.splits)
    with True fs_write [OF laws p w] c show ?thesis by auto
  qed
qed

lemma replace_visitor_ok:
  assumes "replace_visitor lib wt sel newDoc t p c (fs, claimed, matched) = (Inr r, fs', claimed', matched')"
  obtains found where
    "applyReplacement lib wt p (worktreeRelativePath (Root wt) p) c sel newDoc t (fs, claimed)
       = (Inr found, fs', claimed')"
    "matched' = (if found then matched @ [worktreeRelativePath (Root wt) p] else matched)" "\<not> r"
  using assms by (auto simp: replace_visitor_def Let_def split: prod.splits sum.splits)

lemma root_relative: "rel_clean p \<Longrightarrow> worktreeRelativePath ''/'' p = p"
proof -
  have "Clean ''/'' = ''/''" by code_simp
  moreover assume "rel_clean p"
  ultimately show ?thesis
    by (auto simp: worktreeRelativePath_def rel_clean_def TrimPrefix_def slash_def)
qed

definition matching_files :: "docs_lib \<Rightarrow> ObjectSelector \<Rightarrow> (string \<Rightarrow> string option) \<Rightarrow> string list \<Rightarrow> string list" where
  "matching_files lib sel f ps =
     filter (\<lambda>p. case f p of None \<Rightarrow> False | Some c \<Rightarrow> matches_file lib sel c) ps"

lemma run_replace:
  assumes laws: "fs_laws wt file" and root: "Root wt = ''/''" and vis: "visible newDoc"
  shows "run_visits wt (replace_visitor lib wt sel newDoc None) ps (fs, claimed, matched)
      = (Inr r, fs', claimed', matched') \<Longrightarrow> distinct ps \<Longrightarrow> list_all rel_clean ps \<Longrightarrow>
    \<not> r \<and> Add claimed' = Add claimed @ matching_files lib sel (file fs) ps \<and>
    DeletePaths claimed' = DeletePaths claimed \<and>
    matched' = matched @ matching_files lib sel (file fs) ps \<and>
    (\<forall>q. rel_clean q \<longrightarrow>
       file fs' q = (if q \<in> set ps then map_option (new_content lib sel newDoc) (file fs q) else file fs q))"
proof (induction ps arbitrary: fs claimed matched)
  case Nil
  then show ?case by (simp add: matching_files_def)
next
  case (Cons p ps)
  have p: "rel_clean p" "p \<notin> set ps" using Cons.prems by simp_all
  from Cons.prems(1) obtain c stop fs1 claimed1 matched1 where
    "ReadWorktreeFile wt fs p = Inr c"
    and v: "replace_visitor lib wt sel newDoc None p c (fs, claimed, matched) = (Inr stop, fs1, claimed1, matched1)"
    and rest: "if stop then (Inr True, fs1, claimed1, matched1) = (Inr r, fs', claimed', matched')
      else run_visits wt (replace_visitor lib wt sel newDoc None) ps (fs1, claimed1, matched1)
        = (Inr r, fs', claimed', matched')"
    by (auto split: sum.splits prod.splits if_splits)
  then have c: "file fs p = Some c" using fs_read [OF laws p(1)] by simp
  from v obtain found where "\<not> stop" and
    a: "applyReplacement lib wt p p c sel newDoc None (fs, claimed) = (Inr found, fs1, claimed1)"
    and m: "matched1 = (if found then matched @ [p] else matched)"
    using root_relative [OF p(1)] root by (auto elim: replace_visitor_ok)
  note eff = applyReplacement_ok [OF laws p(1) c vis a]
  have same: "matching_files lib sel (file fs1) ps = matching_files lib sel (file fs) ps"
    unfolding matching_files_def
    using eff p(2) Cons.prems(3) by (intro filter_cong) (auto simp: list_all_iff)
  have "matching_files lib sel (file fs) (p # ps)
      = (if found then [p] else []) @ matching_files lib sel (file fs) ps"
    using eff c by (simp add: matching_files_def)
  with Cons.IH [of fs1 claimed1 matched1] rest \<open>\<not> stop\<close> Cons.prems(2,3) eff same m p show ?case
    by (auto simp: AppendAddedPath_def c)
qed

lemma replace_keeps:
  assumes laws: "fs_laws wt file" and root: "Root wt = ''/''" and vis: "visible newDoc"
    and P: "\<forall>p \<in> P. rel_clean p"
  shows "keeps wt (replace_visitor lib wt sel newDoc None) P (\<lambda>st. ReadDir wt (fst st) = rd)"
  unfolding keeps_def
proof (intro allI impI)
  fix p c and st st' :: "'a \<times> ClaimedPaths \<times> string list"
  assume p: "p \<in> P" and rd: "ReadDir wt (fst st) = rd" and read: "ReadWorktreeFile wt (fst st) p = Inr c"
    and v: "replace_visitor lib wt sel newDoc None p c st = (Inr False, st')"
  obtain fs claimed matched fs' claimed' matched' where
    st: "st = (fs, claimed, matched)" "st' = (fs', claimed', matched')" by (metis prod.exhaust)
  from p P have p: "rel_clean p" by blast
  with read st have c: "file fs p = Some c" using fs_read [OF laws] by simp
  from v st obtain found where
    "applyReplacement lib wt p (worktreeRelativePath (Root wt) p) c sel newDoc None (fs, claimed)
      = (Inr found, fs', claimed')"
    by (auto elim: replace_visitor_ok)
  from applyReplacement_ok [OF laws p c vis this] rd st show "ReadDir wt (fst st') = rd" by simp
qed

text \<open>The full walk, in one statement: it returns, and what it does when it reports no error.\<close>

lemma full_replace_effect:
  assumes laws: "fs_laws wt file" and root: "Root wt = ''/''" and vis: "visible newDoc"
    and ps: "list_yaml (ReadDir wt fs) fuel ''/'' = Some ps" "distinct ps" "list_all rel_clean ps"
  shows "\<exists>r fs' cache'. full_replace lib ord wt fuel scope sel newDoc None (fs, cache) = Some (r, fs', cache') \<and>
    (\<forall>claimed. r = Inr claimed \<longrightarrow>
      Add claimed = matching_files lib sel (file fs) ps \<and> DeletePaths claimed = [] \<and>
      cache' = recordMatches ord scope sel (matching_files lib sel (file fs) ps) cache \<and>
      (\<forall>q. rel_clean q \<longrightarrow>
         file fs' q = (if q \<in> set ps then map_option (new_content lib sel newDoc) (file fs q) else file fs q)))"
proof -
  let ?v = "replace_visitor lib wt sel newDoc None" and ?st = "(fs, NewClaimedPaths, [])"
  have "keeps wt ?v (set ps) (\<lambda>st. ReadDir wt (fst st) = ReadDir wt fs)"
    using ps(3) by (intro replace_keeps [OF laws root vis]) (simp add: list_all_iff)
  then have w: "walkWorktreeFiles wt fuel ''/'' ?v ?st = Some (run_visits wt ?v ps ?st)"
    by (rule walk_run [OF _ _ ps(1)]) simp_all
  obtain r fs' claimed' matched' where run: "run_visits wt ?v ps ?st = (r, fs', claimed', matched')"
    by (metis prod.exhaust)
  have ne: "newDoc \<noteq> []" using vis by (auto simp: visible_def)
  show ?thesis
  proof (cases r)
    case (Inl e)
    with w run root show ?thesis by (simp add: full_replace_def)
  next
    case (Inr b)
    from run_replace [OF laws root vis run [unfolded Inr] ps(2,3)] w run root Inr ne show ?thesis
      by (simp add: full_replace_def NewClaimedPaths_def)
  qed
qed

definition doc_key :: "string \<Rightarrow> ObjectSelector \<Rightarrow> docCacheKey" where
  "doc_key scope sel = \<lparr>CkScope = scope, CkSel = sel\<rparr>"

lemma ReplaceObject_miss:
  assumes "case view cache (doc_key scope sel) of None \<Rightarrow> True | Some v \<Rightarrow> NoCache v"
  shows "ReplaceObject lib ord wt fuel scope sel newDoc t (fs, cache) =
    full_replace lib ord wt fuel scope sel newDoc t (fs, snd (Get cache (doc_key scope sel)))"
proof -
  obtain hit cache1 where g: "Get cache (doc_key scope sel) = (hit, cache1)" by (rule prod.exhaust)
  then have "hit = view cache (doc_key scope sel)" by (metis Get_view(1) fst_conv)
  with assms g show ?thesis by (auto simp: ReplaceObject_def doc_key_def Let_def split: option.splits)
qed

lemma ReplaceObject_hit:
  assumes "view cache (doc_key scope sel) = Some v" and "\<not> NoCache v"
    and "ReadWorktreeFile wt fs (CvPath v) = Inr c"
    and "matches_file lib sel c"
    and "applyReplacement lib wt (CvPath v) (CvPath v) c sel newDoc None (fs, NewClaimedPaths)
      = (Inr found, fs', claimed)" and "newDoc \<noteq> []"
  shows "ReplaceObject lib ord wt fuel scope sel newDoc None (fs, cache) =
    Some (Inr claimed, fs', snd (Get cache (doc_key scope sel)))"
proof -
  obtain hit cache1 where g: "Get cache (doc_key scope sel) = (hit, cache1)" by (rule prod.exhaust)
  then have hit: "hit = Some v" using assms(1) by (metis Get_view(1) fst_conv)
  from assms(4,5) have "found"
    by (auto simp: applyReplacement_def Replace_None_transform Let_def split: if_splits prod.splits option.splits)
  with assms g hit show ?thesis by (simp add: ReplaceObject_def doc_key_def Let_def)
qed

lemma recordMatches_view:
  assumes "lfu_inv cache" and "enabled cache"
  shows "view (recordMatches ord scope sel ms cache) (doc_key scope sel) =
    (case ms of [] \<Rightarrow> None | [p] \<Rightarrow> Some \<lparr>CvPath = p, NoCache = False\<rparr>
     | _ \<Rightarrow> Some \<lparr>CvPath = '''', NoCache = True\<rparr>)"
  using assms(2)
  by (cases ms; cases "tl ms")
    (simp_all add: recordMatches_def doc_key_def lfu.put_same [OF assms(1)] lfu.del_look Let_def)

subsection \<open>Properties\<close>

text \<open>
  C19. Without a trusted cache entry, \<open>ReplaceObject\<close> returns on every worktree whose directory
  depth is within the fuel, and when it reports no error it has rewritten the object in every YAML file
  that holds it, claimed exactly those files in the order of the walk, left every other
  file alone, and remembered the location only if there was exactly one.
\<close>

theorem ReplaceObject_rewrites_every_copy:
  assumes "fs_laws wt file" and "Root wt = ''/''" and "visible newDoc"
    and "list_yaml (ReadDir wt fs) fuel ''/'' = Some ps" and "distinct ps" and "list_all rel_clean ps"
    and "case view cache (doc_key scope sel) of None \<Rightarrow> True | Some v \<Rightarrow> NoCache v"
    and "lfu_inv cache" and "enabled cache"
  shows "\<exists>r fs' cache'. ReplaceObject lib ord wt fuel scope sel newDoc None (fs, cache) = Some (r, fs', cache') \<and>
    (\<forall>claimed. r = Inr claimed \<longrightarrow>
      Add claimed = matching_files lib sel (file fs) ps \<and> DeletePaths claimed = [] \<and>
      (\<forall>q. rel_clean q \<longrightarrow>
         file fs' q = (if q \<in> set ps then map_option (new_content lib sel newDoc) (file fs q) else file fs q)) \<and>
      view cache' (doc_key scope sel) = (case matching_files lib sel (file fs) ps of
          [] \<Rightarrow> None
        | [p] \<Rightarrow> Some \<lparr>CvPath = p, NoCache = False\<rparr>
        | _ \<Rightarrow> Some \<lparr>CvPath = '''', NoCache = True\<rparr>))"
proof -
  let ?c = "snd (Get cache (doc_key scope sel))"
  have "lfu_inv ?c" "enabled ?c" using assms(8,9) by (simp_all add: Get_inv)
  note rv = recordMatches_view [OF this]
  from full_replace_effect [OF assms(1-6), of lib ord scope sel ?c] obtain r fs' cache' where
    e: "full_replace lib ord wt fuel scope sel newDoc None (fs, ?c) = Some (r, fs', cache')"
    and "\<forall>claimed. r = Inr claimed \<longrightarrow>
      Add claimed = matching_files lib sel (file fs) ps \<and> DeletePaths claimed = [] \<and>
      cache' = recordMatches ord scope sel (matching_files lib sel (file fs) ps) ?c \<and>
      (\<forall>q. rel_clean q \<longrightarrow>
         file fs' q = (if q \<in> set ps then map_option (new_content lib sel newDoc) (file fs q) else file fs q))"
    by blast
  moreover from e have "ReplaceObject lib ord wt fuel scope sel newDoc None (fs, cache) = Some (r, fs', cache')"
    by (simp only: ReplaceObject_miss [OF assms(7)])
  ultimately show ?thesis using rv by (intro exI [of _ r] exI [of _ fs'] exI [of _ cache']) simp
qed

text \<open>
  A write to an explicit path changes that file alone: it replaces the object's document
  in place when the file holds it, appends a document when the file does not, and creates the
  file when there is none; it claims exactly the cleaned path.
\<close>

theorem WriteObjectAtPath_effect:
  assumes "fs_laws wt file" and "rel_clean (Clean path)" and "content \<noteq> ''''"
    and "WriteObjectAtPath lib wt path sel content None fs = (Inr claimed, fs')"
  shows "claimed = \<lparr>Add = [Clean path], DeletePaths = []\<rparr> \<and>
    (\<forall>q. rel_clean q \<longrightarrow> q \<noteq> Clean path \<longrightarrow> file fs' q = file fs q) \<and>
    file fs' (Clean path) = Some (case file fs (Clean path) of
        None \<Rightarrow> if matches_file lib sel '''' then new_content lib sel content '''' else content
      | Some c \<Rightarrow> if matches_file lib sel c then new_content lib sel content c else appendDoc c content)"
proof -
  let ?p = "Clean path"
  define old where "old = (case ReadWorktreeFile wt fs ?p of Inl _ \<Rightarrow> '''' | Inr c \<Rightarrow> c)"
  define out where "out = (if matches_file lib sel old then new_content lib sel content old
    else case ReadWorktreeFile wt fs ?p of Inr c \<Rightarrow> appendDoc c content | Inl _ \<Rightarrow> content)"
  have eq: "WriteObjectAtPath lib wt path sel content None fs =
      (case WriteWorktreeFile wt ?p out fs of
         (Some werr, fs1) \<Rightarrow> (Inl werr, fs1)
       | (None, fs1) \<Rightarrow> (Inr (AppendAddedPath ?p NewClaimedPaths), fs1))"
    using assms(3) unfolding out_def old_def
    by (cases "ReadWorktreeFile wt fs ?p")
      (simp_all add: WriteObjectAtPath_def Let_def Replace_None_transform Apply_def)
  with assms(4) have w: "WriteWorktreeFile wt ?p out fs = (None, fs')"
    and cl: "claimed = AppendAddedPath ?p NewClaimedPaths"
    by (auto split: prod.splits option.splits)
  have "out = (case file fs ?p of
        None \<Rightarrow> if matches_file lib sel '''' then new_content lib sel content '''' else content
      | Some c \<Rightarrow> if matches_file lib sel c then new_content lib sel content c else appendDoc c content)"
  proof (cases "ReadWorktreeFile wt fs ?p")
    case (Inl e)
    then have "file fs ?p = None" using fs_read [OF assms(1,2), of fs] by (metis not_Some_eq sum.distinct(1))
    with Inl show ?thesis by (simp add: out_def old_def)
  next
    case (Inr c)
    then have "file fs ?p = Some c" using fs_read [OF assms(1,2)] by simp
    with Inr show ?thesis by (simp add: out_def old_def)
  qed
  with fs_write(1) [OF assms(1,2) w] cl assms(2) show ?thesis
    by (simp add: AppendAddedPath_def NewClaimedPaths_def)
qed

text \<open>
  A remembered location that still holds the object is trusted: only that file is
  rewritten and claimed.  That is the outcome of the full walk exactly when no other file holds a
  copy; a copy added to a second file after the location was remembered is not rewritten.
\<close>

theorem ReplaceObject_trusts_remembered_path:
  assumes "fs_laws wt file" and "rel_clean p" and "visible newDoc"
    and "view cache (doc_key scope sel) = Some \<lparr>CvPath = p, NoCache = False\<rparr>"
    and "file fs p = Some c" and "matches_file lib sel c"
    and "ReplaceObject lib ord wt fuel scope sel newDoc None (fs, cache) = Some (Inr claimed, fs', cache')"
  shows "Add claimed = [p] \<and> DeletePaths claimed = [] \<and>
    (\<forall>q. rel_clean q \<longrightarrow> file fs' q = (if q = p then Some (new_content lib sel newDoc c) else file fs q))"
proof -
  have read: "ReadWorktreeFile wt fs p = Inr c" using fs_read [OF assms(1,2)] assms(5) by simp
  have ne: "newDoc \<noteq> []" using assms(3) by (auto simp: visible_def)
  obtain r fs1 cl where a: "applyReplacement lib wt p p c sel newDoc None (fs, NewClaimedPaths) = (r, fs1, cl)"
    by (metis prod.exhaust)
  obtain hit cache1 where g: "Get cache (doc_key scope sel) = (hit, cache1)" by (rule prod.exhaust)
  then have hit: "hit = Some \<lparr>CvPath = p, NoCache = False\<rparr>" using assms(4) by (metis Get_view(1) fst_conv)
  have "\<exists>found. r = Inr found"
    using a g hit read assms(7) by (cases r) (simp_all add: ReplaceObject_def doc_key_def Let_def)
  then obtain found where "r = Inr found" ..
  with a have a: "applyReplacement lib wt p p c sel newDoc None (fs, NewClaimedPaths) = (Inr found, fs1, cl)"
    by simp
  from ReplaceObject_hit [OF assms(4) _ _ assms(6) _ ne, of wt fs found fs1 cl ord fuel] read a assms(7)
  have "claimed = cl" "fs' = fs1" by simp_all
  with applyReplacement_ok [OF assms(1,2,5,3) a] assms(6) show ?thesis
    by (simp add: AppendAddedPath_def NewClaimedPaths_def)
qed

text \<open>The first matching document of a list of files.\<close>

fun first_object :: "docs_lib \<Rightarrow> ObjectSelector \<Rightarrow> (string \<Rightarrow> string option) \<Rightarrow> string list \<Rightarrow> (string \<times> string) option" where
  "first_object lib sel f [] = None"
| "first_object lib sel f (p # ps) =
     (case f p of
        None \<Rightarrow> None
      | Some c \<Rightarrow> (case find (\<lambda>d. matchDoc lib d sel) (Split c docSeparator) of
          Some d \<Rightarrow> Some (p, d)
        | None \<Rightarrow> first_object lib sel f ps))"

definition find_visitor :: "docs_lib \<Rightarrow> 'fs billy \<Rightarrow> ObjectSelector \<Rightarrow> ('fs, (string \<times> string) option) visitor" where
  "find_visitor lib wt sel p content =
     visit_docs (\<lambda>p rawDoc (fs1, acc).
         if \<not> matchDoc lib rawDoc sel then (Inr (False, True), fs1, acc)
         else (Inr (True, False), fs1, Some (worktreeRelativePath (Root wt) p, rawDoc))) p (Split content docSeparator)"

lemma visit_docs_find:
  "visit_docs (\<lambda>p rawDoc (fs1, acc).
         if \<not> matchDoc lib rawDoc sel then (Inr (False, True), fs1, acc)
         else (Inr (True, False), fs1, Some (g p, rawDoc))) p ds (fs, acc) =
   (case find (\<lambda>d. matchDoc lib d sel) ds of
      None \<Rightarrow> (Inr False, fs, acc) | Some d \<Rightarrow> (Inr True, fs, Some (g p, d)))"
  by (induction ds) auto

lemma find_visitor_fst: "fst (snd (find_visitor lib wt sel p c st)) = fst st"
  by (cases st) (simp add: find_visitor_def visit_docs_find split: option.splits)

lemma run_find:
  assumes "fs_laws wt file" and "Root wt = ''/''"
  shows "list_all rel_clean ps \<Longrightarrow> list_all (\<lambda>p. file fs p \<noteq> None) ps \<Longrightarrow>
    run_visits wt (find_visitor lib wt sel) ps (fs, None) =
      (Inr (first_object lib sel (file fs) ps \<noteq> None), fs, first_object lib sel (file fs) ps)"
proof (induction ps)
  case Nil
  then show ?case by simp
next
  case (Cons p ps)
  then obtain c where c: "file fs p = Some c" by auto
  with Cons.prems have "ReadWorktreeFile wt fs p = Inr c" using fs_read [OF assms(1)] by simp
  with Cons c show ?case
    by (cases "find (\<lambda>d. matchDoc lib d sel) (Split c docSeparator)")
      (simp_all add: find_visitor_def visit_docs_find root_relative assms(2))
qed

text \<open>
  \<open>FindObject\<close> returns on every worktree whose depth is within the fuel, and it finds the first
  matching document of the first file, in the order of the walk, that holds one.
\<close>

theorem FindObject_first_match:
  assumes "fs_laws wt file" and "Root wt = ''/''"
    and "list_yaml (ReadDir wt fs) fuel ''/'' = Some ps" and "list_all rel_clean ps"
    and "list_all (\<lambda>p. file fs p \<noteq> None) ps"
  shows "FindObject lib wt fuel sel fs = Some (None, first_object lib sel (file fs) ps)"
proof -
  have "keeps wt (find_visitor lib wt sel) (set ps) (\<lambda>st. ReadDir wt (fst st) = ReadDir wt fs)"
    unfolding keeps_def using find_visitor_fst by (metis snd_conv)
  then have "walkWorktreeFiles wt fuel ''/'' (find_visitor lib wt sel) (fs, None)
      = Some (run_visits wt (find_visitor lib wt sel) ps (fs, None))"
    by (rule walk_run [OF _ _ assms(3)]) simp_all
  moreover have "FindObject lib wt fuel sel fs = map_option (\<lambda>x. (case fst x of Inl e \<Rightarrow> Some e | Inr _ \<Rightarrow> None, snd (snd x)))
        (walkWorktreeFiles wt fuel (Root wt) (find_visitor lib wt sel) (fs, None))"
    by (simp add: FindObject_def WalkWorktreeYAML_def find_visitor_def [abs_def] option.map_comp
        o_def split_beta)
  ultimately show ?thesis
    using run_find [OF assms(1,2,4,5), of lib sel] assms(2) by simp
qed

subsection \<open>Witnesses\<close>

text \<open>An in-memory filesystem, the files in creation order, in which every other path is a directory.\<close>

fun put_file :: "string \<Rightarrow> string \<Rightarrow> (string \<times> string) list \<Rightarrow> (string \<times> string) list" where
  "put_file p c [] = [(p, c)]"
| "put_file p c ((q, d) # fs) = (if q = p then (p, c) # fs else (q, d) # put_file p c fs)"

definition mem_children :: "string \<Rightarrow> string list \<Rightarrow> (string \<times> bool) list" where
  "mem_children base ps =
     (let pre = (if base = ''/'' \<or> base = '''' then '''' else base @ ''/'');
          below = map (\<lambda>p. drop (length pre) p) (filter (\<lambda>p. HasPrefix p pre) ps)
      in remdups (map (\<lambda>r. let (n, _, dir) = Cut r ''/'' in (n, dir)) below))"

definition memfs :: "(string \<times> string) list billy" where
  "memfs = \<lparr>Root = ''/'',
     Stat = (\<lambda>fs p. if map_of fs p = None then IsDirectory else IsFile),
     ReadDir = (\<lambda>fs base. Inr (mem_children base (map fst fs))),
     OpenRead = (\<lambda>fs p. case map_of fs p of None \<Rightarrow> Inl (PlainError ''file does not exist'') | Some c \<Rightarrow> Inr c),
     MkdirAll = (\<lambda>_ fs. (None, fs)),
     CreateWrite = (\<lambda>p c fs. (None, put_file p c fs)),
     Remove = (\<lambda>p fs. (None, alist_del p fs))\<rparr>"

lemma map_of_put_file: "map_of (put_file p c fs) = (map_of fs)(p \<mapsto> c)"
  by (induction fs) auto

lemma put_file_keys: "map_of fs p \<noteq> None \<Longrightarrow> map fst (put_file p c fs) = map fst fs"
  by (induction fs) auto

lemma memfs_laws: "fs_laws memfs map_of"
  by (auto simp: fs_laws_def memfs_def map_of_put_file put_file_keys fun_eq_iff
      split: option.splits)

definition demo_fs :: "(string \<times> string) list" where
  "demo_fs = [(''README.md'', ''x''), (''apps/a.yaml'', two_line_doc ''Pod'' ''a'' ''x''),
     (''apps/b.yaml'', two_line_file), (''c.yml'', two_line_doc ''Pod'' ''b'' ''old'')]"

definition demo_new :: string where
  "demo_new = two_line_doc ''Pod'' ''b'' ''new''"

lemma demo_facts:
  "list_yaml (ReadDir memfs demo_fs) 2 ''/'' = Some [''apps/a.yaml'', ''apps/b.yaml'', ''c.yml'']"
  "list_all rel_clean [''apps/a.yaml'', ''apps/b.yaml'', ''c.yml'']"
  "visible demo_new"
  by code_simp+

lemma demo_root: "Root memfs = ''/''"
  by (simp add: memfs_def)

lemma demo_matching:
  "matching_files two_line_lib two_line_sel (map_of demo_fs) [''apps/a.yaml'', ''apps/b.yaml'', ''c.yml'']
     = [''apps/b.yaml'', ''c.yml'']"
  by code_simp

lemma demo_cache: "lfu_inv (NewLFU 4 :: docCache)" "enabled (NewLFU 4 :: docCache)"
  "view (NewLFU 4 :: docCache) k = None"
  by (rule NewLFU_inv) (simp_all add: enabled_def NewLFU_def view_def)

theorem ReplaceObject_rewrites_every_copy_witness:
  "\<exists>r fs' cache'. ReplaceObject two_line_lib (\<lambda>_ _. 0) memfs 2 ''repo#main'' two_line_sel demo_new None
      (demo_fs, NewLFU 4) = Some (r, fs', cache') \<and>
    (\<forall>claimed. r = Inr claimed \<longrightarrow> Add claimed = [''apps/b.yaml'', ''c.yml''])"
proof -
  have "case view (NewLFU 4 :: docCache) (doc_key ''repo#main'' two_line_sel) of None \<Rightarrow> True | Some v \<Rightarrow> NoCache v"
    by (simp add: demo_cache)
  from ReplaceObject_rewrites_every_copy [OF memfs_laws demo_root demo_facts(3,1) _ demo_facts(2) this
      demo_cache(1,2), of two_line_lib "\<lambda>_ _. 0"]
  show ?thesis unfolding demo_matching by auto
qed

theorem ReplaceObject_trusts_remembered_path_witness:
  "\<exists>claimed fs' cache'. ReplaceObject two_line_lib (\<lambda>_ _. 0) memfs 2 ''repo#main'' two_line_sel demo_new None
      (demo_fs, Set (\<lambda>_ _. 0) (NewLFU 4) (doc_key ''repo#main'' two_line_sel) \<lparr>CvPath = ''c.yml'', NoCache = False\<rparr>)
      = Some (Inr claimed, fs', cache') \<and> Add claimed = [''c.yml''] \<and>
      map_of fs' ''apps/b.yaml'' = Some two_line_file"
proof -
  let ?key = "doc_key ''repo#main'' two_line_sel"
  let ?cache = "Set (\<lambda>_ _. 0) (NewLFU 4) ?key \<lparr>CvPath = ''c.yml'', NoCache = False\<rparr>"
  let ?c = "two_line_doc ''Pod'' ''b'' ''old''"
  have look: "view ?cache ?key = Some \<lparr>CvPath = ''c.yml'', NoCache = False\<rparr>"
    using lfu.put_same [OF demo_cache(1)] demo_cache(2) by simp
  have fl: "map_of demo_fs ''c.yml'' = Some ?c" "map_of demo_fs ''apps/b.yaml'' = Some two_line_file"
    by (simp_all add: demo_fs_def)
  have m: "matches_file two_line_lib two_line_sel ?c" by code_simp
  have p: "rel_clean ''c.yml''" "rel_clean ''apps/b.yaml''" by code_simp+
  have rd: "ReadWorktreeFile memfs demo_fs ''c.yml'' = Inr ?c" using fl(1) by (simp add: ReadWorktreeFile_def memfs_def)
  have "fst (applyReplacement two_line_lib memfs ''c.yml'' ''c.yml'' ?c two_line_sel demo_new None (demo_fs, NewClaimedPaths)) = Inr True"
    by code_simp
  then obtain fs1 cl where
    a: "applyReplacement two_line_lib memfs ''c.yml'' ''c.yml'' ?c two_line_sel demo_new None (demo_fs, NewClaimedPaths)
      = (Inr True, fs1, cl)"
    by (metis prod.collapse)
  have ne: "demo_new \<noteq> []" by (simp add: demo_new_def two_line_doc_def)
  from ReplaceObject_hit [OF look _ _ m _ ne, of memfs demo_fs True fs1 cl "\<lambda>_ _. 0" 2] rd a
  have r: "ReplaceObject two_line_lib (\<lambda>_ _. 0) memfs 2 ''repo#main'' two_line_sel demo_new None (demo_fs, ?cache)
    = Some (Inr cl, fs1, snd (Get ?cache ?key))" by simp
  from ReplaceObject_trusts_remembered_path [OF memfs_laws p(1) demo_facts(3) look fl(1) m r]
  have "Add cl = [''c.yml'']" "map_of fs1 ''apps/b.yaml'' = Some two_line_file"
    using p(2) fl(2) by simp_all
  with r show ?thesis by blast
qed

theorem FindObject_first_match_witness:
  "FindObject two_line_lib memfs 2 two_line_sel demo_fs =
     Some (None, Some (''apps/b.yaml'', two_line_doc ''Pod'' ''b'' ''y''))"
proof -
  have "first_object two_line_lib two_line_sel (map_of demo_fs) [''apps/a.yaml'', ''apps/b.yaml'', ''c.yml'']
    = Some (''apps/b.yaml'', two_line_doc ''Pod'' ''b'' ''y'')" by code_simp
  moreover have "list_all (\<lambda>p. map_of demo_fs p \<noteq> None) [''apps/a.yaml'', ''apps/b.yaml'', ''c.yml'']"
    by (simp add: demo_fs_def)
  ultimately show ?thesis
    using FindObject_first_match [OF memfs_laws demo_root demo_facts(1,2), of two_line_lib two_line_sel] by simp
qed

theorem WriteObjectAtPath_effect_witness:
  "\<exists>claimed fs'. WriteObjectAtPath two_line_lib memfs ''./new/d.yaml'' two_line_sel demo_new None demo_fs
     = (Inr claimed, fs') \<and> Add claimed = [''new/d.yaml''] \<and> map_of fs' ''c.yml'' = map_of demo_fs ''c.yml''"
proof -
  have c: "Clean ''./new/d.yaml'' = ''new/d.yaml''" "rel_clean (Clean ''./new/d.yaml'')" "rel_clean ''c.yml''"
    by code_simp+
  have ne: "demo_new \<noteq> ''''" by (simp add: demo_new_def two_line_doc_def)
  have "fst (WriteObjectAtPath two_line_lib memfs ''./new/d.yaml'' two_line_sel demo_new None demo_fs)
    = Inr \<lparr>Add = [''new/d.yaml''], DeletePaths = []\<rparr>" by code_simp
  then obtain claimed fs' where
    w: "WriteObjectAtPath two_line_lib memfs ''./new/d.yaml'' two_line_sel demo_new None demo_fs = (Inr claimed, fs')"
    by (metis prod.collapse)
  from WriteObjectAtPath_effect [OF memfs_laws c(2) ne w] c w show ?thesis by auto
qed

end
