(* ===== verification/Kube_Client.thy ===== *)
theory Kube_Client
  imports Syncer_Context
begin

text \<open>
  The Kubernetes API as the program calls it.  The API server is not part of the program:
  its calls are the parameter \<open>client\<close>, records of functions over a cluster state \<open>'w\<close>.  Reads do
  not change the state; writes return the new one.  \<open>store_laws\<close> names what the properties rely
  on for one kind of object.  Label selectors are evaluated by the Kubernetes library,
  the parameter \<open>SelectorAs\<close>, which gives an error text or a predicate on labels and tells
  whether the selector is empty.
\<close>

record Secret =
  SecretMeta :: ObjectMeta
  SecretType :: string
  SecretData :: labels

record ConfigMap =
  CmMeta :: ObjectMeta
  CmData :: labels

record ResourceAttributes =
  AttrNamespace :: string
  AttrVerb :: string
  AttrGroup :: string
  AttrVersion :: string
  AttrResource :: string
  AttrName :: string

type_synonym selector = "labels \<Rightarrow> bool"

record ('w, 'a) kind_api =
  kget :: "'w \<Rightarrow> NamespacedName \<Rightarrow> api_error + 'a"
  klist :: "'w \<Rightarrow> string \<Rightarrow> selector option \<Rightarrow> api_error + 'a list"
  kcreate :: "'a \<Rightarrow> 'w \<Rightarrow> api_error option \<times> 'w"
  kupdate :: "'a \<Rightarrow> 'w \<Rightarrow> api_error option \<times> 'w"
  kstatus :: "'a \<Rightarrow> 'w \<Rightarrow> api_error option \<times> 'w"
  kdelete :: "'a \<Rightarrow> 'w \<Rightarrow> api_error option \<times> 'w"

record 'w client =
  RemoteUserBindings :: "('w, RemoteUserBinding) kind_api"
  RemoteUsers :: "('w, RemoteUser) kind_api"
  RemoteTargets :: "('w, RemoteTarget) kind_api"
  RemoteSyncers :: "('w, RemoteSyncer) kind_api"
  ClusterWideRemoteSyncers :: "('w, ClusterWideRemoteSyncer) kind_api"
  Secrets :: "('w, Secret) kind_api"
  ConfigMaps :: "('w, ConfigMap) kind_api"
  Namespaces :: "'w \<Rightarrow> selector \<Rightarrow> api_error + string list"
  AccessReview :: "'w \<Rightarrow> UserInfo \<Rightarrow> ResourceAttributes \<Rightarrow> api_error + bool"
  SelectorAs :: "LabelSelector \<Rightarrow> string + selector"
  SelectorEmpty :: "LabelSelector \<Rightarrow> bool"

definition nsn :: "string \<Rightarrow> string \<Rightarrow> NamespacedName" where
  "nsn ns n = \<lparr>NsnNamespace = ns, NsnName = n\<rparr>"

definition key_of :: "('s, 't) kobj \<Rightarrow> NamespacedName" where
  "key_of x = nsn (Namespace (Meta x)) (Name (Meta x))"

lemma nsn_inject [simp]: "nsn a b = nsn c d \<longleftrightarrow> a = c \<and> b = d"
  by (simp add: nsn_def)

definition same_desired :: "('s, 't) kobj \<Rightarrow> ('s, 't) kobj \<Rightarrow> bool" where
  \<comment> \<open>Equal in what a client writes; the server sets the other fields.\<close>
  "same_desired x y \<longleftrightarrow> key_of y = key_of x \<and> Spec y = Spec x \<and> Labels (Meta y) = Labels (Meta x) \<and>
     Annotations (Meta y) = Annotations (Meta x) \<and> Finalizers (Meta y) = Finalizers (Meta x)"

text \<open>
  \<open>obj w k\<close> is the object stored under \<open>k\<close>.  A get reads it, a list returns the stored
  objects of the namespace (of all when it is empty) whose labels the selector accepts,
  a successful write stores or drops its own object alone and a failed one changes nothing.
  A creation needs a free name, and a deletion removes an object that has no finalizers.
\<close>

definition store_laws ::
  "('w, ('s, 't) kobj) kind_api \<Rightarrow> ('w \<Rightarrow> NamespacedName \<Rightarrow> ('s, 't) kobj option) \<Rightarrow> bool" where
  "store_laws api obj \<longleftrightarrow>
     (\<forall>w k x. kget api w k = Inr x \<longrightarrow> obj w k = Some x) \<and>
     (\<forall>w k. kget api w k = Inl NotFound \<longrightarrow> obj w k = None) \<and>
     (\<forall>w k x. obj w k = Some x \<longrightarrow> key_of x = k) \<and>
     (\<forall>w ns sel xs. klist api w ns sel = Inr xs \<longrightarrow>
        set xs = {x. \<exists>k. obj w k = Some x \<and> (ns = '''' \<or> Namespace (Meta x) = ns) \<and>
                     (case sel of None \<Rightarrow> True | Some p \<Rightarrow> p (Labels (Meta x)))}) \<and>
     (\<forall>x w w'. kcreate api x w = (None, w') \<longrightarrow>
        (\<exists>y. same_desired x y \<and> obj w' = (obj w)(key_of x := Some y))) \<and>
     (\<forall>x w w'. kupdate api x w = (None, w') \<longrightarrow> DeletionTimestamp (Meta x) = None \<longrightarrow>
        (\<exists>y. same_desired x y \<and> obj w' = (obj w)(key_of x := Some y))) \<and>
     (\<forall>x w w'. kdelete api x w = (None, w') \<longrightarrow>
        (\<forall>y. obj w (key_of x) = Some y \<longrightarrow> Finalizers (Meta y) = []) \<longrightarrow>
        obj w' = (obj w)(key_of x := None)) \<and>
     (\<forall>x w w' e. kcreate api x w = (Some e, w') \<longrightarrow> obj w' = obj w) \<and>
     (\<forall>x w w'. kcreate api x w = (Some AlreadyExists, w') \<longrightarrow> obj w (key_of x) \<noteq> None) \<and>
     (\<forall>x w w' e. kupdate api x w = (Some e, w') \<longrightarrow> obj w' = obj w) \<and>
     (\<forall>x w w' e. kdelete api x w = (Some e, w') \<longrightarrow> obj w' = obj w) \<and>
     (\<forall>x w w'. kcreate api x w = (None, w') \<longrightarrow> obj w (key_of x) = None) \<and>
     (\<forall>x w r w' k. kupdate api x w = (r, w') \<longrightarrow> k \<noteq> key_of x \<longrightarrow> obj w' k = obj w k) \<and>
     (\<forall>x w r w' k. kdelete api x w = (r, w') \<longrightarrow> k \<noteq> key_of x \<longrightarrow> obj w' k = obj w k)"

lemma store_get:
  assumes "store_laws api obj"
  shows "kget api w k = Inr x \<Longrightarrow> obj w k = Some x"
    and "kget api w k = Inl NotFound \<Longrightarrow> obj w k = None"
    and "obj w k = Some x \<Longrightarrow> key_of x = k"
  using assms unfolding store_laws_def by metis+

lemma store_create:
  assumes "store_laws api obj" and "kcreate api x w = (None, w')"
  obtains y where "same_desired x y" "obj w' = (obj w)(key_of x := Some y)"
  using assms unfolding store_laws_def by metis

lemma store_update:
  assumes "store_laws api obj" and "kupdate api x w = (None, w')" and "DeletionTimestamp (Meta x) = None"
  obtains y where "same_desired x y" "obj w' = (obj w)(key_of x := Some y)"
  using assms unfolding store_laws_def by metis

lemma store_failed:
  assumes "store_laws api obj"
  shows "kcreate api x w = (Some e, w') \<Longrightarrow> obj w' = obj w"
    and "kcreate api x w = (Some AlreadyExists, w') \<Longrightarrow> obj w (key_of x) \<noteq> None"
    and "kupdate api x w = (Some e, w') \<Longrightarrow> obj w' = obj w"
    and "kdelete api x w = (Some e, w') \<Longrightarrow> obj w' = obj w"
  using assms unfolding store_laws_def by metis+

lemma store_others:
  assumes "store_laws api obj"
  shows "kcreate api x w = (None, w') \<Longrightarrow> obj w (key_of x) = None"
    and "kupdate api x w = (r, w') \<Longrightarrow> k \<noteq> key_of x \<Longrightarrow> obj w' k = obj w k"
    and "kdelete api x w = (r, w') \<Longrightarrow> k \<noteq> key_of x \<Longrightarrow> obj w' k = obj w k"
  using assms unfolding store_laws_def by metis+

lemma store_list:
  assumes "store_laws api obj" and "klist api w ns sel = Inr xs"
  shows "x \<in> set xs \<longleftrightarrow> obj w (key_of x) = Some x \<and> (ns = '''' \<or> Namespace (Meta x) = ns) \<and>
    (case sel of None \<Rightarrow> True | Some p \<Rightarrow> p (Labels (Meta x)))"
proof -
  have "set xs = {x. \<exists>k. obj w k = Some x \<and> (ns = '''' \<or> Namespace (Meta x) = ns) \<and>
      (case sel of None \<Rightarrow> True | Some p \<Rightarrow> p (Labels (Meta x)))}"
    using assms(1) [unfolded store_laws_def, THEN conjunct2, THEN conjunct2, THEN conjunct2, THEN conjunct1] assms(2) by blast
  then show ?thesis using store_get(3) [OF assms(1)] by auto
qed

text \<open>
  \<open>RetryOnConflict\<close> of the client library runs a function again while it reports a
  conflict.  With \<open>n\<close> steps it runs it at most \<open>n\<close> times.
\<close>

fun retry_on_conflict :: "nat \<Rightarrow> ('w \<Rightarrow> api_error option \<times> 'w) \<Rightarrow> 'w \<Rightarrow> api_error option \<times> 'w" where
  "retry_on_conflict 0 f w = (Some Conflict, w)"
| "retry_on_conflict (Suc 0) f w = f w"
| "retry_on_conflict (Suc (Suc n)) f w =
     (case f w of
        (Some Conflict, w1) \<Rightarrow> retry_on_conflict (Suc n) f w1
      | r \<Rightarrow> r)"

text \<open>A kind without objects, and a client of such kinds that answers every review alike.\<close>

definition no_api :: "('w, 'a) kind_api" where
  "no_api = \<lparr>kget = (\<lambda>_ _. Inl NotFound), klist = (\<lambda>_ _ _. Inr []), kcreate = (\<lambda>_ w. (Some Forbidden, w)),
     kupdate = (\<lambda>_ w. (Some NotFound, w)), kstatus = (\<lambda>_ w. (Some NotFound, w)), kdelete = (\<lambda>_ w. (Some NotFound, w))\<rparr>"

definition flat_client :: "(UserInfo \<Rightarrow> ResourceAttributes \<Rightarrow> bool) \<Rightarrow> 'w client" where
  "flat_client review = \<lparr>RemoteUserBindings = no_api, RemoteUsers = no_api, RemoteTargets = no_api,
     RemoteSyncers = no_api, ClusterWideRemoteSyncers = no_api, Secrets = no_api, ConfigMaps = no_api,
     Namespaces = (\<lambda>_ _. Inr []), AccessReview = (\<lambda>_ user attrs. Inr (review user attrs)),
     SelectorAs = (\<lambda>_. Inr (\<lambda>_. True)), SelectorEmpty = (\<lambda>_. False)\<rparr>"

text \<open>A kind with a fixed list of objects, which no client may write.\<close>

definition read_api :: "('s, 't) kobj list \<Rightarrow> ('w, ('s, 't) kobj) kind_api" where
  "read_api xs = no_api\<lparr>
     kget := (\<lambda>_ k. case find (\<lambda>x. key_of x = k) xs of None \<Rightarrow> Inl NotFound | Some x \<Rightarrow> Inr x),
     klist := (\<lambda>_ ns sel. Inr (filter (\<lambda>x. (ns = '''' \<or> Namespace (Meta x) = ns) \<and>
        (case sel of None \<Rightarrow> True | Some p \<Rightarrow> p (Labels (Meta x)))) xs))\<rparr>"

definition stored_in :: "('s, 't) kobj list \<Rightarrow> 'w \<Rightarrow> NamespacedName \<Rightarrow> ('s, 't) kobj option" where
  "stored_in xs w k = find (\<lambda>x. key_of x = k) xs"

lemma find_by_key: "distinct (map key_of xs) \<Longrightarrow> find (\<lambda>x. key_of x = k) xs = Some y \<longleftrightarrow> y \<in> set xs \<and> key_of y = k"
  by (induction xs) (auto simp: image_iff)

lemma read_api_laws:
  assumes "distinct (map key_of xs)"
  shows "store_laws (read_api xs) (stored_in xs)"
  unfolding store_laws_def stored_in_def read_api_def no_api_def
  by (auto simp: find_by_key [OF assms] split: option.splits)

text \<open>A kind whose objects are the cluster state itself, and which clients may write.\<close>

definition mem_obj :: "('s, 't) kobj list \<Rightarrow> NamespacedName \<Rightarrow> ('s, 't) kobj option" where
  "mem_obj w k = find (\<lambda>x. key_of x = k) w"

definition mem_put :: "('s, 't) kobj \<Rightarrow> ('s, 't) kobj list \<Rightarrow> ('s, 't) kobj list" where
  "mem_put x w = x # filter (\<lambda>y. key_of y \<noteq> key_of x) w"

definition mem_api :: "(('s, 't) kobj list, ('s, 't) kobj) kind_api" where
  "mem_api = \<lparr>
     kget = (\<lambda>w k. case mem_obj w k of None \<Rightarrow> Inl NotFound | Some x \<Rightarrow> Inr x),
     klist = (\<lambda>w ns sel. Inr (filter (\<lambda>x. mem_obj w (key_of x) = Some x \<and> (ns = '''' \<or> Namespace (Meta x) = ns) \<and>
        (case sel of None \<Rightarrow> True | Some p \<Rightarrow> p (Labels (Meta x)))) w)),
     kcreate = (\<lambda>x w. if mem_obj w (key_of x) = None then (None, mem_put x w) else (Some AlreadyExists, w)),
     kupdate = (\<lambda>x w. if mem_obj w (key_of x) = None then (Some NotFound, w) else (None, mem_put x w)),
     kstatus = (\<lambda>x w. if mem_obj w (key_of x) = None then (Some NotFound, w) else (None, mem_put x w)),
     kdelete = (\<lambda>x w. if mem_obj w (key_of x) = None then (Some NotFound, w)
        else (None, filter (\<lambda>y. key_of y \<noteq> key_of x) w))\<rparr>"

lemma mem_obj_key: "mem_obj w k = Some x \<Longrightarrow> key_of x = k \<and> x \<in> set w"
  by (auto simp: mem_obj_def find_Some_iff)

lemma mem_obj_other: "k \<noteq> key_of x \<Longrightarrow> mem_obj (filter (\<lambda>y. key_of y \<noteq> key_of x) w) k = mem_obj w k"
  by (induction w) (auto simp: mem_obj_def)

lemma mem_obj_gone: "mem_obj (filter (\<lambda>y. key_of y \<noteq> key_of x) w) (key_of x) = None"
  by (auto simp: mem_obj_def find_None_iff)

lemma mem_obj_put: "mem_obj (mem_put x w) = (mem_obj w)(key_of x := Some x)"
proof
  fix k
  show "mem_obj (mem_put x w) k = ((mem_obj w)(key_of x := Some x)) k"
    using mem_obj_other [of k x w] by (auto simp: mem_put_def mem_obj_def)
qed

lemma mem_obj_delete: "mem_obj (filter (\<lambda>y. key_of y \<noteq> key_of x) w) = (mem_obj w)(key_of x := None)"
  using mem_obj_other mem_obj_gone by fastforce

lemma mem_api_calls:
  "kget mem_api w k = (case mem_obj w k of None \<Rightarrow> Inl NotFound | Some x \<Rightarrow> Inr x)"
  "klist mem_api w ns sel = Inr (filter (\<lambda>x. mem_obj w (key_of x) = Some x \<and> (ns = '''' \<or> Namespace (Meta x) = ns) \<and>
     (case sel of None \<Rightarrow> True | Some p \<Rightarrow> p (Labels (Meta x)))) w)"
  "kcreate mem_api x w = (if mem_obj w (key_of x) = None then (None, mem_put x w) else (Some AlreadyExists, w))"
  "kupdate mem_api x w = (if mem_obj w (key_of x) = None then (Some NotFound, w) else (None, mem_put x w))"
  "kdelete mem_api x w = (if mem_obj w (key_of x) = None then (Some NotFound, w) else (None, filter (\<lambda>y. key_of y \<noteq> key_of x) w))"
  by (simp_all add: mem_api_def)

lemma mem_api_laws: "store_laws mem_api mem_obj"
  unfolding store_laws_def mem_api_calls
  by (intro conjI allI impI)
    (auto simp: mem_obj_put mem_obj_delete same_desired_def dest: mem_obj_key split: option.splits if_splits)

end
