(* ===== verification/Refs_Rbac.thy ===== *)
theory Refs_Rbac
  imports Kube_Client
begin

text \<open>
  References between objects and who may follow them: \<open>pkg/refs\<close> enumerates the references
  of an object with their namespaces resolved, \<open>pkg/rbac\<close> reviews the access of a user to them.
\<close>

subsection \<open>References\<close>

record ObjectRef =
  OrNamespace :: string
  OrName :: string
  OrGroup :: string
  OrVersion :: string
  OrResource :: string
  FieldPath :: string

definition GroupName :: string where "GroupName = ''syngit.io''"
definition ApiVersion :: string where "ApiVersion = ''v1beta5''"

definition ResolveNamespace :: "string \<Rightarrow> string \<Rightarrow> string \<Rightarrow> go_error + string" where
  "ResolveNamespace refNamespace ownerNamespace fieldPath =
     (if refNamespace \<noteq> '''' then Inr refNamespace
      else if ownerNamespace = '''' then Inl (MissingRefNamespace fieldPath)
      else Inr ownerNamespace)"

definition remoteUsersGVR :: "string \<times> string \<times> string" where
  "remoteUsersGVR = (GroupName, ApiVersion, ''remoteusers'')"
definition remoteTargetsGVR :: "string \<times> string \<times> string" where
  "remoteTargetsGVR = (GroupName, ApiVersion, ''remotetargets'')"
definition configMapsGVR :: "string \<times> string \<times> string" where
  "configMapsGVR = ('''', ''v1'', ''configmaps'')"
definition secretsGVR :: "string \<times> string \<times> string" where
  "secretsGVR = ('''', ''v1'', ''secrets'')"

record refCollector =
  ownerNamespace :: string
  collected :: "ObjectRef list"
  collectErr :: "go_error option"

definition newRefCollector :: "string \<Rightarrow> refCollector" where
  "newRefCollector owner = \<lparr>ownerNamespace = owner, collected = [], collectErr = None\<rparr>"

definition collector_add ::
  "string \<Rightarrow> string \<Rightarrow> string \<times> string \<times> string \<Rightarrow> string \<Rightarrow> refCollector \<Rightarrow> refCollector" where
  "collector_add refNamespace name gvr path c =
     (if collectErr c \<noteq> None \<or> name = '''' then c
      else case ResolveNamespace refNamespace (ownerNamespace c) path of
        Inl err \<Rightarrow> c\<lparr>collectErr := Some err\<rparr>
      | Inr namespace \<Rightarrow>
          (case gvr of (g, v, r) \<Rightarrow> c\<lparr>collected := collected c @
             [\<lparr>OrNamespace = namespace, OrName = name, OrGroup = g, OrVersion = v,
               OrResource = r, FieldPath = path\<rparr>]\<rparr>))"

definition collector_result :: "refCollector \<Rightarrow> go_error + ObjectRef list" where
  "collector_result c = (case collectErr c of Some e \<Rightarrow> Inl e | None \<Rightarrow> Inr (collected c))"

definition index_path :: "string \<Rightarrow> nat \<Rightarrow> string" where
  "index_path p i = p @ ''['' @ Itoa i @ '']''"

fun add_refs :: "string \<Rightarrow> string \<times> string \<times> string \<Rightarrow> nat \<Rightarrow> ObjectReference option list
    \<Rightarrow> refCollector \<Rightarrow> refCollector" where
  "add_refs path gvr i [] c = c"
| "add_refs path gvr i (None # rs) c = add_refs path gvr (Suc i) rs c"
| "add_refs path gvr i (Some r # rs) c =
     add_refs path gvr (Suc i) rs (collector_add (RefNamespace r) (RefName r) gvr (index_path path i) c)"

definition add_opt_ref :: "string \<Rightarrow> string \<times> string \<times> string \<Rightarrow> ObjectReference option
    \<Rightarrow> refCollector \<Rightarrow> refCollector" where
  "add_opt_ref path gvr r c = (case r of None \<Rightarrow> c
     | Some ref \<Rightarrow> collector_add (RefNamespace ref) (RefName ref) gvr path c)"

definition add_secret_ref :: "string \<Rightarrow> SecretReference \<Rightarrow> refCollector \<Rightarrow> refCollector" where
  "add_secret_ref path r c =
     (if SecName r \<noteq> '''' then collector_add (SecNamespace r) (SecName r) secretsGVR path c else c)"

definition RemoteSyncerRefs :: "RemoteSyncerSpec \<Rightarrow> string \<Rightarrow> go_error + ObjectRef list" where
  "RemoteSyncerRefs spec owner =
     collector_result
      (add_secret_ref ''spec.sops.secretRef'' (SopsSecretRef (SOPS spec))
      (add_secret_ref ''spec.caBundleSecretRef'' (CABundleSecretRef spec)
      (add_refs ''spec.excludedFieldsConfigMapsRef'' configMapsGVR 0 (ExcludedFieldsConfigMapsRef spec)
      (add_opt_ref ''spec.defaultRemoteTargetRef'' remoteTargetsGVR (DefaultRemoteTargetRef spec)
      (add_opt_ref ''spec.defaultRemoteUserRef'' remoteUsersGVR (DefaultRemoteUserRef spec)
        (newRefCollector owner))))))"

definition RemoteUserRefs_of :: "RemoteUserSpec \<Rightarrow> string \<Rightarrow> go_error + ObjectRef list" where
  "RemoteUserRefs_of spec owner =
     collector_result (add_secret_ref ''spec.secretRef'' (SecretRef spec) (newRefCollector owner))"

definition RemoteUserBindingRefs :: "RemoteUserBindingSpec \<Rightarrow> string \<Rightarrow> go_error + ObjectRef list" where
  "RemoteUserBindingRefs spec owner =
     collector_result
      (add_refs ''spec.remoteTargetRefs'' remoteTargetsGVR 0 (map Some (RemoteTargetRefs spec))
      (add_refs ''spec.remoteUserRefs'' remoteUsersGVR 0 (map Some (RemoteUserRefs spec))
        (newRefCollector owner)))"

subsection \<open>Access reviews\<close>

text \<open>A review names the user, the groups and the uid; the extra attributes of the user are not passed on.\<close>

definition reviewed_as :: "UserInfo \<Rightarrow> UserInfo" where
  "reviewed_as user = user\<lparr>Extra := []\<rparr>"

definition CheckAccess :: "'w client \<Rightarrow> 'w \<Rightarrow> UserInfo \<Rightarrow> ResourceAttributes \<Rightarrow> go_error + bool" where
  "CheckAccess c w user attrs = (case AccessReview c w (reviewed_as user) attrs of
     Inl e \<Rightarrow> Inl (ApiError e) | Inr allowed \<Rightarrow> Inr allowed)"

definition get_attrs :: "ObjectRef \<Rightarrow> ResourceAttributes" where
  "get_attrs ref = \<lparr>AttrNamespace = OrNamespace ref, AttrVerb = ''get'', AttrGroup = OrGroup ref,
     AttrVersion = OrVersion ref, AttrResource = OrResource ref, AttrName = OrName ref\<rparr>"

fun AuthorizeRefs :: "'w client \<Rightarrow> 'w \<Rightarrow> UserInfo \<Rightarrow> ObjectRef list \<Rightarrow> go_error + ObjectRef option" where
  "AuthorizeRefs c w user [] = Inr None"
| "AuthorizeRefs c w user (ref # rs) =
     (case CheckAccess c w user (get_attrs ref) of
        Inl e \<Rightarrow> Inl e
      | Inr allowed \<Rightarrow> if \<not> allowed then Inr (Some ref) else AuthorizeRefs c w user rs)"

definition AuthorizeCrossNamespaceRefs ::
  "'w client \<Rightarrow> 'w \<Rightarrow> UserInfo \<Rightarrow> ObjectRef list \<Rightarrow> string \<Rightarrow> string list \<Rightarrow> go_error + ObjectRef option" where
  "AuthorizeCrossNamespaceRefs c w user objectRefs owner exempt =
     AuthorizeRefs c w user
       (filter (\<lambda>ref. \<not> (OrNamespace ref = owner \<or> OrNamespace ref \<in> set exempt)) objectRefs)"

definition OperationToVerb :: "string \<Rightarrow> string list option" where
  "OperationToVerb operation =
     (if operation = ''CREATE'' then Some [''create'']
      else if operation = ''DELETE'' then Some [''delete'']
      else if operation = ''UPDATE'' then Some [''update'', ''patch'']
      else if operation = ''CONNECT'' then Some [''connect'']
      else None)"

end
