(* ===== verification/Render.thy ===== *)
theory Render
  imports Refs_Rbac Kube_Json "HOL-Library.Sublist"
begin

text \<open>
  Rendering the intercepted object (\<open>pkg/render\<close>): which fields are excluded, how a field path
  is read, and how the field is removed from the decoded object before it is written as
  YAML.

  The JSON and YAML codecs are the parameter \<open>codec\<close>.  A decoded object is a tree, so removing
  a field in place is the update of that tree.
\<close>

subsection \<open>Field paths\<close>

fun path_parts :: "string \<Rightarrow> string \<Rightarrow> bool \<Rightarrow> string list" where
  \<comment> \<open>The rest of the path, the part being read, whether inside brackets.\<close>
  "path_parts [] current inBrackets = (if current \<noteq> '''' then [current] else [])"
| "path_parts (c # cs) current inBrackets =
     (if c = CHR ''.'' then
        (if \<not> inBrackets then (if current \<noteq> '''' then [current] else []) @ path_parts cs '''' inBrackets
         else path_parts cs (current @ [c]) inBrackets)
      else if c = CHR ''['' then (if current \<noteq> '''' then [current] else []) @ path_parts cs '''' True
      else if c = CHR '']'' then (if current \<noteq> '''' then [current] else []) @ path_parts cs '''' False
      else path_parts cs (current @ [c]) inBrackets)"

fun remove_parts :: "string list \<Rightarrow> jobj \<Rightarrow> jobj" where
  "remove_parts [] m = m"
| "remove_parts [part] m = alist_del part m"
| "remove_parts (part # p # parts) m =
     (case map_of m part of
        None \<Rightarrow> m
      | Some v \<Rightarrow>
          (case assert_obj (Some v) of
             None \<Rightarrow> m
           | Some nextMap \<Rightarrow> update_field part (JObj (remove_parts (p # parts) nextMap)) m))"

definition RemoveExcludedField :: "jobj \<Rightarrow> string \<Rightarrow> jobj" where
  "RemoveExcludedField data path = remove_parts (path_parts path '''' False) data"

subsection \<open>Rendering\<close>

record codec =
  JsonUnmarshal :: "string \<Rightarrow> go_error + jobj"
  YamlMarshal :: "jobj \<Rightarrow> go_error + string"
  YamlStrings :: "string \<Rightarrow> go_error + string list"
  JSONToYAML :: "string \<Rightarrow> go_error + string"

definition JSONToMap :: "codec \<Rightarrow> string \<Rightarrow> go_error + jobj" where
  "JSONToMap cd rawObject = JsonUnmarshal cd rawObject"

definition ContainsDeletionTimestamp :: "jobj \<Rightarrow> bool" where
  "ContainsDeletionTimestamp data =
     (case assert_obj (map_of data ''metadata'') of
        None \<Rightarrow> False
      | Some metadata \<Rightarrow> map_of metadata ''deletionTimestamp'' \<noteq> None)"

definition ExcludedFieldsFromConfigMap :: "codec \<Rightarrow> 'w client \<Rightarrow> 'w \<Rightarrow> string \<Rightarrow> string \<Rightarrow> go_error + string list" where
  "ExcludedFieldsFromConfigMap cd c w configMapName configMapNamespace =
     (case kget (ConfigMaps c) w (nsn configMapNamespace configMapName) of
        Inl e \<Rightarrow> Inl (ApiError e)
      | Inr cm \<Rightarrow>
          (case YamlStrings cd (alist_get (CmData cm) ''excludedFields'') of
             Inl _ \<Rightarrow> Inl (WrongYAMLFormat ''failed to convert the excludedFields from the ConfigMap'')
           | Inr excludedFields \<Rightarrow> Inr excludedFields))"

fun fields_of_default_cms :: "codec \<Rightarrow> 'w client \<Rightarrow> 'w \<Rightarrow> ConfigMap list \<Rightarrow> go_error + string list" where
  "fields_of_default_cms cd c w [] = Inr []"
| "fields_of_default_cms cd c w (cm # cms) =
     (case ExcludedFieldsFromConfigMap cd c w (Name (CmMeta cm)) (Namespace (CmMeta cm)) of
        Inl e \<Rightarrow> Inl e
      | Inr fs \<Rightarrow> (case fields_of_default_cms cd c w cms of Inl e \<Rightarrow> Inl e | Inr rest \<Rightarrow> Inr (fs @ rest)))"

fun fields_of_refs :: "codec \<Rightarrow> 'w client \<Rightarrow> 'w \<Rightarrow> string \<Rightarrow> nat \<Rightarrow> ObjectReference option list \<Rightarrow> go_error + string list" where
  "fields_of_refs cd c w owner i [] = Inr []"
| "fields_of_refs cd c w owner i (None # rs) = fields_of_refs cd c w owner (Suc i) rs"
| "fields_of_refs cd c w owner i (Some ref # rs) =
     (case ResolveNamespace (RefNamespace ref) owner (index_path ''spec.excludedFieldsConfigMapsRef'' i) of
        Inl e \<Rightarrow> Inl e
      | Inr cmNamespace \<Rightarrow>
          (case ExcludedFieldsFromConfigMap cd c w (RefName ref) cmNamespace of
             Inl e \<Rightarrow> Inl e
           | Inr fs \<Rightarrow>
               (case fields_of_refs cd c w owner (Suc i) rs of Inl e \<Rightarrow> Inl e | Inr rest \<Rightarrow> Inr (fs @ rest))))"

definition default_excluded_label :: selector where
  "default_excluded_label ls \<longleftrightarrow> map_of ls ''syngit.io/cluster-default-excluded-fields'' = Some ''true''"

definition excluded_paths :: "codec \<Rightarrow> 'w client \<Rightarrow> 'w \<Rightarrow> string \<Rightarrow> RemoteSyncerSpec \<Rightarrow> string \<Rightarrow> go_error + string list" where
  "excluded_paths cd c w syngitNamespace spec refOwnerNamespace =
     (case klist (ConfigMaps c) w syngitNamespace (Some default_excluded_label) of
        Inl e \<Rightarrow> Inl (ApiError e)
      | Inr cms \<Rightarrow>
          (case fields_of_default_cms cd c w cms of
             Inl e \<Rightarrow> Inl e
           | Inr defaults \<Rightarrow>
               (case fields_of_refs cd c w refOwnerNamespace 0 (ExcludedFieldsConfigMapsRef spec) of
                  Inl e \<Rightarrow> Inl e
                | Inr fromRefs \<Rightarrow> Inr (defaults @ ExcludedFields spec @ fromRefs))))"

definition ObjectToYAML :: "codec \<Rightarrow> 'w client \<Rightarrow> 'w \<Rightarrow> string \<Rightarrow> string \<Rightarrow> RemoteSyncerSpec \<Rightarrow> string
    \<Rightarrow> go_error + string" where
  "ObjectToYAML cd c w rawObject syngitNamespace spec refOwnerNamespace =
     (case JSONToMap cd rawObject of
        Inl e \<Rightarrow> Inl e
      | Inr data \<Rightarrow>
          (case excluded_paths cd c w syngitNamespace spec refOwnerNamespace of
             Inl e \<Rightarrow> Inl e
           | Inr paths \<Rightarrow> YamlMarshal cd (foldl RemoveExcludedField data paths)))"

subsection \<open>Looking up a path\<close>

fun lookup_parts :: "string list \<Rightarrow> jobj \<Rightarrow> json option" where
  "lookup_parts [] m = Some (JObj m)"
| "lookup_parts [part] m = map_of m part"
| "lookup_parts (part # p # parts) m =
     (case assert_obj (map_of m part) of
        None \<Rightarrow> None
      | Some nextMap \<Rightarrow> lookup_parts (p # parts) nextMap)"

lemma lookup_removed: "parts \<noteq> [] \<Longrightarrow> lookup_parts parts (remove_parts parts m) = None"
  by (induction parts m rule: remove_parts.induct) (auto split: option.splits)

lemma lookup_Cons:
  "qs \<noteq> [] \<Longrightarrow> lookup_parts (q # qs) m = (case assert_obj (map_of m q) of None \<Rightarrow> None | Some n \<Rightarrow> lookup_parts qs n)"
  by (cases qs) auto

lemma lookup_other:
  "\<not> prefix parts qs \<Longrightarrow> \<not> prefix qs parts \<Longrightarrow>
   lookup_parts qs (remove_parts parts m) = lookup_parts qs m"
proof (induction parts m arbitrary: qs rule: remove_parts.induct)
  case (1 m)
  then show ?case by simp
next
  case (2 part m)
  then obtain q qs' where "qs = q # qs'" "q \<noteq> part" by (cases qs) auto
  then show ?case by (cases qs') auto
next
  case (3 part p parts m)
  then obtain q qs' where qs: "qs = q # qs'" by (cases qs) auto
  show ?case
  proof (cases "q = part")
    case False
    with qs show ?thesis by (cases qs') (auto split: option.splits)
  next
    case True
    with 3(2,3) qs have np: "\<not> prefix (p # parts) qs'" "\<not> prefix qs' (p # parts)" by auto
    then have ne: "qs' \<noteq> []" by auto
    show ?thesis
    proof (cases "assert_obj (map_of m part)")
      case None
      then show ?thesis by (cases "map_of m part") auto
    next
      case (Some n)
      then obtain v where v: "map_of m part = Some v" by (cases "map_of m part") auto
      with Some "3.IH" [OF v _ np, of n] True qs ne show ?thesis by (simp add: lookup_Cons)
    qed
  qed
qed

lemma lookup_above:
  "strict_prefix qs parts \<Longrightarrow> lookup_parts qs (remove_parts parts m) = None \<longleftrightarrow> lookup_parts qs m = None"
proof (induction parts m arbitrary: qs rule: remove_parts.induct)
  case (3 part p parts m)
  show ?case
  proof (cases qs)
    case (Cons q qs')
    with 3(2) have q: "q = part" and sp: "strict_prefix qs' (p # parts)" by auto
    show ?thesis
    proof (cases "map_of m part")
      case (Some v)
      then show ?thesis
        using "3.IH" [OF Some _ sp] Cons q
        by (cases "assert_obj (Some v)"; cases qs') (auto simp: lookup_Cons)
    qed simp
  qed simp
qed (auto simp: strict_prefix_def prefix_Cons)

subsection \<open>Paths as they are written\<close>

text \<open>
  The syntax of the comment on \<open>RemoveExcludedField\<close>: fields, set apart by dots, and keys in brackets that
  may contain dots.  A dot may also stand at the start and between a closing bracket and a field.
\<close>

datatype segment = Field bool string | Key string

fun segment_text :: "segment \<Rightarrow> string" where
  "segment_text (Field dot f) = (if dot then ''.'' else '''') @ f"
| "segment_text (Key k) = ''['' @ k @ '']''"

fun segment_key :: "segment \<Rightarrow> string" where
  "segment_key (Field dot f) = f"
| "segment_key (Key k) = k"

definition path_text :: "segment list \<Rightarrow> string" where
  "path_text segs = concat (map segment_text segs)"

fun written :: "bool \<Rightarrow> segment list \<Rightarrow> bool" where
  \<comment> \<open>The flag: a field stands right before.\<close>
  "written after_field [] \<longleftrightarrow> True"
| "written after_field (Field dot f # segs) \<longleftrightarrow> f \<noteq> '''' \<and> set f \<inter> {CHR ''.'', CHR ''['', CHR '']''} = {} \<and> (after_field \<longrightarrow> dot) \<and> written True segs"
| "written after_field (Key k # segs) \<longleftrightarrow> k \<noteq> '''' \<and> set k \<inter> {CHR ''['', CHR '']''} = {} \<and> written False segs"

lemma path_parts_field:
  "set f \<inter> {CHR ''.'', CHR ''['', CHR '']''} = {} \<Longrightarrow> path_parts (f @ rest) current b = path_parts rest (current @ f) b"
  by (induction f arbitrary: current) auto

lemma path_parts_key:
  "set k \<inter> {CHR ''['', CHR '']''} = {} \<Longrightarrow> path_parts (k @ rest) current True = path_parts rest (current @ k) True"
  by (induction k arbitrary: current) auto

lemma path_parts_text:
  "written (current \<noteq> '''') segs \<Longrightarrow>
   path_parts (path_text segs) current False = (if current \<noteq> '''' then [current] else []) @ map segment_key segs"
proof (induction segs arbitrary: current)
  case (Cons s segs)
  show ?case
  proof (cases s)
    case (Field dot f)
    then have "path_parts (path_text (s # segs)) current False =
        (if current \<noteq> '''' then [current] else []) @ path_parts (f @ path_text segs) '''' False"
      using Cons.prems by (cases dot; cases "current = ''''") (simp_all add: path_text_def)
    also have "path_parts (f @ path_text segs) '''' False = f # map segment_key segs"
      using Cons Field by (simp add: path_parts_field)
    finally show ?thesis using Field by simp
  next
    case (Key k)
    have "path_parts (path_text (s # segs)) current False =
        (if current \<noteq> '''' then [current] else []) @ path_parts (k @ '']'' @ path_text segs) '''' True"
      using Key by (simp add: path_text_def)
    also have "path_parts (k @ '']'' @ path_text segs) '''' True = k # map segment_key segs"
      using Cons.prems Cons.IH [of "''''"] Key by (subst path_parts_key) simp_all
    finally show ?thesis using Key by simp
  qed
qed (simp add: path_text_def)

text \<open>
  C27. Removing an excluded field removes exactly the field its text names, dots within brackets being part of a key: it is
  absent afterwards, every path that neither leads to it nor lies below it reads as before, and whatever led to it is
  still there when it was.
\<close>

theorem RemoveExcludedField_exact:
  assumes "written False segs" and "segs \<noteq> []"
  shows "lookup_parts (map segment_key segs) (RemoveExcludedField data (path_text segs)) = None \<and>
    (\<forall>qs. \<not> prefix (map segment_key segs) qs \<longrightarrow> \<not> prefix qs (map segment_key segs) \<longrightarrow>
       lookup_parts qs (RemoveExcludedField data (path_text segs)) = lookup_parts qs data) \<and>
    (\<forall>qs. strict_prefix qs (map segment_key segs) \<longrightarrow>
       (lookup_parts qs (RemoveExcludedField data (path_text segs)) = None) = (lookup_parts qs data = None))"
  using assms path_parts_text [of "''''" segs]
  by (simp add: RemoveExcludedField_def lookup_removed lookup_other lookup_above)

theorem RemoveExcludedField_exact_witness:
  "lookup_parts [''test4'', ''this.string-is:the/same*key'', ''test5'', ''test6'']
     (RemoveExcludedField [(''test4'', JObj [(''this.string-is:the/same*key'', JObj [(''test5'', JObj [(''test6'', JStr ''x''), (''a'', JStr ''y'')])])])]
        ''.test4[this.string-is:the/same*key]test5[test6]'') = None"
proof -
  let ?segs = "[Field True ''test4'', Key ''this.string-is:the/same*key'', Field False ''test5'', Key ''test6'']"
  have w: "written False ?segs" and t: "path_text ?segs = ''.test4[this.string-is:the/same*key]test5[test6]''"
    by (simp_all add: path_text_def)
  show ?thesis using RemoveExcludedField_exact [OF w] unfolding t by simp
qed

end
