(* ===== verification/Features.thy ===== *)
theory Features
  imports Syngit_Errors
begin

text \<open>
  The feature gates (\<open>pkg/feature/features.go\<close>): a map from feature names to booleans, whether a
  feature is enabled, and the parsing and printing of a gate string.  \<open>Set\<close> writes into
  the map as it goes, so it returns the map it leaves behind with its error.
\<close>

type_synonym FeatureGates = "(string \<times> bool) list"

definition feature_ResourceFinder :: string where "feature_ResourceFinder = ''ResourceFinder''"
definition feature_HelmValuesMutation :: string where "feature_HelmValuesMutation = ''HelmValuesMutation''"
definition feature_FluxHelmRelease :: string where "feature_FluxHelmRelease = ''FluxHelmRelease''"
definition feature_SopsEncryption :: string where "feature_SopsEncryption = ''SopsEncryption''"
definition feature_Kustomize :: string where "feature_Kustomize = ''Kustomize''"

lemmas feature_defs = feature_ResourceFinder_def feature_HelmValuesMutation_def feature_FluxHelmRelease_def
  feature_SopsEncryption_def feature_Kustomize_def

definition LoadedFeatureGates :: FeatureGates where
  "LoadedFeatureGates = [(feature_ResourceFinder, True), (feature_HelmValuesMutation, True),
     (feature_FluxHelmRelease, True), (feature_SopsEncryption, True), (feature_Kustomize, True)]"

definition Enabled :: "FeatureGates \<Rightarrow> string \<Rightarrow> bool" where
  "Enabled f feature = (case map_of f feature of None \<Rightarrow> False | Some enabled \<Rightarrow> enabled)"

text \<open>\<open>strconv.ParseBool\<close> and \<open>FormatBool\<close>.\<close>

definition ParseBool :: "string \<Rightarrow> bool option" where
  "ParseBool s =
     (if s \<in> set [''1'', ''t'', ''T'', ''true'', ''TRUE'', ''True''] then Some True
      else if s \<in> set [''0'', ''f'', ''F'', ''false'', ''FALSE'', ''False''] then Some False
      else None)"

definition FormatBool :: "bool \<Rightarrow> string" where
  "FormatBool b = (if b then ''true'' else ''false'')"

definition set_one :: "string \<Rightarrow> FeatureGates \<Rightarrow> go_error option \<times> FeatureGates" where
  \<comment> \<open>One round of the loop of \<open>Set\<close>.\<close>
  "set_one part f =
     (let s = TrimSpace part in
      if s = '''' then (None, f)
      else let (before, after, found) = Cut s ''='' in
           if \<not> found then (Some (PlainError (''invalid feature gate format: '' @ s)), f)
           else let feature = TrimSpace before; val = TrimSpace after in
                if map_of f feature = None then (Some (PlainError (''unknown feature gate: '' @ feature)), f)
                else case ParseBool val of
                  None \<Rightarrow> (Some (PlainError (''invalid value for '' @ feature @ '': '' @ val
                            @ '' (must be true or false)'')), f)
                | Some b \<Rightarrow> (None, map (\<lambda>(k, v). (k, if k = feature then b else v)) f))"

fun set_all :: "string list \<Rightarrow> FeatureGates \<Rightarrow> go_error option \<times> FeatureGates" where
  "set_all [] f = (None, f)"
| "set_all (part # parts) f =
     (case set_one part f of (Some e, f1) \<Rightarrow> (Some e, f1) | (None, f1) \<Rightarrow> set_all parts f1)"

definition gates_Set :: "string \<Rightarrow> FeatureGates \<Rightarrow> go_error option \<times> FeatureGates" where
  "gates_Set val f = (if val = '''' then (None, f) else set_all (Split val '','') f)"

definition gates_String :: "(nat \<Rightarrow> string \<Rightarrow> nat) \<Rightarrow> FeatureGates \<Rightarrow> string" where
  "gates_String ord f = Join (map (\<lambda>(k, v). k @ ''='' @ FormatBool v) (range_map ord f)) '',''"

subsection \<open>The known gates never change\<close>

lemma set_one_keys: "set_one part f = (r, f') \<Longrightarrow> map fst f' = map fst f"
  by (auto simp: set_one_def Let_def o_def case_prod_beta split: if_splits prod.splits option.splits)

lemma set_all_keys: "set_all parts f = (r, f') \<Longrightarrow> map fst f' = map fst f"
  by (induction parts arbitrary: f) (auto split: prod.splits option.splits dest!: set_one_keys)

subsection \<open>Printing and parsing\<close>

definition gate_name :: "string \<Rightarrow> bool" where
  \<comment> \<open>A name without separators: no space, comma or equals sign, and not empty.\<close>
  "gate_name n \<longleftrightarrow> n \<noteq> '''' \<and> list_all (\<lambda>c. \<not> is_space c \<and> c \<noteq> CHR '','' \<and> c \<noteq> CHR ''='') n"

lemma TrimSpace_id:
  assumes "list_all (\<lambda>c. \<not> is_space c) s"
  shows "TrimSpace s = s"
proof -
  have d: "dropWhile is_space xs = xs" if "list_all (\<lambda>c. \<not> is_space c) xs" for xs
    using that by (cases xs) auto
  have "list_all (\<lambda>c. \<not> is_space c) (rev s)" using assms by simp
  with assms d show ?thesis by (simp add: TrimSpace_def)
qed

lemma Index_char_None: "Index s [c] = None \<longleftrightarrow> c \<notin> set s"
  by (induction s) (auto simp: HasPrefix_def)

lemma sep_clean_char: "c \<notin> set s \<Longrightarrow> sep_clean [c] s"
  by (simp add: sep_clean_def Index_char_None)

definition gate_text :: "string \<times> bool \<Rightarrow> string" where
  "gate_text p = fst p @ ''='' @ FormatBool (snd p)"

lemma FormatBool_plain: "list_all (\<lambda>c. \<not> is_space c \<and> c \<noteq> CHR '','' \<and> c \<noteq> CHR ''='') (FormatBool b)"
  by (cases b) (simp_all add: FormatBool_def is_space_def)

lemma gate_text_plain:
  assumes "gate_name (fst p)"
  shows "gate_text p \<noteq> ''''" and "TrimSpace (gate_text p) = gate_text p" and "CHR '','' \<notin> set (gate_text p)"
proof -
  have "list_all (\<lambda>c. \<not> is_space c) (gate_text p)"
    using assms FormatBool_plain [of "snd p"] by (auto simp: gate_text_def gate_name_def list_all_iff is_space_def)
  then show "TrimSpace (gate_text p) = gate_text p" by (rule TrimSpace_id)
qed (use assms FormatBool_plain [of "snd p"] in \<open>auto simp: gate_text_def gate_name_def list_all_iff\<close>)

lemma Cut_gate:
  assumes "gate_name k"
  shows "Cut (gate_text (k, v)) ''='' = (k, FormatBool v, True)"
proof -
  have "CHR ''='' \<notin> set k" using assms by (auto simp: gate_name_def list_all_iff)
  then have i: "Index (gate_text (k, v)) ''='' = Some (length k)"
    unfolding gate_text_def fst_conv snd_conv by (intro Index_at_separator sep_clean_char)
  have "take (length k) (gate_text (k, v)) = k" "drop (length k + length ''='') (gate_text (k, v)) = FormatBool v"
    by (simp_all add: gate_text_def)
  then show ?thesis unfolding Cut_def i by simp
qed

lemma set_one_gate:
  assumes "gate_name k" and "map_of f k \<noteq> None"
  shows "set_one (gate_text (k, v)) f = (None, map (\<lambda>(k', v'). (k', if k' = k then v else v')) f)"
proof -
  have c: "Cut (gate_text (k, v)) ''='' = (k, FormatBool v, True)"
    using assms(1) by (rule Cut_gate)
  have t: "TrimSpace k = k" "TrimSpace (FormatBool v) = FormatBool v"
    by (rule TrimSpace_id, use assms(1) FormatBool_plain [of v] in \<open>simp add: gate_name_def list_all_iff\<close>)+
  have "ParseBool (FormatBool v) = Some v" by (cases v) (simp_all add: ParseBool_def FormatBool_def)
  moreover have "TrimSpace (gate_text (k, v)) = gate_text (k, v)" "gate_text (k, v) \<noteq> []"
    using gate_text_plain [of "(k, v)"] assms(1) by simp_all
  ultimately show ?thesis using c t assms(2) unfolding set_one_def Let_def by simp
qed

lemma map_of_set_gate:
  "map_of (map (\<lambda>(k', v'). (k', if k' = k then v else v')) f) j =
     (if j = k then map_option (\<lambda>_. v) (map_of f k) else map_of f j)"
  by (induction f) auto

lemma set_all_gates:
  assumes "\<forall>(k, v) \<in> set ps. gate_name k \<and> map_of f k \<noteq> None" and "distinct (map fst ps)"
  shows "\<exists>f'. set_all (map gate_text ps) f = (None, f') \<and>
    (\<forall>k. map_of f' k = (case map_of ps k of None \<Rightarrow> map_of f k | Some v \<Rightarrow> Some v))"
  using assms
proof (induction ps arbitrary: f)
  case (Cons p ps)
  obtain k v where p: "p = (k, v)" by (cases p)
  let ?f = "map (\<lambda>(k', v'). (k', if k' = k then v else v')) f"
  have h: "gate_name k" "map_of f k \<noteq> None" using Cons.prems(1) p by auto
  have "\<forall>(k, v) \<in> set ps. gate_name k \<and> map_of ?f k \<noteq> None"
    using Cons.prems(1) by (auto simp: map_of_set_gate)
  from Cons.IH [OF this] Cons.prems(2) obtain f' where f': "set_all (map gate_text ps) ?f = (None, f')"
    "\<forall>j. map_of f' j = (case map_of ps j of None \<Rightarrow> map_of ?f j | Some v \<Rightarrow> Some v)" by auto
  have "map_of ps k = None" using Cons.prems(2) p by (simp add: map_of_eq_None_iff)
  with f' h p set_one_gate [OF h, of v] show ?case
    by (auto simp: map_of_set_gate split: option.splits)
qed simp

text \<open>
  C32. Printing a set of gates, in whatever order the map is ranged over, and setting the printed
  string on another set of the same gates succeeds and gives every gate the printed value.
\<close>

theorem gates_Set_String_roundtrip:
  assumes "distinct (map fst g)" and "list_all (\<lambda>k. gate_name k \<and> map_of f k \<noteq> None) (map fst g)"
  shows "\<exists>f'. gates_Set (gates_String ord g) f = (None, f') \<and>
    (\<forall>k. map_of f' k = (case map_of g k of None \<Rightarrow> map_of f k | Some v \<Rightarrow> Some v))"
proof (cases "g = []")
  case True
  then show ?thesis by (simp add: gates_Set_def gates_String_def range_map_def)
next
  case False
  let ?ps = "range_map ord g"
  have d: "distinct (map fst ?ps)" "set ?ps = set g" "?ps \<noteq> []"
    using assms(1) False by (auto simp: range_map_def distinct_map simp flip: set_empty)
  have g: "\<forall>p \<in> set ?ps. gate_name (fst p) \<and> map_of f (fst p) \<noteq> None"
    using assms(2) d(2) by (auto simp: list_all_iff)
  have m: "map_of ?ps = map_of g" using map_of_eqI d assms(1) by (metis map_of_eqI map_of_inject_set)
  have str: "gates_String ord g = Join (map gate_text ?ps) '',''"
    by (auto simp: gates_String_def gate_text_def intro!: arg_cong2 [of _ _ _ _ Join])
  have "Split (gates_String ord g) '','' = map gate_text ?ps"
  proof -
    have n: "CHR '','' \<notin> set t" if "t \<in> set (map gate_text ?ps)" for t
      using that g gate_text_plain(3) by auto
    have l: "last (map gate_text ?ps) \<in> set (map gate_text ?ps)" using d(3) by (intro last_in_set) simp
    have "\<forall>t \<in> set (butlast (map gate_text ?ps)). sep_clean '','' t"
      by (intro ballI sep_clean_char n) (rule in_set_butlastD)
    then show ?thesis
      unfolding str using d(3) n [OF l] by (intro Split_Join) (simp_all add: Index_char_None)
  qed
  moreover have "gates_String ord g \<noteq> ''''"
    unfolding str using d(3) g gate_text_plain(1) by (cases ?ps; cases "tl ?ps") auto
  moreover have "\<forall>(k, v) \<in> set ?ps. gate_name k \<and> map_of f k \<noteq> None" using g by auto
  ultimately show ?thesis using set_all_gates [of ?ps f] d(1) m by (simp add: gates_Set_def)
qed

theorem gates_Set_String_roundtrip_witness:
  "\<exists>f'. gates_Set (gates_String (\<lambda>_ _. 0) [(feature_Kustomize, False)]) LoadedFeatureGates = (None, f') \<and>
    (\<forall>k. map_of f' k = (case map_of [(feature_Kustomize, False)] k of
       None \<Rightarrow> map_of LoadedFeatureGates k | Some v \<Rightarrow> Some v))"
  by (rule gates_Set_String_roundtrip) (auto simp: feature_defs LoadedFeatureGates_def gate_name_def is_space_def)

text \<open>
  Setting a gate string is not atomic: when a later entry is wrong, the gates before it stay
  changed although an error is returned.
\<close>

theorem gates_Set_keeps_earlier_entries:
  assumes "gate_name k" and "map_of f k = Some b" and "gate_name k'" and "map_of f k' = None"
  shows "\<exists>e f'. gates_Set (gate_text (k, \<not> b) @ '','' @ gate_text (k', v)) f = (Some e, f') \<and> map_of f' k = Some (\<not> b)"
proof -
  have "Split (Join [gate_text (k, \<not> b), gate_text (k', v)] '','') '','' = [gate_text (k, \<not> b), gate_text (k', v)]"
    using gate_text_plain(3) assms(1,3) by (intro Split_Join) (auto simp: sep_clean_char Index_char_None)
  then have s: "Split (gate_text (k, \<not> b) @ '','' @ gate_text (k', v)) '','' = [gate_text (k, \<not> b), gate_text (k', v)]" by simp
  let ?f = "map (\<lambda>(k', v'). (k', if k' = k then \<not> b else v')) f"
  have c: "Cut (gate_text (k', v)) ''='' = (k', FormatBool v, True)"
    using assms(3) by (rule Cut_gate)
  have t: "TrimSpace k' = k'" by (rule TrimSpace_id) (use assms(3) in \<open>simp add: gate_name_def list_all_iff\<close>)
  have "map_of ?f k' = None" using assms(2,4) by (auto simp: map_of_set_gate)
  then have "\<exists>e. set_one (gate_text (k', v)) ?f = (Some e, ?f)"
    using gate_text_plain(1,2) [of "(k', v)"] assms(3) c t unfolding set_one_def Let_def by simp
  then obtain e where "set_all [gate_text (k, \<not> b), gate_text (k', v)] f = (Some e, ?f)"
    using set_one_gate [OF assms(1), of f "\<not> b"] assms(2) by auto
  moreover have "map_of ?f k = Some (\<not> b)" using assms(2) by (simp add: map_of_set_gate)
  ultimately show ?thesis using s by (simp add: gates_Set_def)
qed

theorem gates_Set_keeps_earlier_entries_witness:
  "\<exists>e f'. gates_Set (gate_text (feature_Kustomize, \<not> True) @ '','' @ gate_text (''Typo'', True)) LoadedFeatureGates = (Some e, f')
     \<and> map_of f' feature_Kustomize = Some (\<not> True)"
  by (rule gates_Set_keeps_earlier_entries)
    (simp_all add: feature_defs LoadedFeatureGates_def gate_name_def is_space_def)

end
