(* ===== verification/Providers.thy ===== *)
theory Providers
  imports Walker Render Features
begin

text \<open>
  The mutation providers (\<open>internal/mutator\<close>: \<open>helm_values.go\<close>, \<open>flux_helmrelease.go\<close>,
  \<open>kustomize.go\<close>, \<open>sops.go\<close>): what turns an intercepted object into artifacts for the worktree.
  A provider only reads the worktree and the cluster.

  The provider packages themselves (Helm, Flux, Kustomize, SOPS) and the YAML libraries are not
  part of the repository; their calls are the fields of \<open>mutator_lib\<close>, with opaque types for a
  YAML node (\<open>'n\<close>), a SOPS rule (\<open>'r\<close>) and a set of age identities (\<open>'i\<close>).
\<close>

subsection \<open>Artifacts\<close>

record Artifact =
  ArtGVR :: GroupVersionResource
  ArtName :: string
  ArtNamespace :: string
  Content :: "string option" \<comment> \<open>a nil slice is \<open>None\<close>\<close>
  TargetPath :: string
  WholeFile :: bool

definition content_bytes :: "Artifact \<Rightarrow> string" where
  "content_bytes a = (case Content a of None \<Rightarrow> '''' | Some c \<Rightarrow> c)"

definition IsDeletion :: "Artifact \<Rightarrow> bool" where
  "IsDeletion a \<longleftrightarrow> length (content_bytes a) = 0"

definition DefaultChartValuesSubPath :: string where
  "DefaultChartValuesSubPath = ''chart-values''"

definition transformOrNil :: "Artifact \<Rightarrow> DocTransform \<Rightarrow> DocTransform" where
  "transformOrNil a transform =
     (if Resource (ArtGVR a) = DefaultChartValuesSubPath \<and> Group (ArtGVR a) = '''' \<and> Version (ArtGVR a) = ''''
      then None else transform)"

record ArtifactSet =
  Items :: "Artifact list"
  Claimed :: bool
  DenialReason :: string

definition empty_set :: ArtifactSet where
  "empty_set = \<lparr>Items = [], Claimed = False, DenialReason = ''''\<rparr>"

definition add_artifact :: "Artifact \<Rightarrow> ArtifactSet \<Rightarrow> ArtifactSet" where
  "add_artifact a s = s\<lparr>Items := Items s @ [a]\<rparr>"

definition no_gvr :: GroupVersionResource where
  "no_gvr = \<lparr>Group = '''', Version = '''', Resource = ''''\<rparr>"

definition no_artifact :: Artifact where
  "no_artifact = \<lparr>ArtGVR = no_gvr, ArtName = '''', ArtNamespace = '''', Content = None, TargetPath = '''', WholeFile = False\<rparr>"

subsection \<open>The provider packages\<close>

record HelmRelease =
  HrSourceRef :: "string option" \<comment> \<open>the name in \<open>spec.chart.spec.sourceRef\<close>, if there is a chart\<close>
  HrObject :: jobj

datatype EditOp = EditOpAdd | EditOpOther

record Edit =
  Kustomization :: string
  EditField :: string
  Op :: EditOp
  Entry :: json

datatype KAction = ActionRefuse | ActionOther

record KResult =
  Handled :: bool
  Action :: KAction
  RefuseMessage :: string
  PatchJSON6902 :: bool
  Files :: "(string \<times> string) list"
  Deletes :: "string list"
  Edits :: "Edit list"

datatype 'r creation_rule = CreationRule 'r | NoCreationRule | RuleError go_error

record EncryptedDocument =
  RawYAML :: string
  KubernetesIdentityVisible :: bool

record ('fs, 'w, 'n, 'r, 'i) mutator_lib =
  HelmValuesAnnotation :: string
  IsHelmSecretByName :: "string \<Rightarrow> bool"
  GetReleaseNameFromSecretName :: "string \<Rightarrow> string"
  IsHelmSecret :: "Secret \<Rightarrow> bool"
  ExtractValues :: "Secret \<Rightarrow> go_error + string"
  ExtractRelease :: "Secret \<Rightarrow> go_error + (string \<times> string) option"
  SecretFromYAML :: "string \<Rightarrow> go_error + Secret"
  HelmReleaseAnnotation :: string
  ListHelmReleases :: "'w \<Rightarrow> string \<Rightarrow> string + (string \<times> string \<times> jobj) list"
  FromUnstructured :: "jobj \<Rightarrow> go_error + HelmRelease"
  ConvertToHelmReleaseWithExisting :: "Secret \<Rightarrow> HelmRelease \<Rightarrow> go_error + HelmRelease"
  MarshalHelmRelease :: "HelmRelease \<Rightarrow> go_error + string"
  KustomizeAnnotation :: string
  ToUnstructured :: "string \<Rightarrow> go_error + jobj"
  Process :: "jobj \<Rightarrow> string \<Rightarrow> 'fs \<Rightarrow> bool \<Rightarrow> go_error + KResult"
  KParse :: "string \<Rightarrow> go_error + 'n"
  KLookupCreate :: "string \<Rightarrow> 'n \<Rightarrow> go_error + 'n list \<times> 'n"
  KSetEntries :: "string \<Rightarrow> 'n list \<Rightarrow> 'n \<Rightarrow> 'n"
  KEntry :: "json \<Rightarrow> go_error + 'n"
  KValue :: "'n \<Rightarrow> go_error + json"
  KMarshal :: "string \<Rightarrow> 'n \<Rightarrow> go_error + string" \<comment> \<open>with the sequence indentation of the given text\<close>
  LoadCreationRule :: "string \<Rightarrow> string \<Rightarrow> 'r creation_rule"
  EncryptYAML :: "string \<Rightarrow> 'r \<Rightarrow> 'i option \<Rightarrow> go_error + EncryptedDocument"
  EncryptWithExisting :: "string \<Rightarrow> string \<Rightarrow> 'r \<Rightarrow> 'i option \<Rightarrow> go_error + EncryptedDocument"
  AgeIdentitiesFromSecret :: "Secret \<Rightarrow> go_error + 'i"

text \<open>
  What the code finds around it: the loaded feature gates, the API client and the cluster, whether
  a cluster reader was handed over, the manager's namespace, and the orders in which the
  provider map and the file maps are ranged over.
\<close>

record ('fs, 'w, 'n, 'r, 'i) mutator_env =
  Lib :: "('fs, 'w, 'n, 'r, 'i) mutator_lib"
  Docs :: docs_lib
  Codec :: codec
  Gates :: FeatureGates
  ApiClient :: "'w client"
  World :: 'w
  HasCluster :: bool
  ManagerNamespace :: string
  ProviderOrd :: "nat \<Rightarrow> string \<Rightarrow> nat"
  FilesOrd :: "nat \<Rightarrow> string \<Rightarrow> nat"

record 'fs RenderContext =
  RcParams :: GitPipelineParams
  RcWorktree :: "'fs billy"
  RcFs :: 'fs
  RcTransform :: DocTransform

definition providerEnabled :: string where
  "providerEnabled = ''enabled''"

definition helm_secret_handled :: "string \<Rightarrow> (string \<Rightarrow> bool) \<Rightarrow> GitPipelineParams \<Rightarrow> bool" where
  \<comment> \<open>The guard both Helm providers share, with the annotation each looks for.\<close>
  "helm_secret_handled annotation isHelmSecretByName params =
     (if alist_get (ScAnnotations (GppSyncer params)) annotation \<noteq> providerEnabled \<or>
         Group (InterceptedGVR params) \<noteq> '''' \<or> Version (InterceptedGVR params) \<noteq> ''v1'' \<or>
         Resource (InterceptedGVR params) \<noteq> ''secrets''
      then False else isHelmSecretByName (InterceptedName params))"

subsection \<open>Helm values\<close>

definition HelmValues_Handles :: "('fs, 'w, 'n, 'r, 'i) mutator_env \<Rightarrow> GitPipelineParams \<Rightarrow> bool" where
  "HelmValues_Handles env params =
     helm_secret_handled (HelmValuesAnnotation (Lib env)) (IsHelmSecretByName (Lib env)) params"

definition HelmValues_Render :: "('fs, 'w, 'n, 'r, 'i) mutator_env \<Rightarrow> 'fs RenderContext \<Rightarrow> ArtifactSet \<Rightarrow> go_error + ArtifactSet" where
  "HelmValues_Render env rc out =
     (let emit = (\<lambda>rawValues. Inr (add_artifact
            (no_artifact\<lparr>ArtGVR := no_gvr\<lparr>Resource := DefaultChartValuesSubPath\<rparr>, Content := Some rawValues\<rparr>) out))
      in if InterceptedManifest (RcParams rc) \<noteq> '''' then
           (case SecretFromYAML (Lib env) (InterceptedManifest (RcParams rc)) of
              Inl err \<Rightarrow> Inl err
            | Inr secret \<Rightarrow>
                if \<not> IsHelmSecret (Lib env) secret then Inr out
                else (case ExtractValues (Lib env) secret of
                   Inl err \<Rightarrow> Inl err
                 | Inr rawValues \<Rightarrow> emit rawValues))
         else emit '''')"

subsection \<open>Flux HelmRelease\<close>

definition helmReleaseGVR :: GroupVersionResource where
  "helmReleaseGVR = \<lparr>Group = ''helm.toolkit.fluxcd.io'', Version = ''v2'', Resource = ''helmreleases''\<rparr>"

definition helmReleaseVersions :: "string list" where
  "helmReleaseVersions = [''v2'', ''v2beta2'', ''v2beta1'']"

fun scan_releases :: "('fs, 'w, 'n, 'r, 'i) mutator_lib \<Rightarrow> string \<Rightarrow> string \<Rightarrow> (string \<times> string \<times> jobj) list
    \<Rightarrow> go_error + HelmRelease option" where
  \<comment> \<open>The items of one version: name, namespace and object.\<close>
  "scan_releases lib name namespace [] = Inr None"
| "scan_releases lib name namespace ((n, ns, obj) # items) =
     (if n \<noteq> name \<or> ns \<noteq> namespace then scan_releases lib name namespace items
      else case FromUnstructured lib obj of
        Inl err \<Rightarrow> Inl (WrapError (''failed to decode the HelmRelease '' @ namespace @ ''/'' @ name) err)
      | Inr hr \<Rightarrow>
          if HrSourceRef hr = None \<or> HrSourceRef hr = Some '''' then scan_releases lib name namespace items
          else Inr (Some hr))"

fun scan_versions :: "('fs, 'w, 'n, 'r, 'i) mutator_lib \<Rightarrow> 'w \<Rightarrow> string \<Rightarrow> string \<Rightarrow> string list
    \<Rightarrow> go_error + HelmRelease option" where
  "scan_versions lib w name namespace [] = Inr None"
| "scan_versions lib w name namespace (version # versions) =
     (case ListHelmReleases lib w version of
        Inl msg \<Rightarrow>
          if Contains msg ''no matches for kind'' \<or> Contains msg ''could not find the requested resource''
          then scan_versions lib w name namespace versions
          else Inl (WrapError ''failed to list HelmReleases'' (PlainError msg))
      | Inr items \<Rightarrow>
          (case scan_releases lib name namespace items of
             Inl err \<Rightarrow> Inl err
           | Inr (Some hr) \<Rightarrow> Inr (Some hr)
           | Inr None \<Rightarrow> scan_versions lib w name namespace versions))"

definition existingHelmReleaseInCluster :: "('fs, 'w, 'n, 'r, 'i) mutator_env \<Rightarrow> string \<Rightarrow> string
    \<Rightarrow> go_error + HelmRelease option" where
  "existingHelmReleaseInCluster env name namespace =
     scan_versions (Lib env) (World env) name namespace helmReleaseVersions"

definition Flux_Handles :: "('fs, 'w, 'n, 'r, 'i) mutator_env \<Rightarrow> GitPipelineParams \<Rightarrow> bool" where
  "Flux_Handles env params =
     helm_secret_handled (HelmReleaseAnnotation (Lib env)) (IsHelmSecretByName (Lib env)) params"

definition render_release :: "('fs, 'w, 'n, 'r, 'i) mutator_env \<Rightarrow> SyncerContext \<Rightarrow> Secret \<Rightarrow> HelmRelease
    \<Rightarrow> go_error + string" where
  \<comment> \<open>The conversion of the secret and the rendering of the result.\<close>
  "render_release env sc secret existing =
     (case ConvertToHelmReleaseWithExisting (Lib env) secret existing of
        Inl err \<Rightarrow> Inl (WrapError ''failed to convert the Helm release secret to a HelmRelease'' err)
      | Inr hr \<Rightarrow>
          (case MarshalHelmRelease (Lib env) hr of
             Inl err \<Rightarrow> Inl (WrapError ''failed to marshal the generated HelmRelease'' err)
           | Inr raw \<Rightarrow>
               (case ObjectToYAML (Codec env) (ApiClient env) (World env) raw (ManagerNamespace env)
                       (ScSpec sc) (RefOwnerNamespace sc) of
                  Inl err \<Rightarrow> Inl (WrapError ''failed to apply the excluded fields to the HelmRelease'' err)
                | Inr cleaned \<Rightarrow> Inr cleaned)))"

definition Flux_Render :: "('fs, 'w, 'n, 'r, 'i) mutator_env \<Rightarrow> 'fs RenderContext \<Rightarrow> ArtifactSet \<Rightarrow> go_error + ArtifactSet" where
  "Flux_Render env rc out =
     (let params = RcParams rc; sc = GppSyncer params in
      if InterceptedManifest params = '''' then
        Inr (add_artifact (no_artifact\<lparr>ArtGVR := helmReleaseGVR,
          ArtName := GetReleaseNameFromSecretName (Lib env) (InterceptedName params),
          ArtNamespace := InterceptedNamespace sc, Content := Some ''''\<rparr>) out)
      else case SecretFromYAML (Lib env) (InterceptedManifest params) of
        Inl err \<Rightarrow> Inl (WrapError ''failed to parse the Helm release secret'' err)
      | Inr secret \<Rightarrow>
          if \<not> IsHelmSecret (Lib env) secret then Inr out
          else (case ExtractRelease (Lib env) secret of
             Inl err \<Rightarrow> Inl err
           | Inr None \<Rightarrow> Inr out
           | Inr (Some (name, namespace)) \<Rightarrow>
               if name = '''' then Inr out
               else if \<not> HasCluster env then Inr out
               else (case existingHelmReleaseInCluster env name namespace of
                  Inl err \<Rightarrow> Inl err
                | Inr None \<Rightarrow> Inr out
                | Inr (Some existing) \<Rightarrow>
                    (case render_release env sc secret existing of
                       Inl err \<Rightarrow> Inl err
                     | Inr cleaned \<Rightarrow>
                         Inr (add_artifact (no_artifact\<lparr>ArtGVR := helmReleaseGVR, ArtName := name,
                           ArtNamespace := namespace, Content := Some cleaned\<rparr>) out)))))"

subsection \<open>Kustomize\<close>

definition Kustomize_Handles :: "('fs, 'w, 'n, 'r, 'i) mutator_env \<Rightarrow> GitPipelineParams \<Rightarrow> bool" where
  "Kustomize_Handles env params \<longleftrightarrow>
     alist_get (ScAnnotations (GppSyncer params)) (KustomizeAnnotation (Lib env)) = providerEnabled"

definition interceptedObject :: "('fs, 'w, 'n, 'r, 'i) mutator_env \<Rightarrow> GitPipelineParams \<Rightarrow> go_error + jobj" where
  "interceptedObject env params =
     ToUnstructured (Lib env)
       (if Operation params = ''DELETE'' then DeletedManifest params else InterceptedManifest params)"

fun remove_entry :: "('n \<Rightarrow> go_error + json) \<Rightarrow> json \<Rightarrow> 'n list \<Rightarrow> go_error + 'n list option" where
  \<comment> \<open>The loop that deletes the first equal element; \<open>None\<close> when there is none.\<close>
  "remove_entry val ent [] = Inr None"
| "remove_entry val ent (element # elements) =
     (case val element of
        Inl err \<Rightarrow> Inl err
      | Inr v \<Rightarrow>
          let v' = (case v of JStr s \<Rightarrow> JStr (Clean s) | _ \<Rightarrow> v) in
          if v' = ent then Inr (Some elements)
          else (case remove_entry val ent elements of
             Inl err \<Rightarrow> Inl err
           | Inr None \<Rightarrow> Inr None
           | Inr (Some es) \<Rightarrow> Inr (Some (element # es))))"

definition applyKustomizationEdit :: "('fs, 'w, 'n, 'r, 'i) mutator_lib \<Rightarrow> Edit \<Rightarrow> 'n \<Rightarrow> go_error + 'n" where
  "applyKustomizationEdit lib edit kustomization =
     (case KLookupCreate lib (EditField edit) kustomization of
        Inl err \<Rightarrow> Inl err
      | Inr (elems, kustomization1) \<Rightarrow>
          if Op edit = EditOpAdd then
            (case KEntry lib (Entry edit) of
               Inl err \<Rightarrow> Inl err
             | Inr node \<Rightarrow> Inr (KSetEntries lib (EditField edit) (elems @ [node]) kustomization1))
          else (case remove_entry (KValue lib) (Entry edit) elems of
             Inl err \<Rightarrow> Inl err
           | Inr None \<Rightarrow> Inr kustomization1
           | Inr (Some es) \<Rightarrow> Inr (KSetEntries lib (EditField edit) es kustomization1)))"

fun apply_edits :: "('fs, 'w, 'n, 'r, 'i) mutator_lib \<Rightarrow> 'fs billy \<Rightarrow> 'fs \<Rightarrow> Edit list \<Rightarrow> (string \<times> string) list
    \<Rightarrow> go_error + (string \<times> string) list" where
  "apply_edits lib wt fs [] contents = Inr contents"
| "apply_edits lib wt fs (edit # edits) contents =
     (let read = (case map_of contents (Kustomization edit) of
            Some c \<Rightarrow> Inr c | None \<Rightarrow> ReadWorktreeFile wt fs (Kustomization edit))
      in case read of
        Inl err \<Rightarrow> Inl err
      | Inr content \<Rightarrow>
          (case KParse lib content of
             Inl err \<Rightarrow> Inl err
           | Inr kustomization \<Rightarrow>
               (case applyKustomizationEdit lib edit kustomization of
                  Inl err \<Rightarrow> Inl err
                | Inr edited \<Rightarrow>
                    (case KMarshal lib content edited of
                       Inl err \<Rightarrow> Inl err
                     | Inr out \<Rightarrow> apply_edits lib wt fs edits (alist_set (Kustomization edit) out contents)))))"

definition applyKustomizationEdits :: "('fs, 'w, 'n, 'r, 'i) mutator_lib \<Rightarrow> 'fs billy \<Rightarrow> 'fs \<Rightarrow> Edit list
    \<Rightarrow> go_error + (string \<times> string) list" where
  "applyKustomizationEdits lib wt fs edits = apply_edits lib wt fs edits []"

definition whole_file :: "string \<Rightarrow> string option \<Rightarrow> Artifact" where
  "whole_file path content = no_artifact\<lparr>TargetPath := path, Content := content, WholeFile := True\<rparr>"

fun kustomize_files :: "('fs, 'w, 'n, 'r, 'i) mutator_env \<Rightarrow> 'fs RenderContext \<Rightarrow> bool \<Rightarrow> (string \<times> string) list
    \<Rightarrow> ArtifactSet \<Rightarrow> go_error + ArtifactSet" where
  "kustomize_files env rc json6902 [] out = Inr out"
| "kustomize_files env rc json6902 ((path, content) # files) out =
     (let content1 = (if RcTransform rc \<noteq> None \<and> \<not> json6902 then
             TransformChangedDocs (Docs env) path
               (case ReadWorktreeFile (RcWorktree rc) (RcFs rc) path of Inl _ \<Rightarrow> '''' | Inr c \<Rightarrow> c)
               content (RcTransform rc)
           else Inr content)
      in case content1 of
        Inl err \<Rightarrow> Inl err
      | Inr c \<Rightarrow> kustomize_files env rc json6902 files (add_artifact (whole_file path (Some c)) out))"

definition Kustomize_Render :: "('fs, 'w, 'n, 'r, 'i) mutator_env \<Rightarrow> 'fs RenderContext \<Rightarrow> ArtifactSet \<Rightarrow> go_error + ArtifactSet" where
  "Kustomize_Render env rc out =
     (case interceptedObject env (RcParams rc) of
        Inl err \<Rightarrow> Inl err
      | Inr obj \<Rightarrow>
          let resourceFinder = Enabled (Gates env) feature_ResourceFinder \<and>
                ResourceFinder (ScSpec (GppSyncer (RcParams rc)))
          in case Process (Lib env) obj (Operation (RcParams rc)) (RcFs rc) resourceFinder of
            Inl err \<Rightarrow> Inl err
          | Inr result \<Rightarrow>
              if \<not> Handled result then Inr out
              else let out1 = out\<lparr>Claimed := True\<rparr> in
                if Action result = ActionRefuse then Inr (out1\<lparr>DenialReason := RefuseMessage result\<rparr>)
                else (case kustomize_files env rc (PatchJSON6902 result) (range_map (FilesOrd env) (Files result)) out1 of
                   Inl err \<Rightarrow> Inl err
                 | Inr out2 \<Rightarrow>
                     let out3 = foldl (\<lambda>s path. add_artifact (whole_file path None) s) out2 (Deletes result) in
                     (case applyKustomizationEdits (Lib env) (RcWorktree rc) (RcFs rc) (Edits result) of
                        Inl err \<Rightarrow> Inl err
                      | Inr kustomizations \<Rightarrow>
                          Inr (foldl (\<lambda>s (path, content). add_artifact (whole_file path (Some content)) s) out3
                                (range_map (FilesOrd env) kustomizations)))))"

subsection \<open>SOPS\<close>

definition sopsConfigFile :: string where
  "sopsConfigFile = ''.sops.yaml''"

definition sopsIdentities :: "('fs, 'w, 'n, 'r, 'i) mutator_env \<Rightarrow> 'fs RenderContext \<Rightarrow> go_error + 'i option" where
  "sopsIdentities env rc =
     (let sc = GppSyncer (RcParams rc); ref = SopsSecretRef (SOPS (ScSpec sc)) in
      if SecName ref = '''' then Inr None
      else case ResolveNamespace (SecNamespace ref) (RefOwnerNamespace sc) ''spec.sops.secretRef'' of
        Inl err \<Rightarrow> Inl err
      | Inr namespace \<Rightarrow>
          if \<not> HasCluster env then
            Inl (PlainError ''spec.sops.secretRef is set but no cluster reader is available to get the secret'')
          else (case kget (Secrets (ApiClient env)) (World env) (nsn namespace (SecName ref)) of
             Inl e \<Rightarrow> Inl (WrapError (''failed to get the SOPS secret '' @ namespace @ ''/'' @ SecName ref) (ApiError e))
           | Inr secret \<Rightarrow>
               (case AgeIdentitiesFromSecret (Lib env) secret of
                  Inl err \<Rightarrow> Inl (WrapError (''failed to read the age identities from the secret ''
                               @ namespace @ ''/'' @ SecName ref) err)
                | Inr identities \<Rightarrow> Inr (Some identities))))"

definition sops_encrypt :: "('fs, 'w, 'n, 'r, 'i) mutator_lib \<Rightarrow> string \<Rightarrow> 'i option
    \<Rightarrow> string \<Rightarrow> string option \<Rightarrow> string \<Rightarrow> go_error + string" where
  \<comment> \<open>The closure \<open>sopsTransform\<close> returns.\<close>
  "sops_encrypt lib sopsYAML identities relPath existing content =
     (case LoadCreationRule lib sopsYAML relPath of
        NoCreationRule \<Rightarrow> Inr content
      | RuleError err \<Rightarrow> Inl (WrapError (''failed to load the '' @ sopsConfigFile @ '' creation rule for '' @ relPath) err)
      | CreationRule rules \<Rightarrow>
          (let old = (case existing of None \<Rightarrow> '''' | Some e \<Rightarrow> e) in
           case (if length old > 0 \<and> identities \<noteq> None
                 then EncryptWithExisting lib content old rules identities
                 else EncryptYAML lib content rules identities) of
             Inl err \<Rightarrow> Inl (WrapError (''failed to encrypt '' @ relPath @ '' with SOPS'') err)
           | Inr doc \<Rightarrow>
               if \<not> KubernetesIdentityVisible doc then
                 Inl (PlainError (''the '' @ sopsConfigFile @ '' creation rule matching '' @ relPath
                   @ '' encrypts the identity of the object: its encrypted_regex must leave apiVersion, kind and ''
                   @ ''metadata.name in cleartext so that syngit can find the document again''))
               else Inr (RawYAML doc)))"

definition sopsTransform :: "('fs, 'w, 'n, 'r, 'i) mutator_env \<Rightarrow> 'fs RenderContext \<Rightarrow> go_error + DocTransform" where
  "sopsTransform env rc =
     (if \<not> Enabled (Gates env) feature_SopsEncryption \<or> \<not> SopsEnabled (SOPS (ScSpec (GppSyncer (RcParams rc)))) then Inr None
      else case ReadWorktreeFile (RcWorktree rc) (RcFs rc) sopsConfigFile of
        Inl err \<Rightarrow> Inl (WrapError (''spec.sops.enabled is set but the repository has no '' @ sopsConfigFile
                     @ '' to read the creation rules from'') err)
      | Inr sopsYAML \<Rightarrow>
          (case sopsIdentities env rc of
             Inl err \<Rightarrow> Inl err
           | Inr identities \<Rightarrow> Inr (Some (sops_encrypt (Lib env) sopsYAML identities))))"

end
