(* ===== verification/Mutator.thy ===== *)
theory Mutator
  imports Providers
begin

text \<open>
  From the intercepted object to the changed worktree (\<open>internal/mutator\<close>: \<open>mutator.go\<close>,
  \<open>default.go\<close>, \<open>resource_finder.go\<close>): the providers are run, and the artifacts they
  produce, or the intercepted object itself, are placed in the worktree.

  The state is the worktree and the document cache.  \<open>None\<close> is a walk that ran out of fuel, as in
  the walker.
\<close>

subsection \<open>The default layout\<close>

definition invalidChars :: "char list" where
  "invalidChars = [CHR '':'', CHR ''*'', CHR ''?'', CHR 0x22, CHR ''<'', CHR ''>'', CHR ''|'']"

definition containsInvalidCharacters :: "string \<Rightarrow> bool" where
  "containsInvalidCharacters path = list_ex (\<lambda>c. c \<in> set invalidChars) path"

definition validatePath :: "string \<Rightarrow> go_error + string" where
  "validatePath path =
     (let cleanPath = Clean path in
      if containsInvalidCharacters cleanPath then Inl (PlainError ''the path is not valid'') else Inr cleanPath)"

definition getFileDirName :: "string \<Rightarrow> string \<Rightarrow> string \<Rightarrow> string \<times> string" where
  "getFileDirName resourceName path filename =
     (let pathArr = Split path ''/'' in
      if filename = '''' then (path @ ''/'', resourceName @ ''.yaml'')
      else if Contains (last pathArr) ''.yaml'' \<or> Contains (last pathArr) ''.yml''
      then (Join (butlast pathArr) ''/'', last pathArr)
      else (Join pathArr ''/'', resourceName @ ''.yaml''))"

definition layout_path :: "GitPipelineParams \<Rightarrow> GroupVersionResource \<Rightarrow> string" where
  "layout_path params gvr =
     (let sc = GppSyncer params;
          root = (if RootPath (ScSpec sc) \<noteq> '''' then RootPath (ScSpec sc) @ ''/'' else '''');
          namespacePath = (if InterceptedNamespace sc = '''' then ClusterScopedPathSegment else InterceptedNamespace sc)
      in root @ namespacePath @ ''/'' @ Group gvr @ ''/'' @ Version gvr @ ''/'' @ Resource gvr @ ''/'')"

definition pathConstructor :: "'fs billy \<Rightarrow> GitPipelineParams \<Rightarrow> GroupVersionResource \<Rightarrow> 'fs
    \<Rightarrow> (go_error + string) \<times> 'fs" where
  "pathConstructor wt params gvr fs =
     (case validatePath (layout_path params gvr) of
        Inl err \<Rightarrow> (Inl err, fs)
      | Inr path \<Rightarrow>
          (case Stat wt fs path of
             NotExist _ \<Rightarrow>
               (case MkdirAll wt (fst (getFileDirName (InterceptedName params) path '''')) fs of
                  (Some err, fs1) \<Rightarrow> (Inl err, fs1)
                | (None, fs1) \<Rightarrow> (Inr path, fs1))
           | StatFailed err \<Rightarrow> (Inl err, fs)
           | _ \<Rightarrow> (Inr path, fs)))"

definition write_named :: "'fs billy \<Rightarrow> GitPipelineParams \<Rightarrow> string option \<Rightarrow> string \<Rightarrow> string \<Rightarrow> DocTransform \<Rightarrow> 'fs
    \<Rightarrow> (go_error + string) \<times> 'fs" where
  \<comment> \<open>\<open>writeFile\<close> once the file name is known, or empty for a path that is a file.\<close>
  "write_named wt params content path fileName0 transform fs =
     (let (dir, fileName) = getFileDirName (InterceptedName params) path fileName0;
          fullFilePath = filepath_Join [dir, fileName]
      in case content of
        None \<Rightarrow> (Inr fullFilePath, fs)
      | Some c \<Rightarrow>
          let existing = (case ReadWorktreeFile wt fs fullFilePath of Inl _ \<Rightarrow> None | Inr e \<Rightarrow> Some e) in
          (case Apply transform fullFilePath existing c of
             Inl err \<Rightarrow> (Inl err, fs)
           | Inr out \<Rightarrow>
               (case WriteWorktreeFile wt fullFilePath out fs of
                  (Some err, fs1) \<Rightarrow> (Inl (TextError (''failed to write to file '' @ fullFilePath @ '': '') err ''''), fs1)
                | (None, fs1) \<Rightarrow> (Inr fullFilePath, fs1))))"

definition writeFile :: "'fs billy \<Rightarrow> GitPipelineParams \<Rightarrow> string option \<Rightarrow> string \<Rightarrow> DocTransform \<Rightarrow> 'fs
    \<Rightarrow> (go_error + string) \<times> 'fs" where
  "writeFile wt params content path transform fs =
     (let failed = (\<lambda>err. (Inl (TextError (''failed to stat file '' @ path @ '': '') err ''''), fs)) in
      case Stat wt fs path of
        NotExist err \<Rightarrow> failed err
      | StatFailed err \<Rightarrow> failed err
      | IsDirectory \<Rightarrow> write_named wt params content path (InterceptedName params @ ''.yaml'') transform fs
      | IsFile \<Rightarrow> write_named wt params content path '''' transform fs)"

fun default_place :: "'fs billy \<Rightarrow> GitPipelineParams \<Rightarrow> DocTransform \<Rightarrow> Artifact list \<Rightarrow> ClaimedPaths \<Rightarrow> 'fs
    \<Rightarrow> (go_error + ClaimedPaths) \<times> 'fs" where
  "default_place wt params transform [] claimed fs = (Inr claimed, fs)"
| "default_place wt params transform (a # as) claimed fs =
     (case pathConstructor wt params (ArtGVR a) fs of
        (Inl err, fs1) \<Rightarrow> (Inl err, fs1)
      | (Inr path, fs1) \<Rightarrow>
          (case writeFile wt params (Content a) path (transformOrNil a transform) fs1 of
             (Inl err, fs2) \<Rightarrow> (Inl err, fs2)
           | (Inr fullFilePath, fs2) \<Rightarrow>
               default_place wt params transform as
                 (if IsDeletion a then AppendDeletedPath fullFilePath claimed
                  else AppendAddedPath fullFilePath claimed) fs2))"

definition DefaultWorktreeCustomizer_place :: "'fs billy \<Rightarrow> GitPipelineParams \<Rightarrow> ArtifactSet \<Rightarrow> DocTransform \<Rightarrow> 'fs
    \<Rightarrow> (go_error + ClaimedPaths) \<times> 'fs" where
  "DefaultWorktreeCustomizer_place wt params artifacts transform fs =
     default_place wt params transform (Items artifacts) NewClaimedPaths fs"

subsection \<open>The resource finder\<close>

definition ResourceFinderCommentPrefix :: string where
  "ResourceFinderCommentPrefix = ''syngit.resource-finder/v1: ''"

definition finder_selector :: "GitPipelineParams \<Rightarrow> Artifact \<Rightarrow> ObjectSelector" where
  "finder_selector params a =
     (let (name, namespace) = (if ArtName a = '''' then (InterceptedName params, InterceptedNamespace (GppSyncer params))
                               else (ArtName a, ArtNamespace a))
      in \<lparr>SelGVR = ArtGVR a, SelName = name, SelNamespace = namespace, CommentPrefix = ResourceFinderCommentPrefix\<rparr>)"

definition finder_scope :: "GitPipelineParams \<Rightarrow> string" where
  "finder_scope params = TargetRepository (Spec (GppRemoteTarget params)) @ ''#'' @ UpstreamBranch (Spec (GppRemoteTarget params))"

text \<open>The walk's fuel and the order of the cache are bundled with the worktree.\<close>

record 'fs worktree =
  Filesystem :: "'fs billy"
  WalkFuel :: nat
  CacheOrd :: "nat \<Rightarrow> docCacheKey \<Rightarrow> nat"

type_synonym ('fs, 'a) placed = "((go_error + 'a) \<times> 'fs \<times> docCache) option"

fun finder_place :: "docs_lib \<Rightarrow> 'fs worktree \<Rightarrow> GitPipelineParams \<Rightarrow> DocTransform \<Rightarrow> Artifact list \<Rightarrow> ClaimedPaths
    \<Rightarrow> 'fs \<times> docCache \<Rightarrow> ('fs, ClaimedPaths) placed" where
  "finder_place lib wt params transform [] claimed st = Some (Inr claimed, st)"
| "finder_place lib wt params transform (a # as) claimed st =
     (case ReplaceObject lib (CacheOrd wt) (Filesystem wt) (WalkFuel wt) (finder_scope params) (finder_selector params a)
             (content_bytes a) (transformOrNil a transform) st of
        None \<Rightarrow> None
      | Some (Inl err, st1) \<Rightarrow> Some (Inl err, st1)
      | Some (Inr found, st1) \<Rightarrow>
          finder_place lib wt params transform as (AppendClaimedPaths found claimed) st1)"

definition ResourceFinder_place :: "docs_lib \<Rightarrow> 'fs worktree \<Rightarrow> GitPipelineParams \<Rightarrow> ArtifactSet \<Rightarrow> DocTransform
    \<Rightarrow> 'fs \<times> docCache \<Rightarrow> ('fs, ClaimedPaths) placed" where
  "ResourceFinder_place lib wt params artifacts transform st =
     finder_place lib wt params transform (Items artifacts) NewClaimedPaths st"

subsection \<open>Placement\<close>

definition placeArtifacts :: "('fs, 'w, 'n, 'r, 'i) mutator_env \<Rightarrow> 'fs worktree \<Rightarrow> GitPipelineParams \<Rightarrow> ArtifactSet
    \<Rightarrow> DocTransform \<Rightarrow> 'fs \<times> docCache \<Rightarrow> ('fs, ClaimedPaths) placed" where
  "placeArtifacts env wt params artifacts transform st =
     (case (if Enabled (Gates env) feature_ResourceFinder \<and> ResourceFinder (ScSpec (GppSyncer params))
            then ResourceFinder_place (Docs env) wt params artifacts transform st
            else Some (Inr NewClaimedPaths, st)) of
        None \<Rightarrow> None
      | Some (Inl err, st1) \<Rightarrow> Some (Inl err, st1)
      | Some (Inr found, fs1, cache1) \<Rightarrow>
          let claimed = AppendClaimedPaths found NewClaimedPaths in
          if \<not> ClaimExists claimed then
            (case DefaultWorktreeCustomizer_place (Filesystem wt) params artifacts transform fs1 of
               (Inl err, fs2) \<Rightarrow> Some (Inl err, fs2, cache1)
             | (Inr defaulted, fs2) \<Rightarrow> Some (Inr (AppendClaimedPaths defaulted claimed), fs2, cache1))
          else Some (Inr claimed, fs1, cache1))"

definition writeWholeFile :: "'fs billy \<Rightarrow> Artifact \<Rightarrow> ClaimedPaths \<Rightarrow> 'fs \<Rightarrow> (go_error + ClaimedPaths) \<times> 'fs" where
  "writeWholeFile wt a claimed fs =
     (let path = Clean (TargetPath a) in
      if IsDeletion a then
        (case Remove wt path fs of
           (Some err, fs1) \<Rightarrow> (Inl err, fs1)
         | (None, fs1) \<Rightarrow> (Inr (AppendDeletedPath path claimed), fs1))
      else
        (case WriteWorktreeFile wt path (content_bytes a) fs of
           (Some err, fs1) \<Rightarrow> (Inl err, fs1)
         | (None, fs1) \<Rightarrow> (Inr (AppendAddedPath path claimed), fs1)))"

definition writeArtifactAtPath :: "docs_lib \<Rightarrow> 'fs billy \<Rightarrow> Artifact \<Rightarrow> DocTransform \<Rightarrow> ClaimedPaths \<Rightarrow> 'fs
    \<Rightarrow> (go_error + ClaimedPaths) \<times> 'fs" where
  "writeArtifactAtPath lib wt a transform claimed fs =
     (if WholeFile a then writeWholeFile wt a claimed fs
      else case WriteObjectAtPath lib wt (Clean (TargetPath a)) (SelectorFromDoc lib (content_bytes a))
                  (content_bytes a) (transformOrNil a transform) fs of
        (Inl err, fs1) \<Rightarrow> (Inl err, fs1)
      | (Inr placed, fs1) \<Rightarrow> (Inr (AppendClaimedPaths placed claimed), fs1))"

fun write_at_paths :: "docs_lib \<Rightarrow> 'fs billy \<Rightarrow> DocTransform \<Rightarrow> Artifact list \<Rightarrow> ClaimedPaths \<Rightarrow> 'fs
    \<Rightarrow> (go_error + ClaimedPaths) \<times> 'fs" where
  \<comment> \<open>The loop over the artifacts, those without a path apart.\<close>
  "write_at_paths lib wt transform [] claimed fs = (Inr claimed, fs)"
| "write_at_paths lib wt transform (a # as) claimed fs =
     (if TargetPath a = '''' then write_at_paths lib wt transform as claimed fs
      else case writeArtifactAtPath lib wt a transform claimed fs of
        (Inl err, fs1) \<Rightarrow> (Inl err, fs1)
      | (Inr claimed1, fs1) \<Rightarrow> write_at_paths lib wt transform as claimed1 fs1)"

subsection \<open>The providers\<close>

datatype Provider = HelmValuesMutation | FluxHelmReleaseProvider | KustomizeProvider

definition providerGate :: "(string \<times> Provider) list" where
  "providerGate = [(feature_HelmValuesMutation, HelmValuesMutation),
     (feature_FluxHelmRelease, FluxHelmReleaseProvider), (feature_Kustomize, KustomizeProvider)]"

fun Handles :: "('fs, 'w, 'n, 'r, 'i) mutator_env \<Rightarrow> Provider \<Rightarrow> GitPipelineParams \<Rightarrow> bool" where
  "Handles env HelmValuesMutation params = HelmValues_Handles env params"
| "Handles env FluxHelmReleaseProvider params = Flux_Handles env params"
| "Handles env KustomizeProvider params = Kustomize_Handles env params"

fun Render :: "('fs, 'w, 'n, 'r, 'i) mutator_env \<Rightarrow> Provider \<Rightarrow> 'fs RenderContext \<Rightarrow> ArtifactSet \<Rightarrow> go_error + ArtifactSet" where
  "Render env HelmValuesMutation rc out = HelmValues_Render env rc out"
| "Render env FluxHelmReleaseProvider rc out = Flux_Render env rc out"
| "Render env KustomizeProvider rc out = Kustomize_Render env rc out"

fun run_providers :: "('fs, 'w, 'n, 'r, 'i) mutator_env \<Rightarrow> 'fs RenderContext \<Rightarrow> (string \<times> Provider) list \<Rightarrow> ArtifactSet
    \<Rightarrow> go_error + ArtifactSet" where
  "run_providers env rc [] out = Inr out"
| "run_providers env rc ((gate, provider) # ps) out =
     (if \<not> Enabled (Gates env) gate then run_providers env rc ps out
      else if \<not> Handles env provider (RcParams rc) then run_providers env rc ps out
      else case Render env provider rc out of
        Inl err \<Rightarrow> Inl err
      | Inr out1 \<Rightarrow> run_providers env rc ps out1)"

definition seed_artifact :: "GitPipelineParams \<Rightarrow> Artifact" where
  "seed_artifact params = no_artifact\<lparr>ArtGVR := InterceptedGVR params, Content := Some (InterceptedManifest params)\<rparr>"

definition place_all :: "('fs, 'w, 'n, 'r, 'i) mutator_env \<Rightarrow> 'fs worktree \<Rightarrow> GitPipelineParams \<Rightarrow> DocTransform
    \<Rightarrow> Artifact list \<Rightarrow> 'fs \<times> docCache \<Rightarrow> ('fs, ClaimedPaths) placed" where
  \<comment> \<open>The second half of \<open>GenerateFinalWorktree\<close>: artifacts with a path, then the others.\<close>
  "place_all env wt params transform items st =
     (case write_at_paths (Docs env) (Filesystem wt) transform items NewClaimedPaths (fst st) of
        (Inl err, fs1) \<Rightarrow> Some (Inl err, fs1, snd st)
      | (Inr claimedPaths, fs1) \<Rightarrow>
          let pathless = empty_set\<lparr>Items := filter (\<lambda>a. TargetPath a = '''') items\<rparr> in
          if length (Items pathless) > 0 then
            (case placeArtifacts env wt params pathless transform (fs1, snd st) of
               None \<Rightarrow> None
             | Some (Inl err, st2) \<Rightarrow> Some (Inl err, st2)
             | Some (Inr placed, st2) \<Rightarrow> Some (Inr (AppendClaimedPaths placed claimedPaths), st2))
          else Some (Inr claimedPaths, fs1, snd st))"

definition GenerateFinalWorktree :: "('fs, 'w, 'n, 'r, 'i) mutator_env \<Rightarrow> 'fs worktree \<Rightarrow> GitPipelineParams
    \<Rightarrow> 'fs \<times> docCache \<Rightarrow> ('fs, ClaimedPaths) placed" where
  "GenerateFinalWorktree env wt params st =
     (let rc = \<lparr>RcParams = params, RcWorktree = Filesystem wt, RcFs = fst st, RcTransform = None\<rparr> in
      case sopsTransform env rc of
        Inl err \<Rightarrow> Some (Inl err, st)
      | Inr transform \<Rightarrow>
          (case run_providers env (rc\<lparr>RcTransform := transform\<rparr>) (range_map (ProviderOrd env) providerGate) empty_set of
             Inl err \<Rightarrow> Some (Inl err, st)
           | Inr artifacts \<Rightarrow>
               if DenialReason artifacts \<noteq> '''' then Some (Inl (ProviderDenied (DenialReason artifacts)), st)
               else let items = (if length (Items artifacts) = 0 \<and> \<not> Claimed artifacts
                                 then [seed_artifact params] else Items artifacts)
                    in place_all env wt params transform items st))"

end
