(* ===== verification/Git_Lib.thy ===== *)
theory Git_Lib
  imports Mutator
begin

text \<open>
  The git library as the pusher calls it (go-git), and the sequencing of fallible stateful calls.

  The library is the parameter \<open>gitlib\<close>, a record of its calls on a state \<open>'g\<close> that holds
  every repository, its worktree and the remotes.  A repository is known by its identity
  (a pointer in the program).  A network call also returns the progress text the remote sent.
\<close>

subsection \<open>Actions\<close>

text \<open>
  \<open>None\<close> is an action that does not return: it waits for a mutex that is held, or a walk
  that ran out of fuel.
\<close>

type_synonym ('a, 's) act = "'s \<Rightarrow> ((go_error + 'a) \<times> 's) option"

definition ret :: "'a \<Rightarrow> ('a, 's) act" where
  "ret x s = Some (Inr x, s)"

definition fail_with :: "go_error \<Rightarrow> ('a, 's) act" where
  "fail_with e s = Some (Inl e, s)"

definition seq :: "('a, 's) act \<Rightarrow> ('a \<Rightarrow> ('b, 's) act) \<Rightarrow> ('b, 's) act" where
  "seq m f s = (case m s of
     None \<Rightarrow> None
   | Some (Inl e, s1) \<Rightarrow> Some (Inl e, s1)
   | Some (Inr x, s1) \<Rightarrow> f x s1)"

definition try_act :: "('a, 's) act \<Rightarrow> (go_error + 'a, 's) act" where
  \<comment> \<open>The error as a value, for code that looks at it.\<close>
  "try_act m s = (case m s of None \<Rightarrow> None | Some (r, s1) \<Rightarrow> Some (Inr r, s1))"

definition wrap_err :: "(go_error \<Rightarrow> go_error) \<Rightarrow> ('a, 's) act \<Rightarrow> ('a, 's) act" where
  "wrap_err f m s = (case m s of
     None \<Rightarrow> None
   | Some (Inl e, s1) \<Rightarrow> Some (Inl (f e), s1)
   | Some (Inr x, s1) \<Rightarrow> Some (Inr x, s1))"

fun each :: "('a \<Rightarrow> (unit, 's) act) \<Rightarrow> 'a list \<Rightarrow> (unit, 's) act" where
  "each f [] = ret ()"
| "each f (x # xs) = seq (f x) (\<lambda>_. each f xs)"

lemmas act_defs = ret_def fail_with_def seq_def try_act_def wrap_err_def

subsection \<open>The library\<close>

type_synonym repo = nat

record NetAuth =
  AuthUsername :: string
  AuthPassword :: string
  AuthInsecureSkipTLS :: bool
  AuthCABundle :: "string option"

record CloneOptions =
  CloneURL :: string
  CloneReferenceName :: string
  CloneAuth :: NetAuth

record FetchOptions =
  FetchRemoteName :: string
  FetchRemoteURL :: string
  FetchAuth :: NetAuth
  FetchRefSpecs :: "string list"
  FetchForce :: bool

record PullOptions =
  PullRemoteName :: string
  PullReferenceName :: string
  PullAuth :: NetAuth

record PushOptions =
  PushRefSpecs :: "string list"
  PushAuth :: NetAuth
  PushForce :: bool

datatype CheckoutOptions = CheckoutBranch string bool bool | CheckoutHash string

text \<open>\<open>CheckoutBranch b create force\<close>.\<close>

type_synonym 'g net = "'g \<Rightarrow> (go_error option \<times> string) \<times> 'g"

record 'g gitlib =
  git_Clone :: "CloneOptions \<Rightarrow> 'g \<Rightarrow> ((go_error + repo) \<times> string) \<times> 'g"
  git_Fetch :: "repo \<Rightarrow> FetchOptions \<Rightarrow> 'g net"
  git_Pull :: "repo \<Rightarrow> PullOptions \<Rightarrow> 'g net"
  git_Push :: "repo \<Rightarrow> PushOptions \<Rightarrow> 'g net"
  git_Reference :: "repo \<Rightarrow> string \<Rightarrow> (string, 'g) act"
  git_SetReference :: "repo \<Rightarrow> string \<Rightarrow> string \<Rightarrow> (unit, 'g) act"
  git_Worktree :: "repo \<Rightarrow> (unit, 'g) act"
  git_Checkout :: "repo \<Rightarrow> CheckoutOptions \<Rightarrow> (unit, 'g) act"
  git_HardReset :: "repo \<Rightarrow> string \<Rightarrow> (unit, 'g) act"
  git_CleanDir :: "repo \<Rightarrow> (unit, 'g) act"
  git_Branches :: "repo \<Rightarrow> (go_error + string list, 'g) act"
  git_RemoveReference :: "repo \<Rightarrow> string \<Rightarrow> (unit, 'g) act"
  git_Remote :: "repo \<Rightarrow> string \<Rightarrow> (unit, 'g) act"
  git_CreateRemote :: "repo \<Rightarrow> string \<Rightarrow> string \<Rightarrow> (unit, 'g) act"
  git_DeleteRemote :: "repo \<Rightarrow> string \<Rightarrow> (unit, 'g) act"
  git_MergeFastForward :: "repo \<Rightarrow> string \<Rightarrow> string \<Rightarrow> (unit, 'g) act"
  git_Log :: "repo \<Rightarrow> string \<Rightarrow> (string list, 'g) act"
  git_Head :: "repo \<Rightarrow> (string, 'g) act"
  git_CommitObject :: "repo \<Rightarrow> string \<Rightarrow> (string, 'g) act"
  git_Add :: "repo \<Rightarrow> string \<Rightarrow> (unit, 'g) act"
  git_Remove :: "repo \<Rightarrow> string \<Rightarrow> (unit, 'g) act"
  git_Commit :: "repo \<Rightarrow> string \<Rightarrow> string \<Rightarrow> string \<Rightarrow> (string, 'g) act"
  git_Filesystem :: "repo \<Rightarrow> 'g billy"

definition do_net :: "'g net \<Rightarrow> (go_error option \<times> string, 'g) act" where
  "do_net n g = (case n g of (r, g1) \<Rightarrow> Some (Inr r, g1))"

definition do_clone :: "('g \<Rightarrow> ((go_error + repo) \<times> string) \<times> 'g) \<Rightarrow> ((go_error + repo) \<times> string, 'g) act" where
  "do_clone n g = (case n g of (r, g1) \<Rightarrow> Some (Inr r, g1))"

lemma seq_ret [simp]: "seq (ret x) f = f x"
  by (simp add: fun_eq_iff act_defs)

lemma seq_fail [simp]: "seq (fail_with e) f = fail_with e"
  by (simp add: fun_eq_iff act_defs)

end
