(* ===== verification/Repo_Lease.thy ===== *)
theory Repo_Lease
  imports Lfu_Cache
begin

text \<open>
  The repository cache and its leases (\<open>internal/pusher/cache.go\<close>).  A handle is an address in the
  list of all handles ever made, with the repository it holds and the state of its mutex.
  \<open>acquire\<close> is \<open>None\<close> when the mutex is held: the caller waits.

  The second part runs any number of pipelines at once.  Each takes the leases of its plan in order,
  may clone into a handle it holds, and gives its leases back; a step is one atomic operation
  of one pipeline.  \<open>git.Clone\<close> returns a repository of its own, so a clone takes a fresh identity.
\<close>

subsection \<open>Handles and leases\<close>

record repoHandle =
  HandleRepo :: "nat option"
  HandleLocked :: bool

record lease_state =
  repoCache :: "(string, nat) lfu_ref"
  handles :: "repoHandle list"

definition InitRepoCache :: "int \<Rightarrow> lease_state" where
  "InitRepoCache maxRepos = \<lparr>repoCache = NewLFU maxRepos, handles = []\<rparr>"

definition new_handle :: repoHandle where
  "new_handle = \<lparr>HandleRepo = None, HandleLocked = False\<rparr>"

definition lookup_handle :: "(nat \<Rightarrow> string \<Rightarrow> nat) \<Rightarrow> string \<Rightarrow> lease_state \<Rightarrow> nat \<times> lease_state" where
  \<comment> \<open>The \<open>LoadOrStore\<close> of \<open>acquire\<close>, with the handle it allocates.\<close>
  "lookup_handle ord key ls =
     (case LoadOrStore ord (repoCache ls) key (length (handles ls)) of
        ((h, _), c) \<Rightarrow> (h, ls\<lparr>repoCache := c, handles := handles ls @ [new_handle]\<rparr>))"

definition set_handle :: "nat \<Rightarrow> (repoHandle \<Rightarrow> repoHandle) \<Rightarrow> lease_state \<Rightarrow> lease_state" where
  "set_handle h f ls = ls\<lparr>handles := (handles ls)[h := f (handles ls ! h)]\<rparr>"

definition lock_handle :: "nat \<Rightarrow> lease_state \<Rightarrow> lease_state option" where
  "lock_handle h ls =
     (if HandleLocked (handles ls ! h) then None
      else Some (set_handle h (\<lambda>x. x\<lparr>HandleLocked := True\<rparr>) ls))"

definition acquire :: "(nat \<Rightarrow> string \<Rightarrow> nat) \<Rightarrow> string \<Rightarrow> lease_state \<Rightarrow> (nat \<times> lease_state) option" where
  "acquire ord key ls =
     (case lookup_handle ord key ls of (h, ls1) \<Rightarrow> map_option (\<lambda>ls2. (h, ls2)) (lock_handle h ls1))"

definition lease_repo :: "nat \<Rightarrow> lease_state \<Rightarrow> nat option" where
  "lease_repo h ls = HandleRepo (handles ls ! h)"

definition lease_set :: "nat \<Rightarrow> nat \<Rightarrow> lease_state \<Rightarrow> lease_state" where
  "lease_set h r ls = set_handle h (\<lambda>x. x\<lparr>HandleRepo := Some r\<rparr>) ls"

definition release :: "nat \<Rightarrow> lease_state \<Rightarrow> lease_state" where
  "release h ls = set_handle h (\<lambda>x. x\<lparr>HandleLocked := False\<rparr>) ls"

definition discard :: "string \<Rightarrow> nat \<Rightarrow> lease_state \<Rightarrow> lease_state" where
  "discard key h ls =
     (let ls1 = (if HandleRepo (handles ls ! h) = None then ls\<lparr>repoCache := Delete (repoCache ls) key\<rparr> else ls)
      in release h ls1)"

subsection \<open>Well-formed caches\<close>

definition lease_ok :: "lease_state \<Rightarrow> bool" where
  \<comment> \<open>The cache invariant, every cached handle exists, and no two keys share one.\<close>
  "lease_ok ls \<longleftrightarrow> lfu_inv (repoCache ls) \<and>
     (\<forall>k h. view (repoCache ls) k = Some h \<longrightarrow> h < length (handles ls)) \<and>
     (\<forall>k k' h. view (repoCache ls) k = Some h \<longrightarrow> view (repoCache ls) k' = Some h \<longrightarrow> k' = k)"

lemma InitRepoCache_ok: "lease_ok (InitRepoCache n)"
  by (simp add: lease_ok_def InitRepoCache_def NewLFU_def lfu_inv_def lfu_ok_def view_def)

lemma set_handle_ok [simp]: "lease_ok (set_handle h f ls) = lease_ok ls"
  by (simp add: lease_ok_def set_handle_def)

lemma lookup_handle_ok:
  assumes "lease_ok ls" and "lookup_handle ord key ls = (h, ls')"
  shows "lease_ok ls'" and "h < length (handles ls')" and "length (handles ls') = Suc (length (handles ls))"
    and "\<And>j. j < length (handles ls) \<Longrightarrow> handles ls' ! j = handles ls ! j"
    and "handles ls' ! length (handles ls) = new_handle"
    and "view (repoCache ls) key = Some h \<or> h = length (handles ls)"
    and "enabled (repoCache ls') = enabled (repoCache ls)"
proof -
  let ?c = "snd (LoadOrStore ord (repoCache ls) key (length (handles ls)))"
  have ls': "ls' = ls\<lparr>repoCache := ?c, handles := handles ls @ [new_handle]\<rparr>"
    and h: "h = fst (fst (LoadOrStore ord (repoCache ls) key (length (handles ls))))"
    using assms(2) by (auto simp: lookup_handle_def split: prod.splits)
  from assms(1) have inv: "lfu_inv (repoCache ls)"
    and bound: "\<And>k x. view (repoCache ls) k = Some x \<Longrightarrow> x < length (handles ls)"
    and inj: "\<And>k k' x. view (repoCache ls) k = Some x \<Longrightarrow> view (repoCache ls) k' = Some x \<Longrightarrow> k' = k"
    by (auto simp: lease_ok_def)
  note look = lfu_load.load_look [OF inv, of ord key "length (handles ls)"]
  show hh: "view (repoCache ls) key = Some h \<or> h = length (handles ls)"
    unfolding h lfu_load.load_result by (cases "view (repoCache ls) key") auto
  show "h < length (handles ls')" using hh bound by (auto simp: ls' less_SucI)
  show "lease_ok ls'"
    unfolding lease_ok_def ls'
  proof (intro conjI allI impI; simp)
    show "lfu_inv ?c" using lfu_load.load_inv [OF inv] .
    fix k x
    assume "view ?c k = Some x"
    then show "x < Suc (length (handles ls))" using look bound by (metis less_SucI lessI)
    fix k'
    assume "view ?c k' = Some x"
    with \<open>view ?c k = Some x\<close> look inj bound show "k' = k" by (metis less_irrefl)
  qed
  show "enabled (repoCache ls') = enabled (repoCache ls)" by (simp add: ls' lfu_load.load_on)
qed (use assms(2) in \<open>auto simp: lookup_handle_def nth_append split: prod.splits\<close>)

lemma discard_handles: "handles (discard key h ls) = (handles ls)[h := (handles ls ! h)\<lparr>HandleLocked := False\<rparr>]"
  by (simp add: discard_def release_def set_handle_def Let_def)

lemma discard_ok: "lease_ok ls \<Longrightarrow> lease_ok (discard key h ls)"
  by (auto simp: discard_def release_def set_handle_def Let_def lease_ok_def Delete_inv Delete_view split: if_splits)

subsection \<open>Concurrent pipelines\<close>

record worker =
  Plan :: "string list" \<comment> \<open>keys of the leases still to take, in order\<close>
  Waiting :: "(string \<times> nat) option" \<comment> \<open>looked up, not yet locked\<close>
  Held :: "(string \<times> nat) list" \<comment> \<open>the leases held, the last taken first\<close>

record system =
  Lease :: lease_state
  Workers :: "worker list"
  NextRepo :: nat

inductive lease_step :: "(nat \<Rightarrow> string \<Rightarrow> nat) \<Rightarrow> system \<Rightarrow> system \<Rightarrow> bool" for ord where
  step_lookup: "\<lbrakk>i < length (Workers s); Workers s ! i = w; Plan w = k # ks; Waiting w = None;
      lookup_handle ord k (Lease s) = (h, ls)\<rbrakk>
    \<Longrightarrow> lease_step ord s (s\<lparr>Lease := ls, Workers := (Workers s)[i := w\<lparr>Plan := ks, Waiting := Some (k, h)\<rparr>]\<rparr>)"
| step_lock: "\<lbrakk>i < length (Workers s); Workers s ! i = w; Waiting w = Some (k, h); lock_handle h (Lease s) = Some ls\<rbrakk>
    \<Longrightarrow> lease_step ord s (s\<lparr>Lease := ls, Workers := (Workers s)[i := w\<lparr>Waiting := None, Held := (k, h) # Held w\<rparr>]\<rparr>)"
| step_clone: "\<lbrakk>i < length (Workers s); Workers s ! i = w; Waiting w = None; Held w = (k, h) # held\<rbrakk>
    \<Longrightarrow> lease_step ord s (s\<lparr>Lease := lease_set h (NextRepo s) (Lease s), NextRepo := Suc (NextRepo s)\<rparr>)"
| step_release: "\<lbrakk>i < length (Workers s); Workers s ! i = w; Waiting w = None; Held w = (k, h) # held\<rbrakk>
    \<Longrightarrow> lease_step ord s (s\<lparr>Lease := release h (Lease s),
          Workers := (Workers s)[i := w\<lparr>Plan := [], Held := held\<rparr>]\<rparr>)"
| step_discard: "\<lbrakk>i < length (Workers s); Workers s ! i = w; Waiting w = None; Held w = (k, h) # held\<rbrakk>
    \<Longrightarrow> lease_step ord s (s\<lparr>Lease := discard k h (Lease s),
          Workers := (Workers s)[i := w\<lparr>Plan := [], Held := held\<rparr>]\<rparr>)"

inductive_cases lease_stepE: "lease_step ord s s'"

definition start :: "int \<Rightarrow> string list list \<Rightarrow> system" where
  "start maxRepos plans = \<lparr>Lease = InitRepoCache maxRepos,
     Workers = map (\<lambda>p. \<lparr>Plan = p, Waiting = None, Held = []\<rparr>) plans, NextRepo = 0\<rparr>"

definition lease_reachable :: "(nat \<Rightarrow> string \<Rightarrow> nat) \<Rightarrow> int \<Rightarrow> string list list \<Rightarrow> system \<Rightarrow> bool" where
  "lease_reachable ord maxRepos plans s \<longleftrightarrow> (lease_step ord)\<^sup>*\<^sup>* (start maxRepos plans) s"

subsection \<open>Mutual exclusion\<close>

definition holds :: "system \<Rightarrow> nat \<Rightarrow> nat \<Rightarrow> bool" where
  "holds s i h \<longleftrightarrow> i < length (Workers s) \<and> h \<in> snd ` set (Held (Workers s ! i))"

definition locks_ok :: "system \<Rightarrow> bool" where
  \<comment> \<open>Every handle in use exists, a mutex is locked exactly while some pipeline holds it, and one pipeline at a time.\<close>
  "locks_ok s \<longleftrightarrow>
     (\<forall>i h. holds s i h \<longrightarrow> h < length (handles (Lease s))) \<and>
     (\<forall>i k h. i < length (Workers s) \<longrightarrow> Waiting (Workers s ! i) = Some (k, h) \<longrightarrow> h < length (handles (Lease s))) \<and>
     (\<forall>i. i < length (Workers s) \<longrightarrow> distinct (map snd (Held (Workers s ! i)))) \<and>
     (\<forall>i j h. holds s i h \<longrightarrow> holds s j h \<longrightarrow> i = j) \<and>
     (\<forall>h. h < length (handles (Lease s)) \<longrightarrow> HandleLocked (handles (Lease s) ! h) = (\<exists>i. holds s i h))"

definition repos_ok :: "system \<Rightarrow> bool" where
  \<comment> \<open>No repository is in two handles.\<close>
  "repos_ok s \<longleftrightarrow>
     (\<forall>h r. h < length (handles (Lease s)) \<longrightarrow> lease_repo h (Lease s) = Some r \<longrightarrow> r < NextRepo s) \<and>
     (\<forall>h h' r. h < length (handles (Lease s)) \<longrightarrow> h' < length (handles (Lease s)) \<longrightarrow>
        lease_repo h (Lease s) = Some r \<longrightarrow> lease_repo h' (Lease s) = Some r \<longrightarrow> h = h')"

definition sys_ok :: "system \<Rightarrow> bool" where
  "sys_ok s \<longleftrightarrow> lease_ok (Lease s) \<and> locks_ok s \<and> repos_ok s"

lemma start_ok: "sys_ok (start n plans)"
  using InitRepoCache_ok [of n]
  by (auto simp: sys_ok_def locks_ok_def repos_ok_def holds_def start_def InitRepoCache_def)

lemma locks_okI:
  assumes "\<And>i h. holds s i h \<Longrightarrow> h < length (handles (Lease s))"
    and "\<And>i k h. i < length (Workers s) \<Longrightarrow> Waiting (Workers s ! i) = Some (k, h) \<Longrightarrow> h < length (handles (Lease s))"
    and "\<And>i. i < length (Workers s) \<Longrightarrow> distinct (map snd (Held (Workers s ! i)))"
    and "\<And>i j h. holds s i h \<Longrightarrow> holds s j h \<Longrightarrow> i = j"
    and "\<And>h. h < length (handles (Lease s)) \<Longrightarrow> HandleLocked (handles (Lease s) ! h) = (\<exists>i. holds s i h)"
  shows "locks_ok s"
  using assms unfolding locks_ok_def by blast

lemma locks_okD:
  assumes "locks_ok s"
  shows "holds s i h \<Longrightarrow> h < length (handles (Lease s))"
    and "i < length (Workers s) \<Longrightarrow> Waiting (Workers s ! i) = Some (k, h) \<Longrightarrow> h < length (handles (Lease s))"
    and "i < length (Workers s) \<Longrightarrow> distinct (map snd (Held (Workers s ! i)))"
    and "holds s i h \<Longrightarrow> holds s j h \<Longrightarrow> i = j"
    and "h < length (handles (Lease s)) \<Longrightarrow> HandleLocked (handles (Lease s) ! h) = (\<exists>i. holds s i h)"
  using assms unfolding locks_ok_def by blast+

text \<open>Which handles a changed worker holds.\<close>

lemma holds_update:
  assumes "i < length (Workers s)"
  shows "holds (s\<lparr>Lease := ls, Workers := (Workers s)[i := w]\<rparr>) j h \<longleftrightarrow>
    (if j = i then h \<in> snd ` set (Held w) else holds s j h)"
  using assms by (auto simp: holds_def nth_list_update)

lemma lookup_step_ok:
  assumes "sys_ok s" and "i < length (Workers s)" and "lookup_handle ord k (Lease s) = (h, ls)"
    and "Held w = Held (Workers s ! i)" and "Waiting w = Some (k, h)"
  shows "sys_ok (s\<lparr>Lease := ls, Workers := (Workers s)[i := w]\<rparr>)"
proof -
  from assms(1) have ok: "lease_ok (Lease s)" "locks_ok s" "repos_ok s" by (simp_all add: sys_ok_def)
  note l = lookup_handle_ok [OF ok(1) assms(3)]
  have hold: "holds (s\<lparr>Lease := ls, Workers := (Workers s)[i := w]\<rparr>) j x \<longleftrightarrow> holds s j x" for j x
    using assms(2,4) by (cases "j = i") (simp_all add: holds_def)
  let ?s = "s\<lparr>Lease := ls, Workers := (Workers s)[i := w]\<rparr>"
  have "locks_ok ?s"
  proof (rule locks_okI)
    show "x < length (handles (Lease ?s))" if "holds ?s j x" for j x
      using that locks_okD(1) [OF ok(2)] l(3) by (auto simp: hold less_SucI)
    show "x < length (handles (Lease ?s))" if "j < length (Workers ?s)" "Waiting (Workers ?s ! j) = Some (k', x)" for j k' x
      using that locks_okD(2) [OF ok(2)] l(2,3) assms(2,5) by (cases "j = i") (auto simp: less_SucI)
    show "distinct (map snd (Held (Workers ?s ! j)))" if "j < length (Workers ?s)" for j
      using that locks_okD(3) [OF ok(2)] assms(2,4) by (cases "j = i") auto
    show "j = j'" if "holds ?s j x" "holds ?s j' x" for j j' x
      using that locks_okD(4) [OF ok(2)] by (simp add: hold)
    show "HandleLocked (handles (Lease ?s) ! x) = (\<exists>j. holds ?s j x)" if "x < length (handles (Lease ?s))" for x
    proof (cases "x = length (handles (Lease s))")
      case True
      then have "\<not> holds s j x" for j using locks_okD(1) [OF ok(2), of j x] by auto
      with True l(5) show ?thesis by (simp add: hold new_handle_def)
    next
      case False
      with that l(3) have "x < length (handles (Lease s))" by simp
      with locks_okD(5) [OF ok(2) this] l(4) show ?thesis by (simp add: hold)
    qed
  qed
  moreover have "repos_ok (s\<lparr>Lease := ls, Workers := (Workers s)[i := w]\<rparr>)"
  proof -
    have r: "lease_repo x ls = (if x < length (handles (Lease s)) then lease_repo x (Lease s) else None)"
      if "x < length (handles ls)" for x
      using that l(3,4,5) by (auto simp: lease_repo_def new_handle_def less_Suc_eq)
    show ?thesis using ok(3) by (auto simp: repos_ok_def r split: if_splits)
  qed
  ultimately show ?thesis using l(1) by (simp add: sys_ok_def)
qed

lemma lock_step_ok:
  assumes "sys_ok s" and "i < length (Workers s)" and "Waiting (Workers s ! i) = Some (k, h)"
    and "lock_handle h (Lease s) = Some ls" and "Held w = (k, h) # Held (Workers s ! i)" and "Waiting w = None"
  shows "sys_ok (s\<lparr>Lease := ls, Workers := (Workers s)[i := w]\<rparr>)"
proof -
  from assms(1) have ok: "lease_ok (Lease s)" "locks_ok s" "repos_ok s" by (simp_all add: sys_ok_def)
  have h: "h < length (handles (Lease s))" "\<not> HandleLocked (handles (Lease s) ! h)"
    using ok(2) assms(2,3,4) by (auto simp: locks_ok_def lock_handle_def split: if_splits)
  have ls: "ls = set_handle h (\<lambda>x. x\<lparr>HandleLocked := True\<rparr>) (Lease s)"
    using assms(4) by (auto simp: lock_handle_def split: if_splits)
  have free: "\<not> holds s j h" for j using ok(2) h by (auto simp: locks_ok_def)
  have hold: "holds (s\<lparr>Lease := ls, Workers := (Workers s)[i := w]\<rparr>) j x \<longleftrightarrow> holds s j x \<or> j = i \<and> x = h" for j x
    using assms(2,5) by (cases "j = i") (auto simp: holds_def)
  let ?s = "s\<lparr>Lease := ls, Workers := (Workers s)[i := w]\<rparr>"
  have "locks_ok ?s"
  proof (rule locks_okI)
    show "x < length (handles (Lease ?s))" if "holds ?s j x" for j x
      using that [unfolded hold] locks_okD(1) [OF ok(2)] h(1) by (auto simp: ls set_handle_def)
    show "x < length (handles (Lease ?s))" if "j < length (Workers ?s)" "Waiting (Workers ?s ! j) = Some (k', x)" for j k' x
      using that locks_okD(2) [OF ok(2)] assms(2,6) by (cases "j = i") (auto simp: ls set_handle_def)
    show "distinct (map snd (Held (Workers ?s ! j)))" if "j < length (Workers ?s)" for j
      using that locks_okD(3) [OF ok(2)] assms(2,5) free [of i] by (cases "j = i") (auto simp: holds_def)
    show "j = j'" if "holds ?s j x" "holds ?s j' x" for j j' x
      using that locks_okD(4) [OF ok(2)] free by (auto simp: hold)
    show "HandleLocked (handles (Lease ?s) ! x) = (\<exists>j. holds ?s j x)" if "x < length (handles (Lease ?s))" for x
      unfolding hold using that locks_okD(5) [OF ok(2), of x] h(1)
      by (cases "x = h") (auto simp: ls set_handle_def)
  qed
  moreover have "repos_ok (s\<lparr>Lease := ls, Workers := (Workers s)[i := w]\<rparr>)"
  proof -
    have r: "lease_repo x ls = lease_repo x (Lease s)" for x
      using h(1) by (cases "x = h") (auto simp: ls set_handle_def lease_repo_def)
    show ?thesis using ok(3) by (simp add: repos_ok_def r) (simp add: ls set_handle_def)
  qed
  ultimately show ?thesis using ok(1) by (simp add: sys_ok_def ls)
qed

lemma unlock_step_ok:
  assumes "sys_ok s" and "i < length (Workers s)" and "Held (Workers s ! i) = (k, h) # held"
    and "lease_ok ls" and "handles ls = (handles (Lease s))[h := (handles (Lease s) ! h)\<lparr>HandleLocked := False\<rparr>]"
    and "Held w = held" and "Waiting w = None"
  shows "sys_ok (s\<lparr>Lease := ls, Workers := (Workers s)[i := w]\<rparr>)"
proof -
  from assms(1) have ok: "locks_ok s" "repos_ok s" by (simp_all add: sys_ok_def)
  have hi: "holds s i h" using assms(2,3) by (simp add: holds_def)
  then have h: "h < length (handles (Lease s))" using ok(1) by (auto simp: locks_ok_def)
  have dist: "distinct (map snd (Held (Workers s ! i)))" using ok(1) assms(2) by (auto simp: locks_ok_def)
  have hold: "holds (s\<lparr>Lease := ls, Workers := (Workers s)[i := w]\<rparr>) j x \<longleftrightarrow> holds s j x \<and> x \<noteq> h" for j x
  proof (cases "j = i")
    case True
    then show ?thesis using assms(2,3,6) dist by (auto simp: holds_update holds_def)
  next
    case False
    then have "\<not> (holds s j x \<and> x = h)" using ok(1) hi by (auto simp: locks_ok_def)
    with False assms(2) show ?thesis by (auto simp: holds_update)
  qed
  let ?s = "s\<lparr>Lease := ls, Workers := (Workers s)[i := w]\<rparr>"
  have "locks_ok ?s"
  proof (rule locks_okI)
    show "x < length (handles (Lease ?s))" if "holds ?s j x" for j x
      using that locks_okD(1) [OF ok(1)] by (auto simp: hold assms(5))
    show "x < length (handles (Lease ?s))" if "j < length (Workers ?s)" "Waiting (Workers ?s ! j) = Some (k', x)" for j k' x
      using that locks_okD(2) [OF ok(1)] assms(2,7) by (cases "j = i") (auto simp: assms(5))
    show "distinct (map snd (Held (Workers ?s ! j)))" if "j < length (Workers ?s)" for j
      using that locks_okD(3) [OF ok(1)] assms(2,3,6) dist by (cases "j = i") auto
    show "j = j'" if "holds ?s j x" "holds ?s j' x" for j j' x
      using that locks_okD(4) [OF ok(1)] by (auto simp: hold)
    show "HandleLocked (handles (Lease ?s) ! x) = (\<exists>j. holds ?s j x)" if "x < length (handles (Lease ?s))" for x
      using that locks_okD(5) [OF ok(1), of x] h by (cases "x = h") (auto simp: hold assms(5))
  qed
  moreover have "repos_ok (s\<lparr>Lease := ls, Workers := (Workers s)[i := w]\<rparr>)"
  proof -
    have r: "lease_repo x ls = lease_repo x (Lease s)" for x
      using h by (cases "x = h") (auto simp: assms(5) lease_repo_def)
    show ?thesis using ok(2) by (simp add: repos_ok_def r) (simp add: assms(5))
  qed
  ultimately show ?thesis using assms(4) by (simp add: sys_ok_def)
qed

lemma clone_step_ok:
  assumes "sys_ok s" and "holds s i h"
  shows "sys_ok (s\<lparr>Lease := lease_set h (NextRepo s) (Lease s), NextRepo := Suc (NextRepo s)\<rparr>)"
proof -
  from assms(1) have ok: "lease_ok (Lease s)" "locks_ok s" "repos_ok s" by (simp_all add: sys_ok_def)
  have h: "h < length (handles (Lease s))" using ok(2) assms(2) by (auto simp: locks_ok_def)
  have len: "length (handles (lease_set h r (Lease s))) = length (handles (Lease s))" for r
    by (simp add: lease_set_def set_handle_def)
  have r: "lease_repo x (lease_set h (NextRepo s) (Lease s)) = (if x = h then Some (NextRepo s) else lease_repo x (Lease s))" for x
    using h by (auto simp: lease_set_def set_handle_def lease_repo_def)
  have lk: "HandleLocked (handles (lease_set h r (Lease s)) ! x) = HandleLocked (handles (Lease s) ! x)" for r x
    using h by (cases "x = h") (auto simp: lease_set_def set_handle_def)
  have hold: "holds (s\<lparr>Lease := ls, NextRepo := n\<rparr>) j x = holds s j x" for ls n j x by (simp add: holds_def)
  have "locks_ok (s\<lparr>Lease := lease_set h (NextRepo s) (Lease s), NextRepo := Suc (NextRepo s)\<rparr>)"
    using ok(2) by (simp add: locks_ok_def hold len lk)
  moreover have "repos_ok (s\<lparr>Lease := lease_set h (NextRepo s) (Lease s), NextRepo := Suc (NextRepo s)\<rparr>)"
    using ok(3) by (auto simp: repos_ok_def len r less_Suc_eq split: if_splits)
  ultimately show ?thesis using ok(1) by (simp add: sys_ok_def lease_set_def)
qed

lemma lease_step_ok:
  assumes "lease_step ord s s'" and "sys_ok s"
  shows "sys_ok s'"
  using assms
proof cases
  case (step_lookup i w k ks h ls)
  with assms(2) show ?thesis by (auto intro: lookup_step_ok)
next
  case (step_lock i w k h ls)
  with assms(2) show ?thesis by (auto intro: lock_step_ok)
next
  case (step_clone i w k h held)
  then have "holds s i h" by (simp add: holds_def)
  with assms(2) step_clone show ?thesis by (auto intro: clone_step_ok)
next
  case (step_release i w k h held)
  moreover have "lease_ok (release h (Lease s))" using assms(2) by (simp add: sys_ok_def release_def)
  moreover have "handles (release h (Lease s)) = (handles (Lease s))[h := (handles (Lease s) ! h)\<lparr>HandleLocked := False\<rparr>]"
    by (simp add: release_def set_handle_def)
  ultimately show ?thesis using assms(2) by (auto intro: unlock_step_ok)
next
  case (step_discard i w k h held)
  moreover have "lease_ok (discard k h (Lease s))" using assms(2) by (simp add: sys_ok_def discard_ok)
  ultimately show ?thesis using assms(2) discard_handles by (auto intro: unlock_step_ok)
qed

lemma lease_reachable_ok: "lease_reachable ord n plans s \<Longrightarrow> sys_ok s"
  unfolding lease_reachable_def by (induction rule: rtranclp_induct) (auto simp: start_ok intro: lease_step_ok)

subsection \<open>Waiting in a circle\<close>

definition stuck :: "system \<Rightarrow> nat \<Rightarrow> nat \<Rightarrow> bool" where
  \<comment> \<open>Two pipelines each wait for a handle the other holds.\<close>
  "stuck s i j \<longleftrightarrow> i < length (Workers s) \<and> j < length (Workers s) \<and>
     (\<exists>k h k' h'. Waiting (Workers s ! i) = Some (k, h) \<and> holds s j h \<and>
        Waiting (Workers s ! j) = Some (k', h') \<and> holds s i h')"

lemma stuck_step:
  assumes "lease_step ord s s'" and "sys_ok s" and "stuck s i j"
  shows "stuck s' i j"
proof -
  from assms(2) have ok: "locks_ok s" by (simp add: sys_ok_def)
  from assms(3) obtain k h k' h' where st: "i < length (Workers s)" "j < length (Workers s)"
    "Waiting (Workers s ! i) = Some (k, h)" "holds s j h" "Waiting (Workers s ! j) = Some (k', h')" "holds s i h'"
    by (auto simp: stuck_def)
  have locked: "HandleLocked (handles (Lease s) ! h)" "HandleLocked (handles (Lease s) ! h')"
    using st(4,6) locks_okD(1,5) [OF ok] by blast+
  have other: "stuck (s\<lparr>Lease := ls, Workers := (Workers s)[n := w]\<rparr>) i j" if "n \<noteq> i" "n \<noteq> j" for ls n w
    using that st by (auto simp: stuck_def holds_def)
  from assms(1) show ?thesis
  proof cases
    case (step_lookup n w k1 ks h1 ls)
    then have "n \<noteq> i" "n \<noteq> j" using st by auto
    with other show ?thesis by (simp add: step_lookup(1))
  next
    case (step_lock n w k1 h1 ls)
    then have "n \<noteq> i" "n \<noteq> j" using st locked by (auto simp: lock_handle_def)
    with other show ?thesis by (simp add: step_lock(1))
  next
    case (step_clone n w k1 h1 held)
    with st show ?thesis by (auto simp: stuck_def holds_def)
  next
    case (step_release n w k1 h1 held)
    then have "n \<noteq> i" "n \<noteq> j" using st by auto
    with other show ?thesis by (simp add: step_release(1))
  next
    case (step_discard n w k1 h1 held)
    then have "n \<noteq> i" "n \<noteq> j" using st by auto
    with other show ?thesis by (simp add: step_discard(1))
  qed
qed

lemma stuck_forever:
  assumes "(lease_step ord)\<^sup>*\<^sup>* s s'" and "sys_ok s" and "stuck s i j"
  shows "stuck s' i j"
proof -
  from assms(1) have "sys_ok s' \<and> stuck s' i j"
    by (induction rule: rtranclp_induct) (use assms(2,3) in \<open>auto intro: lease_step_ok stuck_step\<close>)
  then show ?thesis by simp
qed

text \<open>The crossing run of two pipelines: each looks up and locks its first lease, then looks up the other's.\<close>

definition two_keys :: "int \<Rightarrow> (string \<times> nat \<times> 32 word) list \<Rightarrow> (string, nat) lfu_ref" where
  "two_keys m es = Some \<lparr>max_entries = m, entries = map (\<lambda>(k, h, n). (k, \<lparr>entry_value = h, useCount = n\<rparr>)) es\<rparr>"

definition crossing :: "int \<Rightarrow> (string \<times> nat \<times> 32 word) list \<Rightarrow> bool list \<Rightarrow> worker list \<Rightarrow> system" where
  "crossing m es locks ws = \<lparr>Lease = \<lparr>repoCache = two_keys m es,
     handles = map (\<lambda>l. \<lparr>HandleRepo = None, HandleLocked = l\<rparr>) locks\<rparr>, Workers = ws, NextRepo = 0\<rparr>"

definition at :: "string list \<Rightarrow> (string \<times> nat) option \<Rightarrow> (string \<times> nat) list \<Rightarrow> worker" where
  "at plan waiting held = \<lparr>Plan = plan, Waiting = waiting, Held = held\<rparr>"

lemma load_two_keys:
  assumes "2 \<le> m" and "a \<noteq> b"
  shows "LoadOrStore ord (two_keys m []) a h = ((h, False), two_keys m [(a, h, 1)])"
    and "LoadOrStore ord (two_keys m [(a, x, 1)]) b h = ((h, False), two_keys m [(b, h, 1), (a, x, 1)])"
    and "LoadOrStore ord (two_keys m [(b, y, 1), (a, x, 1)]) b h = ((y, True), two_keys m [(b, y, 2), (a, x, 1)])"
    and "LoadOrStore ord (two_keys m [(b, y, 2), (a, x, 1)]) a h = ((x, True), two_keys m [(b, y, 2), (a, x, 2)])"
proof -
  have cap: "\<not> useCountCap \<le> 1" "\<not> useCountCap \<le> 2" by (simp_all add: useCountCap_def word_le_nat_alt)
  show "LoadOrStore ord (two_keys m []) a h = ((h, False), two_keys m [(a, h, 1)])"
    "LoadOrStore ord (two_keys m [(a, x, 1)]) b h = ((h, False), two_keys m [(b, h, 1), (a, x, 1)])"
    "LoadOrStore ord (two_keys m [(b, y, 1), (a, x, 1)]) b h = ((y, True), two_keys m [(b, y, 2), (a, x, 1)])"
    "LoadOrStore ord (two_keys m [(b, y, 2), (a, x, 1)]) a h = ((x, True), two_keys m [(b, y, 2), (a, x, 2)])"
    using assms cap
    by (simp_all add: two_keys_def LoadOrStore_def put_entry_def touchLocked_def reached_cap_def bump_def
        alist_set_def alist_del_def alist_map_def Let_def evictLocked.simps)
qed

lemma crossing_steps:
  assumes "2 \<le> m" and "a \<noteq> b"
  shows "lease_step ord (start m [[a, b], [b, a]]) (crossing m [(a, 0, 1)] [False] [at [b] (Some (a, 0)) [], at [b, a] None []])"
    and "lease_step ord (crossing m [(a, 0, 1)] [False] [at [b] (Some (a, 0)) [], at [b, a] None []])
      (crossing m [(a, 0, 1)] [True] [at [b] None [(a, 0)], at [b, a] None []])"
    and "lease_step ord (crossing m [(a, 0, 1)] [True] [at [b] None [(a, 0)], at [b, a] None []])
      (crossing m [(b, 1, 1), (a, 0, 1)] [True, False] [at [b] None [(a, 0)], at [a] (Some (b, 1)) []])"
    and "lease_step ord (crossing m [(b, 1, 1), (a, 0, 1)] [True, False] [at [b] None [(a, 0)], at [a] (Some (b, 1)) []])
      (crossing m [(b, 1, 1), (a, 0, 1)] [True, True] [at [b] None [(a, 0)], at [a] None [(b, 1)]])"
    and "lease_step ord (crossing m [(b, 1, 1), (a, 0, 1)] [True, True] [at [b] None [(a, 0)], at [a] None [(b, 1)]])
      (crossing m [(b, 1, 2), (a, 0, 1)] [True, True, False] [at [] (Some (b, 1)) [(a, 0)], at [a] None [(b, 1)]])"
    and "lease_step ord (crossing m [(b, 1, 2), (a, 0, 1)] [True, True, False] [at [] (Some (b, 1)) [(a, 0)], at [a] None [(b, 1)]])
      (crossing m [(b, 1, 2), (a, 0, 2)] [True, True, False, False] [at [] (Some (b, 1)) [(a, 0)], at [] (Some (a, 0)) [(b, 1)]])"
proof -
  note load = load_two_keys [OF assms, of ord]
  have start: "start m [[a, b], [b, a]] = crossing m [] [] [at [a, b] None [], at [b, a] None []]"
    using assms(1) by (simp add: start_def crossing_def InitRepoCache_def NewLFU_def two_keys_def at_def)
  have look: "lease_step ord (crossing m es locks ws) (crossing m es' (locks @ [False]) (ws[i := at ks (Some (k, h)) held]))"
    if "i < length ws" "ws ! i = at (k # ks) None held"
      "LoadOrStore ord (two_keys m es) k (length locks) = ((h, hit), two_keys m es')" for es es' locks ws i k ks h hit held
    using step_lookup [of i "crossing m es locks ws" "ws ! i" k ks ord h] that
    by (simp add: crossing_def lookup_handle_def at_def new_handle_def)
  have lock: "lease_step ord (crossing m es locks ws) (crossing m es (locks[h := True]) (ws[i := at ks None ((k, h) # held)]))"
    if "i < length ws" "ws ! i = at ks (Some (k, h)) held" "h < length locks" "\<not> locks ! h" for es locks ws i k ks h held
    using step_lock [of i "crossing m es locks ws" "ws ! i" k h] that
    by (simp add: crossing_def lock_handle_def set_handle_def at_def map_update)
  show "lease_step ord (start m [[a, b], [b, a]]) (crossing m [(a, 0, 1)] [False] [at [b] (Some (a, 0)) [], at [b, a] None []])"
    unfolding start using look [of 0 "[at [a, b] None [], at [b, a] None []]" a "[b]" "[]" "[]" "[]" 0 False "[(a, 0, 1)]"] load(1) by simp
  show "lease_step ord (crossing m [(a, 0, 1)] [False] [at [b] (Some (a, 0)) [], at [b, a] None []])
      (crossing m [(a, 0, 1)] [True] [at [b] None [(a, 0)], at [b, a] None []])"
    using lock [of 0 "[at [b] (Some (a, 0)) [], at [b, a] None []]" "[b]" a 0 "[]" "[False]"] by simp
  show "lease_step ord (crossing m [(a, 0, 1)] [True] [at [b] None [(a, 0)], at [b, a] None []])
      (crossing m [(b, 1, 1), (a, 0, 1)] [True, False] [at [b] None [(a, 0)], at [a] (Some (b, 1)) []])"
    using look [of 1 "[at [b] None [(a, 0)], at [b, a] None []]" b "[a]" "[]" "[(a, 0, 1)]" "[True]" 1 False "[(b, 1, 1), (a, 0, 1)]"] load(2) by simp
  show "lease_step ord (crossing m [(b, 1, 1), (a, 0, 1)] [True, False] [at [b] None [(a, 0)], at [a] (Some (b, 1)) []])
      (crossing m [(b, 1, 1), (a, 0, 1)] [True, True] [at [b] None [(a, 0)], at [a] None [(b, 1)]])"
    using lock [of 1 "[at [b] None [(a, 0)], at [a] (Some (b, 1)) []]" "[a]" b 1 "[]" "[True, False]"] by simp
  show "lease_step ord (crossing m [(b, 1, 1), (a, 0, 1)] [True, True] [at [b] None [(a, 0)], at [a] None [(b, 1)]])
      (crossing m [(b, 1, 2), (a, 0, 1)] [True, True, False] [at [] (Some (b, 1)) [(a, 0)], at [a] None [(b, 1)]])"
    using look [of 0 "[at [b] None [(a, 0)], at [a] None [(b, 1)]]" b "[]" "[(a, 0)]" "[(b, 1, 1), (a, 0, 1)]" "[True, True]" 1 True "[(b, 1, 2), (a, 0, 1)]"] load(3) by simp
  show "lease_step ord (crossing m [(b, 1, 2), (a, 0, 1)] [True, True, False] [at [] (Some (b, 1)) [(a, 0)], at [a] None [(b, 1)]])
      (crossing m [(b, 1, 2), (a, 0, 2)] [True, True, False, False] [at [] (Some (b, 1)) [(a, 0)], at [] (Some (a, 0)) [(b, 1)]])"
    using look [of 1 "[at [] (Some (b, 1)) [(a, 0)], at [a] None [(b, 1)]]" a "[]" "[(b, 1)]" "[(b, 1, 2), (a, 0, 1)]" "[True, True, False]" 0 True "[(b, 1, 2), (a, 0, 2)]"] load(4) by simp
qed

lemma crossing_reachable:
  assumes "2 \<le> m" and "a \<noteq> b"
  shows "lease_reachable ord m [[a, b], [b, a]]
      (crossing m [(b, 1, 1), (a, 0, 1)] [True, True] [at [b] None [(a, 0)], at [a] None [(b, 1)]])"
    and "lease_reachable ord m [[a, b], [b, a]]
      (crossing m [(b, 1, 2), (a, 0, 2)] [True, True, False, False] [at [] (Some (b, 1)) [(a, 0)], at [] (Some (a, 0)) [(b, 1)]])"
proof -
  note s = crossing_steps [OF assms, of ord] and into = rtranclp.rtrancl_into_rtrancl [of "lease_step ord"]
  note r4 = into [OF into [OF into [OF r_into_rtranclp [of "lease_step ord", OF s(1)] s(2)] s(3)] s(4)]
  note r6 = into [OF into [OF r4 s(5)] s(6)]
  show "lease_reachable ord m [[a, b], [b, a]]
      (crossing m [(b, 1, 1), (a, 0, 1)] [True, True] [at [b] None [(a, 0)], at [a] None [(b, 1)]])"
    using r4 by (simp only: lease_reachable_def)
  show "lease_reachable ord m [[a, b], [b, a]]
      (crossing m [(b, 1, 2), (a, 0, 2)] [True, True, False, False] [at [] (Some (b, 1)) [(a, 0)], at [] (Some (a, 0)) [(b, 1)]])"
    using r6 by (simp only: lease_reachable_def)
qed

lemma crossing_stuck:
  "stuck (crossing m es [True, True, False, False] [at [] (Some (b, 1)) [(a, 0)], at [] (Some (a, 0)) [(b, 1)]]) 0 1"
  by (simp add: stuck_def holds_def crossing_def at_def)

subsection \<open>Properties\<close>

text \<open>
  C18. However many pipelines run, however their steps interleave, and whatever the cache evicts while
  handles are leased, two pipelines never hold the same cached repository, and one pipeline never
  holds one lease twice.
\<close>

theorem pipelines_never_share_a_repository:
  assumes "lease_reachable ord maxRepos plans s"
    and "i < length (Workers s)" and "j < length (Workers s)"
    and "(k, h) \<in> set (Held (Workers s ! i))" and "(k', h') \<in> set (Held (Workers s ! j))"
    and "(i, k, h) \<noteq> (j, k', h')"
    and "lease_repo h (Lease s) = Some r"
  shows "lease_repo h' (Lease s) \<noteq> Some r"
proof
  assume r': "lease_repo h' (Lease s) = Some r"
  from lease_reachable_ok [OF assms(1)] have ok: "locks_ok s" "repos_ok s" by (simp_all add: sys_ok_def)
  have hold: "holds s i h" "holds s j h'" using assms(2-5) by (force simp: holds_def)+
  then have "h < length (handles (Lease s))" "h' < length (handles (Lease s))" using ok(1) by (auto simp: locks_ok_def)
  then have "h = h'" using ok(2) assms(7) r' by (auto simp: repos_ok_def)
  then have "i = j" using ok(1) hold by (auto simp: locks_ok_def)
  have "distinct (map snd (Held (Workers s ! i)))" using ok(1) assms(2) by (auto simp: locks_ok_def)
  then have "(k, h) = (k', h')"
    using assms(4,5) \<open>h = h'\<close> \<open>i = j\<close> by (intro inj_onD [of snd "set (Held (Workers s ! i))"]) (simp_all add: distinct_map)
  with assms(6) \<open>i = j\<close> show False by simp
qed

theorem pipelines_never_share_a_repository_witness:
  "\<exists>s. lease_reachable (\<lambda>_ _. 0) 2 [[''a'', ''b''], [''b'', ''a'']] s \<and>
     lease_repo 0 (Lease s) = Some 0 \<and> (''a'', 0) \<in> set (Held (Workers s ! 0)) \<and> (''b'', 1) \<in> set (Held (Workers s ! 1)) \<and>
     lease_repo 1 (Lease s) \<noteq> Some 0"
proof -
  let ?c = "crossing 2 [(''b'', 1, 1), (''a'', 0, 1)] [True, True] [at [''b''] None [(''a'', 0)], at [''a''] None [(''b'', 1)]]"
  let ?s = "?c\<lparr>Lease := lease_set 0 (NextRepo ?c) (Lease ?c), NextRepo := Suc (NextRepo ?c)\<rparr>"
  have w: "0 < length (Workers ?c)" "Workers ?c ! 0 = at [''b''] None [(''a'', 0)]"
    "Waiting (at [''b''] None [(''a'', 0)]) = None" "Held (at [''b''] None [(''a'', 0)]) = (''a'', 0) # []"
    by (simp_all add: crossing_def at_def)
  have step: "lease_step (\<lambda>_ _. 0) ?c ?s" by (rule step_clone [OF w])
  have c: "lease_reachable (\<lambda>_ _. 0) 2 [[''a'', ''b''], [''b'', ''a'']] ?c"
    by (rule crossing_reachable) simp_all
  have r: "lease_reachable (\<lambda>_ _. 0) 2 [[''a'', ''b''], [''b'', ''a'']] ?s"
    unfolding lease_reachable_def
    by (rule rtranclp.rtrancl_into_rtrancl [of "lease_step (\<lambda>_ _. 0)", OF c [unfolded lease_reachable_def] step])
  have f: "0 < length (Workers ?s)" "1 < length (Workers ?s)" "(''a'', 0) \<in> set (Held (Workers ?s ! 0))"
    "(''b'', 1) \<in> set (Held (Workers ?s ! 1))" "lease_repo 0 (Lease ?s) = Some 0"
    by (simp_all add: crossing_def at_def lease_set_def set_handle_def lease_repo_def)
  from pipelines_never_share_a_repository [OF r f(1,2,3,4) _ f(5)] have "lease_repo 1 (Lease ?s) \<noteq> Some 0" by simp
  with r f(3-5) show ?thesis by blast
qed

text \<open>
  In the steps of the leases alone: two workers that ask for two keys in opposite order can each take their
  first lease and then wait for the other's for ever: nothing any pipeline does afterwards frees them.
\<close>

theorem crossed_pipelines_deadlock:
  assumes "2 \<le> maxRepos" and "a \<noteq> b"
  shows "\<exists>s. lease_reachable ord maxRepos [[a, b], [b, a]] s \<and>
    (\<forall>s'. (lease_step ord)\<^sup>*\<^sup>* s s' \<longrightarrow>
       Waiting (Workers s' ! 0) \<noteq> None \<and> Waiting (Workers s' ! 1) \<noteq> None)"
proof (intro exI conjI allI impI)
  show r: "lease_reachable ord maxRepos [[a, b], [b, a]] (crossing maxRepos [(b, 1, 2), (a, 0, 2)]
      [True, True, False, False] [at [] (Some (b, 1)) [(a, 0)], at [] (Some (a, 0)) [(b, 1)]])"
    using assms by (rule crossing_reachable)
  fix s'
  assume "(lease_step ord)\<^sup>*\<^sup>* (crossing maxRepos [(b, 1, 2), (a, 0, 2)] [True, True, False, False]
      [at [] (Some (b, 1)) [(a, 0)], at [] (Some (a, 0)) [(b, 1)]]) s'"
  from stuck_forever [OF this lease_reachable_ok [OF r] crossing_stuck]
  show "Waiting (Workers s' ! 0) \<noteq> None" "Waiting (Workers s' ! 1) \<noteq> None" by (auto simp: stuck_def)
qed

theorem crossed_pipelines_deadlock_witness:
  "\<exists>s. lease_reachable (\<lambda>_ _. 0) 10 [[''x#main'', ''y#main''], [''y#main'', ''x#main'']] s \<and>
    (\<forall>s'. (lease_step (\<lambda>_ _. 0))\<^sup>*\<^sup>* s s' \<longrightarrow>
       Waiting (Workers s' ! 0) \<noteq> None \<and> Waiting (Workers s' ! 1) \<noteq> None)"
  by (rule crossed_pipelines_deadlock) simp_all

end
