(* ===== verification/Pusher.thy ===== *)
theory Pusher
  imports Git_Lib Repo_Lease
begin

text \<open>
  The git pipeline (\<open>internal/pusher\<close>): the repository of the target is leased from the cache or
  cloned, brought to a worktree according to the merge strategy, changed by the mutators,
  committed and pushed.

  The state is the repository cache with its handles, the state of the git library and the
  document cache of the walker.  \<open>None\<close> means that the pipeline does not return.
\<close>

record 'g pstate =
  PsLease :: lease_state
  PsGit :: 'g
  PsDocCache :: docCache

record ('g, 'w, 'n, 'r, 'i) pusher_env =
  GitLib :: "'g gitlib"
  MutatorEnv :: "('g, 'w, 'n, 'r, 'i) mutator_env"
  PushWalkFuel :: nat
  DocOrd :: "nat \<Rightarrow> docCacheKey \<Rightarrow> nat"
  RepoOrd :: "nat \<Rightarrow> string \<Rightarrow> nat"
  PrintUser :: "UserInfo \<Rightarrow> string"

definition on_git :: "('a, 'g) act \<Rightarrow> ('a, 'g pstate) act" where
  "on_git m ps = (case m (PsGit ps) of None \<Rightarrow> None | Some (r, g) \<Rightarrow> Some (r, ps\<lparr>PsGit := g\<rparr>))"

definition net_auth :: "GitUserInfo \<Rightarrow> SyncerContext \<Rightarrow> string option \<Rightarrow> NetAuth" where
  \<comment> \<open>The fields every network call takes from the parameters.\<close>
  "net_auth user sc ca = \<lparr>AuthUsername = GitUserName user, AuthPassword = Token user,
     AuthInsecureSkipTLS = InsecureSkipTlsVerify (ScSpec sc), AuthCABundle = ca\<rparr>"

definition params_auth :: "GitPipelineParams \<Rightarrow> NetAuth" where
  "params_auth params = net_auth (GppGitUserInfo params) (GppSyncer params) (CABundle params)"

definition NewBranchReferenceName :: "string \<Rightarrow> string" where
  "NewBranchReferenceName branch = ''refs/heads/'' @ branch"

definition nl :: string where "nl = [newline]"

subsection \<open>Repositories\<close>

definition originRemote :: string where "originRemote = ''origin''"
definition upstreamRemote :: string where "upstreamRemote = ''upstream''"

record GetRepositoryParams =
  GrGitUserInfo :: GitUserInfo
  GrSyncer :: SyncerContext
  GrCABundle :: "string option"
  GrRepository :: string
  GrBranch :: string

definition cacheKey :: "GetRepositoryParams \<Rightarrow> string" where
  "cacheKey p = GrRepository p @ ''#'' @ GrBranch p"

definition gr_auth :: "GetRepositoryParams \<Rightarrow> NetAuth" where
  "gr_auth p = net_auth (GrGitUserInfo p) (GrSyncer p) (GrCABundle p)"

definition git_variables :: "string \<Rightarrow> string \<Rightarrow> GitUserInfo \<Rightarrow> string" where
  "git_variables repository ref user =
     nl @ ''Repository: '' @ repository @ nl @ ''Reference: '' @ ref @ nl @ ''Username: '' @ GitUserName user
       @ nl @ ''Email: '' @ GitEmail user @ nl"

definition cloneRepository :: "'g gitlib \<Rightarrow> GetRepositoryParams \<Rightarrow> (repo, 'g) act" where
  "cloneRepository lib p =
     seq (do_clone (git_Clone lib \<lparr>CloneURL = GrRepository p, CloneReferenceName = GrBranch p, CloneAuth = gr_auth p\<rparr>))
       (\<lambda>(r, verboseOutput). case r of
          Inl err \<Rightarrow> fail_with (TextError ''failed to clone repository: '' err
            (nl @ ''Verbose output: '' @ verboseOutput @ nl @ ''Variables: ''
              @ git_variables (GrRepository p) (GrBranch p) (GrGitUserInfo p)))
        | Inr repository \<Rightarrow> ret repository)"

definition pruneStaleState :: "'g gitlib \<Rightarrow> repo \<Rightarrow> string \<Rightarrow> (unit, 'g) act" where
  "pruneStaleState lib repository keepBranch =
     seq (wrap_err (WrapError ''failed to list branches'') (git_Branches lib repository)) (\<lambda>branches.
     seq (case branches of
            Inl err \<Rightarrow> fail_with (WrapError ''failed to iterate branches'' err)
          | Inr names \<Rightarrow> ret (filter (\<lambda>name. name \<noteq> keepBranch) names)) (\<lambda>staleBranches.
     seq (each (\<lambda>name. wrap_err (WrapError (''failed to remove stale branch '' @ name)) (git_RemoveReference lib repository name))
            staleBranches) (\<lambda>_.
     seq (try_act (git_DeleteRemote lib repository upstreamRemote)) (\<lambda>r. case r of
            Inl err \<Rightarrow> if err = GitSentinel ErrRemoteNotFound then ret ()
                       else fail_with (WrapError ''failed to remove upstream remote'' err)
          | Inr _ \<Rightarrow> ret ()))))"

definition net_or_up_to_date :: "'g net \<Rightarrow> (go_error \<Rightarrow> string \<Rightarrow> go_error) \<Rightarrow> (unit, 'g) act" where
  \<comment> \<open>A network call whose error counts unless it is \<open>NoErrAlreadyUpToDate\<close>.\<close>
  "net_or_up_to_date n describe =
     seq (do_net n) (\<lambda>(err, verboseOutput). case err of
       Some e \<Rightarrow> if e \<noteq> GitSentinel NoErrAlreadyUpToDate then fail_with (describe e verboseOutput) else ret ()
     | None \<Rightarrow> ret ())"

definition refreshRepository :: "'g gitlib \<Rightarrow> repo \<Rightarrow> GetRepositoryParams \<Rightarrow> (unit, 'g) act" where
  "refreshRepository lib repository p =
     (let branch = GrBranch p;
          branchRef = NewBranchReferenceName branch;
          remoteTrackingRef = ''refs/remotes/'' @ originRemote @ ''/'' @ branch
      in seq (net_or_up_to_date
                (git_Fetch lib repository \<lparr>FetchRemoteName = originRemote, FetchRemoteURL = GrRepository p,
                   FetchAuth = gr_auth p,
                   FetchRefSpecs = [''+refs/heads/'' @ branch @ '':refs/remotes/'' @ originRemote @ ''/'' @ branch],
                   FetchForce = True\<rparr>)
                (\<lambda>e verboseOutput. TextError ''failed to fetch origin: '' e (nl @ ''Verbose output: '' @ verboseOutput))) (\<lambda>_.
         seq (wrap_err (WrapError (''failed to resolve '' @ remoteTrackingRef))
                (git_Reference lib repository remoteTrackingRef)) (\<lambda>remoteHash.
         seq (wrap_err (WrapError (''failed to reset branch '' @ branchRef))
                (git_SetReference lib repository branchRef remoteHash)) (\<lambda>_.
         seq (wrap_err (WrapError ''failed to get worktree'') (git_Worktree lib repository)) (\<lambda>_.
         seq (wrap_err (WrapError (''failed to checkout branch '' @ branch))
                (git_Checkout lib repository (CheckoutBranch branchRef False True))) (\<lambda>_.
         seq (wrap_err (WrapError ''failed to hard reset'') (git_HardReset lib repository remoteHash)) (\<lambda>_.
         seq (wrap_err (WrapError ''failed to clean worktree'') (git_CleanDir lib repository)) (\<lambda>_.
         pruneStaleState lib repository branchRef))))))))"

text \<open>A lease to give back: the handle, or nothing when the cache is off.\<close>

definition release_fn :: "nat option \<Rightarrow> 'g pstate \<Rightarrow> 'g pstate" where
  "release_fn l ps = (case l of None \<Rightarrow> ps | Some h \<Rightarrow> ps\<lparr>PsLease := release h (PsLease ps)\<rparr>)"

definition clone_into :: "('g, 'w, 'n, 'r, 'i) pusher_env \<Rightarrow> GetRepositoryParams \<Rightarrow> nat \<Rightarrow> (go_error \<Rightarrow> go_error)
    \<Rightarrow> (repo \<times> nat option, 'g pstate) act" where
  \<comment> \<open>A clone for a held lease, which is discarded when the clone fails.\<close>
  "clone_into env p h describe =
     seq (try_act (on_git (cloneRepository (GitLib env) p))) (\<lambda>r. case r of
       Inl err \<Rightarrow> (\<lambda>ps. Some (Inl (describe err), ps\<lparr>PsLease := discard (cacheKey p) h (PsLease ps)\<rparr>))
     | Inr repository \<Rightarrow> (\<lambda>ps. Some (Inr (repository, Some h), ps\<lparr>PsLease := lease_set h repository (PsLease ps)\<rparr>)))"

definition getRepository :: "('g, 'w, 'n, 'r, 'i) pusher_env \<Rightarrow> GetRepositoryParams
    \<Rightarrow> (repo \<times> nat option, 'g pstate) act" where
  "getRepository env p ps =
     (if repoCache (PsLease ps) = None then
        seq (on_git (cloneRepository (GitLib env) p)) (\<lambda>repository. ret (repository, None)) ps
      else case acquire (RepoOrd env) (cacheKey p) (PsLease ps) of
        None \<Rightarrow> None
      | Some (h, ls) \<Rightarrow>
          let ps1 = ps\<lparr>PsLease := ls\<rparr> in
          (case lease_repo h ls of
             None \<Rightarrow> clone_into env p h id ps1
           | Some repository \<Rightarrow>
               seq (try_act (on_git (refreshRepository (GitLib env) repository p))) (\<lambda>r. case r of
                 Inl err \<Rightarrow> clone_into env p h
                   (\<lambda>cloneErr. WrapError (''failed to refresh cached repository: '' @ Error (PrintUser env) err @ ''; re-clone failed'') cloneErr)
               | Inr _ \<Rightarrow> ret (repository, Some h)) ps1))"

definition GetUpstreamRepository :: "('g, 'w, 'n, 'r, 'i) pusher_env \<Rightarrow> GitPipelineParams
    \<Rightarrow> (repo \<times> nat option, 'g pstate) act" where
  "GetUpstreamRepository env params = getRepository env
     \<lparr>GrGitUserInfo = GppGitUserInfo params, GrSyncer = GppSyncer params, GrCABundle = CABundle params,
      GrRepository = UpstreamRepository (Spec (GppRemoteTarget params)),
      GrBranch = UpstreamBranch (Spec (GppRemoteTarget params))\<rparr>"

definition GetTargetRepository :: "('g, 'w, 'n, 'r, 'i) pusher_env \<Rightarrow> GitPipelineParams
    \<Rightarrow> (repo \<times> nat option, 'g pstate) act" where
  "GetTargetRepository env params = getRepository env
     \<lparr>GrGitUserInfo = GppGitUserInfo params, GrSyncer = GppSyncer params, GrCABundle = CABundle params,
      GrRepository = TargetRepository (Spec (GppRemoteTarget params)),
      GrBranch = UpstreamBranch (Spec (GppRemoteTarget params))\<rparr>"

subsection \<open>Worktrees\<close>

definition fetchUpstream :: "'g gitlib \<Rightarrow> GitPipelineParams \<Rightarrow> repo \<Rightarrow> (unit, 'g) act" where
  "fetchUpstream lib params targetRepository =
     (let upstreamURL = RemoteRepository (ScSpec (GppSyncer params));
          user = GppGitUserInfo params
      in seq (try_act (git_Remote lib targetRepository upstreamRemote)) (\<lambda>rem.
         seq (case rem of
                Inl remErr \<Rightarrow>
                  if remErr = GitSentinel ErrRemoteNotFound
                  then wrap_err (WrapError ''failed to create upstream remote'')
                         (git_CreateRemote lib targetRepository upstreamRemote upstreamURL)
                  else fail_with (WrapError ''failed to get upstream remote'' remErr)
              | Inr _ \<Rightarrow> ret ()) (\<lambda>_.
         net_or_up_to_date
           (git_Fetch lib targetRepository \<lparr>FetchRemoteName = upstreamRemote, FetchRemoteURL = upstreamURL,
              FetchAuth = params_auth params,
              FetchRefSpecs = [''+refs/heads/*:refs/remotes/origin/*'', ''+refs/heads/*:refs/remotes/upstream/*''],
              FetchForce = False\<rparr>)
           (\<lambda>e verboseOutput. TextError ''failed to fetch remote: '' e
              (nl @ ''Verbose output: '' @ verboseOutput @ nl @ ''Variables: '' @ nl @ ''Repository: '' @ upstreamURL @ nl
                @ ''Username: '' @ GitUserName user @ nl @ ''Email: '' @ GitEmail user @ nl)))))"

definition checkoutToBranch :: "'g gitlib \<Rightarrow> repo \<Rightarrow> string \<Rightarrow> (unit, 'g) act" where
  "checkoutToBranch lib targetRepository targetBranch =
     (let localRef = NewBranchReferenceName targetBranch in
      seq (try_act (git_Reference lib targetRepository localRef)) (\<lambda>ref.
      seq (case ref of
             Inl err \<Rightarrow>
               if err = GitSentinel ErrReferenceNotFound
               then wrap_err (WrapError (''failed to create and checkout branch '' @ targetBranch))
                      (git_Checkout lib targetRepository (CheckoutBranch localRef True False))
               else fail_with (WrapError ''failed to check branch reference'' err)
           | Inr _ \<Rightarrow> ret ()) (\<lambda>_.
      wrap_err (WrapError (''failed to checkout branch '' @ targetBranch))
        (git_Checkout lib targetRepository (CheckoutBranch localRef False False)))))"

definition doesBranchContainsCommit :: "'g gitlib \<Rightarrow> repo \<Rightarrow> string \<Rightarrow> string \<Rightarrow> (bool, 'g) act" where
  "doesBranchContainsCommit lib targetRepository branchHash commitHash =
     seq (wrap_err (WrapError ''failed to get branch log'') (git_Log lib targetRepository branchHash)) (\<lambda>commits.
     ret (commitHash \<in> set commits))"

definition upstreamBasedHardReset :: "'g gitlib \<Rightarrow> GitPipelineParams \<Rightarrow> repo \<Rightarrow> (unit, 'g) act" where
  "upstreamBasedHardReset lib params targetRepository =
     (let targetBranch = TargetBranch (Spec (GppRemoteTarget params));
          targetBranchRef = NewBranchReferenceName targetBranch;
          upstreamRemoteRef = ''refs/remotes/'' @ upstreamRemote @ ''/'' @ DefaultBranch (ScSpec (GppSyncer params))
      in seq (fetchUpstream lib params targetRepository) (\<lambda>_.
         seq (wrap_err (WrapError ''failed to get worktree'') (git_Worktree lib targetRepository)) (\<lambda>_.
         seq (wrap_err (WrapError (''failed to find remote reference '' @ upstreamRemoteRef))
                (git_Reference lib targetRepository upstreamRemoteRef)) (\<lambda>lastCommit.
         seq (wrap_err (WrapError ''failed to checkout upstream commit'')
                (git_Checkout lib targetRepository (CheckoutHash lastCommit))) (\<lambda>_.
         seq (wrap_err (WrapError (''failed to create local branch '' @ targetBranchRef))
                (git_SetReference lib targetRepository targetBranchRef lastCommit)) (\<lambda>_.
         seq (checkoutToBranch lib targetRepository targetBranch) (\<lambda>_.
         wrap_err (WrapError ''failed to hard reset'') (git_HardReset lib targetRepository lastCommit))))))))"

definition pull_variables :: "GitPipelineParams \<Rightarrow> string" where
  "pull_variables params =
     nl @ ''Remote: '' @ upstreamRemote @ nl @ ''Upstream ref: HEAD'' @ nl @ ''Reference: ''
       @ TargetBranch (Spec (GppRemoteTarget params)) @ nl @ ''Username: '' @ GitUserName (GppGitUserInfo params)
       @ nl @ ''Email: '' @ GitEmail (GppGitUserInfo params) @ nl"

definition pull_step :: "'g gitlib \<Rightarrow> GitPipelineParams \<Rightarrow> repo \<Rightarrow> string \<Rightarrow> string \<Rightarrow> (go_error \<Rightarrow> bool) \<Rightarrow> string
    \<Rightarrow> string \<Rightarrow> (string, 'g) act" where
  \<comment> \<open>One pull; \<open>tolerated\<close> errors are ignored.  The progress texts of both pulls go to one buffer.\<close>
  "pull_step lib params targetRepository remote branch tolerated failure buffer =
     seq (do_net (git_Pull lib targetRepository \<lparr>PullRemoteName = remote, PullReferenceName = NewBranchReferenceName branch,
            PullAuth = params_auth params\<rparr>)) (\<lambda>(err, verboseOutput).
     case err of
       Some e \<Rightarrow> if \<not> tolerated e
         then fail_with (TextError failure e (nl @ ''Verbose output: '' @ buffer @ verboseOutput
                @ nl @ ''Variables: '' @ pull_variables params))
         else ret (buffer @ verboseOutput)
     | None \<Rightarrow> ret (buffer @ verboseOutput))"

definition upstreamBasedPullFastForward :: "(UserInfo \<Rightarrow> string) \<Rightarrow> 'g gitlib \<Rightarrow> GitPipelineParams \<Rightarrow> repo \<Rightarrow> (unit, 'g) act" where
  "upstreamBasedPullFastForward u lib params targetRepository =
     (let upstreamBranch = UpstreamBranch (Spec (GppRemoteTarget params));
          targetBranch = TargetBranch (Spec (GppRemoteTarget params));
          upstreamBranchRef = NewBranchReferenceName upstreamBranch;
          targetBranchRef = NewBranchReferenceName targetBranch
      in seq (fetchUpstream lib params targetRepository) (\<lambda>_.
         seq (wrap_err (WrapError ''failed to get worktree for target repository'') (git_Worktree lib targetRepository)) (\<lambda>_.
         seq (checkoutToBranch lib targetRepository targetBranch) (\<lambda>_.
         seq (pull_step lib params targetRepository upstreamRemote upstreamBranch
                (\<lambda>e. e = GitSentinel NoErrAlreadyUpToDate) ''failed to pull remote: '' '''') (\<lambda>buffer.
         seq (pull_step lib params targetRepository originRemote targetBranch
                (\<lambda>e. e = GitSentinel NoErrAlreadyUpToDate \<or> Contains (Error u e) ''reference not found'')
                ''failed to pull target remote: '' buffer) (\<lambda>_.
         seq (wrap_err (WrapError ''failed to get target branch reference'')
                (git_Reference lib targetRepository targetBranchRef)) (\<lambda>targetHash.
         seq (wrap_err (WrapError (''failed to set target branch '' @ targetBranchRef))
                (git_SetReference lib targetRepository targetBranchRef targetHash)) (\<lambda>_.
         seq (wrap_err (WrapError ''failed to get upstream branch reference'')
                (git_Reference lib targetRepository upstreamBranchRef)) (\<lambda>upstreamHash.
         seq (wrap_err (WrapError ''failed to check if target branch contains commit'')
                (doesBranchContainsCommit lib targetRepository targetHash upstreamHash)) (\<lambda>contains.
         if contains then ret ()
         else
         seq (wrap_err (\<lambda>_. PlainError (''failed to merge the '' @ upstreamHash @ '' '' @ upstreamBranchRef
                @ '' reference in the current branch''))
                (git_MergeFastForward lib targetRepository upstreamBranchRef upstreamHash)) (\<lambda>_.
         wrap_err (WrapError ''failed to get updated worktree'') (git_Worktree lib targetRepository))))))))))))"

definition GetWorkTree :: "(UserInfo \<Rightarrow> string) \<Rightarrow> 'g gitlib \<Rightarrow> GitPipelineParams \<Rightarrow> repo \<Rightarrow> repo \<Rightarrow> (bool, 'g) act" where
  \<comment> \<open>Whether the push must be forced; the worktree is that of the target repository.\<close>
  "GetWorkTree u lib params targetRepository upstreamRepository =
     (let strategy = MergeStrategy (Spec (GppRemoteTarget params)) in
      if targetRepository = upstreamRepository \<and> strategy = '''' then
        seq (git_Worktree lib targetRepository) (\<lambda>_. ret False)
      else if strategy = TryFastForwardOrHardReset then
        seq (try_act (upstreamBasedPullFastForward u lib params targetRepository)) (\<lambda>r. case r of
          Inl _ \<Rightarrow> seq (upstreamBasedHardReset lib params targetRepository) (\<lambda>_. ret True)
        | Inr _ \<Rightarrow> ret False)
      else if strategy = TryHardResetOrDie then
        seq (upstreamBasedHardReset lib params targetRepository) (\<lambda>_. ret True)
      else if strategy = TryFastForwardOrDie then
        seq (upstreamBasedPullFastForward u lib params targetRepository) (\<lambda>_. ret False)
      else fail_with (PlainError (''wrong target strategy; got '' @ strategy)))"

subsection \<open>Commits\<close>

definition GetPathsFromClaimedPaths :: "ClaimedPaths \<Rightarrow> string list" where
  "GetPathsFromClaimedPaths claimedPaths = Add claimedPaths @ DeletePaths claimedPaths"

definition buildCommitMessage :: "GitPipelineParams \<Rightarrow> ClaimedPaths \<Rightarrow> string" where
  "buildCommitMessage params paths =
     (let ns = InterceptedNamespace (GppSyncer params);
          namespacePath = (if ns = '''' then ClusterScopedPathSegment else ns);
          gvr = InterceptedGVR params;
          resourceMessage = Resource gvr @ ''.'' @ Group gvr @ ''/'' @ Version gvr @ '': '' @ namespacePath @ ''/'' @ InterceptedName params;
          additionMsg = (if length (Add paths) > 0 then Itoa (length (Add paths)) @ ''+'' else '''');
          deletionMsg = (if length (DeletePaths paths) > 0 then Itoa (length (DeletePaths paths)) @ ''-'' else '''')
      in TrimPrefix (additionMsg @ deletionMsg @ '' '' @ resourceMessage) '' '')"

definition isErrorSkipable :: "(UserInfo \<Rightarrow> string) \<Rightarrow> go_error \<Rightarrow> bool" where
  "isErrorSkipable u err \<longleftrightarrow> errors_Is err (GitSentinel ErrEmptyCommit) = Some True \<or>
     Contains (Error u err) ''failed to delete file in staging area: entry not found''"

definition Commit :: "(UserInfo \<Rightarrow> string) \<Rightarrow> 'g gitlib \<Rightarrow> GitPipelineParams \<Rightarrow> repo \<Rightarrow> ClaimedPaths \<Rightarrow> (string, 'g) act" where
  "Commit u lib params repository paths =
     seq (each (\<lambda>path. wrap_err (\<lambda>err. TextError ''failed to add file to staging area: '' err '''') (git_Add lib repository path))
            (Add paths)) (\<lambda>_.
     seq (each (\<lambda>path. seq (try_act (git_Remove lib repository path)) (\<lambda>r. case r of
              Inl err \<Rightarrow> if \<not> Contains (Error u err) ''entry not found''
                then fail_with (TextError ''failed to delete file in staging area: '' err '''') else ret ()
            | Inr _ \<Rightarrow> ret ())) (DeletePaths paths)) (\<lambda>_.
     seq (try_act (git_Commit lib repository (buildCommitMessage params paths)
            (GitUserName (GppGitUserInfo params)) (GitEmail (GppGitUserInfo params)))) (\<lambda>r. case r of
       Inl err \<Rightarrow>
         if isErrorSkipable u err then
           seq (git_Head lib repository) (\<lambda>ref. git_CommitObject lib repository ref)
         else fail_with (TextError (''failed to commit changes ('' @ TargetRepository (Spec (GppRemoteTarget params)) @ ''/''
                @ TargetBranch (Spec (GppRemoteTarget params)) @ ''): '') err '''')
     | Inr commit \<Rightarrow> ret commit)))"

subsection \<open>Pushing\<close>

definition push_once :: "(UserInfo \<Rightarrow> string) \<Rightarrow> 'g gitlib \<Rightarrow> repo \<Rightarrow> PushOptions \<Rightarrow> string \<Rightarrow> string
    \<Rightarrow> (go_error option \<times> string, 'g) act" where
  \<comment> \<open>\<open>push\<close> with a copy of the buffer as it is at the call; the progress of the push goes to the original,
      which is returned beside the error.\<close>
  "push_once u lib targetRepository pushOptions verboseOutput variables =
     seq (do_net (git_Push lib targetRepository pushOptions)) (\<lambda>(err, progress).
     ret (case err of
            None \<Rightarrow> None
          | Some e \<Rightarrow> if Contains (Error u e) ''already up-to-date'' then None
              else Some (TextError ''failed to push changes: '' e
                (nl @ ''Verbose output:'' @ verboseOutput @ nl @ ''Variables: '' @ variables)),
          verboseOutput @ progress))"

fun push_retry :: "(string \<Rightarrow> (go_error option \<times> string, 'g) act) \<Rightarrow> nat \<Rightarrow> go_error option \<times> string \<Rightarrow> (go_error option \<times> string, 'g) act" where
  "push_retry attempt 0 r = ret r"
| "push_retry attempt (Suc n) r =
     seq (attempt (snd r)) (\<lambda>r1. if fst r1 = None then ret r1 else push_retry attempt n r1)"

definition Push :: "(UserInfo \<Rightarrow> string) \<Rightarrow> 'g gitlib \<Rightarrow> GitPipelineParams \<Rightarrow> repo \<Rightarrow> bool \<Rightarrow> (go_error option, 'g) act" where
  "Push u lib params targetRepository needForcePush =
     (let targetBranch = TargetBranch (Spec (GppRemoteTarget params));
          variables = git_variables (RemoteRepository (ScSpec (GppSyncer params))) targetBranch (GppGitUserInfo params);
          pushOptions = \<lparr>PushRefSpecs = [''refs/heads/'' @ targetBranch @ '':refs/heads/'' @ targetBranch],
            PushAuth = params_auth params, PushForce = needForcePush\<rparr>;
          attempt = (\<lambda>buffer. push_once u lib targetRepository pushOptions buffer variables)
      in seq (attempt '''') (\<lambda>r.
         if fst r \<noteq> None
         then seq (push_retry attempt (nat (PushErrorRetryNumber (ScSpec (GppSyncer params)))) r) (\<lambda>r1. ret (fst r1))
         else ret None))"

subsection \<open>The pipeline\<close>

definition ResponseBuilder :: "string list \<Rightarrow> string \<Rightarrow> string \<Rightarrow> GitPushResponse" where
  "ResponseBuilder paths commitHash url = \<lparr>Paths = paths, CommitHash = commitHash, PushURL = url\<rparr>"

definition run_mutators :: "('g, 'w, 'n, 'r, 'i) pusher_env \<Rightarrow> GitPipelineParams \<Rightarrow> repo \<Rightarrow> (ClaimedPaths, 'g pstate) act" where
  "run_mutators env params repository ps =
     (case GenerateFinalWorktree (MutatorEnv env)
             \<lparr>Filesystem = git_Filesystem (GitLib env) repository, WalkFuel = PushWalkFuel env, CacheOrd = DocOrd env\<rparr>
             params (PsGit ps, PsDocCache ps) of
        None \<Rightarrow> None
      | Some (r, g, cache) \<Rightarrow> Some (r, ps\<lparr>PsGit := g, PsDocCache := cache\<rparr>))"

type_synonym push_result = "GitPushResponse \<times> go_error option"

definition with_lease :: "nat option \<Rightarrow> (push_result, 'g pstate) act \<Rightarrow> (push_result, 'g pstate) act" where
  \<comment> \<open>\<open>defer release()\<close>: the lease is given back whatever the body returns.\<close>
  "with_lease l m ps = (case m ps of None \<Rightarrow> None | Some (r, ps1) \<Rightarrow> Some (r, release_fn l ps1))"

definition or_return :: "('a, 's) act \<Rightarrow> (go_error \<Rightarrow> push_result) \<Rightarrow> ('a \<Rightarrow> (push_result, 's) act) \<Rightarrow> (push_result, 's) act" where
  \<comment> \<open>\<open>if err != nil return response, err\<close>\<close>
  "or_return m failed f = seq (try_act m) (\<lambda>r. case r of Inl err \<Rightarrow> ret (failed err) | Inr x \<Rightarrow> f x)"

definition change_and_push :: "('g, 'w, 'n, 'r, 'i) pusher_env \<Rightarrow> GitPipelineParams \<Rightarrow> repo \<Rightarrow> repo
    \<Rightarrow> (push_result, 'g pstate) act" where
  \<comment> \<open>The pipeline from the worktree on, with the repositories leased.\<close>
  "change_and_push env params targetRepository upstreamRepository =
     (let u = PrintUser env; lib = GitLib env; url = TargetRepository (Spec (GppRemoteTarget params));
          failed = (\<lambda>paths hash err. (ResponseBuilder paths hash url, Some err))
      in or_return (on_git (GetWorkTree u lib params targetRepository upstreamRepository))
           (\<lambda>err. failed [] '''' (GitPipeline ''failed to get worktree'' err)) (\<lambda>needForcePush.
         or_return (run_mutators env params targetRepository)
           (\<lambda>err. failed [] '''' (GitPipeline ''failed to generate the worktree'' err)) (\<lambda>modifiedPaths.
         let paths = GetPathsFromClaimedPaths modifiedPaths in
         or_return (on_git (Commit u lib params targetRepository modifiedPaths))
           (\<lambda>err. failed paths '''' (GitPipeline ''failed to generate the commit'' err)) (\<lambda>commitHash.
         or_return (on_git (Push u lib params targetRepository needForcePush)) (failed paths commitHash) (\<lambda>err.
         ret (ResponseBuilder paths commitHash url, err))))))"

definition RunGitPipeline :: "('g, 'w, 'n, 'r, 'i) pusher_env \<Rightarrow> GitPipelineParams \<Rightarrow> (push_result, 'g pstate) act" where
  "RunGitPipeline env params =
     (let rt = Spec (GppRemoteTarget params);
          failed = (\<lambda>err. (ResponseBuilder [] '''' (TargetRepository rt), Some err))
      in or_return (GetTargetRepository env params) failed (\<lambda>(targetRepository, releaseTarget).
         with_lease releaseTarget
           (if MergeStrategy rt \<noteq> '''' \<and> UpstreamRepository rt \<noteq> TargetRepository rt then
              or_return (GetUpstreamRepository env params) failed (\<lambda>(upstreamRepository, releaseUpstream).
                with_lease releaseUpstream (change_and_push env params targetRepository upstreamRepository))
            else change_and_push env params targetRepository targetRepository)))"

subsection \<open>A library without surprises\<close>

text \<open>
  Instances for the examples: a git library whose calls all succeed on a state that is the files
  of one in-memory worktree, provider packages that find nothing to do, and YAML that is not decoded.
\<close>

definition quiet_git :: "(string \<times> string) list gitlib" where
  "quiet_git = \<lparr>git_Clone = (\<lambda>_ g. ((Inr 0, ''''), g)), git_Fetch = (\<lambda>_ _ g. ((None, ''''), g)),
     git_Pull = (\<lambda>_ _ g. ((None, ''''), g)), git_Push = (\<lambda>_ _ g. ((None, ''''), g)),
     git_Reference = (\<lambda>_ _. ret ''c0''), git_SetReference = (\<lambda>_ _ _. ret ()), git_Worktree = (\<lambda>_. ret ()),
     git_Checkout = (\<lambda>_ _. ret ()), git_HardReset = (\<lambda>_ _. ret ()), git_CleanDir = (\<lambda>_. ret ()),
     git_Branches = (\<lambda>_. ret (Inr [])), git_RemoveReference = (\<lambda>_ _. ret ()), git_Remote = (\<lambda>_ _. ret ()),
     git_CreateRemote = (\<lambda>_ _ _. ret ()), git_DeleteRemote = (\<lambda>_ _. ret ()), git_MergeFastForward = (\<lambda>_ _ _. ret ()),
     git_Log = (\<lambda>_ _. ret []), git_Head = (\<lambda>_. ret ''c0''), git_CommitObject = (\<lambda>_ h. ret h),
     git_Add = (\<lambda>_ _. ret ()), git_Remove = (\<lambda>_ _. ret ()), git_Commit = (\<lambda>_ _ _ _. ret ''c1''),
     git_Filesystem = (\<lambda>_. memfs)\<rparr>"

definition idle_lib :: "('fs, 'w, unit, unit, unit) mutator_lib" where
  "idle_lib = \<lparr>HelmValuesAnnotation = ''helm'', IsHelmSecretByName = (\<lambda>_. False), GetReleaseNameFromSecretName = id,
     IsHelmSecret = (\<lambda>_. False), ExtractValues = (\<lambda>_. Inr ''''), ExtractRelease = (\<lambda>_. Inr None),
     SecretFromYAML = (\<lambda>_. Inl (PlainError '''')), HelmReleaseAnnotation = ''flux'', ListHelmReleases = (\<lambda>_ _. Inr []),
     FromUnstructured = (\<lambda>_. Inl (PlainError '''')), ConvertToHelmReleaseWithExisting = (\<lambda>_ h. Inr h),
     MarshalHelmRelease = (\<lambda>_. Inr ''''), KustomizeAnnotation = ''kustomize'', ToUnstructured = (\<lambda>_. Inr []),
     Process = (\<lambda>_ _ _ _. Inl (PlainError '''')), KParse = (\<lambda>_. Inr ()), KLookupCreate = (\<lambda>_ _. Inr ([], ())),
     KSetEntries = (\<lambda>_ _ _. ()), KEntry = (\<lambda>_. Inr ()), KValue = (\<lambda>_. Inr JNull), KMarshal = (\<lambda>_ _. Inr ''''),
     LoadCreationRule = (\<lambda>_ _. CreationRule ()), EncryptYAML = (\<lambda>c _ _. Inr \<lparr>RawYAML = ''ENC '' @ c, KubernetesIdentityVisible = True\<rparr>),
     EncryptWithExisting = (\<lambda>c _ _ _. Inr \<lparr>RawYAML = ''ENC '' @ c, KubernetesIdentityVisible = True\<rparr>),
     AgeIdentitiesFromSecret = (\<lambda>_. Inr ())\<rparr>"

definition plain_docs :: docs_lib where
  "plain_docs = \<lparr>Unmarshal = (\<lambda>_. None), guessResource = id\<rparr>"

definition plain_codec :: codec where
  "plain_codec = \<lparr>JsonUnmarshal = (\<lambda>s. Inr [(''raw'', JStr s)]),
     YamlMarshal = (\<lambda>m. Inr (assert_string (map_of m ''raw''))), YamlStrings = (\<lambda>_. Inr []), JSONToYAML = Inr\<rparr>"

definition idle_mutators :: "'w client \<Rightarrow> 'w \<Rightarrow> (string \<times> bool) list \<Rightarrow> ('fs, 'w, unit, unit, unit) mutator_env" where
  "idle_mutators c w gates = \<lparr>Lib = idle_lib, Docs = plain_docs, Codec = plain_codec, Gates = gates, ApiClient = c,
     World = w, HasCluster = True, ManagerNamespace = ''syngit'', ProviderOrd = (\<lambda>_ _. 0), FilesOrd = (\<lambda>_ _. 0)\<rparr>"

definition quiet_env :: "'w client \<Rightarrow> 'w \<Rightarrow> ((string \<times> string) list, 'w, unit, unit, unit) pusher_env" where
  "quiet_env c w = \<lparr>GitLib = quiet_git, MutatorEnv = idle_mutators c w LoadedFeatureGates, PushWalkFuel = 5,
     DocOrd = (\<lambda>_ _. 0), RepoOrd = (\<lambda>_ _. 0), PrintUser = Username\<rparr>"

definition quiet_state :: "int \<Rightarrow> (string \<times> string) list \<Rightarrow> (string \<times> string) list pstate" where
  "quiet_state maxRepos files = \<lparr>PsLease = InitRepoCache maxRepos, PsGit = files, PsDocCache = None\<rparr>"

end
