(* ===== verification/Pusher_Safety.thy ===== *)
theory Pusher_Safety
  imports Pusher
begin

text \<open>
  What the git pipeline promises: its leases are given back on every path, on its own it never
  waits for itself, and whatever the git library answers, every network call stays within the
  repositories, the branch and the credentials of its parameters.

  The lemmas follow the actions: \<open>total_act\<close> is kept by every combinator (the rules are collected in
  \<open>act_total\<close>), and so is a part of the state that no call changes (\<open>act_frame\<close>).
\<close>

named_theorems act_total \<open>actions that always return\<close>
named_theorems act_frame \<open>actions that leave a part of the state alone\<close>

subsection \<open>Actions that return\<close>

definition total_act :: "('a, 's) act \<Rightarrow> bool" where
  "total_act m \<longleftrightarrow> (\<forall>s. m s \<noteq> None)"

lemma total_ret [act_total]: "total_act (ret x)"
  by (simp add: total_act_def ret_def)

lemma total_fail [act_total]: "total_act (fail_with e)"
  by (simp add: total_act_def fail_with_def)

lemma total_seq [act_total]: "total_act m \<Longrightarrow> (\<And>x. total_act (f x)) \<Longrightarrow> total_act (seq m f)"
  by (simp add: total_act_def seq_def split: option.splits prod.splits sum.splits)

lemma total_try [act_total]: "total_act m \<Longrightarrow> total_act (try_act m)"
  by (simp add: total_act_def try_act_def split: option.splits)

lemma total_wrap [act_total]: "total_act m \<Longrightarrow> total_act (wrap_err f m)"
  by (simp add: total_act_def wrap_err_def split: option.splits prod.splits sum.splits)

lemma total_each [act_total]: "(\<And>x. total_act (f x)) \<Longrightarrow> total_act (each f xs)"
  by (induction xs) (simp_all add: act_total)

lemma total_net [act_total]: "total_act (do_net n)" "total_act (do_clone c)"
  by (simp_all add: total_act_def do_net_def do_clone_def split: prod.splits)

lemma total_if [act_total]: "(b \<Longrightarrow> total_act m) \<Longrightarrow> (\<not> b \<Longrightarrow> total_act m') \<Longrightarrow> total_act (if b then m else m')"
  by simp

lemma total_sum [act_total]:
  "(\<And>e. total_act (f e)) \<Longrightarrow> (\<And>x. total_act (g x)) \<Longrightarrow> total_act (case r of Inl e \<Rightarrow> f e | Inr x \<Rightarrow> g x)"
  by (cases r) simp_all

lemma total_option [act_total]:
  "total_act m \<Longrightarrow> (\<And>x. total_act (f x)) \<Longrightarrow> total_act (case r of None \<Rightarrow> m | Some x \<Rightarrow> f x)"
  by (cases r) simp_all

lemma total_prod [act_total]: "(\<And>x y. total_act (f x y)) \<Longrightarrow> total_act (case r of (x, y) \<Rightarrow> f x y)"
  by (cases r) simp

lemma total_on_git [act_total]: "total_act m \<Longrightarrow> total_act (on_git m)"
  by (simp add: total_act_def on_git_def split: option.splits)

lemma total_push_retry [act_total]: "(\<And>b. total_act (attempt b)) \<Longrightarrow> total_act (push_retry attempt n r)"
  by (induction n arbitrary: r) (simp_all add: act_total)

definition total_git :: "'g gitlib \<Rightarrow> bool" where
  \<comment> \<open>Every call of the library returns.\<close>
  "total_git lib \<longleftrightarrow>
     (\<forall>r n. total_act (git_Reference lib r n)) \<and> (\<forall>r n h. total_act (git_SetReference lib r n h)) \<and>
     (\<forall>r. total_act (git_Worktree lib r)) \<and> (\<forall>r opt. total_act (git_Checkout lib r opt)) \<and>
     (\<forall>r h. total_act (git_HardReset lib r h)) \<and> (\<forall>r. total_act (git_CleanDir lib r)) \<and>
     (\<forall>r. total_act (git_Branches lib r)) \<and> (\<forall>r n. total_act (git_RemoveReference lib r n)) \<and>
     (\<forall>r n. total_act (git_Remote lib r n)) \<and> (\<forall>r n u. total_act (git_CreateRemote lib r n u)) \<and>
     (\<forall>r n. total_act (git_DeleteRemote lib r n)) \<and> (\<forall>r n h. total_act (git_MergeFastForward lib r n h)) \<and>
     (\<forall>r h. total_act (git_Log lib r h)) \<and> (\<forall>r. total_act (git_Head lib r)) \<and>
     (\<forall>r h. total_act (git_CommitObject lib r h)) \<and> (\<forall>r p. total_act (git_Add lib r p)) \<and>
     (\<forall>r p. total_act (git_Remove lib r p)) \<and> (\<forall>r m a b. total_act (git_Commit lib r m a b))"

lemma total_gitD [act_total]:
  assumes "total_git lib"
  shows "total_act (git_Reference lib r n)" "total_act (git_SetReference lib r n h)" "total_act (git_Worktree lib r)"
    "total_act (git_Checkout lib r opt)" "total_act (git_HardReset lib r h)" "total_act (git_CleanDir lib r)"
    "total_act (git_Branches lib r)" "total_act (git_RemoveReference lib r n)" "total_act (git_Remote lib r n)"
    "total_act (git_CreateRemote lib r n u)" "total_act (git_DeleteRemote lib r n)" "total_act (git_MergeFastForward lib r n h)"
    "total_act (git_Log lib r h)" "total_act (git_Head lib r)" "total_act (git_CommitObject lib r h)"
    "total_act (git_Add lib r p)" "total_act (git_Remove lib r p)" "total_act (git_Commit lib r m a b)"
  using assms by (simp_all add: total_git_def)

lemma total_net_or [act_total]: "total_act (net_or_up_to_date n d)"
  unfolding net_or_up_to_date_def Let_def by (rule act_total | assumption)+

lemma total_clone [act_total]: "total_git lib \<Longrightarrow> total_act (cloneRepository lib p)"
  unfolding cloneRepository_def Let_def by (rule act_total | assumption)+

lemma total_prune [act_total]: "total_git lib \<Longrightarrow> total_act (pruneStaleState lib repository b)"
  unfolding pruneStaleState_def Let_def by (rule act_total | assumption)+

lemma total_refresh [act_total]: "total_git lib \<Longrightarrow> total_act (refreshRepository lib repository p)"
  unfolding refreshRepository_def Let_def by (rule act_total | assumption)+

lemma total_fetch [act_total]: "total_git lib \<Longrightarrow> total_act (fetchUpstream lib params repository)"
  unfolding fetchUpstream_def Let_def by (rule act_total | assumption)+

lemma total_checkout [act_total]: "total_git lib \<Longrightarrow> total_act (checkoutToBranch lib repository b)"
  unfolding checkoutToBranch_def Let_def by (rule act_total | assumption)+

lemma total_contains [act_total]: "total_git lib \<Longrightarrow> total_act (doesBranchContainsCommit lib repository b c)"
  unfolding doesBranchContainsCommit_def Let_def by (rule act_total | assumption)+

lemma total_reset [act_total]: "total_git lib \<Longrightarrow> total_act (upstreamBasedHardReset lib params repository)"
  unfolding upstreamBasedHardReset_def Let_def by (rule act_total | assumption)+

lemma total_pull [act_total]: "total_git lib \<Longrightarrow> total_act (pull_step lib params repository remote b t f v)"
  unfolding pull_step_def Let_def by (rule act_total | assumption)+

lemma total_forward [act_total]: "total_git lib \<Longrightarrow> total_act (upstreamBasedPullFastForward u lib params repository)"
  unfolding upstreamBasedPullFastForward_def Let_def by (rule act_total | assumption)+

lemma total_worktree [act_total]: "total_git lib \<Longrightarrow> total_act (GetWorkTree u lib params repository upstream)"
  unfolding GetWorkTree_def Let_def by (rule act_total | assumption)+

lemma total_commit [act_total]: "total_git lib \<Longrightarrow> total_act (Commit u lib params repository paths)"
  unfolding Commit_def Let_def by (rule act_total | assumption)+

lemma total_push [act_total]: "total_git lib \<Longrightarrow> total_act (Push u lib params repository force)"
  unfolding Push_def push_once_def Let_def by (rule act_total | assumption)+

definition nested_within :: "nat \<Rightarrow> 'fs billy \<Rightarrow> bool" where
  \<comment> \<open>Directories have levels that fall from a directory to the ones in it, the root's being below \<open>n\<close>.\<close>
  "nested_within n wt \<longleftrightarrow> (\<exists>level. level (Root wt) < n \<and>
     (\<forall>s base files name. ReadDir wt s base = Inr files \<longrightarrow> (name, True) \<in> set files \<longrightarrow>
        level (entry_path base name) < (level base :: nat)))"

lemma walk_entries_returns:
  assumes "\<And>name st. (name, True) \<in> set files \<Longrightarrow> walkWorktreeFiles wt fuel (entry_path base name) visit st \<noteq> None"
  shows "walk_entries wt fuel base files visit st \<noteq> None"
  using assms
proof (induction files arbitrary: st)
  case (Cons f files)
  have more: "walk_entries wt fuel base files visit st1 \<noteq> None" for st1
    using Cons.IH Cons.prems by simp
  show ?case
  proof (cases f)
    case (Pair name isDir)
    have "walkWorktreeFiles wt fuel (entry_path base name) visit st \<noteq> None" if isDir
      using Cons.prems [of name st] Pair that by simp
    with Pair more show ?thesis
      by (auto simp del: walkWorktreeFiles.simps simp: Let_def split: option.split sum.split prod.split)
  qed
qed simp

lemma walk_returns:
  assumes "\<And>s base files name. ReadDir wt s base = Inr files \<Longrightarrow> (name, True) \<in> set files \<Longrightarrow>
    level (entry_path base name) < (level base :: nat)"
  shows "level base < fuel \<Longrightarrow> walkWorktreeFiles wt fuel base visit st \<noteq> None"
proof (induction fuel arbitrary: base st)
  case (Suc fuel)
  show ?case
  proof (cases "ReadDir wt (fst st) base")
    case (Inr files)
    have "walk_entries wt fuel base files visit st \<noteq> None"
    proof (rule walk_entries_returns)
      fix name st1
      assume "(name, True) \<in> set files"
      with assms [OF Inr] Suc.prems have "level (entry_path base name) < fuel" by fastforce
      then show "walkWorktreeFiles wt fuel (entry_path base name) visit st1 \<noteq> None" by (rule Suc.IH)
    qed
    with Inr show ?thesis by simp
  qed simp
qed simp

lemma ReplaceObject_returns:
  assumes "nested_within fuel wt"
  shows "ReplaceObject lib ord wt fuel scope sel content transform st \<noteq> None"
proof -
  obtain level where root: "level (Root wt) < fuel" and falls: "\<And>s base files name. ReadDir wt s base = Inr files \<Longrightarrow>
      (name, True) \<in> set files \<Longrightarrow> level (entry_path base name) < (level base :: nat)"
    using assms unfolding nested_within_def by blast
  have walk: "walkWorktreeFiles wt fuel (Root wt) visit st1 \<noteq> None" for visit :: "('a, ClaimedPaths \<times> string list) visitor" and st1
    using walk_returns [of wt level, OF falls root] .
  have full: "full_replace lib ord wt fuel scope sel content transform st1 \<noteq> None" for st1 content
    by (simp add: full_replace_def walk del: not_None_eq split: option.split sum.split prod.split)
  show ?thesis
    by (simp add: ReplaceObject_def Let_def full del: not_None_eq split: option.split sum.split prod.split bool.split)
qed

lemma placement_returns:
  assumes "nested_within (WalkFuel wt) (Filesystem wt)"
  shows "GenerateFinalWorktree env wt params st \<noteq> None"
proof -
  have finder: "finder_place lib wt params transform items claimed s \<noteq> None" for lib transform items claimed s
    using ReplaceObject_returns [OF assms]
    by (induction items arbitrary: claimed s) (auto split: option.split sum.split)
  have place: "placeArtifacts env wt params artifacts transform s \<noteq> None" for artifacts transform s
    by (simp add: placeArtifacts_def ResourceFinder_place_def Let_def finder del: not_None_eq split: option.split sum.split prod.split)
  have "place_all env wt params transform items s \<noteq> None" for transform items s
    unfolding place_all_def Let_def by (auto split: sum.split prod.split option.split) (metis not_None_eq place)
  then show ?thesis
    unfolding GenerateFinalWorktree_def Let_def by (simp split: sum.split)
qed

subsection \<open>Actions that do not touch the leases\<close>

definition keeps_leases :: "('a, 'g pstate) act \<Rightarrow> bool" where
  "keeps_leases m \<longleftrightarrow> (\<forall>ps r ps'. m ps = Some (r, ps') \<longrightarrow> PsLease ps' = PsLease ps)"

lemma keeps_ret [act_frame]: "keeps_leases (ret x)"
  by (simp add: keeps_leases_def ret_def)

lemma keeps_seq [act_frame]: "keeps_leases m \<Longrightarrow> (\<And>x. keeps_leases (f x)) \<Longrightarrow> keeps_leases (seq m f)"
  by (fastforce simp: keeps_leases_def seq_def split: option.splits prod.splits sum.splits)

lemma keeps_try [act_frame]: "keeps_leases m \<Longrightarrow> keeps_leases (try_act m)"
  by (fastforce simp: keeps_leases_def try_act_def split: option.splits)

lemma keeps_sum [act_frame]:
  "(\<And>e. keeps_leases (f e)) \<Longrightarrow> (\<And>x. keeps_leases (g x)) \<Longrightarrow> keeps_leases (case r of Inl e \<Rightarrow> f e | Inr x \<Rightarrow> g x)"
  by (cases r) simp_all

lemma keeps_on_git [act_frame]: "keeps_leases (on_git m)"
  by (auto simp: keeps_leases_def on_git_def split: option.splits)

lemma keeps_run_mutators [act_frame]: "keeps_leases (run_mutators env params repository)"
  by (auto simp: keeps_leases_def run_mutators_def split: option.splits)

lemma keeps_change_and_push: "keeps_leases (change_and_push env params repository upstream)"
  unfolding change_and_push_def or_return_def Let_def by (intro act_frame)

subsection \<open>Leases\<close>

definition locked :: "lease_state \<Rightarrow> nat set" where
  "locked ls = {h. h < length (handles ls) \<and> HandleLocked (handles ls ! h)}"

lemma locked_set_handle:
  assumes "h < length (handles ls)"
  shows "locked (set_handle h (\<lambda>x. x\<lparr>HandleLocked := True\<rparr>) ls) = insert h (locked ls)"
    and "locked (set_handle h (\<lambda>x. x\<lparr>HandleLocked := False\<rparr>) ls) = locked ls - {h}"
    and "locked (lease_set h r ls) = locked ls"
  using assms by (auto simp: locked_def set_handle_def lease_set_def nth_list_update split: if_splits)

lemma locked_release: "h < length (handles ls) \<Longrightarrow> locked (release h ls) = locked ls - {h}"
  by (simp add: release_def locked_set_handle)

lemma locked_discard: "h < length (handles ls) \<Longrightarrow> locked (discard key h ls) = locked ls - {h}"
  by (auto simp: locked_def discard_handles nth_list_update split: if_splits)

definition settled :: "lease_state \<Rightarrow> lease_state \<Rightarrow> bool" where
  "settled ls ls' \<longleftrightarrow> lease_ok ls' \<and> locked ls' = locked ls \<and> length (handles ls) \<le> length (handles ls')"

text \<open>A lease taken for a key: its handle was free, is now locked and belongs to no other key.\<close>

definition leased :: "string \<Rightarrow> lease_state \<Rightarrow> nat \<Rightarrow> lease_state \<Rightarrow> bool" where
  "leased key ls h ls' \<longleftrightarrow> lease_ok ls' \<and> h < length (handles ls') \<and> h \<notin> locked ls \<and>
     locked ls' = insert h (locked ls) \<and> length (handles ls) \<le> length (handles ls') \<and> (\<forall>k. view (repoCache ls') k = Some h \<longrightarrow> k = key)"

lemma lookup_handle_key:
  assumes "lease_ok ls" and "lookup_handle ord key ls = (h, ls')" and "view (repoCache ls') k = Some h"
  shows "k = key"
proof -
  have c: "repoCache ls' = snd (LoadOrStore ord (repoCache ls) key (length (handles ls)))"
    using assms(2) by (auto simp: lookup_handle_def split: prod.splits)
  from assms(1) have inv: "lfu_inv (repoCache ls)"
    and bound: "\<And>j x. view (repoCache ls) j = Some x \<Longrightarrow> x < length (handles ls)"
    and inj: "\<And>j j' x. view (repoCache ls) j = Some x \<Longrightarrow> view (repoCache ls) j' = Some x \<Longrightarrow> j' = j"
    by (auto simp: lease_ok_def)
  from lfu_load.load_look [OF inv assms(3) [unfolded c]] lookup_handle_ok(6) [OF assms(1,2)] bound inj show ?thesis
    by (metis less_irrefl)
qed

lemma acquire_leased:
  assumes "lease_ok ls" and "acquire ord key ls = Some (h, ls')"
  shows "leased key ls h ls'"
proof -
  from assms(2) obtain ls1 where l: "lookup_handle ord key ls = (h, ls1)"
    and free: "\<not> HandleLocked (handles ls1 ! h)" and ls': "ls' = set_handle h (\<lambda>x. x\<lparr>HandleLocked := True\<rparr>) ls1"
    by (auto simp: acquire_def lock_handle_def split: prod.splits if_splits)
  note ok = lookup_handle_ok [OF assms(1) l]
  have "locked ls1 = locked ls"
    using ok(3-5) by (auto simp: locked_def new_handle_def less_Suc_eq)
  moreover have "h \<notin> locked ls1" using free by (simp add: locked_def)
  moreover have "repoCache ls' = repoCache ls1" by (simp add: ls' set_handle_def)
  ultimately show ?thesis
    using ok(1-3) lookup_handle_key [OF assms(1) l] unfolding leased_def ls'
    by (simp add: locked_set_handle) (simp add: set_handle_def)
qed

lemma acquire_free:
  assumes "lease_ok ls" and "\<And>h. view (repoCache ls) key = Some h \<Longrightarrow> h \<notin> locked ls"
  shows "acquire ord key ls \<noteq> None"
proof -
  obtain h ls1 where l: "lookup_handle ord key ls = (h, ls1)" by fastforce
  note ok = lookup_handle_ok [OF assms(1) l]
  have "\<not> HandleLocked (handles ls1 ! h)"
    using ok(2-6) assms(2) by (auto simp: new_handle_def locked_def less_Suc_eq)
  then show ?thesis by (simp add: acquire_def l lock_handle_def)
qed

lemma leased_set: "leased key ls h ls' \<Longrightarrow> leased key ls h (lease_set h r ls')"
  unfolding leased_def by (simp add: locked_set_handle) (simp add: lease_set_def, simp add: set_handle_def)

lemma leased_back:
  assumes "leased key ls h ls'"
  shows "settled ls (release h ls')" and "settled ls (discard key h ls')"
  using assms unfolding leased_def settled_def
  by (simp_all add: locked_release locked_discard discard_ok discard_handles) (simp_all add: release_def, simp_all add: set_handle_def)

text \<open>What \<open>getRepository\<close> leaves: a lease, or none with the cache off or after an error.\<close>

definition repository_leased :: "string \<Rightarrow> lease_state \<Rightarrow> (go_error + repo \<times> nat option) \<Rightarrow> lease_state \<Rightarrow> bool" where
  "repository_leased key ls r ls' \<longleftrightarrow> (case r of
     Inr (_, Some h) \<Rightarrow> leased key ls h ls'
   | _ \<Rightarrow> settled ls ls')"

lemma clone_into_leased:
  assumes "leased (cacheKey p) ls h (PsLease ps)" and "clone_into env p h d ps = Some (r, ps')"
  shows "repository_leased (cacheKey p) ls r (PsLease ps')"
  using assms leased_set [OF assms(1)] leased_back [OF assms(1)] keeps_on_git [of "cloneRepository (GitLib env) p"]
  by (auto simp: clone_into_def seq_def try_act_def repository_leased_def keeps_leases_def
      split: option.splits prod.splits sum.splits)

lemma getRepository_leased:
  assumes ok: "lease_ok (PsLease ps)" and run: "getRepository env p ps = Some (r, ps')"
  shows "repository_leased (cacheKey p) (PsLease ps) r (PsLease ps')"
proof (cases "repoCache (PsLease ps) = None")
  case True
  have "keeps_leases (seq (on_git (cloneRepository (GitLib env) p)) (\<lambda>repository. ret (repository, None :: nat option)))"
    by (intro act_frame)
  moreover have "r = Inr (x, l) \<Longrightarrow> l = None" for x l
    using run True by (auto simp: getRepository_def seq_def ret_def split: option.splits prod.splits sum.splits)
  ultimately show ?thesis
    using run ok True by (cases r) (auto simp: getRepository_def keeps_leases_def repository_leased_def settled_def)
next
  case False
  with run obtain h ls where a: "acquire (RepoOrd env) (cacheKey p) (PsLease ps) = Some (h, ls)"
    by (auto simp: getRepository_def split: option.splits)
  note l = acquire_leased [OF ok a]
  have keep: "keeps_leases (on_git (refreshRepository (GitLib env) repository p))" for repository by (rule keeps_on_git)
  have clone: "repository_leased (cacheKey p) (PsLease ps) r (PsLease ps')"
    if "clone_into env p h d ps1 = Some (r, ps')" "PsLease ps1 = ls" for d ps1
    using clone_into_leased [OF _ that(1)] l that(2) by simp
  show ?thesis
  proof (cases "lease_repo h ls")
    case None
    with run False a show ?thesis by (intro clone [of id "ps\<lparr>PsLease := ls\<rparr>"]) (simp_all add: getRepository_def Let_def)
  next
    case (Some repository)
    with run False a obtain res ps1 where
      r1: "on_git (refreshRepository (GitLib env) repository p) (ps\<lparr>PsLease := ls\<rparr>) = Some (res, ps1)"
      by (auto simp: getRepository_def Let_def seq_def try_act_def split: option.splits)
    have ps1: "PsLease ps1 = ls" using keep r1 by (fastforce simp: keeps_leases_def)
    show ?thesis
      using run False a Some r1 ps1 l clone
      by (cases res) (auto simp: getRepository_def Let_def seq_def try_act_def ret_def repository_leased_def)
  qed
qed
subsection \<open>The pipeline and its leases\<close>

text \<open>The cases of a run that leases a repository and goes on with it.\<close>

lemma with_repository:
  assumes ok: "lease_ok (PsLease ps)"
    and run: "or_return (getRepository env p) failed (\<lambda>(repository, l). with_lease l (body repository)) ps = Some (r, ps')"
    and body: "\<And>repository ps1 r1 ps2. \<lbrakk>lease_ok (PsLease ps1); body repository ps1 = Some (r1, ps2)\<rbrakk>
      \<Longrightarrow> settled (PsLease ps1) (PsLease ps2)"
  shows "settled (PsLease ps) (PsLease ps')"
proof -
  from run obtain res ps1 where g: "getRepository env p ps = Some (res, ps1)"
    by (auto simp: or_return_def seq_def try_act_def split: option.splits)
  note l = getRepository_leased [OF ok g]
  show ?thesis
  proof (cases res)
    case (Inl err)
    with g run l show ?thesis by (auto simp: or_return_def seq_def try_act_def ret_def repository_leased_def)
  next
    case (Inr x)
    obtain repository lease where x: "x = (repository, lease)" by (cases x)
    with g run Inr obtain ps2 where b: "body repository ps1 = Some (r, ps2)" and ps': "ps' = release_fn lease ps2"
      by (auto simp: or_return_def seq_def try_act_def with_lease_def split: option.splits)
    show ?thesis
    proof (cases lease)
      case None
      with l Inr x body [OF _ b] ps' show ?thesis by (auto simp: repository_leased_def release_fn_def settled_def)
    next
      case (Some h)
      with l Inr x have "leased (cacheKey p) (PsLease ps) h (PsLease ps1)" by (simp add: repository_leased_def)
      moreover from this body [OF _ b] have "settled (PsLease ps1) (PsLease ps2)" by (auto simp: leased_def)
      ultimately show ?thesis
        using Some ps' unfolding settled_def leased_def
        by (simp add: release_fn_def locked_release) (simp add: release_def, simp add: set_handle_def)
    qed
  qed
qed


lemma change_and_push_settles:
  "lease_ok (PsLease ps) \<Longrightarrow> change_and_push env params repository upstream ps = Some (r, ps') \<Longrightarrow>
     settled (PsLease ps) (PsLease ps')"
  using keeps_change_and_push [of env params repository upstream] by (auto simp: keeps_leases_def settled_def)

lemma upstream_settles:
  assumes "lease_ok (PsLease ps)"
    and "or_return (GetUpstreamRepository env params) failed (\<lambda>(upstream, l). with_lease l
      (change_and_push env params repository upstream)) ps = Some (r, ps')"
  shows "settled (PsLease ps) (PsLease ps')"
  using with_repository [OF assms(1) assms(2) [unfolded GetUpstreamRepository_def]] change_and_push_settles by blast

lemma RunGitPipeline_settles:
  assumes "lease_ok (PsLease ps)" and "RunGitPipeline env params ps = Some (r, ps')"
  shows "settled (PsLease ps) (PsLease ps')"
proof (rule with_repository [OF assms(1) assms(2) [unfolded RunGitPipeline_def GetTargetRepository_def Let_def]], goal_cases)
  case (1 repository ps1 r1 ps2)
  then show ?case
    using upstream_settles [OF 1(1)] change_and_push_settles [OF 1(1)] by (simp split: if_splits)
qed

lemma on_its_own:
  assumes "total_git (GitLib env)" and "lease_ok (PsLease ps)"
    and "\<And>h. view (repoCache (PsLease ps)) (cacheKey p) = Some h \<Longrightarrow> h \<notin> locked (PsLease ps)"
  shows "getRepository env p ps \<noteq> None"
proof -
  have clone: "clone_into env p h d ps1 \<noteq> None" for h d ps1
    using total_on_git [OF total_clone [OF assms(1), of p]]
    by (auto simp: clone_into_def seq_def try_act_def total_act_def split: option.splits sum.splits)
  have refresh: "on_git (refreshRepository (GitLib env) repository p) ps1 \<noteq> None" for repository ps1
    using total_on_git [OF total_refresh [OF assms(1), of repository p]] by (simp add: total_act_def)
  have start: "on_git (cloneRepository (GitLib env) p) ps \<noteq> None"
    using total_on_git [OF total_clone [OF assms(1), of p]] by (simp add: total_act_def)
  obtain h ls where a: "acquire (RepoOrd env) (cacheKey p) (PsLease ps) = Some (h, ls)"
    using acquire_free [OF assms(2,3), where ord = "RepoOrd env"] by force
  obtain r ps1 where "on_git (refreshRepository (GitLib env) (the (lease_repo h ls)) p) (ps\<lparr>PsLease := ls\<rparr>) = Some (r, ps1)"
    using refresh by (metis not_None_eq surj_pair)
  with a start clone show ?thesis
    by (cases "repoCache (PsLease ps) = None"; cases "lease_repo h ls"; cases r)
      (auto simp: getRepository_def Let_def seq_def try_act_def ret_def split: option.split sum.split)
qed

lemma cacheKey_same_branch:
  "GrBranch p = GrBranch q \<Longrightarrow> (cacheKey p = cacheKey q) = (GrRepository p = GrRepository q)"
  by (simp add: cacheKey_def)

text \<open>
  C7. Whatever path a pipeline takes, errors included, and whatever leases others hold, afterwards
  exactly the handles are locked that were locked before, and the repository cache is well-formed.
\<close>

theorem pipeline_gives_its_leases_back:
  assumes "lease_ok (PsLease ps)" and "RunGitPipeline env params ps = Some (r, ps')"
  shows "lease_ok (PsLease ps') \<and> locked (PsLease ps') = locked (PsLease ps)"
  using RunGitPipeline_settles [OF assms] by (simp add: settled_def)

text \<open>
  C9. A pipeline that runs while no other lease is held returns, whatever its git calls answer,
  whether it leases one repository or two (the second lease is never the first one again) and
  whether or not the resource finder walks the worktree, provided every call of the git library returns
  and directories are never nested deeper than the fuel of the walk.
\<close>

theorem pipeline_on_its_own_returns:
  assumes "total_git (GitLib env)" and "lease_ok (PsLease ps)" and "locked (PsLease ps) = {}"
    and "\<And>repository. nested_within (PushWalkFuel env) (git_Filesystem (GitLib env) repository)"
  shows "\<exists>r ps'. RunGitPipeline env params ps = Some (r, ps')"
proof -
  let ?p = "\<lambda>repository. \<lparr>GrGitUserInfo = GppGitUserInfo params, GrSyncer = GppSyncer params, GrCABundle = CABundle params,
      GrRepository = repository, GrBranch = UpstreamBranch (Spec (GppRemoteTarget params))\<rparr>"
  have mutate: "total_act (run_mutators env params repository)" for repository
    unfolding total_act_def run_mutators_def
    by (simp add: placement_returns assms(4) del: not_None_eq split: option.split prod.split)
  have change: "total_act (change_and_push env params repository upstream)" for repository upstream
    unfolding change_and_push_def or_return_def Let_def by (rule act_total mutate assms(1))+
  then have change: "change_and_push env params repository upstream ps1 \<noteq> None" for repository upstream ps1
    by (simp add: total_act_def)
  let ?target = "TargetRepository (Spec (GppRemoteTarget params))" and ?up = "UpstreamRepository (Spec (GppRemoteTarget params))"
  have target: "getRepository env (?p ?target) ps \<noteq> None" using on_its_own [OF assms(1,2)] assms(3) by simp
  have up: "getRepository env (?p ?up) ps1 \<noteq> None"
    if "getRepository env (?p ?target) ps = Some (Inr (repository, l), ps1)" "?up \<noteq> ?target" for repository l ps1
  proof (rule on_its_own [OF assms(1)])
    have r: "repository_leased (cacheKey (?p ?target)) (PsLease ps) (Inr (repository, l)) (PsLease ps1)"
      by (rule getRepository_leased [OF assms(2) that(1)])
    then show "lease_ok (PsLease ps1)" by (cases l) (simp_all add: repository_leased_def leased_def settled_def)
    fix h
    assume v: "view (repoCache (PsLease ps1)) (cacheKey (?p ?up)) = Some h"
    have "cacheKey (?p ?up) \<noteq> cacheKey (?p ?target)" using that(2) by (simp add: cacheKey_same_branch)
    with r v assms(3) show "h \<notin> locked (PsLease ps1)"
      by (cases l) (auto simp: repository_leased_def leased_def settled_def)
  qed
  have "RunGitPipeline env params ps \<noteq> None"
    using target
    by (auto simp: RunGitPipeline_def GetTargetRepository_def GetUpstreamRepository_def Let_def or_return_def seq_def
        try_act_def ret_def with_lease_def split: option.splits prod.splits sum.splits dest: up) (metis change option.distinct(1))+
  then show ?thesis by (metis not_None_eq surj_pair)
qed

subsection \<open>A library that polices the network\<close>

text \<open>
  The calls a pipeline may make: with the credentials and TLS settings of its parameters, to the
  target, the upstream and the syncer's repository, pushing the target branch only, and by
  force only under a strategy that resets.
\<close>

definition call_refused :: go_error where
  "call_refused = PlainError ''refused''"

definition clone_allowed :: "GitPipelineParams \<Rightarrow> CloneOptions \<Rightarrow> bool" where
  "clone_allowed params opt \<longleftrightarrow> CloneAuth opt = params_auth params \<and>
     CloneURL opt \<in> {TargetRepository (Spec (GppRemoteTarget params)), UpstreamRepository (Spec (GppRemoteTarget params))} \<and>
     CloneReferenceName opt = UpstreamBranch (Spec (GppRemoteTarget params))"

definition fetch_allowed :: "GitPipelineParams \<Rightarrow> FetchOptions \<Rightarrow> bool" where
  "fetch_allowed params opt \<longleftrightarrow> FetchAuth opt = params_auth params \<and>
     FetchRemoteURL opt \<in> {TargetRepository (Spec (GppRemoteTarget params)), UpstreamRepository (Spec (GppRemoteTarget params)),
       RemoteRepository (ScSpec (GppSyncer params))}"

definition pull_allowed :: "GitPipelineParams \<Rightarrow> PullOptions \<Rightarrow> bool" where
  "pull_allowed params opt \<longleftrightarrow> PullAuth opt = params_auth params \<and>
     (PullRemoteName opt, PullReferenceName opt) \<in>
       {(upstreamRemote, NewBranchReferenceName (UpstreamBranch (Spec (GppRemoteTarget params)))),
        (originRemote, NewBranchReferenceName (TargetBranch (Spec (GppRemoteTarget params))))}"

definition push_allowed :: "GitPipelineParams \<Rightarrow> PushOptions \<Rightarrow> bool" where
  "push_allowed params opt \<longleftrightarrow> PushAuth opt = params_auth params \<and>
     PushRefSpecs opt = [''refs/heads/'' @ TargetBranch (Spec (GppRemoteTarget params)) @ '':refs/heads/''
       @ TargetBranch (Spec (GppRemoteTarget params))] \<and>
     (PushForce opt \<longrightarrow> MergeStrategy (Spec (GppRemoteTarget params)) \<in> {TryFastForwardOrHardReset, TryHardResetOrDie})"

definition remote_allowed :: "GitPipelineParams \<Rightarrow> string \<Rightarrow> string \<Rightarrow> bool" where
  \<comment> \<open>The pulls and pushes name their remote: the only one a pipeline adds is the upstream, at the syncer's repository.\<close>
  "remote_allowed params name url \<longleftrightarrow> name = upstreamRemote \<and> url = RemoteRepository (ScSpec (GppSyncer params))"

definition guarded :: "GitPipelineParams \<Rightarrow> 'g gitlib \<Rightarrow> 'g gitlib" where
  "guarded params lib = lib\<lparr>
     git_Clone := (\<lambda>opt. if clone_allowed params opt then git_Clone lib opt else Pair (Inl call_refused, '''')),
     git_Fetch := (\<lambda>r opt. if fetch_allowed params opt then git_Fetch lib r opt else Pair (Some call_refused, '''')),
     git_Pull := (\<lambda>r opt. if pull_allowed params opt then git_Pull lib r opt else Pair (Some call_refused, '''')),
     git_Push := (\<lambda>r opt. if push_allowed params opt then git_Push lib r opt else Pair (Some call_refused, '''')),
     git_CreateRemote := (\<lambda>r name url. if remote_allowed params name url then git_CreateRemote lib r name url
       else fail_with call_refused)\<rparr>"

lemma guarded_local [simp]:
  "git_Reference (guarded params lib) = git_Reference lib" "git_SetReference (guarded params lib) = git_SetReference lib"
  "git_Worktree (guarded params lib) = git_Worktree lib" "git_Checkout (guarded params lib) = git_Checkout lib"
  "git_HardReset (guarded params lib) = git_HardReset lib" "git_CleanDir (guarded params lib) = git_CleanDir lib"
  "git_Branches (guarded params lib) = git_Branches lib" "git_RemoveReference (guarded params lib) = git_RemoveReference lib"
  "git_Remote (guarded params lib) = git_Remote lib"
  "git_DeleteRemote (guarded params lib) = git_DeleteRemote lib" "git_MergeFastForward (guarded params lib) = git_MergeFastForward lib"
  "git_Log (guarded params lib) = git_Log lib" "git_Head (guarded params lib) = git_Head lib"
  "git_CommitObject (guarded params lib) = git_CommitObject lib" "git_Add (guarded params lib) = git_Add lib"
  "git_Remove (guarded params lib) = git_Remove lib" "git_Commit (guarded params lib) = git_Commit lib"
  "git_Filesystem (guarded params lib) = git_Filesystem lib"
  by (simp_all add: guarded_def)

text \<open>The options the pipeline really uses are allowed.\<close>

lemma guarded_net:
  "git_Fetch (guarded params lib) r \<lparr>FetchRemoteName = n, FetchRemoteURL = RemoteRepository (ScSpec (GppSyncer params)),
     FetchAuth = params_auth params, FetchRefSpecs = specs, FetchForce = f\<rparr> =
   git_Fetch lib r \<lparr>FetchRemoteName = n, FetchRemoteURL = RemoteRepository (ScSpec (GppSyncer params)),
     FetchAuth = params_auth params, FetchRefSpecs = specs, FetchForce = f\<rparr>"
  "pull_step (guarded params lib) params r upstreamRemote (UpstreamBranch (Spec (GppRemoteTarget params))) =
   pull_step lib params r upstreamRemote (UpstreamBranch (Spec (GppRemoteTarget params)))"
  "pull_step (guarded params lib) params r originRemote (TargetBranch (Spec (GppRemoteTarget params))) =
   pull_step lib params r originRemote (TargetBranch (Spec (GppRemoteTarget params)))"
  "git_CreateRemote (guarded params lib) r upstreamRemote (RemoteRepository (ScSpec (GppSyncer params))) =
   git_CreateRemote lib r upstreamRemote (RemoteRepository (ScSpec (GppSyncer params)))"
  unfolding pull_step_def [abs_def] by (simp_all add: guarded_def fetch_allowed_def pull_allowed_def remote_allowed_def)

abbreviation asks_for :: "GitPipelineParams \<Rightarrow> GetRepositoryParams \<Rightarrow> bool" where
  "asks_for params p \<equiv> clone_allowed params \<lparr>CloneURL = GrRepository p, CloneReferenceName = GrBranch p, CloneAuth = gr_auth p\<rparr>"

lemma guarded_repository:
  assumes "asks_for params p"
  shows "cloneRepository (guarded params lib) p = cloneRepository lib p"
    and "refreshRepository (guarded params lib) repository p = refreshRepository lib repository p"
proof -
  have c: "git_Clone (guarded params lib) \<lparr>CloneURL = GrRepository p, CloneReferenceName = GrBranch p, CloneAuth = gr_auth p\<rparr> =
      git_Clone lib \<lparr>CloneURL = GrRepository p, CloneReferenceName = GrBranch p, CloneAuth = gr_auth p\<rparr>"
    using assms by (simp add: guarded_def)
  show "cloneRepository (guarded params lib) p = cloneRepository lib p"
    unfolding cloneRepository_def c by (rule refl)
  have f: "git_Fetch (guarded params lib) repository \<lparr>FetchRemoteName = n, FetchRemoteURL = GrRepository p,
        FetchAuth = gr_auth p, FetchRefSpecs = specs, FetchForce = b\<rparr> =
      git_Fetch lib repository \<lparr>FetchRemoteName = n, FetchRemoteURL = GrRepository p,
        FetchAuth = gr_auth p, FetchRefSpecs = specs, FetchForce = b\<rparr>" for n specs b
    using assms by (auto simp: guarded_def fetch_allowed_def clone_allowed_def)
  show "refreshRepository (guarded params lib) repository p = refreshRepository lib repository p"
    unfolding refreshRepository_def pruneStaleState_def f guarded_local by (rule refl)
qed

lemma guarded_getRepository:
  assumes "asks_for params p"
  shows "getRepository (env\<lparr>GitLib := guarded params (GitLib env)\<rparr>) p = getRepository env p"
proof -
  have clone: "clone_into (env\<lparr>GitLib := guarded params (GitLib env)\<rparr>) p h d = clone_into env p h d" for h d
    by (simp add: clone_into_def guarded_repository [OF assms])
  have fields: "PrintUser (env\<lparr>GitLib := lib\<rparr>) = PrintUser env" "RepoOrd (env\<lparr>GitLib := lib\<rparr>) = RepoOrd env"
    "GitLib (env\<lparr>GitLib := lib\<rparr>) = lib" for lib by simp_all
  show ?thesis
    unfolding getRepository_def [abs_def] clone fields guarded_repository [OF assms] by (rule refl)
qed

lemma guarded_worktree:
  "GetWorkTree u (guarded params lib) params repository upstream = GetWorkTree u lib params repository upstream"
  unfolding GetWorkTree_def upstreamBasedPullFastForward_def upstreamBasedHardReset_def fetchUpstream_def
    checkoutToBranch_def doesBranchContainsCommit_def Let_def guarded_net guarded_local by (rule refl)

lemma force_only_by_reset:
  "GetWorkTree u lib params repository upstream g = Some (Inr True, g') \<Longrightarrow>
     MergeStrategy (Spec (GppRemoteTarget params)) \<in> {TryFastForwardOrHardReset, TryHardResetOrDie}"
  by (auto simp: GetWorkTree_def Let_def act_defs split: if_splits option.splits prod.splits sum.splits)

lemma guarded_push:
  assumes "force \<longrightarrow> MergeStrategy (Spec (GppRemoteTarget params)) \<in> {TryFastForwardOrHardReset, TryHardResetOrDie}"
  shows "Push u (guarded params lib) params repository force = Push u lib params repository force"
proof -
  let ?b = "TargetBranch (Spec (GppRemoteTarget params))"
  have p: "git_Push (guarded params lib) r \<lparr>PushRefSpecs = [''refs/heads/'' @ ?b @ '':refs/heads/'' @ ?b],
        PushAuth = params_auth params, PushForce = force\<rparr> =
      git_Push lib r \<lparr>PushRefSpecs = [''refs/heads/'' @ ?b @ '':refs/heads/'' @ ?b],
        PushAuth = params_auth params, PushForce = force\<rparr>" for r
    using assms by (simp add: guarded_def push_allowed_def)
  show ?thesis unfolding Push_def push_once_def Let_def p by (rule refl)
qed

lemma or_return_cong:
  assumes "\<And>x s s'. m s = Some (Inr x, s') \<Longrightarrow> f x = f' x"
  shows "or_return m failed f = or_return m failed f'"
  using assms by (auto simp: fun_eq_iff or_return_def seq_def try_act_def split: option.split sum.split)

lemma guarded_change:
  "change_and_push (env\<lparr>GitLib := guarded params (GitLib env)\<rparr>) params repository upstream
     = change_and_push env params repository upstream"
proof -
  have run: "run_mutators (env\<lparr>GitLib := guarded params (GitLib env)\<rparr>) params repository = run_mutators env params repository"
    by (simp add: fun_eq_iff run_mutators_def)
  have commit: "Commit u (guarded params (GitLib env)) params repository paths = Commit u (GitLib env) params repository paths" for u paths
    unfolding Commit_def guarded_local by (rule refl)
  have fields: "PrintUser (env\<lparr>GitLib := lib\<rparr>) = PrintUser env" "GitLib (env\<lparr>GitLib := lib\<rparr>) = lib" for lib by simp_all
  show ?thesis
    unfolding change_and_push_def Let_def run fields guarded_worktree commit
  proof (rule or_return_cong, goal_cases)
    case (1 force ps ps')
    then have "force \<longrightarrow> MergeStrategy (Spec (GppRemoteTarget params)) \<in> {TryFastForwardOrHardReset, TryHardResetOrDie}"
      by (cases force) (auto simp: on_git_def dest: force_only_by_reset split: option.splits)
    note push = guarded_push [OF this]
    show ?case unfolding push by (rule refl)
  qed
qed

text \<open>
  C6. Whatever the git library answers, a pipeline behaves as with a library that refuses every call outside the
  parameters: all credentials and TLS settings it presents are those of its git user and syncer; it clones from no URL
  but the target's and the upstream's, and fetches from no other but also the syncer's; it creates no remote
  but \<open>upstream\<close>, at the syncer's repository; it pulls by the names \<open>upstream\<close> (the upstream branch)
  and \<open>origin\<close> (the target branch) only; it pushes nothing but the target branch, to the default
  remote, and forces a push only under a resetting strategy.
\<close>

theorem network_calls_stay_within_the_parameters:
  "RunGitPipeline (env\<lparr>GitLib := guarded params (GitLib env)\<rparr>) params ps = RunGitPipeline env params ps"
proof -
  have "asks_for params \<lparr>GrGitUserInfo = GppGitUserInfo params, GrSyncer = GppSyncer params, GrCABundle = CABundle params,
      GrRepository = repository, GrBranch = UpstreamBranch (Spec (GppRemoteTarget params))\<rparr>"
    if "repository \<in> {TargetRepository (Spec (GppRemoteTarget params)), UpstreamRepository (Spec (GppRemoteTarget params))}" for repository
    using that by (simp add: clone_allowed_def gr_auth_def params_auth_def)
  then have repos: "GetTargetRepository (env\<lparr>GitLib := guarded params (GitLib env)\<rparr>) params = GetTargetRepository env params"
    "GetUpstreamRepository (env\<lparr>GitLib := guarded params (GitLib env)\<rparr>) params = GetUpstreamRepository env params"
    by (simp_all add: GetTargetRepository_def GetUpstreamRepository_def guarded_getRepository)
  show ?thesis unfolding RunGitPipeline_def guarded_change repos by (rule refl)
qed
subsection \<open>Pushing and retrying\<close>

text \<open>A remote that fails a number of pushes, counted down in its state, and then accepts them.\<close>

definition flaky :: "'g gitlib \<Rightarrow> ('g \<Rightarrow> nat) \<Rightarrow> go_error \<Rightarrow> bool" where
  "flaky lib left e \<longleftrightarrow> (\<forall>r opt g. case git_Push lib r opt g of ((err, _), g') \<Rightarrow>
     if left g = 0 then err = None \<and> left g' = 0 else err = Some e \<and> left g' = left g - 1)"

lemma push_once_flaky:
  assumes "flaky lib left e" and "\<not> Contains (Error u e) ''already up-to-date''"
  shows "\<exists>err out g'. push_once u lib r opt v variables g = Some (Inr (err, out), g') \<and> (err = None) = (left g = 0) \<and>
    left g' = left g - 1"
proof -
  obtain err t g' where p: "git_Push lib r opt g = ((err, t), g')" by (metis surj_pair)
  have e: "if left g = 0 then err = None \<and> left g' = 0 else err = Some e \<and> left g' = left g - 1"
  proof -
    have "case git_Push lib r opt g of ((err, _), g') \<Rightarrow>
        if left g = 0 then err = None \<and> left g' = 0 else err = Some e \<and> left g' = left g - 1"
      using assms(1) by (simp only: flaky_def)
    with p show ?thesis by simp
  qed
  show ?thesis
    unfolding push_once_def seq_def do_net_def ret_def p using e assms(2) by (cases "left g = 0") simp_all
qed

lemma push_retry_flaky:
  assumes "\<And>v g. \<exists>err out g'. attempt v g = Some (Inr (err, out), g') \<and> (err = None) = (left g = 0) \<and> left g' = left g - 1"
    and "fst r \<noteq> (None :: go_error option)"
  shows "\<exists>err out g'. push_retry attempt n r g = Some (Inr (err, out), g') \<and> (err = None) = (left g < n)"
  using assms(2)
proof (induction n arbitrary: r g)
  case 0
  then show ?case by (cases r) (simp add: ret_def)
next
  case (Suc n)
  obtain err out g' where a: "attempt (snd r) g = Some (Inr (err, out), g')" and e: "(err = None) = (left g = 0)"
    and l: "left g' = left g - 1" using assms(1) by blast
  show ?case
  proof (cases "left g = 0")
    case True
    with a e show ?thesis by (simp add: seq_def ret_def)
  next
    case False
    from Suc.IH [of "(err, out)" g'] False e obtain err' out' g'' where
      "push_retry attempt n (err, out) g' = Some (Inr (err', out'), g'')" "(err' = None) = (left g' < n)" by auto
    with a e l False show ?thesis by (auto simp: seq_def)
  qed
qed

text \<open>
  C26. A push to a remote that fails a number of times and then recovers succeeds exactly when the
  number of failures is at most the retry number: the first attempt and that many more.
\<close>

theorem push_survives_as_many_failures_as_retries:
  assumes "flaky lib left e" and "\<not> Contains (Error u e) ''already up-to-date''"
  shows "\<exists>err g'. Push u lib params repository force g = Some (Inr err, g') \<and>
    (err = None) = (left g \<le> nat (PushErrorRetryNumber (ScSpec (GppSyncer params))))"
proof -
  let ?n = "nat (PushErrorRetryNumber (ScSpec (GppSyncer params)))" and ?b = "TargetBranch (Spec (GppRemoteTarget params))"
  define attempt where "attempt = (\<lambda>buffer. push_once u lib repository
    \<lparr>PushRefSpecs = [''refs/heads/'' @ ?b @ '':refs/heads/'' @ ?b], PushAuth = params_auth params, PushForce = force\<rparr> buffer
    (git_variables (RemoteRepository (ScSpec (GppSyncer params))) ?b (GppGitUserInfo params)))"
  have step: "\<exists>err out g'. attempt v g = Some (Inr (err, out), g') \<and> (err = None) = (left g = 0) \<and> left g' = left g - 1" for v g
    unfolding attempt_def by (rule push_once_flaky [OF assms])
  have push: "Push u lib params repository force = seq (attempt '''') (\<lambda>r.
      if fst r \<noteq> None then seq (push_retry attempt ?n r) (\<lambda>r1. ret (fst r1)) else ret None)"
    unfolding Push_def Let_def attempt_def by (rule refl)
  obtain err out g1 where a: "attempt '''' g = Some (Inr (err, out), g1)" "(err = None) = (left g = 0)" "left g1 = left g - 1"
    using step by blast
  show ?thesis
  proof (cases "left g = 0")
    case True
    with a show ?thesis by (simp add: push seq_def ret_def)
  next
    case False
    with a have "fst (err, out) \<noteq> None" by simp
    from push_retry_flaky [where attempt = attempt, OF step this, where n = ?n and g = g1] obtain err' out' g2 where
      "push_retry attempt ?n (err, out) g1 = Some (Inr (err', out'), g2)" "(err' = None) = (left g1 < ?n)" by blast
    with a False show ?thesis by (auto simp: push seq_def ret_def)
  qed
qed

subsection \<open>Cached repositories and credentials\<close>

definition cloned_with :: "'g gitlib \<Rightarrow> GetRepositoryParams \<Rightarrow> 'g \<Rightarrow> repo \<Rightarrow> 'g \<Rightarrow> bool" where
  \<comment> \<open>In the state \<open>g\<close> the remote lets a clone with the caller's credentials through, which ends in \<open>g'\<close>.\<close>
  "cloned_with lib p g repository g' \<longleftrightarrow> (\<exists>output. git_Clone lib
     \<lparr>CloneURL = GrRepository p, CloneReferenceName = GrBranch p,
      CloneAuth = \<lparr>AuthUsername = GitUserName (GrGitUserInfo p), AuthPassword = Token (GrGitUserInfo p),
        AuthInsecureSkipTLS = InsecureSkipTlsVerify (ScSpec (GrSyncer p)), AuthCABundle = GrCABundle p\<rparr>\<rparr> g
     = ((Inr repository, output), g'))"

definition fetched_with :: "'g gitlib \<Rightarrow> GetRepositoryParams \<Rightarrow> 'g \<Rightarrow> repo \<Rightarrow> 'g \<Rightarrow> bool" where
  \<comment> \<open>In the state \<open>g\<close> the remote lets a fetch of the branch with the caller's credentials through, which ends in \<open>g'\<close>.\<close>
  "fetched_with lib p g repository g' \<longleftrightarrow> (\<exists>err output. git_Fetch lib repository
     \<lparr>FetchRemoteName = ''origin'', FetchRemoteURL = GrRepository p,
      FetchAuth = \<lparr>AuthUsername = GitUserName (GrGitUserInfo p), AuthPassword = Token (GrGitUserInfo p),
        AuthInsecureSkipTLS = InsecureSkipTlsVerify (ScSpec (GrSyncer p)), AuthCABundle = GrCABundle p\<rparr>,
      FetchRefSpecs = [''+refs/heads/'' @ GrBranch p @ '':refs/remotes/origin/'' @ GrBranch p], FetchForce = True\<rparr> g
     = ((err, output), g') \<and> err \<in> {None, Some (GitSentinel NoErrAlreadyUpToDate)})"

lemma seq_Inr: "seq m f s = Some (Inr y, s2) \<longleftrightarrow> (\<exists>x s1. m s = Some (Inr x, s1) \<and> f x s1 = Some (Inr y, s2))"
  by (auto simp: seq_def split: option.splits prod.splits sum.splits)

lemma clone_success:
  assumes "cloneRepository lib p g = Some (Inr repository, g')"
  shows "cloned_with lib p g repository g'"
proof -
  let ?opt = "\<lparr>CloneURL = GrRepository p, CloneReferenceName = GrBranch p, CloneAuth = gr_auth p\<rparr>"
  obtain r out g1 where c: "git_Clone lib ?opt g = ((r, out), g1)" by (metis surj_pair)
  with assms have "r = Inr repository" "g1 = g'"
    by (cases r; simp add: cloneRepository_def seq_def do_clone_def ret_def fail_with_def del: append.simps)+
  with c show ?thesis by (simp add: cloned_with_def gr_auth_def net_auth_def)
qed

lemma refresh_success:
  assumes "refreshRepository lib repository p g = Some (Inr x, g')"
  shows "\<exists>g1. fetched_with lib p g repository g1"
proof -
  let ?opt = "\<lparr>FetchRemoteName = originRemote, FetchRemoteURL = GrRepository p, FetchAuth = gr_auth p,
    FetchRefSpecs = [''+refs/heads/'' @ GrBranch p @ '':refs/remotes/'' @ originRemote @ ''/'' @ GrBranch p], FetchForce = True\<rparr>"
  from assms obtain err out g1 y g2 where f: "do_net (git_Fetch lib repository ?opt) g = Some (Inr (err, out), g1)"
    and ok: "(case err of Some e \<Rightarrow> if e \<noteq> GitSentinel NoErrAlreadyUpToDate
        then fail_with (TextError ''failed to fetch origin: '' e (nl @ ''Verbose output: '' @ out)) else ret ()
      | None \<Rightarrow> ret ()) g1 = Some (Inr y, g2)"
    unfolding refreshRepository_def net_or_up_to_date_def Let_def seq_Inr by (auto simp del: append.simps)
  from ok have "err \<in> {None, Some (GitSentinel NoErrAlreadyUpToDate)}"
    by (auto simp: fail_with_def split: option.splits if_splits)
  moreover from f have "git_Fetch lib repository ?opt g = ((err, out), g1)"
    by (auto simp: do_net_def split: prod.splits)
  ultimately show ?thesis by (auto simp: fetched_with_def gr_auth_def net_auth_def originRemote_def)
qed

lemma on_git_Some: "on_git m ps = Some (r, ps') \<Longrightarrow> m (PsGit ps) = Some (r, PsGit ps') \<and> PsLease ps' = PsLease ps"
  by (auto simp: on_git_def split: option.splits)

lemma clone_into_success:
  assumes "clone_into env p h d ps = Some (Inr (repository, l), ps')"
  shows "cloned_with (GitLib env) p (PsGit ps) repository (PsGit ps')"
proof -
  from assms obtain ps1 where run: "on_git (cloneRepository (GitLib env) p) ps = Some (Inr repository, ps1)"
    and "ps' = ps1\<lparr>PsLease := lease_set h repository (PsLease ps1)\<rparr>"
    by (auto simp: clone_into_def seq_def try_act_def split: option.splits sum.splits)
  with clone_success [of "GitLib env" p "PsGit ps" repository "PsGit ps1"] on_git_Some [OF run] show ?thesis by simp
qed

text \<open>
  C8. A repository is handed to a pipeline only when, during this very call, its remote has accepted the
  pipeline's own credentials.  Either it comes from a clone made with them, the last thing the git library did: the
  first call on it when the cache is off or has no clone, or one after the refresh of a cached clone failed.  Or it is the
  clone the cache holds under the URL and branch asked for, and the refresh of it, which starts with a fetch made with them in the
  state the call was made in, went through.  The cache never lends a repository on the strength of another user's access.
\<close>

theorem cached_repository_needs_own_access:
  assumes "getRepository env p ps = Some (Inr (repository, l), ps')"
  shows "(\<exists>g. cloned_with (GitLib env) p g repository (PsGit ps') \<and>
      (g = PsGit ps \<or> (\<exists>cached err. refreshRepository (GitLib env) cached p (PsGit ps) = Some (Inl err, g)))) \<or>
    (\<exists>h ls g1. acquire (RepoOrd env) (GrRepository p @ ''#'' @ GrBranch p) (PsLease ps) = Some (h, ls) \<and>
       lease_repo h ls = Some repository \<and> l = Some h \<and>
       fetched_with (GitLib env) p (PsGit ps) repository g1 \<and>
       refreshRepository (GitLib env) repository p (PsGit ps) = Some (Inr (), PsGit ps'))"
proof (cases "repoCache (PsLease ps) = None")
  case True
  with assms show ?thesis
    by (auto simp: getRepository_def seq_Inr ret_def dest!: on_git_Some dest: clone_success)
next
  case False
  with assms obtain h ls where a: "acquire (RepoOrd env) (cacheKey p) (PsLease ps) = Some (h, ls)"
    by (auto simp: getRepository_def split: option.splits)
  show ?thesis
  proof (cases "lease_repo h ls")
    case None
    with assms False a have "clone_into env p h id (ps\<lparr>PsLease := ls\<rparr>) = Some (Inr (repository, l), ps')"
      by (simp add: getRepository_def Let_def)
    from clone_into_success [OF this] show ?thesis by auto
  next
    case (Some cached)
    with assms False a obtain r ps1 where r: "on_git (refreshRepository (GitLib env) cached p) (ps\<lparr>PsLease := ls\<rparr>) = Some (r, ps1)"
      and rest: "(case r of
          Inl err \<Rightarrow> clone_into env p h (\<lambda>cloneErr. WrapError (''failed to refresh cached repository: '' @
            Error (PrintUser env) err @ ''; re-clone failed'') cloneErr)
        | Inr _ \<Rightarrow> ret (cached, Some h)) ps1 = Some (Inr (repository, l), ps')"
      by (auto simp: getRepository_def Let_def seq_def try_act_def simp del: append.simps split: option.splits)
    from on_git_Some [OF r] have fresh: "refreshRepository (GitLib env) cached p (PsGit ps) = Some (r, PsGit ps1)" by simp
    show ?thesis
    proof (cases r)
      case (Inl err)
      with rest have "cloned_with (GitLib env) p (PsGit ps1) repository (PsGit ps')"
        by (auto intro: clone_into_success simp del: append.simps)
      with fresh Inl show ?thesis by blast
    next
      case (Inr x)
      with rest have "cached = repository" "l = Some h" "ps1 = ps'" by (simp_all add: ret_def)
      with fresh Inr Some a refresh_success [of "GitLib env" cached p "PsGit ps" x "PsGit ps1"] show ?thesis
        by (auto simp: cacheKey_def)
    qed
  qed
qed

subsection \<open>What a successful run has pushed\<close>

definition push_accepted :: "('g, 'w, 'n, 'r, 'i) pusher_env \<Rightarrow> GitPipelineParams \<Rightarrow> 'g \<Rightarrow> bool" where
  \<comment> \<open>The git state is the one left by a push of the target branch with the credentials of the parameters that the remote accepted,
      or to which it had nothing to add.\<close>
  "push_accepted env params g' \<longleftrightarrow> (\<exists>repository force g err output.
     git_Push (GitLib env) repository
       \<lparr>PushRefSpecs = [''refs/heads/'' @ TargetBranch (Spec (GppRemoteTarget params)) @ '':refs/heads/''
          @ TargetBranch (Spec (GppRemoteTarget params))],
        PushAuth = \<lparr>AuthUsername = GitUserName (GppGitUserInfo params), AuthPassword = Token (GppGitUserInfo params),
          AuthInsecureSkipTLS = InsecureSkipTlsVerify (ScSpec (GppSyncer params)), AuthCABundle = CABundle params\<rparr>,
        PushForce = force\<rparr> g = ((err, output), g') \<and>
     (\<forall>e. err = Some e \<longrightarrow> Contains (Error (PrintUser env) e) ''already up-to-date''))"

lemma push_once_accepted:
  assumes "push_once u lib repository opt v variables g = Some (Inr (None, out), g')"
  shows "\<exists>err output. git_Push lib repository opt g = ((err, output), g') \<and>
    (\<forall>e. err = Some e \<longrightarrow> Contains (Error u e) ''already up-to-date'')"
  using assms by (auto simp: push_once_def seq_def do_net_def ret_def split: prod.splits option.splits if_splits)

lemma push_retry_last:
  "push_retry attempt n r g = Some (Inr (None, out), g') \<Longrightarrow> fst r \<noteq> None \<Longrightarrow>
   \<exists>v g1. attempt v g1 = Some (Inr (None, out), g')"
  by (induction n arbitrary: r g) (auto simp: seq_def ret_def split: option.splits sum.splits if_splits, blast)

lemma Push_accepted:
  assumes "Push (PrintUser env) (GitLib env) params repository force g = Some (Inr None, g')"
  shows "push_accepted env params g'"
proof -
  let ?b = "TargetBranch (Spec (GppRemoteTarget params))"
  define attempt where "attempt = (\<lambda>buffer. push_once (PrintUser env) (GitLib env) repository
    \<lparr>PushRefSpecs = [''refs/heads/'' @ ?b @ '':refs/heads/'' @ ?b], PushAuth = params_auth params, PushForce = force\<rparr> buffer
    (git_variables (RemoteRepository (ScSpec (GppSyncer params))) ?b (GppGitUserInfo params)))"
  have push: "Push (PrintUser env) (GitLib env) params repository force = seq (attempt '''') (\<lambda>r.
      if fst r \<noteq> None then seq (push_retry attempt (nat (PushErrorRetryNumber (ScSpec (GppSyncer params)))) r) (\<lambda>r1. ret (fst r1))
      else ret None)"
    unfolding Push_def Let_def attempt_def by (rule refl)
  have "\<exists>v g1 out. attempt v g1 = Some (Inr (None, out), g')"
    using assms unfolding push
    by (auto simp: seq_Inr ret_def split: if_splits dest!: push_retry_last) (metis not_None_eq)
  then obtain v g1 out where "attempt v g1 = Some (Inr (None, out), g')" by blast
  from push_once_accepted [OF this [unfolded attempt_def]] show ?thesis
    unfolding push_accepted_def params_auth_def net_auth_def by blast
qed

lemma or_return_None:
  assumes "or_return m failed f ps = Some (Inr (res, None), ps')" and "\<And>err. snd (failed err) \<noteq> None"
  obtains x ps1 where "m ps = Some (Inr x, ps1)" and "f x ps1 = Some (Inr (res, None), ps')"
proof -
  from assms(1) obtain r ps1 where m: "m ps = Some (r, ps1)"
    by (auto simp: or_return_def seq_def try_act_def split: option.splits)
  with assms(1) assms(2) [of "projl r"] show ?thesis
    by (cases r) (auto simp: or_return_def seq_def try_act_def ret_def intro: that)
qed

lemma change_and_push_accepted:
  assumes "change_and_push env params repository upstream ps = Some (Inr (res, None), ps')"
  shows "push_accepted env params (PsGit ps')"
proof -
  let ?url = "TargetRepository (Spec (GppRemoteTarget params))"
  from assms obtain force ps1 where "or_return (run_mutators env params repository)
      (\<lambda>err. (ResponseBuilder [] '''' ?url, Some (GitPipeline ''failed to generate the worktree'' err))) (\<lambda>modifiedPaths.
        or_return (on_git (Commit (PrintUser env) (GitLib env) params repository modifiedPaths))
          (\<lambda>err. (ResponseBuilder (GetPathsFromClaimedPaths modifiedPaths) '''' ?url,
             Some (GitPipeline ''failed to generate the commit'' err))) (\<lambda>commitHash.
          or_return (on_git (Push (PrintUser env) (GitLib env) params repository force))
            (\<lambda>err. (ResponseBuilder (GetPathsFromClaimedPaths modifiedPaths) commitHash ?url, Some err)) (\<lambda>err.
              ret (ResponseBuilder (GetPathsFromClaimedPaths modifiedPaths) commitHash ?url, err)))) ps1 = Some (Inr (res, None), ps')"
    unfolding change_and_push_def Let_def by (rule or_return_None) simp_all
  then obtain modifiedPaths ps2 where "or_return (on_git (Commit (PrintUser env) (GitLib env) params repository modifiedPaths))
          (\<lambda>err. (ResponseBuilder (GetPathsFromClaimedPaths modifiedPaths) '''' ?url,
             Some (GitPipeline ''failed to generate the commit'' err))) (\<lambda>commitHash.
          or_return (on_git (Push (PrintUser env) (GitLib env) params repository force))
            (\<lambda>err. (ResponseBuilder (GetPathsFromClaimedPaths modifiedPaths) commitHash ?url, Some err)) (\<lambda>err.
              ret (ResponseBuilder (GetPathsFromClaimedPaths modifiedPaths) commitHash ?url, err))) ps2 = Some (Inr (res, None), ps')"
    by (rule or_return_None) simp_all
  then obtain commitHash ps3 where "or_return (on_git (Push (PrintUser env) (GitLib env) params repository force))
            (\<lambda>err. (ResponseBuilder (GetPathsFromClaimedPaths modifiedPaths) commitHash ?url, Some err)) (\<lambda>err.
              ret (ResponseBuilder (GetPathsFromClaimedPaths modifiedPaths) commitHash ?url, err)) ps3 = Some (Inr (res, None), ps')"
    by (rule or_return_None) simp_all
  then obtain err ps4 where push: "on_git (Push (PrintUser env) (GitLib env) params repository force) ps3 = Some (Inr err, ps4)"
    and "ret (ResponseBuilder (GetPathsFromClaimedPaths modifiedPaths) commitHash ?url, err) ps4 = Some (Inr (res, None), ps')"
    by (rule or_return_None) simp_all
  then have "err = None" "ps4 = ps'" by (simp_all add: ret_def)
  with on_git_Some [OF push] show ?thesis by (auto intro: Push_accepted)
qed

lemma with_lease_git:
  "with_lease l m ps = Some (r, ps') \<Longrightarrow> \<exists>ps1. m ps = Some (r, ps1) \<and> PsGit ps' = PsGit ps1"
  by (auto simp: with_lease_def release_fn_def split: option.splits)

text \<open>A run without an error ends with a push its remote has accepted.\<close>

lemma RunGitPipeline_accepted:
  assumes "RunGitPipeline env params ps = Some (Inr (res, None), ps')"
  shows "push_accepted env params (PsGit ps')"
proof -
  let ?rt = "Spec (GppRemoteTarget params)" and ?failed = "\<lambda>err. (ResponseBuilder [] '''' (TargetRepository (Spec (GppRemoteTarget params))), Some err)"
  from assms obtain x ps1 where "(case x of (targetRepository, releaseTarget) \<Rightarrow> with_lease releaseTarget
      (if MergeStrategy ?rt \<noteq> '''' \<and> UpstreamRepository ?rt \<noteq> TargetRepository ?rt then
         or_return (GetUpstreamRepository env params) ?failed (\<lambda>(upstreamRepository, releaseUpstream).
           with_lease releaseUpstream (change_and_push env params targetRepository upstreamRepository))
       else change_and_push env params targetRepository targetRepository)) ps1 = Some (Inr (res, None), ps')"
    unfolding RunGitPipeline_def Let_def by (rule or_return_None) simp_all
  then obtain target l ps2 where body: "(if MergeStrategy ?rt \<noteq> '''' \<and> UpstreamRepository ?rt \<noteq> TargetRepository ?rt then
         or_return (GetUpstreamRepository env params) ?failed (\<lambda>(upstreamRepository, releaseUpstream).
           with_lease releaseUpstream (change_and_push env params target upstreamRepository))
       else change_and_push env params target target) ps1 = Some (Inr (res, None), ps2)" and git: "PsGit ps' = PsGit ps2"
    by (cases x) (auto dest: with_lease_git)
  show ?thesis
  proof (cases "MergeStrategy ?rt \<noteq> '''' \<and> UpstreamRepository ?rt \<noteq> TargetRepository ?rt")
    case True
    with body have "or_return (GetUpstreamRepository env params) ?failed (\<lambda>(upstreamRepository, releaseUpstream).
        with_lease releaseUpstream (change_and_push env params target upstreamRepository)) ps1 = Some (Inr (res, None), ps2)" by simp
    then obtain y ps3 where "(case y of (upstreamRepository, releaseUpstream) \<Rightarrow>
        with_lease releaseUpstream (change_and_push env params target upstreamRepository)) ps3 = Some (Inr (res, None), ps2)"
      by (rule or_return_None) simp_all
    then show ?thesis using git by (cases y) (auto dest!: with_lease_git dest: change_and_push_accepted)
  next
    case False
    with body have "change_and_push env params target target ps1 = Some (Inr (res, None), ps2)" by (simp split: if_splits)
    then show ?thesis using git by (simp add: change_and_push_accepted)
  qed
qed

subsection \<open>Pipelines that wait for each other\<close>

definition two_leases :: "int \<Rightarrow> (string \<times> nat \<times> 32 word) list \<Rightarrow> repo list \<Rightarrow> lease_state" where
  \<comment> \<open>A cache with these entries whose handles are all locked and hold these repositories.\<close>
  "two_leases m es rs = \<lparr>repoCache = two_keys m es, handles = map (\<lambda>r. \<lparr>HandleRepo = Some r, HandleLocked = True\<rparr>) rs\<rparr>"

lemma getRepository_new:
  assumes "repoCache (PsLease ps) \<noteq> None" and "acquire (RepoOrd env) (cacheKey p) (PsLease ps) = Some (h, ls)" and "lease_repo h ls = None"
  shows "getRepository env p ps = clone_into env p h id (ps\<lparr>PsLease := ls\<rparr>)"
  using assms by (auto simp: getRepository_def)

lemma acquire_new:
  assumes "LoadOrStore ord (two_keys m es) k (length rs) = ((length rs, False), two_keys m es')"
    and "getRepository env p ps = Some (Inr (repository, l), ps')" and "cacheKey p = k" and "RepoOrd env = ord"
    and "PsLease ps = two_leases m es rs"
  shows "PsLease ps' = two_leases m es' (rs @ [repository]) \<and> l = Some (length rs)"
proof -
  let ?ls = "\<lparr>repoCache = two_keys m es', handles = handles (two_leases m es rs) @ [\<lparr>HandleRepo = None, HandleLocked = True\<rparr>]\<rparr>"
  have "acquire ord k (two_leases m es rs) = Some (length rs, ?ls)"
    using assms(1) by (simp add: acquire_def lookup_handle_def lock_handle_def two_leases_def set_handle_def new_handle_def
        nth_append list_update_append)
  moreover have "lease_repo (length rs) ?ls = None" by (simp add: lease_repo_def two_leases_def nth_append)
  moreover have "repoCache (PsLease ps) \<noteq> None" using assms(5) by (simp add: two_leases_def two_keys_def)
  ultimately have "clone_into env p (length rs) id (ps\<lparr>PsLease := ?ls\<rparr>) = Some (Inr (repository, l), ps')"
    using assms(2) getRepository_new [of ps env p "length rs" ?ls] unfolding assms(3-5) by metis
  then obtain ps1 where "on_git (cloneRepository (GitLib env) p) (ps\<lparr>PsLease := ?ls\<rparr>) = Some (Inr repository, ps1)"
    and ps': "ps' = ps1\<lparr>PsLease := lease_set (length rs) repository (PsLease ps1)\<rparr>" "l = Some (length rs)"
    by (auto simp: clone_into_def seq_def try_act_def split: option.splits sum.splits)
  with on_git_Some have "PsLease ps1 = ?ls" by fastforce
  with ps' show ?thesis
    by (simp add: two_leases_def lease_set_def set_handle_def nth_append list_update_append)
qed

lemma acquire_locked:
  assumes "LoadOrStore ord (two_keys m es) k (length rs) = ((h, True), two_keys m es')" and "h < length rs"
    and "cacheKey p = k" and "RepoOrd env = ord" and "PsLease ps = two_leases m es rs"
  shows "getRepository env p ps = None"
  using assms
  by (simp add: getRepository_def acquire_def lookup_handle_def lock_handle_def two_leases_def nth_append) (simp add: two_keys_def)

text \<open>
  C37. Two pipelines whose targets and upstreams are swapped can block each other for ever.  With an empty cache for two
  repositories or more, let one have taken the lease of its target, which is how its run starts, and then the other that of its
  own, which is how that run starts.  What is left of either run goes on with the lease of its upstream while it keeps its
  first, and both of these wait for the other's, whatever the state of git.
\<close>

theorem crossed_pipelines_block_each_other:
  assumes "PsLease ps = InitRepoCache maxRepos" and "2 \<le> maxRepos"
    and "MergeStrategy (Spec (GppRemoteTarget a)) \<noteq> ''''" and "MergeStrategy (Spec (GppRemoteTarget b)) \<noteq> ''''"
    and "TargetRepository (Spec (GppRemoteTarget a)) \<noteq> TargetRepository (Spec (GppRemoteTarget b))"
    and "UpstreamRepository (Spec (GppRemoteTarget a)) = TargetRepository (Spec (GppRemoteTarget b))"
    and "UpstreamRepository (Spec (GppRemoteTarget b)) = TargetRepository (Spec (GppRemoteTarget a))"
    and "UpstreamBranch (Spec (GppRemoteTarget a)) = UpstreamBranch (Spec (GppRemoteTarget b))"
    and "GetTargetRepository env a ps = Some (Inr (ra, la), ps1)" and "GetTargetRepository env b ps1 = Some (Inr (rb, lb), ps2)"
  shows "RunGitPipeline env a ps = with_lease la (or_return (GetUpstreamRepository env a)
        (\<lambda>err. (ResponseBuilder [] '''' (TargetRepository (Spec (GppRemoteTarget a))), Some err))
        (\<lambda>(upstream, lu). with_lease lu (change_and_push env a ra upstream))) ps1 \<and>
    RunGitPipeline env b ps1 = with_lease lb (or_return (GetUpstreamRepository env b)
        (\<lambda>err. (ResponseBuilder [] '''' (TargetRepository (Spec (GppRemoteTarget b))), Some err))
        (\<lambda>(upstream, lu). with_lease lu (change_and_push env b rb upstream))) ps2 \<and>
    la \<noteq> None \<and> lb \<noteq> None \<and>
    (\<forall>g docs. GetUpstreamRepository env a (ps2\<lparr>PsGit := g, PsDocCache := docs\<rparr>) = None \<and>
       GetUpstreamRepository env b (ps2\<lparr>PsGit := g, PsDocCache := docs\<rparr>) = None)"
proof -
  let ?ka = "TargetRepository (Spec (GppRemoteTarget a)) @ ''#'' @ UpstreamBranch (Spec (GppRemoteTarget a))"
  let ?kb = "TargetRepository (Spec (GppRemoteTarget b)) @ ''#'' @ UpstreamBranch (Spec (GppRemoteTarget b))"
  have keys: "?ka \<noteq> ?kb" using assms(5,8) by simp
  note load = load_two_keys [OF assms(2) keys, of "RepoOrd env"]
  have load_a: "LoadOrStore (RepoOrd env) (two_keys maxRepos [(?kb, 1, 1), (?ka, 0, 1)]) ?ka 2 = ((0, True), two_keys maxRepos [(?kb, 1, 1), (?ka, 0, 2)])"
    using keys by (simp add: two_keys_def LoadOrStore_def touchLocked_def reached_cap_def bump_def alist_map_def useCountCap_def word_le_nat_alt Let_def)
  have empty: "PsLease ps = two_leases maxRepos [] []"
    using assms(1,2) by (simp add: InitRepoCache_def NewLFU_def two_leases_def two_keys_def)
  from acquire_new [OF _ assms(9) [unfolded GetTargetRepository_def] _ refl empty, of ?ka "[(?ka, 0, 1)]"] load(1) [of 0]
  have one: "PsLease ps1 = two_leases maxRepos [(?ka, 0, 1)] [ra]" and la: "la = Some 0"
    by (simp_all add: cacheKey_def)
  from acquire_new [OF _ assms(10) [unfolded GetTargetRepository_def] _ refl one, of ?kb "[(?kb, 1, 1), (?ka, 0, 1)]"] load(2) [of 0 1]
  have two: "PsLease ps2 = two_leases maxRepos [(?kb, 1, 1), (?ka, 0, 1)] [ra, rb]" and lb: "lb = Some 1"
    by (simp_all add: cacheKey_def)
  have size: "length [ra, rb] = 2" by simp
  have wait: "getRepository env p ps3 = None" if "PsLease ps3 = PsLease ps2" and k: "cacheKey p \<in> {?ka, ?kb}" for p ps3
    using k acquire_locked [where k = ?kb and h = 1 and rs = "[ra, rb]", OF load(3) [of 1 0 2, folded size] _ _ refl that(1) [unfolded two]]
      acquire_locked [where k = ?ka and h = 0 and rs = "[ra, rb]", OF load_a [folded size] _ _ refl that(1) [unfolded two]]
    by auto
  have "GetUpstreamRepository env a ps3 = None" "GetUpstreamRepository env b ps3 = None" if "PsLease ps3 = PsLease ps2" for ps3
    unfolding GetUpstreamRepository_def by (rule wait [OF that], simp add: cacheKey_def assms(6-8))+
  moreover have "RunGitPipeline env a ps = with_lease la (or_return (GetUpstreamRepository env a)
        (\<lambda>err. (ResponseBuilder [] '''' (TargetRepository (Spec (GppRemoteTarget a))), Some err))
        (\<lambda>(upstream, lu). with_lease lu (change_and_push env a ra upstream))) ps1"
    using assms(3,5,6,9) by (simp add: RunGitPipeline_def or_return_def seq_def try_act_def Let_def)
  moreover have "RunGitPipeline env b ps1 = with_lease lb (or_return (GetUpstreamRepository env b)
        (\<lambda>err. (ResponseBuilder [] '''' (TargetRepository (Spec (GppRemoteTarget b))), Some err))
        (\<lambda>(upstream, lu). with_lease lu (change_and_push env b rb upstream))) ps2"
    using assms(4,5,7,10) by (simp add: RunGitPipeline_def or_return_def seq_def try_act_def Let_def)
  ultimately show ?thesis using la lb by simp
qed

subsection \<open>A run\<close>

definition quiet_params :: "string \<Rightarrow> int \<Rightarrow> GitPipelineParams" where
  \<comment> \<open>A change for a target with an upstream of its own, under a given merge strategy.\<close>
  "quiet_params strategy retries = \<lparr>
     GppSyncer = \<lparr>ScSpec = no_syncer_spec\<lparr>RemoteRepository := ''git/up'', DefaultBranch := ''main'', PushErrorRetryNumber := retries\<rparr>,
       Ref = nsn ''team'' ''rs'', ScAnnotations = [], ClusterWide = False, InterceptedNamespace = ''team'',
       RUBNamespace = ''team'', RefOwnerNamespace = ''team''\<rparr>,
     GppRemoteTarget = \<lparr>Meta = no_meta, Spec = \<lparr>UpstreamRepository = ''git/up'', UpstreamBranch = ''main'',
       TargetRepository = ''git/x'', TargetBranch = ''main'', MergeStrategy = strategy\<rparr>, Status = []\<rparr>,
     InterceptedManifest = ''data'', DeletedManifest = '''', InterceptedGVR = \<lparr>Group = '''', Version = ''v1'', Resource = ''pods''\<rparr>,
     InterceptedName = ''p'', GppGitUserInfo = \<lparr>GitUserName = ''ann'', GitEmail = ''a'', Token = ''t''\<rparr>,
     Operation = ''CREATE'', CABundle = None\<rparr>"

abbreviation quiet_penv :: "((string \<times> string) list, unit, unit, unit, unit) pusher_env" where
  "quiet_penv \<equiv> quiet_env (flat_client (\<lambda>_ _. True)) ()"

lemma quiet_state_ok: "lease_ok (PsLease (quiet_state n files))" "locked (PsLease (quiet_state n files)) = {}"
  by (simp_all add: quiet_state_def InitRepoCache_ok) (simp add: locked_def InitRepoCache_def)

lemma quiet_total: "total_git quiet_git"
  by (simp add: total_git_def quiet_git_def total_ret)

lemma quiet_run:
  "(case RunGitPipeline quiet_penv (quiet_params TryHardResetOrDie 0) (quiet_state 2 []) of
     None \<Rightarrow> False | Some (r, ps) \<Rightarrow> PsGit ps = [(''team/v1/pods/p.yaml'', ''data'')] \<and> length (handles (PsLease ps)) = 2)"
  by code_simp

theorem pipeline_gives_its_leases_back_witness:
  "\<exists>ps :: (string \<times> string) list pstate. length (handles (PsLease ps)) = 2 \<and> PsGit ps = [(''team/v1/pods/p.yaml'', ''data'')] \<and>
     lease_ok (PsLease ps) \<and> locked (PsLease ps) = {}"
proof -
  obtain r ps where run: "RunGitPipeline quiet_penv (quiet_params TryHardResetOrDie 0) (quiet_state 2 []) = Some (r, ps)"
    and two: "length (handles (PsLease ps)) = 2" "PsGit ps = [(''team/v1/pods/p.yaml'', ''data'')]"
    using quiet_run by (auto split: option.splits)
  from pipeline_gives_its_leases_back [OF quiet_state_ok(1) run] two show ?thesis by (auto simp: quiet_state_ok)
qed

definition shallow_fs :: "(string \<times> string) list billy" where
  \<comment> \<open>The in-memory worktree with directories in its root only.\<close>
  "shallow_fs = memfs\<lparr>ReadDir := (\<lambda>fs base. Inr (filter (\<lambda>(name, isDir). isDir \<longrightarrow> base = ''/'' \<and> name \<noteq> ''/'')
     (mem_children base (map fst fs))))\<rparr>"

definition shallow_penv :: "((string \<times> string) list, unit, unit, unit, unit) pusher_env" where
  "shallow_penv = quiet_penv\<lparr>GitLib := quiet_git\<lparr>git_Filesystem := (\<lambda>_. shallow_fs)\<rparr>\<rparr>"

definition finder_params :: GitPipelineParams where
  "finder_params = quiet_params TryFastForwardOrHardReset 1
     \<lparr>GppSyncer := (GppSyncer (quiet_params '''' 1))\<lparr>ScSpec := (ScSpec (GppSyncer (quiet_params '''' 1)))\<lparr>ResourceFinder := True\<rparr>\<rparr>\<rparr>"

theorem pipeline_on_its_own_returns_witness:
  "(Enabled (Gates (MutatorEnv shallow_penv)) feature_ResourceFinder \<and> ResourceFinder (ScSpec (GppSyncer finder_params))) \<and>
   (\<exists>r ps. RunGitPipeline shallow_penv finder_params (quiet_state 2 [(''apps/a.yaml'', ''data'')]) = Some (r, ps))"
proof (rule conjI)
  show "Enabled (Gates (MutatorEnv shallow_penv)) feature_ResourceFinder \<and> ResourceFinder (ScSpec (GppSyncer finder_params))"
    by code_simp
  show "\<exists>r ps. RunGitPipeline shallow_penv finder_params (quiet_state 2 [(''apps/a.yaml'', ''data'')]) = Some (r, ps)"
  proof (rule pipeline_on_its_own_returns)
    show "total_git (GitLib shallow_penv)"
      using quiet_total by (simp add: shallow_penv_def total_git_def)
    show "nested_within (PushWalkFuel shallow_penv) (git_Filesystem (GitLib shallow_penv) repository)" for repository
      unfolding nested_within_def
      by (rule exI [of _ "\<lambda>base. if base = ''/'' then 1 else 0"])
        (auto simp: shallow_penv_def quiet_env_def shallow_fs_def memfs_def entry_path_def)
  qed (simp_all add: quiet_state_ok)
qed

definition flaky_git :: "nat gitlib" where
  \<comment> \<open>A library whose state is the number of pushes still to fail.\<close>
  "flaky_git = \<lparr>git_Clone = (\<lambda>_ g. ((Inr 0, ''''), g)), git_Fetch = (\<lambda>_ _ g. ((None, ''''), g)),
     git_Pull = (\<lambda>_ _ g. ((None, ''''), g)),
     git_Push = (\<lambda>_ _ g. if g = 0 then ((None, ''''), 0) else ((Some (PlainError ''busy''), ''''), g - 1)),
     git_Reference = (\<lambda>_ _. ret ''c0''), git_SetReference = (\<lambda>_ _ _. ret ()), git_Worktree = (\<lambda>_. ret ()),
     git_Checkout = (\<lambda>_ _. ret ()), git_HardReset = (\<lambda>_ _. ret ()), git_CleanDir = (\<lambda>_. ret ()),
     git_Branches = (\<lambda>_. ret (Inr [])), git_RemoveReference = (\<lambda>_ _. ret ()), git_Remote = (\<lambda>_ _. ret ()),
     git_CreateRemote = (\<lambda>_ _ _. ret ()), git_DeleteRemote = (\<lambda>_ _. ret ()), git_MergeFastForward = (\<lambda>_ _ _. ret ()),
     git_Log = (\<lambda>_ _. ret []), git_Head = (\<lambda>_. ret ''c0''), git_CommitObject = (\<lambda>_ h. ret h),
     git_Add = (\<lambda>_ _. ret ()), git_Remove = (\<lambda>_ _. ret ()), git_Commit = (\<lambda>_ _ _ _. ret ''c1''),
     git_Filesystem = (\<lambda>_. \<lparr>Root = '''', Stat = (\<lambda>_ _. IsDirectory), ReadDir = (\<lambda>_ _. Inr []), OpenRead = (\<lambda>_ _. Inr ''''),
       MkdirAll = (\<lambda>_ s. (None, s)), CreateWrite = (\<lambda>_ _ s. (None, s)), Remove = (\<lambda>_ s. (None, s))\<rparr>)\<rparr>"

theorem push_survives_as_many_failures_as_retries_witness:
  "(\<exists>g. Push Username flaky_git (quiet_params '''' 2) 0 False 2 = Some (Inr None, g)) \<and>
   (\<exists>err g. Push Username flaky_git (quiet_params '''' 2) 0 False 3 = Some (Inr (Some err), g))"
proof -
  have "flaky flaky_git id (PlainError ''busy'')" by (simp add: flaky_def flaky_git_def)
  moreover have "\<not> Contains (Error Username (PlainError ''busy'')) ''already up-to-date''" by code_simp
  ultimately have p: "\<exists>err g'. Push Username flaky_git (quiet_params '''' 2) 0 False g = Some (Inr err, g') \<and> (err = None) = (g \<le> 2)" for g
    using push_survives_as_many_failures_as_retries [of flaky_git id "PlainError ''busy''" Username "quiet_params '''' 2" 0 False g]
    by (simp add: quiet_params_def)
  from p [of 2] p [of 3] show ?thesis by auto
qed

definition private_git :: "(string \<times> string) list gitlib" where
  \<comment> \<open>A remote that knows two users; a clone is noted in the state, so that a second one would show.\<close>
  "private_git = quiet_git\<lparr>
     git_Clone := (\<lambda>opt g. if AuthPassword (CloneAuth opt) \<in> {''t'', ''u''} then ((Inr 0, ''''), (''clone'', AuthPassword (CloneAuth opt)) # g)
       else ((Inl (PlainError ''denied''), ''''), g)),
     git_Fetch := (\<lambda>_ opt g. (((if AuthPassword (FetchAuth opt) \<in> {''t'', ''u''} then None else Some (PlainError ''denied'')), ''''), g))\<rparr>"

abbreviation private_params :: "string \<Rightarrow> GetRepositoryParams" where
  "private_params token \<equiv> \<lparr>GrGitUserInfo = \<lparr>GitUserName = ''ann'', GitEmail = ''a'', Token = token\<rparr>,
     GrSyncer = GppSyncer (quiet_params '''' 0), GrCABundle = None, GrRepository = ''git/x'', GrBranch = ''main''\<rparr>"

abbreviation private_penv :: "((string \<times> string) list, unit, unit, unit, unit) pusher_env" where
  "private_penv \<equiv> quiet_penv\<lparr>GitLib := private_git\<rparr>"

definition after_first :: "(string \<times> string) list pstate" where
  \<comment> \<open>The clone of the first user is in the cache and nobody holds it.\<close>
  "after_first = (case getRepository private_penv (private_params ''t'') (quiet_state 2 []) of
     Some (Inr (_, l), ps) \<Rightarrow> release_fn l ps | _ \<Rightarrow> quiet_state 2 [])"

text \<open>The second user gets the cached clone after a fetch of their own; a third one is refused.\<close>

theorem cached_repository_needs_own_access_witness:
  "(\<exists>g1. fetched_with private_git (private_params ''u'') [(''clone'', ''t'')] 0 g1) \<and>
   (case getRepository private_penv (private_params ''x'') after_first of Some (Inl _, _) \<Rightarrow> True | _ \<Rightarrow> False)"
proof (rule conjI)
  have got: "(case getRepository private_penv (private_params ''u'') after_first of
      Some (Inr (repository, l), ps) \<Rightarrow> repository = 0 \<and> PsGit ps = [(''clone'', ''t'')] | _ \<Rightarrow> False)"
    by code_simp
  obtain r ps where r: "getRepository private_penv (private_params ''u'') after_first = Some (r, ps)"
    using got by (cases "getRepository private_penv (private_params ''u'') after_first") auto
  with got obtain l where run: "getRepository private_penv (private_params ''u'') after_first = Some (Inr (0, l), ps)"
    and "PsGit ps = [(''clone'', ''t'')]" by (cases r) auto
  moreover have "PsGit after_first = [(''clone'', ''t'')]" by code_simp
  ultimately have git: "PsGit ps = [(''clone'', ''t'')]" "PsGit after_first = [(''clone'', ''t'')]" by simp_all
  have "\<not> cloned_with private_git (private_params ''u'') g 0 [(''clone'', ''t'')]" for g
    by (auto simp: cloned_with_def private_git_def)
  then show "\<exists>g1. fetched_with private_git (private_params ''u'') [(''clone'', ''t'')] 0 g1"
    using cached_repository_needs_own_access [OF run] git by auto
  show "case getRepository private_penv (private_params ''x'') after_first of Some (Inl _, _) \<Rightarrow> True | _ \<Rightarrow> False"
    by code_simp
qed

definition crossed_params :: "string \<Rightarrow> string \<Rightarrow> GitPipelineParams" where
  "crossed_params target upstream = (quiet_params TryHardResetOrDie 0)
     \<lparr>GppRemoteTarget := (GppRemoteTarget (quiet_params TryHardResetOrDie 0))
        \<lparr>Spec := \<lparr>UpstreamRepository = upstream, UpstreamBranch = ''main'', TargetRepository = target, TargetBranch = ''main'',
           MergeStrategy = TryHardResetOrDie\<rparr>\<rparr>\<rparr>"

theorem crossed_pipelines_block_each_other_witness:
  "\<exists>ra la ps1 rb lb ps2. GetTargetRepository quiet_penv (crossed_params ''x'' ''y'') (quiet_state 2 []) = Some (Inr (ra, la), ps1) \<and>
     GetTargetRepository quiet_penv (crossed_params ''y'' ''x'') ps1 = Some (Inr (rb, lb), ps2) \<and>
     GetUpstreamRepository quiet_penv (crossed_params ''x'' ''y'') ps2 = None \<and>
     GetUpstreamRepository quiet_penv (crossed_params ''y'' ''x'') ps2 = None"
proof -
  let ?a = "crossed_params ''x'' ''y''" and ?b = "crossed_params ''y'' ''x''"
  have got: "case GetTargetRepository quiet_penv ?a (quiet_state 2 []) of
      Some (Inr _, ps1) \<Rightarrow> (case GetTargetRepository quiet_penv ?b ps1 of Some (Inr _, _) \<Rightarrow> True | _ \<Rightarrow> False) | _ \<Rightarrow> False"
    by code_simp
  obtain r ps1 where r: "GetTargetRepository quiet_penv ?a (quiet_state 2 []) = Some (r, ps1)"
    using got by (cases "GetTargetRepository quiet_penv ?a (quiet_state 2 [])") auto
  with got obtain ra la where a: "GetTargetRepository quiet_penv ?a (quiet_state 2 []) = Some (Inr (ra, la), ps1)"
    and next_run: "case GetTargetRepository quiet_penv ?b ps1 of Some (Inr _, _) \<Rightarrow> True | _ \<Rightarrow> False"
    by (cases r) auto
  obtain q ps2 where q: "GetTargetRepository quiet_penv ?b ps1 = Some (q, ps2)"
    using next_run by (cases "GetTargetRepository quiet_penv ?b ps1") auto
  with next_run obtain rb lb where b: "GetTargetRepository quiet_penv ?b ps1 = Some (Inr (rb, lb), ps2)" by (cases q) auto
  have hyps: "PsLease (quiet_state 2 []) = InitRepoCache 2" "(2 :: int) \<le> 2"
    "MergeStrategy (Spec (GppRemoteTarget ?a)) \<noteq> ''''" "MergeStrategy (Spec (GppRemoteTarget ?b)) \<noteq> ''''"
    "TargetRepository (Spec (GppRemoteTarget ?a)) \<noteq> TargetRepository (Spec (GppRemoteTarget ?b))"
    "UpstreamRepository (Spec (GppRemoteTarget ?a)) = TargetRepository (Spec (GppRemoteTarget ?b))"
    "UpstreamRepository (Spec (GppRemoteTarget ?b)) = TargetRepository (Spec (GppRemoteTarget ?a))"
    "UpstreamBranch (Spec (GppRemoteTarget ?a)) = UpstreamBranch (Spec (GppRemoteTarget ?b))"
    by (simp_all add: crossed_params_def quiet_state_def TryHardResetOrDie_def)
  have "ps2\<lparr>PsGit := PsGit ps2, PsDocCache := PsDocCache ps2\<rparr> = ps2" by simp
  with crossed_pipelines_block_each_other [OF hyps a b] have "GetUpstreamRepository quiet_penv ?a ps2 = None \<and>
      GetUpstreamRepository quiet_penv ?b ps2 = None" by metis
  with a b show ?thesis by blast
qed

end
