(* ===== verification/Placement.thy ===== *)
theory Placement
  imports Pusher_Safety
begin

text \<open>
  What the default layout promises (\<open>internal/mutator/default.go\<close>, \<open>mutator.go\<close>, \<open>sops.go\<close>): the file of
  an object is a function of its scope, kind and name that keeps different objects apart,
  exactly that file changes, and with SOPS on it holds what the encryption returned.
\<close>

subsection \<open>The file of an object\<close>

definition scope_segment :: "string \<Rightarrow> string" where
  "scope_segment ns = (if ns = '''' then ClusterScopedPathSegment else ns)"

definition layout_elems :: "GitPipelineParams \<Rightarrow> GroupVersionResource \<Rightarrow> string list" where
  "layout_elems params gvr =
     (if RootPath (ScSpec (GppSyncer params)) = '''' then [] else Split (RootPath (ScSpec (GppSyncer params))) slash)
     @ [scope_segment (InterceptedNamespace (GppSyncer params)), Group gvr, Version gvr, Resource gvr]"

definition layout_dir :: "GitPipelineParams \<Rightarrow> GroupVersionResource \<Rightarrow> string" where
  "layout_dir params gvr = Join (filter (\<lambda>e. e \<noteq> '''') (layout_elems params gvr)) slash"

definition layout_file :: "GitPipelineParams \<Rightarrow> GroupVersionResource \<Rightarrow> string" where
  \<comment> \<open>The path of the object's file: the empty group of the core API is left out.\<close>
  "layout_file params gvr =
     Join (filter (\<lambda>e. e \<noteq> '''') (layout_elems params gvr) @ [InterceptedName params @ ''.yaml'']) slash"

definition plain_layout :: "GitPipelineParams \<Rightarrow> GroupVersionResource \<Rightarrow> bool" where
  \<comment> \<open>What names of the API look like: no slashes or dots alone, only the group may be empty.\<close>
  "plain_layout params gvr \<longleftrightarrow>
     (RootPath (ScSpec (GppSyncer params)) = '''' \<or> list_all plain_elem (Split (RootPath (ScSpec (GppSyncer params))) slash)) \<and>
     (InterceptedNamespace (GppSyncer params) = '''' \<or> plain_elem (InterceptedNamespace (GppSyncer params))) \<and>
     (Group gvr = '''' \<or> plain_elem (Group gvr)) \<and> plain_elem (Version gvr) \<and> plain_elem (Resource gvr) \<and>
     CHR ''/'' \<notin> set (InterceptedName params) \<and>
     \<not> Contains (Resource gvr) ''.yaml'' \<and> \<not> Contains (Resource gvr) ''.yml'' \<and>
     \<not> containsInvalidCharacters (layout_dir params gvr)"

lemma path_step_elem: "e = '''' \<or> plain_elem e \<Longrightarrow> path_step r st e = (if e = '''' then st else e # st)"
  by (auto simp: plain_elem_def path_step_def)

lemma fold_elems:
  assumes "list_all (\<lambda>e. e = '''' \<or> plain_elem e) es"
  shows "fold (\<lambda>e st. path_step r st e) es st = rev (filter (\<lambda>e. e \<noteq> '''') es) @ st"
  using assms
proof (induction es arbitrary: st)
  case (Cons e es)
  then have "path_step r st e = (if e = '''' then st else e # st)" by (intro path_step_elem) simp
  with Cons show ?case by simp
qed simp

lemma plain_hd: "plain_elem e \<Longrightarrow> e \<noteq> [] \<and> hd e \<noteq> CHR ''/''"
  by (cases e) (auto simp: plain_elem_def)

lemma Join_plain_hd:
  assumes "plain_elem e"
  shows "Join (e # es) slash \<noteq> [] \<and> hd (Join (e # es) slash) \<noteq> CHR ''/''"
  using plain_hd [OF assms] by (cases es) (simp_all add: hd_append)

lemma Clean_elems:
  assumes "list_all (\<lambda>e. e = '''' \<or> plain_elem e) es" and "es = e # es'" and "plain_elem e"
  shows "Clean (Join es slash) = Join (filter (\<lambda>e. e \<noteq> '''') es) slash"
proof -
  have ns: "\<forall>d \<in> set es. CHR ''/'' \<notin> set d"
  proof
    fix d
    assume "d \<in> set es"
    with assms(1) have "d = '''' \<or> plain_elem d" by (simp add: list_all_iff)
    then show "CHR ''/'' \<notin> set d" unfolding plain_elem_def by (elim disjE) simp_all
  qed
  then have split: "Split (Join es slash) slash = es"
    using assms(2) by (intro Split_Join) (auto dest: in_set_butlastD)
  have "Join es slash \<noteq> [] \<and> hd (Join es slash) \<noteq> CHR ''/''"
    using Join_plain_hd [OF assms(3)] assms(2) by blast
  moreover have "Join (filter (\<lambda>e. e \<noteq> '''') es) slash \<noteq> ''''"
    using plain_hd [OF assms(3)] Join_plain_hd [OF assms(3)] assms(2) by simp
  ultimately show ?thesis using assms(1) by (simp add: Clean_def Let_def split fold_elems)
qed

lemma elems_plain:
  assumes "plain_layout params gvr"
  shows "list_all (\<lambda>e. e = '''' \<or> plain_elem e) (layout_elems params gvr)"
    and "\<exists>e es. layout_elems params gvr = e # es \<and> plain_elem e"
    and "list_all plain_elem (filter (\<lambda>e. e \<noteq> '''') (layout_elems params gvr))"
    and "last (filter (\<lambda>e. e \<noteq> '''') (layout_elems params gvr)) = Resource gvr"
    and "filter (\<lambda>e. e \<noteq> '''') (layout_elems params gvr) \<noteq> []"
proof -
  have seg: "plain_elem (scope_segment (InterceptedNamespace (GppSyncer params)))"
    using assms by (auto simp: plain_layout_def scope_segment_def ClusterScopedPathSegment_def plain_elem_def)
  show a: "list_all (\<lambda>e. e = '''' \<or> plain_elem e) (layout_elems params gvr)"
    using assms seg by (auto simp: plain_layout_def layout_elems_def list_all_iff)
  show "list_all plain_elem (filter (\<lambda>e. e \<noteq> '''') (layout_elems params gvr))"
    using a by (auto simp: list_all_iff)
  have ne: "Split s slash \<noteq> []" for s by (simp add: Split_not_Nil)
  show "\<exists>e es. layout_elems params gvr = e # es \<and> plain_elem e"
    using assms seg ne by (cases "Split (RootPath (ScSpec (GppSyncer params))) slash") (auto simp: plain_layout_def layout_elems_def)
  show "last (filter (\<lambda>e. e \<noteq> '''') (layout_elems params gvr)) = Resource gvr"
    "filter (\<lambda>e. e \<noteq> '''') (layout_elems params gvr) \<noteq> []"
    using assms by (auto simp: plain_layout_def layout_elems_def plain_elem_def)
qed

lemma Join_append: "xs \<noteq> [] \<Longrightarrow> ys \<noteq> [] \<Longrightarrow> Join (xs @ ys) sep = Join xs sep @ sep @ Join ys sep"
proof (induction xs)
  case (Cons x xs)
  then show ?case by (cases xs) (auto simp: Join_Cons)
qed simp

lemma layout_path_elems: "layout_path params gvr = Join (layout_elems params gvr @ ['''']) slash"
  by (simp add: layout_path_def layout_elems_def scope_segment_def Join_append Join_Split Split_not_Nil Let_def slash_def [symmetric])

lemma layout_valid:
  assumes "plain_layout params gvr"
  shows "validatePath (layout_path params gvr) = Inr (layout_dir params gvr)"
proof -
  obtain e es where e: "layout_elems params gvr = e # es" "plain_elem e" using elems_plain(2) [OF assms] by blast
  have "Clean (layout_path params gvr) = layout_dir params gvr"
    unfolding layout_path_elems layout_dir_def
    using elems_plain(1) [OF assms] e by (subst Clean_elems [of _ e "es @ ['''']"]) auto
  then show ?thesis using assms by (simp add: validatePath_def plain_layout_def Let_def)
qed

lemma layout_file_plain:
  assumes "plain_layout params gvr"
  shows "list_all plain_elem (filter (\<lambda>e. e \<noteq> '''') (layout_elems params gvr) @ [InterceptedName params @ ''.yaml''])"
proof -
  have "plain_elem (InterceptedName params @ ''.yaml'')"
    using assms by (cases "InterceptedName params") (auto simp: plain_layout_def plain_elem_def)
  then show ?thesis using elems_plain(3) [OF assms] by simp
qed

lemma layout_file_name:
  assumes "plain_layout params gvr" and "getFileDirName (InterceptedName params) (layout_dir params gvr)
    (InterceptedName params @ ''.yaml'') = (dir, name)"
  shows "filepath_Join [dir, name] = layout_file params gvr" and "rel_clean (layout_file params gvr)"
proof -
  let ?es = "filter (\<lambda>e. e \<noteq> '''') (layout_elems params gvr)"
  note p = elems_plain [OF assms(1)]
  obtain e es where es: "?es = e # es" using p(5) by (cases ?es) auto
  have split: "Split (layout_dir params gvr) ''/'' = ?es"
    using p(3,5) unfolding layout_dir_def slash_def [symmetric]
    by (intro Split_Join) (auto simp: list_all_iff plain_elem_def dest: in_set_butlastD last_in_set)
  have no_yaml: "\<not> Contains (Resource gvr) ''.yaml''" "\<not> Contains (Resource gvr) ''.yml''"
    using assms(1) by (simp_all add: plain_layout_def)
  have dir: "Join ?es ''/'' = layout_dir params gvr" by (simp add: layout_dir_def slash_def)
  have "dir = layout_dir params gvr" "name = InterceptedName params @ ''.yaml''"
    using assms(2) p(4) no_yaml unfolding getFileDirName_def split Let_def by (simp_all add: dir)
  moreover have "layout_dir params gvr \<noteq> ''''"
    using p(3) Join_plain_hd unfolding layout_dir_def es by simp
  moreover have "Join [layout_dir params gvr, n] slash = Join (?es @ [n]) slash" for n
    using p(5) unfolding layout_dir_def by (simp add: Join_append)
  ultimately show "filepath_Join [dir, name] = layout_file params gvr"
    using Clean_plain [OF layout_file_plain [OF assms(1)]] by (simp add: layout_file_def)
  have "hd (layout_file params gvr) \<noteq> CHR ''/''"
    using p(3) Join_plain_hd unfolding layout_file_def es by simp
  then show "rel_clean (layout_file params gvr)"
    using Clean_plain [OF layout_file_plain [OF assms(1)]] by (simp add: layout_file_def rel_clean_def)
qed

lemma Join_plain_inj:
  assumes "list_all plain_elem xs" and "list_all plain_elem ys" and "xs \<noteq> []" and "ys \<noteq> []"
    and "Join xs slash = Join ys slash"
  shows "xs = ys"
proof -
  have "Split (Join zs slash) slash = zs" if "list_all plain_elem zs" "zs \<noteq> []" for zs
    using that by (intro Split_Join) (auto simp: list_all_iff plain_elem_def dest: in_set_butlastD last_in_set)
  then show ?thesis using assms by metis
qed

subsection \<open>The change to the worktree\<close>

lemma writeFile_effect:
  assumes "fs_laws wt file" and "plain_layout params gvr" and "Stat wt fs (layout_dir params gvr) \<noteq> IsFile"
    and "writeFile wt params (Some c) (layout_dir params gvr) transform fs = (Inr p, fs')"
  shows "p = layout_file params gvr"
    and "\<exists>out. Apply transform p (file fs p) c = Inr out \<and> (\<forall>q. rel_clean q \<longrightarrow> file fs' q = (if q = p then Some out else file fs q))"
proof -
  let ?n = "InterceptedName params @ ''.yaml''"
  obtain dir name where dn: "getFileDirName (InterceptedName params) (layout_dir params gvr) ?n = (dir, name)" by fastforce
  note f = layout_file_name [OF assms(2) dn]
  have "Stat wt fs (layout_dir params gvr) = IsDirectory"
    using assms(3,4) by (auto simp: writeFile_def Let_def split: stat_result.splits)
  with assms(4) have w: "write_named wt params (Some c) (layout_dir params gvr) ?n transform fs = (Inr p, fs')"
    by (simp add: writeFile_def)
  have ex: "(case ReadWorktreeFile wt fs (layout_file params gvr) of Inl _ \<Rightarrow> None | Inr e \<Rightarrow> Some e) = file fs (layout_file params gvr)"
  proof -
    have "case OpenRead wt fs (layout_file params gvr) of Inl _ \<Rightarrow> file fs (layout_file params gvr) = None
        | Inr c \<Rightarrow> file fs (layout_file params gvr) = Some c"
      using assms(1) f(2) by (simp add: fs_laws_def)
    then show ?thesis unfolding ReadWorktreeFile_def by (cases "OpenRead wt fs (layout_file params gvr)") simp_all
  qed
  from w obtain out where out: "Apply transform (layout_file params gvr) (file fs (layout_file params gvr)) c = Inr out"
    and wr: "WriteWorktreeFile wt (layout_file params gvr) out fs = (None, fs')" and p: "p = layout_file params gvr"
    unfolding write_named_def dn Let_def prod.case f(1) option.case ex by (auto split: sum.splits prod.splits option.splits)
  show "p = layout_file params gvr" by (rule p)
  show "\<exists>out. Apply transform p (file fs p) c = Inr out \<and> (\<forall>q. rel_clean q \<longrightarrow> file fs' q = (if q = p then Some out else file fs q))"
    using out fs_write(1) [OF assms(1) f(2) wr] unfolding p by blast
qed

lemma pathConstructor_dir:
  assumes "fs_laws wt file" and "plain_layout params gvr" and "pathConstructor wt params gvr fs = (Inr path, fs')"
  shows "path = layout_dir params gvr" and "file fs' = file fs"
  using assms(3) layout_valid [OF assms(2)] fs_mkdir [OF assms(1)]
  by (auto simp: pathConstructor_def split: stat_result.splits prod.splits option.splits)

lemma default_place_effect:
  assumes "fs_laws wt file" and "plain_layout params (ArtGVR a)" and "\<And>s. file s = file fs \<Longrightarrow> Stat wt s (layout_dir params (ArtGVR a)) \<noteq> IsFile"
    and "Content a = Some c" and "c \<noteq> ''''"
    and "default_place wt params transform [a] NewClaimedPaths fs = (Inr claimed, fs')"
  shows "Add claimed = [layout_file params (ArtGVR a)]" and "DeletePaths claimed = []"
    and "\<exists>out. Apply (transformOrNil a transform) (layout_file params (ArtGVR a)) (file fs (layout_file params (ArtGVR a))) c = Inr out \<and>
      (\<forall>q. rel_clean q \<longrightarrow> file fs' q = (if q = layout_file params (ArtGVR a) then Some out else file fs q))"
proof -
  from assms(4-6) obtain path fs1 p where pc: "pathConstructor wt params (ArtGVR a) fs = (Inr path, fs1)"
    and w: "writeFile wt params (Some c) path (transformOrNil a transform) fs1 = (Inr p, fs')"
    and cl: "claimed = AppendAddedPath p NewClaimedPaths"
    by (auto simp: IsDeletion_def content_bytes_def split: prod.splits sum.splits)
  note d = pathConstructor_dir [OF assms(1,2) pc]
  note e = writeFile_effect [OF assms(1,2) assms(3) [OF d(2)] w [unfolded d(1)]]
  show "Add claimed = [layout_file params (ArtGVR a)]" "DeletePaths claimed = []"
    using e(1) by (simp_all add: cl AppendAddedPath_def NewClaimedPaths_def)
  show "\<exists>out. Apply (transformOrNil a transform) (layout_file params (ArtGVR a)) (file fs (layout_file params (ArtGVR a))) c = Inr out \<and>
      (\<forall>q. rel_clean q \<longrightarrow> file fs' q = (if q = layout_file params (ArtGVR a) then Some out else file fs q))"
    using e(2) unfolding e(1) d(2) .
qed

definition placed_by_default :: "('fs, 'w, 'n, 'r, 'i) mutator_env \<Rightarrow> GitPipelineParams \<Rightarrow> bool" where
  \<comment> \<open>No provider handles the object, and the resource finder is off.\<close>
  "placed_by_default env params \<longleftrightarrow> list_all (\<lambda>(gate, provider). \<not> Enabled (Gates env) gate \<or> \<not> Handles env provider params) providerGate \<and>
     \<not> (Enabled (Gates env) feature_ResourceFinder \<and> ResourceFinder (ScSpec (GppSyncer params)))"

lemma placed_runs: 
  assumes "list_all (\<lambda>(gate, provider). \<not> Enabled (Gates env) gate \<or> \<not> Handles env provider (RcParams rc)) ps"
  shows "run_providers env rc ps out = Inr out"
  using assms by (induction ps) auto

lemma default_places_seed:
  assumes "placed_by_default env params" and "GenerateFinalWorktree env wt params (fs, cache) = Some (Inr claimed, fs', cache')"
    and "sopsTransform env \<lparr>RcParams = params, RcWorktree = Filesystem wt, RcFs = fs, RcTransform = None\<rparr> = Inr transform"
  shows "\<exists>placed. default_place (Filesystem wt) params transform [seed_artifact params] NewClaimedPaths fs = (Inr placed, fs') \<and>
    Add claimed = Add placed \<and> DeletePaths claimed = DeletePaths placed"
proof -
  let ?rc = "\<lparr>RcParams = params, RcWorktree = Filesystem wt, RcFs = fs, RcTransform = None\<rparr>"
  have run: "run_providers env (?rc\<lparr>RcTransform := transform\<rparr>) (range_map (ProviderOrd env) providerGate) empty_set = Inr empty_set"
    using assms(1) by (intro placed_runs) (simp add: placed_by_default_def list_all_iff)
  have empty_items: "Items empty_set = []" "\<not> Claimed empty_set" "DenialReason empty_set = ''''" by (simp_all add: empty_set_def)
  have seed: "TargetPath (seed_artifact params) = ''''" by (simp add: seed_artifact_def no_artifact_def)
  have off: "\<not> (Enabled (Gates env) feature_ResourceFinder \<and> ResourceFinder (ScSpec (GppSyncer params)))"
    using assms(1) by (simp add: placed_by_default_def)
  from assms(2) have pl: "place_all env wt params transform [seed_artifact params] (fs, cache) = Some (Inr claimed, fs', cache')"
    by (simp add: GenerateFinalWorktree_def assms(3) run [simplified] empty_items)
  then obtain placed where p: "placeArtifacts env wt params (empty_set\<lparr>Items := [seed_artifact params]\<rparr>) transform (fs, cache)
      = Some (Inr placed, fs', cache')" and c: "claimed = AppendClaimedPaths placed NewClaimedPaths"
    by (auto simp: place_all_def seed Let_def split: option.splits sum.splits)
  from p show ?thesis
    unfolding placeArtifacts_def if_not_P [OF off] c
    by (auto simp: Let_def DefaultWorktreeCustomizer_place_def AppendClaimedPaths_def NewClaimedPaths_def ClaimExists_def
        split: prod.splits sum.splits)
qed

definition default_file :: "GitPipelineParams \<Rightarrow> GroupVersionResource \<Rightarrow> string option" where
  \<comment> \<open>The file \<open>pathConstructor\<close> and \<open>writeFile\<close> settle on when the layout's directory is a directory.\<close>
  "default_file params gvr = (case validatePath (layout_path params gvr) of
     Inl _ \<Rightarrow> None
   | Inr path \<Rightarrow> (case getFileDirName (InterceptedName params) path (InterceptedName params @ ''.yaml'') of
       (dir, fileName) \<Rightarrow> Some (filepath_Join [dir, fileName])))"

lemma default_file_layout: "plain_layout params gvr \<Longrightarrow> default_file params gvr = Some (layout_file params gvr)"
  unfolding default_file_def layout_valid
  by (simp add: layout_file_name del: filepath_Join.simps split: prod.split)

subsection \<open>Properties\<close>

text \<open>
  C25. Under one root path, two objects share a file exactly when they have the same namespace, group, version,
  resource and name: the empty core group and the cluster scope never make two objects collide.
\<close>

theorem layout_keeps_objects_apart:
  assumes "plain_layout p gvr" and "plain_layout q gvr'"
    and "RootPath (ScSpec (GppSyncer p)) = RootPath (ScSpec (GppSyncer q))"
    and "InterceptedNamespace (GppSyncer p) \<noteq> ClusterScopedPathSegment"
    and "InterceptedNamespace (GppSyncer q) \<noteq> ClusterScopedPathSegment"
  shows "default_file p gvr \<noteq> None \<and> (default_file p gvr = default_file q gvr') =
    (InterceptedNamespace (GppSyncer p) = InterceptedNamespace (GppSyncer q) \<and> gvr = gvr' \<and> InterceptedName p = InterceptedName q)"
proof -
  have "(layout_file p gvr = layout_file q gvr') =
    (InterceptedNamespace (GppSyncer p) = InterceptedNamespace (GppSyncer q) \<and> gvr = gvr' \<and> InterceptedName p = InterceptedName q)"
  proof
    let ?es = "\<lambda>p gvr. filter (\<lambda>e. e \<noteq> '''') (layout_elems p gvr) @ [InterceptedName p @ ''.yaml'']"
    assume "layout_file p gvr = layout_file q gvr'"
    then have "?es p gvr = ?es q gvr'"
      using Join_plain_inj [OF layout_file_plain [OF assms(1)] layout_file_plain [OF assms(2)]] by (simp add: layout_file_def)
    moreover have "Group g = '''' \<or> Group g \<noteq> ''''" for g :: GroupVersionResource by simp
    moreover have "scope_segment ns \<noteq> ''''" for ns by (simp add: scope_segment_def ClusterScopedPathSegment_def)
    moreover have "Version gvr \<noteq> ''''" "Resource gvr \<noteq> ''''" "Version gvr' \<noteq> ''''" "Resource gvr' \<noteq> ''''"
      using assms(1,2) by (auto simp: plain_layout_def plain_elem_def)
    ultimately have "scope_segment (InterceptedNamespace (GppSyncer p)) = scope_segment (InterceptedNamespace (GppSyncer q))"
      "Group gvr = Group gvr'" "Version gvr = Version gvr'" "Resource gvr = Resource gvr'" "InterceptedName p = InterceptedName q"
      using assms(3) by (auto simp: layout_elems_def split: if_splits)
    with assms(4,5) show "InterceptedNamespace (GppSyncer p) = InterceptedNamespace (GppSyncer q) \<and> gvr = gvr' \<and> InterceptedName p = InterceptedName q"
      by (auto simp: scope_segment_def split: if_splits)
  qed (use assms(3) in \<open>simp add: layout_file_def layout_elems_def\<close>)
  then show ?thesis using assms(1,2) by (simp add: default_file_layout)
qed

text \<open>
  C17. With SOPS on and the resource finder off, an object that is created or changed (its manifest is not empty) and that
  no provider handles is placed in the file of the default layout as what the encryption
  returned for it, or as it is when no creation rule covers that file; no other file changes.
  Without a SOPS configuration in the repository nothing is placed at all.
\<close>

theorem sops_places_what_was_encrypted:
  assumes "fs_laws (Filesystem wt) file" and "plain_layout params (InterceptedGVR params)"
    and "\<And>s. file s = file fs \<Longrightarrow> Stat (Filesystem wt) s (layout_dir params (InterceptedGVR params)) \<noteq> IsFile"
    and "placed_by_default env params" and "InterceptedManifest params \<noteq> ''''"
    and "Enabled (Gates env) feature_SopsEncryption" and "SopsEnabled (SOPS (ScSpec (GppSyncer params)))"
    and "GenerateFinalWorktree env wt params (fs, cache) = Some (Inr claimed, fs', cache')"
  shows "\<exists>sopsYAML out path. path = layout_file params (InterceptedGVR params) \<and> Add claimed = [path] \<and> DeletePaths claimed = [] \<and>
    ReadWorktreeFile (Filesystem wt) fs sopsConfigFile = Inr sopsYAML \<and>
    (\<forall>q. rel_clean q \<longrightarrow> file fs' q = (if q = path then Some out else file fs q)) \<and>
    (case LoadCreationRule (Lib env) sopsYAML path of
       NoCreationRule \<Rightarrow> out = InterceptedManifest params
     | RuleError _ \<Rightarrow> False
     | CreationRule rules \<Rightarrow> \<exists>doc identities. KubernetesIdentityVisible doc \<and> out = RawYAML doc \<and>
         (EncryptYAML (Lib env) (InterceptedManifest params) rules identities = Inr doc \<or>
          (\<exists>old. file fs path = Some old \<and> EncryptWithExisting (Lib env) (InterceptedManifest params) old rules identities = Inr doc)))"
proof -
  let ?g = "InterceptedGVR params" and ?rc = "\<lparr>RcParams = params, RcWorktree = Filesystem wt, RcFs = fs, RcTransform = None\<rparr>"
  let ?p = "layout_file params ?g"
  from assms(6-8) obtain sopsYAML identities where y: "ReadWorktreeFile (Filesystem wt) fs sopsConfigFile = Inr sopsYAML"
    and t: "sopsTransform env ?rc = Inr (Some (sops_encrypt (Lib env) sopsYAML identities))"
    by (auto simp: GenerateFinalWorktree_def sopsTransform_def Let_def split: sum.splits)
  obtain placed where dp: "default_place (Filesystem wt) params (Some (sops_encrypt (Lib env) sopsYAML identities))
      [seed_artifact params] NewClaimedPaths fs = (Inr placed, fs')"
    and cl: "Add claimed = Add placed" "DeletePaths claimed = DeletePaths placed"
    using default_places_seed [OF assms(4,8) t] by blast
  have seed: "ArtGVR (seed_artifact params) = ?g" "Content (seed_artifact params) = Some (InterceptedManifest params)"
    by (simp_all add: seed_artifact_def)
  have "Version ?g \<noteq> ''''" using assms(2) by (simp add: plain_layout_def plain_elem_def)
  then have nil: "transformOrNil (seed_artifact params) u = u" for u by (simp add: transformOrNil_def seed)
  note e = default_place_effect [where a = "seed_artifact params", unfolded seed, OF assms(1-3) refl assms(5) dp, unfolded nil]
  from e(3) obtain out where out: "sops_encrypt (Lib env) sopsYAML identities ?p (file fs ?p) (InterceptedManifest params) = Inr out"
    and f: "\<forall>q. rel_clean q \<longrightarrow> file fs' q = (if q = ?p then Some out else file fs q)"
    using assms(5) by (auto simp: Apply_def)
  have "case LoadCreationRule (Lib env) sopsYAML ?p of
       NoCreationRule \<Rightarrow> out = InterceptedManifest params
     | RuleError _ \<Rightarrow> False
     | CreationRule rules \<Rightarrow> \<exists>doc identities. KubernetesIdentityVisible doc \<and> out = RawYAML doc \<and>
         (EncryptYAML (Lib env) (InterceptedManifest params) rules identities = Inr doc \<or>
          (\<exists>old. file fs ?p = Some old \<and> EncryptWithExisting (Lib env) (InterceptedManifest params) old rules identities = Inr doc))"
    using out by (auto simp: sops_encrypt_def Let_def split: creation_rule.splits sum.splits if_splits option.splits)
  then show ?thesis using e(1,2) f y by (intro exI [of _ sopsYAML] exI [of _ out] exI [of _ ?p]) (simp add: cl)
qed
subsection \<open>Witnesses\<close>

definition sops_params :: GitPipelineParams where
  "sops_params = (quiet_params '''' 0)\<lparr>GppSyncer := (GppSyncer (quiet_params '''' 0))\<lparr>ScSpec :=
     (ScSpec (GppSyncer (quiet_params '''' 0)))\<lparr>SOPS := (SOPS no_syncer_spec)\<lparr>SopsEnabled := True\<rparr>\<rparr>\<rparr>\<rparr>"

definition sops_env :: "((string \<times> string) list, unit, unit, unit, unit) mutator_env" where
  "sops_env = idle_mutators (flat_client (\<lambda>_ _. True)) () [(feature_SopsEncryption, True)]"

definition mem_worktree :: "(string \<times> string) list worktree" where
  "mem_worktree = \<lparr>Filesystem = memfs, WalkFuel = 5, CacheOrd = (\<lambda>_ _. 0)\<rparr>"

definition sops_fs :: "(string \<times> string) list" where
  "sops_fs = [(sopsConfigFile, ''rules'')]"

lemma sops_run:
  "(case GenerateFinalWorktree sops_env mem_worktree sops_params (sops_fs, None) of
      None \<Rightarrow> False | Some (r, fs, cache) \<Rightarrow> (case r of Inl _ \<Rightarrow> False | Inr _ \<Rightarrow> True))"
  by code_simp

theorem layout_keeps_objects_apart_witness:
  "default_file sops_params \<lparr>Group = '''', Version = ''v1'', Resource = ''pods''\<rparr> \<noteq>
   default_file sops_params \<lparr>Group = ''v1'', Version = ''v1'', Resource = ''pods''\<rparr>"
proof -
  have "plain_layout sops_params \<lparr>Group = '''', Version = ''v1'', Resource = ''pods''\<rparr>" by code_simp
  moreover have "plain_layout sops_params \<lparr>Group = ''v1'', Version = ''v1'', Resource = ''pods''\<rparr>" by code_simp
  moreover have "InterceptedNamespace (GppSyncer sops_params) \<noteq> ClusterScopedPathSegment" by code_simp
  ultimately show ?thesis
    using layout_keeps_objects_apart [of sops_params "\<lparr>Group = '''', Version = ''v1'', Resource = ''pods''\<rparr>"
      sops_params "\<lparr>Group = ''v1'', Version = ''v1'', Resource = ''pods''\<rparr>"] by simp
qed

theorem sops_places_what_was_encrypted_witness:
  "\<exists>claimed fs' cache'. GenerateFinalWorktree sops_env mem_worktree sops_params (sops_fs, None) = Some (Inr claimed, fs', cache') \<and>
     map_of fs' (layout_file sops_params (InterceptedGVR sops_params)) = Some ''ENC data''"
proof -
  obtain claimed fs' cache' where run: "GenerateFinalWorktree sops_env mem_worktree sops_params (sops_fs, None) = Some (Inr claimed, fs', cache')"
    using sops_run by (auto split: option.splits sum.splits)
  have laws: "fs_laws (Filesystem mem_worktree) map_of" by (simp add: mem_worktree_def memfs_laws)
  have plain: "plain_layout sops_params (InterceptedGVR sops_params)" by code_simp
  have free: "map_of sops_fs (layout_dir sops_params (InterceptedGVR sops_params)) = None" by code_simp
  have dir: "Stat (Filesystem mem_worktree) s (layout_dir sops_params (InterceptedGVR sops_params)) \<noteq> IsFile"
    if "map_of s = map_of sops_fs" for s using that free by (simp add: mem_worktree_def memfs_def)
  have clean: "rel_clean (layout_file sops_params (InterceptedGVR sops_params))" by code_simp
  have flags: "placed_by_default sops_env sops_params" "InterceptedManifest sops_params \<noteq> ''''"
    "Enabled (Gates sops_env) feature_SopsEncryption" "SopsEnabled (SOPS (ScSpec (GppSyncer sops_params)))"
    by (code_simp; fail)+
  have lib: "LoadCreationRule (Lib sops_env) = (\<lambda>_ _. CreationRule ())"
    "EncryptYAML (Lib sops_env) = (\<lambda>c _ _. Inr \<lparr>RawYAML = ''ENC '' @ c, KubernetesIdentityVisible = True\<rparr>)"
    "EncryptWithExisting (Lib sops_env) = (\<lambda>c _ _ _. Inr \<lparr>RawYAML = ''ENC '' @ c, KubernetesIdentityVisible = True\<rparr>)"
    "InterceptedManifest sops_params = ''data''"
    by (simp_all add: sops_env_def idle_mutators_def idle_lib_def sops_params_def quiet_params_def)
  from sops_places_what_was_encrypted [OF laws plain dir flags run] clean
  have "map_of fs' (layout_file sops_params (InterceptedGVR sops_params)) = Some ''ENC data''" by (auto simp: lib)
  with run show ?thesis by blast
qed

end
