(* ===== verification/Sha256.thy ===== *)
theory Sha256
  imports "HOL-Library.Word"
begin

text \<open>
  SHA-256 as \<open>crypto/sha256\<close> of the standard library computes it (FIPS 180-4), over bytes as numbers, and
  the hexadecimal text of \<open>encoding/hex\<close>.  \<open>naming.Sanitize\<close> uses both.
\<close>

unbundle bit_operations_syntax

definition rotr :: "nat \<Rightarrow> 32 word \<Rightarrow> 32 word" where
  "rotr n x = drop_bit n x OR push_bit (32 - n) x"

definition big_sigma0 :: "32 word \<Rightarrow> 32 word" where "big_sigma0 x = rotr 2 x XOR rotr 13 x XOR rotr 22 x"
definition big_sigma1 :: "32 word \<Rightarrow> 32 word" where "big_sigma1 x = rotr 6 x XOR rotr 11 x XOR rotr 25 x"
definition small_sigma0 :: "32 word \<Rightarrow> 32 word" where "small_sigma0 x = rotr 7 x XOR rotr 18 x XOR drop_bit 3 x"
definition small_sigma1 :: "32 word \<Rightarrow> 32 word" where "small_sigma1 x = rotr 17 x XOR rotr 19 x XOR drop_bit 10 x"

definition sha_ch :: "32 word \<Rightarrow> 32 word \<Rightarrow> 32 word \<Rightarrow> 32 word" where "sha_ch x y z = (x AND y) XOR (NOT x AND z)"
definition sha_maj :: "32 word \<Rightarrow> 32 word \<Rightarrow> 32 word \<Rightarrow> 32 word" where "sha_maj x y z = (x AND y) XOR (x AND z) XOR (y AND z)"

text \<open>
  The constants of the standard library are the leading fraction bits of roots of primes, from which they are computed here:
  \<open>root_bits k n b r\<close> completes the \<open>k\<close>-th root of \<open>n\<close> by its lower \<open>b\<close> bits.  The roots of primes below 312 are less than
  \<open>2 ^ 5\<close>, so 37 bits give them with 32 bits of the fraction.
\<close>

primrec root_bits :: "nat \<Rightarrow> nat \<Rightarrow> nat \<Rightarrow> nat \<Rightarrow> nat" where
  "root_bits k n 0 r = r"
| "root_bits k n (Suc b) r = root_bits k n b (if (r + 2 ^ b) ^ k \<le> n then r + 2 ^ b else r)"

definition root_word :: "nat \<Rightarrow> nat \<Rightarrow> 32 word" where
  \<comment> \<open>The first 32 bits of the fraction of the \<open>k\<close>-th root of \<open>p\<close>.\<close>
  "root_word k p = of_nat (root_bits k (p * 2 ^ (32 * k)) 37 0)"

definition first_primes :: "nat list" where
  "first_primes = filter (\<lambda>p. list_all (\<lambda>d. p mod d \<noteq> 0) [2..<p]) [2..<312]"

definition round_constants :: "32 word list" where
  "round_constants = map (root_word 3) first_primes"

definition initial_hash :: "32 word list" where
  "initial_hash = map (root_word 2) [2, 3, 5, 7, 11, 13, 17, 19]"

fun sha_round :: "32 word \<times> 32 word \<Rightarrow> 32 word list \<Rightarrow> 32 word list" where
  "sha_round (k, w) [a, b, c, d, e, f, g, h] =
     (let t1 = h + big_sigma1 e + sha_ch e f g + k + w; t2 = big_sigma0 a + sha_maj a b c
      in [t1 + t2, a, b, c, d + t1, e, f, g])"
| "sha_round _ s = s"

fun sha_extend :: "nat \<Rightarrow> 32 word list \<Rightarrow> 32 word list" where
  \<comment> \<open>The message schedule, its latest word first.\<close>
  "sha_extend 0 ws = ws"
| "sha_extend (Suc n) ws = sha_extend n ((small_sigma1 (ws ! 1) + ws ! 6 + small_sigma0 (ws ! 14) + ws ! 15) # ws)"

fun be_words :: "nat list \<Rightarrow> 32 word list" where
  "be_words (a # b # c # d # bs) = (push_bit 24 (of_nat a) OR push_bit 16 (of_nat b) OR push_bit 8 (of_nat c) OR of_nat d) # be_words bs"
| "be_words _ = []"

definition sha_compress :: "32 word list \<Rightarrow> nat list \<Rightarrow> 32 word list" where
  "sha_compress s block =
     (let ws = List.rev (sha_extend 48 (List.rev (be_words block)))
      in map2 (+) s (fold sha_round (zip round_constants ws) s))"

definition sha_pad :: "nat list \<Rightarrow> nat list" where
  "sha_pad bs = (let n = length bs; zeros = (119 - n mod 64) mod 64; bits = (of_nat (8 * n) :: 64 word)
     in bs @ [128] @ replicate zeros 0 @ map (\<lambda>i. unat (drop_bit (8 * i) bits AND 255)) [7, 6, 5, 4, 3, 2, 1, 0])"

function sha_blocks :: "nat list \<Rightarrow> nat list list" where
  "sha_blocks bs = (if bs = [] then [] else take 64 bs # sha_blocks (drop 64 bs))"
  by pat_completeness auto
termination by (relation "measure length") auto

declare sha_blocks.simps [simp del]

definition Sum256 :: "nat list \<Rightarrow> 32 word list" where
  "Sum256 bs = foldl sha_compress initial_hash (sha_blocks (sha_pad bs))"

definition hex_digit :: "nat \<Rightarrow> char" where
  "hex_digit n = ''0123456789abcdef'' ! n"

definition hex_word :: "32 word \<Rightarrow> string" where
  "hex_word w = map (\<lambda>i. hex_digit (unat (drop_bit (4 * i) w AND 15))) [7, 6, 5, 4, 3, 2, 1, 0]"

definition EncodeToString :: "32 word list \<Rightarrow> string" where
  "EncodeToString ws = concat (map hex_word ws)"

definition string_bytes :: "string \<Rightarrow> nat list" where
  "string_bytes s = map of_char s"

lemma nibble: "unat (drop_bit n (w :: 32 word) AND 15) < 16"
proof -
  have "drop_bit n w AND 15 = take_bit 4 (drop_bit n w)" by (simp add: take_bit_eq_mask mask_numeral)
  then have "drop_bit n w AND 15 = drop_bit n w mod 16" by (simp add: take_bit_eq_mod)
  then show ?thesis by (simp add: unat_mod)
qed

subsection \<open>Lengths\<close>

lemma length_round: "length s = 8 \<Longrightarrow> length (sha_round kw s) = 8"
  by (induction kw s rule: sha_round.induct) (simp_all add: Let_def)

lemma length_compress: "length s = 8 \<Longrightarrow> length (sha_compress s block) = 8"
proof -
  have "length s = 8 \<Longrightarrow> length (fold sha_round kws s) = 8" for kws s
    by (induction kws arbitrary: s) (simp_all add: length_round)
  then show "length s = 8 \<Longrightarrow> length (sha_compress s block) = 8" by (simp add: sha_compress_def Let_def)
qed

lemma length_Sum256: "length (Sum256 bs) = 8"
proof -
  have "length s = 8 \<Longrightarrow> length (foldl sha_compress s bs) = 8" for s bs
    by (induction bs arbitrary: s) (simp_all add: length_compress)
  then show ?thesis by (simp add: Sum256_def initial_hash_def)
qed

lemma length_hex: "length (EncodeToString ws) = 8 * length ws"
  by (induction ws) (simp_all add: EncodeToString_def hex_word_def)

lemma set_hex: "set (EncodeToString ws) \<subseteq> set ''0123456789abcdef''"
proof -
  have "n < 16 \<Longrightarrow> hex_digit n \<in> set ''0123456789abcdef''" for n
    using nth_mem [of n "''0123456789abcdef''"] by (simp add: hex_digit_def del: set_simps)
  then have "set (hex_word w) \<subseteq> set ''0123456789abcdef''" for w
    unfolding hex_word_def set_map using nibble by blast
  then show ?thesis unfolding EncodeToString_def set_concat set_map by blast
qed

end
