(* ===== verification/Managed.thy ===== *)
theory Managed
  imports Kube_Client Sha256
begin

text \<open>
  The names and bindings syngit manages on its own (\<open>pkg/naming\<close>, \<open>pkg/managed\<close>): the derived name
  of a managed remote target, the branch list of an annotation, and the read-modify-write
  of managed bindings.

  The path of a parsed URL is the parameter \<open>url_path\<close>.  The regular expressions of
  \<open>SoftSanitize\<close> are written out as predicates on ASCII text.
\<close>

definition ManagedByLabelKey :: string where "ManagedByLabelKey = ''managed-by''"
definition ManagedByLabelValue :: string where "ManagedByLabelValue = ''syngit.io''"
definition K8sUserLabelKey :: string where "K8sUserLabelKey = ''syngit.io/k8s-user''"
definition RtManagedDefaultForkNamePrefix :: string where "RtManagedDefaultForkNamePrefix = ''fork''"
definition RtAnnotationValueOneUserOneFork :: string where "RtAnnotationValueOneUserOneFork = ''one-user-one-fork''"

subsection \<open>Names\<close>

definition alnum :: "char \<Rightarrow> bool" where
  \<comment> \<open>\<open>[a-z0-9]\<close>\<close>
  "alnum c \<longleftrightarrow> (let n = (of_char c :: nat) in 97 \<le> n \<and> n \<le> 122 \<or> 48 \<le> n \<and> n \<le> 57)"

definition dns_label :: "string \<Rightarrow> bool" where
  \<comment> \<open>\<open>[a-z0-9]([-a-z0-9]*[a-z0-9])?\<close>\<close>
  "dns_label s \<longleftrightarrow> s \<noteq> '''' \<and> alnum (hd s) \<and> alnum (last s) \<and> list_all (\<lambda>c. alnum c \<or> c = CHR ''-'') s"

definition dns_name :: "string \<Rightarrow> bool" where
  "dns_name s = list_all dns_label (Split s ''.'')"

definition SoftSanitize :: "string \<Rightarrow> string" where
  "SoftSanitize input =
     (if dns_name input then input
      else map (\<lambda>c. if alnum c \<or> c = CHR ''.'' \<or> c = CHR ''-'' then c else CHR ''-'') (ToLower input))"

definition Sanitize :: "string \<Rightarrow> string" where
  "Sanitize input = take 12 (EncodeToString (Sum256 (string_bytes input)))"

definition repo_name :: "string \<Rightarrow> string" where
  \<comment> \<open>The name a repository's URL path gives.\<close>
  "repo_name path = ToLower (ReplaceAll (SoftSanitize path) ''.git'' '''')"

definition RemoteTargetName :: "(string \<Rightarrow> go_error + string) \<Rightarrow> string \<Rightarrow> string \<Rightarrow> string \<Rightarrow> string \<Rightarrow> go_error + string" where
  "RemoteTargetName url_path upstreamRepo upstreamBranch targetRepo targetBranch =
     (case url_path upstreamRepo of
        Inl err \<Rightarrow> Inl err
      | Inr upstreamPath \<Rightarrow>
          (case (if targetRepo \<noteq> '''' then map_sum id repo_name (url_path targetRepo)
                 else Inr RtManagedDefaultForkNamePrefix) of
             Inl err \<Rightarrow> Inl err
           | Inr targetRepoName \<Rightarrow>
               let upstreamRepoName = drop 1 (repo_name upstreamPath)
               in Inr (upstreamRepoName @ ''-'' @ ToLower upstreamBranch @ targetRepoName @ ''-'' @ ToLower targetBranch)))"

definition BranchesFromAnnotation :: "string \<Rightarrow> string list" where
  "BranchesFromAnnotation s =
     (let out = Split (ReplaceAll s '' '' '''') '','' in if out = [''''] then [] else out)"

subsection \<open>Managed bindings\<close>

definition SelectorFromSet :: "labels \<Rightarrow> selector" where
  "SelectorFromSet required l = list_all (\<lambda>(k, v). map_of l k = Some v) required"

definition managed_selector :: "labels \<Rightarrow> selector option" where
  "managed_selector extra = Some (SelectorFromSet ((ManagedByLabelKey, ManagedByLabelValue) # extra))"

definition DefaultRetrySteps :: nat where "DefaultRetrySteps = 5"

type_synonym 'w rub_mutation = "'w \<Rightarrow> RemoteUserBinding \<Rightarrow> api_error + RemoteUserBinding"

definition mutate_or_delete_once :: "'w client \<Rightarrow> NamespacedName \<Rightarrow> 'w rub_mutation \<Rightarrow> 'w \<Rightarrow> api_error option \<times> 'w" where
  "mutate_or_delete_once c name mutate w =
     (case kget (RemoteUserBindings c) w name of
        Inl err \<Rightarrow> (Some err, w)
      | Inr rub \<Rightarrow>
          (case mutate w rub of
             Inl err \<Rightarrow> (Some err, w)
           | Inr rub1 \<Rightarrow>
               if RemoteUserRefs (Spec rub1) = [] \<and> RemoteTargetRefs (Spec rub1) = []
               then kdelete (RemoteUserBindings c) rub1 w
               else kupdate (RemoteUserBindings c) rub1 w))"

definition MutateOrDeleteRemoteUserBinding :: "'w client \<Rightarrow> NamespacedName \<Rightarrow> 'w rub_mutation \<Rightarrow> 'w \<Rightarrow> api_error option \<times> 'w" where
  "MutateOrDeleteRemoteUserBinding c name mutate w = retry_on_conflict DefaultRetrySteps (mutate_or_delete_once c name mutate) w"

definition refersTo :: "RemoteUserBinding \<Rightarrow> ObjectReference \<Rightarrow> string \<Rightarrow> bool" where
  "refersTo rub ref rtName \<longleftrightarrow> RefName ref = rtName \<and> (RefNamespace ref = '''' \<or> RefNamespace ref = Namespace (Meta rub))"

definition set_target_refs :: "RemoteUserBinding \<Rightarrow> ObjectReference list \<Rightarrow> RemoteUserBinding" where
  "set_target_refs rub refs = rub\<lparr>Spec := (Spec rub)\<lparr>RemoteTargetRefs := refs\<rparr>\<rparr>"

definition set_user_refs :: "RemoteUserBinding \<Rightarrow> ObjectReference list \<Rightarrow> RemoteUserBinding" where
  "set_user_refs rub refs = rub\<lparr>Spec := (Spec rub)\<lparr>RemoteUserRefs := refs\<rparr>\<rparr>"

definition AddRemoteTargetRef :: "string \<Rightarrow> RemoteUserBinding \<Rightarrow> RemoteUserBinding" where
  "AddRemoteTargetRef rtName rub =
     (if list_ex (\<lambda>ref. refersTo rub ref rtName) (RemoteTargetRefs (Spec rub)) then rub
      else set_target_refs rub (RemoteTargetRefs (Spec rub) @ [name_ref rtName]))"

definition RemoveRemoteTargetRef :: "string \<Rightarrow> RemoteUserBinding \<Rightarrow> RemoteUserBinding" where
  "RemoveRemoteTargetRef rtName rub =
     set_target_refs rub (filter (\<lambda>ref. \<not> refersTo rub ref rtName) (RemoteTargetRefs (Spec rub)))"

fun associate_all :: "'w client \<Rightarrow> string \<Rightarrow> RemoteUserBinding list \<Rightarrow> 'w \<Rightarrow> api_error option \<times> 'w" where
  "associate_all c rtName [] w = (None, w)"
| "associate_all c rtName (rub # rubs) w =
     (case MutateOrDeleteRemoteUserBinding c (key_of rub) (\<lambda>_ r. Inr (AddRemoteTargetRef rtName r)) w of
        (Some err, w1) \<Rightarrow> (Some err, w1)
      | (None, w1) \<Rightarrow> associate_all c rtName rubs w1)"

definition CreateRemoteTargetAndAssociate :: "'w client \<Rightarrow> RemoteTarget \<Rightarrow> 'w \<Rightarrow> api_error option \<times> 'w" where
  "CreateRemoteTargetAndAssociate c remoteTarget w =
     (case kcreate (RemoteTargets c) remoteTarget w of (createErr, w1) \<Rightarrow>
        if createErr \<noteq> None \<and> createErr \<noteq> Some AlreadyExists then (createErr, w1)
        else case klist (RemoteUserBindings c) w1 (Namespace (Meta remoteTarget)) (managed_selector []) of
          Inl err \<Rightarrow> (Some err, w1)
        | Inr rubs \<Rightarrow> associate_all c (Name (Meta remoteTarget)) rubs w1)"

fun remove_from_all :: "'w client \<Rightarrow> string \<Rightarrow> RemoteUserBinding list \<Rightarrow> 'w \<Rightarrow> api_error option \<times> 'w" where
  "remove_from_all c rtName [] w = (None, w)"
| "remove_from_all c rtName (rub # rubs) w =
     (case MutateOrDeleteRemoteUserBinding c (key_of rub) (\<lambda>_ r. Inr (RemoveRemoteTargetRef rtName r)) w of
        (None, w1) \<Rightarrow> remove_from_all c rtName rubs w1
      | (Some NotFound, w1) \<Rightarrow> remove_from_all c rtName rubs w1
      | (Some err, w1) \<Rightarrow> (Some err, w1))"

definition RemoveRemoteTargetRefFromRUBs :: "'w client \<Rightarrow> string \<Rightarrow> string \<Rightarrow> 'w \<Rightarrow> api_error option \<times> 'w" where
  "RemoveRemoteTargetRefFromRUBs c namespace rtName w =
     (case klist (RemoteUserBindings c) w namespace (managed_selector []) of
        Inl err \<Rightarrow> (Some err, w)
      | Inr rubs \<Rightarrow> remove_from_all c rtName rubs w)"

subsection \<open>Managed names\<close>

lemma alnum_hex: "list_all alnum ''0123456789abcdef''"
  by code_simp

lemma Sanitize_hex: "length (Sanitize s) = 12" "list_all alnum (Sanitize s)"
proof -
  show "length (Sanitize s) = 12" by (simp add: Sanitize_def length_hex length_Sum256)
  have "set (Sanitize s) \<subseteq> set ''0123456789abcdef''"
    using set_hex set_take_subset unfolding Sanitize_def by fastforce
  with alnum_hex show "list_all alnum (Sanitize s)" unfolding list_all_iff by blast
qed

end
