(* ===== verification/Policies.thy ===== *)
theory Policies
  imports Managed
begin

text \<open>
  The policies (\<open>internal/policy\<close>): the finalizer-gated lifecycle \<open>RunPolicies\<close> and the three policies,
  which keep the bindings of managed users and the remote targets of annotated syncers.

  A policy is a record of its methods over an object type \<open>'o\<close>.  The random delays are
  the argument \<open>rdm\<close>, one for each policy of a run.  A result is the delay after which to run again, 0 for none.
\<close>

subsection \<open>The lifecycle\<close>

definition requeueAfter :: int where "requeueAfter = 1"

record ('w, 'o) policy =
  Finalizer :: string
  Applies :: "'o \<Rightarrow> bool"
  Reconcile :: "int \<Rightarrow> 'o \<Rightarrow> 'w \<Rightarrow> (int \<times> go_error option) \<times> 'w"
  Cleanup :: "'o \<Rightarrow> 'w \<Rightarrow> go_error option \<times> 'w"

text \<open>How the lifecycle reads and writes its object.\<close>

record ('w, 'o) object_ops =
  ObjMeta :: "'o \<Rightarrow> ObjectMeta"
  WithFinalizers :: "string list \<Rightarrow> 'o \<Rightarrow> 'o"
  Refresh :: "'w \<Rightarrow> 'o \<Rightarrow> api_error + 'o"
  Update :: "'o \<Rightarrow> 'w \<Rightarrow> api_error option \<times> 'w"

definition AddFinalizer :: "string \<Rightarrow> string list \<Rightarrow> string list" where
  "AddFinalizer fin fins = (if fin \<in> set fins then fins else fins @ [fin])"

definition RemoveFinalizer :: "string \<Rightarrow> string list \<Rightarrow> string list" where
  "RemoveFinalizer fin fins = filter (\<lambda>f. f \<noteq> fin) fins"

definition ensure_once :: "('w, 'o) object_ops \<Rightarrow> string list \<Rightarrow> bool \<times> 'o \<times> 'w \<Rightarrow> api_error option \<times> bool \<times> 'o \<times> 'w" where
  "ensure_once ops needed st =
     (case st of (added, obj, w) \<Rightarrow>
        case Refresh ops w obj of
          Inl err \<Rightarrow> (Some err, added, obj, w)
        | Inr obj1 \<Rightarrow>
            let fins = Finalizers (ObjMeta ops obj1); fins1 = fold AddFinalizer needed fins in
            if fins1 = fins then (None, False, obj1, w)
            else let obj2 = WithFinalizers ops fins1 obj1 in
              (case Update ops obj2 w of
                 (Some err, w1) \<Rightarrow> (Some err, added, obj2, w1)
               | (None, w1) \<Rightarrow> (None, True, obj2, w1)))"

definition ensureFinalizers :: "('w, 'o) object_ops \<Rightarrow> ('w, 'o) policy list \<Rightarrow> 'o \<Rightarrow> 'w \<Rightarrow> (api_error + bool) \<times> 'o \<times> 'w" where
  "ensureFinalizers ops policies obj w =
     (let needed = map Finalizer (filter (\<lambda>p. Finalizer p \<noteq> '''' \<and> Applies p obj) policies) in
      if needed = [] then (Inr False, obj, w)
      else case retry_on_conflict DefaultRetrySteps (ensure_once ops needed) (False, obj, w) of
        (Some err, _, obj1, w1) \<Rightarrow> (Inl err, obj1, w1)
      | (None, added, obj1, w1) \<Rightarrow> (Inr added, obj1, w1))"

definition remove_once :: "('w, 'o) object_ops \<Rightarrow> string \<Rightarrow> 'o \<times> 'w \<Rightarrow> api_error option \<times> 'o \<times> 'w" where
  "remove_once ops fin st =
     (case st of (obj, w) \<Rightarrow>
        case Refresh ops w obj of
          Inl NotFound \<Rightarrow> (None, obj, w)
        | Inl err \<Rightarrow> (Some err, obj, w)
        | Inr obj1 \<Rightarrow>
            if fin \<notin> set (Finalizers (ObjMeta ops obj1)) then (None, obj1, w)
            else let obj2 = WithFinalizers ops (RemoveFinalizer fin (Finalizers (ObjMeta ops obj1))) obj1 in
              (case Update ops obj2 w of (err, w1) \<Rightarrow> (err, obj2, w1)))"

definition removeFinalizer :: "('w, 'o) object_ops \<Rightarrow> string \<Rightarrow> 'o \<Rightarrow> 'w \<Rightarrow> api_error option \<times> 'o \<times> 'w" where
  "removeFinalizer ops fin obj w = retry_on_conflict DefaultRetrySteps (remove_once ops fin) (obj, w)"

fun cleanup_deleted :: "('w, 'o) object_ops \<Rightarrow> ('w, 'o) policy list \<Rightarrow> 'o \<Rightarrow> 'w \<Rightarrow> go_error option \<times> 'o \<times> 'w" where
  \<comment> \<open>The loop for an object under deletion.\<close>
  "cleanup_deleted ops [] obj w = (None, obj, w)"
| "cleanup_deleted ops (p # ps) obj w =
     (let fin = Finalizer p in
      if fin = '''' \<or> fin \<notin> set (Finalizers (ObjMeta ops obj)) then cleanup_deleted ops ps obj w
      else case Cleanup p obj w of
        (Some err, w1) \<Rightarrow> (Some err, obj, w1)
      | (None, w1) \<Rightarrow>
          (case removeFinalizer ops fin obj w1 of
             (Some err, obj1, w2) \<Rightarrow> (Some (ApiError err), obj1, w2)
           | (None, obj1, w2) \<Rightarrow> cleanup_deleted ops ps obj1 w2))"

fun run_each :: "('w, 'o) object_ops \<Rightarrow> (nat \<Rightarrow> int) \<Rightarrow> ('w, 'o) policy list \<Rightarrow> int \<times> go_error list \<Rightarrow> 'o \<Rightarrow> 'w
    \<Rightarrow> (int \<times> go_error list) \<times> 'o \<times> 'w" where
  \<comment> \<open>The loop that reconciles or cleans up.\<close>
  "run_each ops rdm [] acc obj w = (acc, obj, w)"
| "run_each ops rdm (p # ps) acc obj w =
     (case acc of (result, errs) \<Rightarrow>
        if Applies p obj then
          (case Reconcile p (rdm 0) obj w of
             ((res, err), w1) \<Rightarrow>
               run_each ops (rdm \<circ> Suc) ps (MergeResults result res, errs @ (case err of None \<Rightarrow> [] | Some e \<Rightarrow> [e])) obj w1)
        else (case Cleanup p obj w of
          (Some err, w1) \<Rightarrow> run_each ops (rdm \<circ> Suc) ps (result, errs @ [err]) obj w1
        | (None, w1) \<Rightarrow>
            if Finalizer p \<noteq> '''' \<and> Finalizer p \<in> set (Finalizers (ObjMeta ops obj)) then
              (case removeFinalizer ops (Finalizer p) obj w1 of
                 (err, obj1, w2) \<Rightarrow>
                   run_each ops (rdm \<circ> Suc) ps (result, errs @ (case err of None \<Rightarrow> [] | Some e \<Rightarrow> [ApiError e])) obj1 w2)
            else run_each ops (rdm \<circ> Suc) ps (result, errs) obj w1))"

definition RunPolicies :: "('w, 'o) object_ops \<Rightarrow> (nat \<Rightarrow> int) \<Rightarrow> ('w, 'o) policy list \<Rightarrow> 'o \<Rightarrow> 'w
    \<Rightarrow> (int \<times> go_error list) \<times> 'o \<times> 'w" where
  "RunPolicies ops rdm policies obj w =
     (if DeletionTimestamp (ObjMeta ops obj) \<noteq> None then
        (case cleanup_deleted ops policies obj w of
           (Some err, obj1, w1) \<Rightarrow> ((0, [err]), obj1, w1)
         | (None, obj1, w1) \<Rightarrow> ((0, []), obj1, w1))
      else case ensureFinalizers ops policies obj w of
        (Inl err, obj1, w1) \<Rightarrow> ((0, [ApiError err]), obj1, w1)
      | (Inr True, obj1, w1) \<Rightarrow> ((0, []), obj1, w1)
      | (Inr False, obj1, w1) \<Rightarrow> run_each ops rdm policies (0, []) obj1 w1)"

subsection \<open>Syncers that share targets\<close>

definition SyncerAnnotation :: "Syncer \<Rightarrow> string \<Rightarrow> string" where
  "SyncerAnnotation s key = alist_get (Annotations (SyncerMeta s)) key"

definition isSameSyncer :: "Syncer \<Rightarrow> Syncer \<Rightarrow> bool" where
  "isSameSyncer a b \<longleftrightarrow> (case (a, b) of
     (NamespacedSyncer x, NamespacedSyncer y) \<Rightarrow> key_of x = key_of y
   | (ClusterSyncer x, ClusterSyncer y) \<Rightarrow> key_of x = key_of y
   | _ \<Rightarrow> False)"

definition getOtherSyncersWith :: "'w client \<Rightarrow> 'w \<Rightarrow> Syncer \<Rightarrow> string \<Rightarrow> api_error + Syncer list" where
  "getOtherSyncersWith c w self annotationKey =
     (let identityNamespace = IdentityNamespace self;
          others = filter (\<lambda>s. \<not> (isSameSyncer s self \<or> SyncerAnnotation s annotationKey = ''''))
      in case klist (RemoteSyncers c) w identityNamespace None of
        Inl err \<Rightarrow> Inl err
      | Inr rss \<Rightarrow>
          (case klist (ClusterWideRemoteSyncers c) w '''' None of
             Inl err \<Rightarrow> Inl err
           | Inr cwrss \<Rightarrow>
               Inr (others (map NamespacedSyncer rss) @
                    others (map ClusterSyncer (filter (\<lambda>s. IdentityStoreNamespace (Spec s) = identityNamespace) cwrss)))))"

subsection \<open>The branch policy\<close>

definition branchTargetPolicyFinalizer :: string where "branchTargetPolicyFinalizer = ''syngit.io/branchtarget-policy''"

definition desired_branches :: "Syncer \<Rightarrow> string list" where
  "desired_branches s = BranchesFromAnnotation (SyncerAnnotation s RtAnnotationKeyOneOrManyBranches)"

definition buildRemoteTarget :: "(string \<Rightarrow> go_error + string) \<Rightarrow> string \<Rightarrow> string \<Rightarrow> string \<Rightarrow> string \<Rightarrow> go_error + RemoteTarget" where
  "buildRemoteTarget url_path namespace upstreamRepo upstreamBranch targetBranch =
     (case RemoteTargetName url_path upstreamRepo upstreamBranch upstreamRepo targetBranch of
        Inl err \<Rightarrow> Inl err
      | Inr name \<Rightarrow> Inr
          \<lparr>Meta = no_meta\<lparr>Name := name, Namespace := namespace,
             Labels := [(ManagedByLabelKey, ManagedByLabelValue), (RtLabelKeyBranch, targetBranch),
               (RtLabelKeyPolicy, RtLabelValueOneOrManyBranches)]\<rparr>,
           Spec = \<lparr>UpstreamRepository = upstreamRepo, UpstreamBranch = upstreamBranch, TargetRepository = upstreamRepo,
             TargetBranch = targetBranch,
             MergeStrategy = (if upstreamBranch = targetBranch then '''' else TryFastForwardOrHardReset)\<rparr>,
           Status = []\<rparr>)"

definition listManagedBranchTargets :: "'w client \<Rightarrow> 'w \<Rightarrow> string \<Rightarrow> api_error + RemoteTarget list" where
  "listManagedBranchTargets c w namespace =
     klist (RemoteTargets c) w namespace (managed_selector [(RtLabelKeyPolicy, RtLabelValueOneOrManyBranches)])"

definition filterByUpstream :: "RemoteTarget list \<Rightarrow> string \<Rightarrow> string \<Rightarrow> RemoteTarget list" where
  "filterByUpstream rts upstreamRepo upstreamBranch =
     filter (\<lambda>rt. UpstreamRepository (Spec rt) = upstreamRepo \<and> UpstreamBranch (Spec rt) = upstreamBranch) rts"

definition isBranchUsedByOtherSyncer :: "string \<Rightarrow> string \<Rightarrow> string \<Rightarrow> Syncer list \<Rightarrow> bool" where
  "isBranchUsedByOtherSyncer branch upstreamRepo upstreamBranch otherSyncers =
     list_ex (\<lambda>s. RemoteRepository (SyncerSpec s) = upstreamRepo \<and> DefaultBranch (SyncerSpec s) = upstreamBranch \<and>
       branch \<in> set (desired_branches s)) otherSyncers"

definition by_branch :: "RemoteTarget list \<Rightarrow> (string \<times> RemoteTarget) list" where
  \<comment> \<open>The map from target branches; a later target replaces an earlier one of its branch.\<close>
  "by_branch rts = fold (\<lambda>rt m. alist_set (TargetBranch (Spec rt)) rt m) rts []"

fun create_branches :: "(string \<Rightarrow> go_error + string) \<Rightarrow> 'w client \<Rightarrow> string \<Rightarrow> string \<Rightarrow> string \<Rightarrow> (string \<times> RemoteTarget) list
    \<Rightarrow> string list \<Rightarrow> 'w \<Rightarrow> go_error option \<times> 'w" where
  "create_branches url_path c namespace upstreamRepo upstreamBranch existing [] w = (None, w)"
| "create_branches url_path c namespace upstreamRepo upstreamBranch existing (branch # branches) w =
     (if map_of existing branch \<noteq> None then create_branches url_path c namespace upstreamRepo upstreamBranch existing branches w
      else case buildRemoteTarget url_path namespace upstreamRepo upstreamBranch branch of
        Inl err \<Rightarrow> (Some err, w)
      | Inr rt \<Rightarrow>
          (case kcreate (RemoteTargets c) rt w of
             (err, w1) \<Rightarrow>
               if err = None \<or> err = Some AlreadyExists
               then create_branches url_path c namespace upstreamRepo upstreamBranch existing branches w1
               else (map_option ApiError err, w1)))"

definition delete_ignoring :: "'w client \<Rightarrow> RemoteTarget \<Rightarrow> 'w \<Rightarrow> api_error option \<times> 'w" where
  "delete_ignoring c rt w = (case kdelete (RemoteTargets c) rt w of
     (Some NotFound, w1) \<Rightarrow> (None, w1) | r \<Rightarrow> r)"

definition delete_then_unreference :: "'w client \<Rightarrow> RemoteTarget \<Rightarrow> 'w \<Rightarrow> (api_error + api_error) option \<times> 'w" where
  \<comment> \<open>\<open>Inl\<close> an error of the deletion, \<open>Inr\<close> one of the references.\<close>
  "delete_then_unreference c rt w =
     (case delete_ignoring c rt w of
        (Some err, w1) \<Rightarrow> (Some (Inl err), w1)
      | (None, w1) \<Rightarrow>
          (case RemoveRemoteTargetRefFromRUBs c (Namespace (Meta rt)) (Name (Meta rt)) w1 of
             (err, w2) \<Rightarrow> (map_option Inr err, w2)))"

fun prune_branches :: "'w client \<Rightarrow> int \<Rightarrow> string list \<Rightarrow> string \<Rightarrow> string \<Rightarrow> Syncer list \<Rightarrow> (string \<times> RemoteTarget) list \<Rightarrow> 'w
    \<Rightarrow> (int \<times> go_error option) \<times> 'w" where
  "prune_branches c rdm desired upstreamRepo upstreamBranch otherSyncers [] w = ((0, None), w)"
| "prune_branches c rdm desired upstreamRepo upstreamBranch otherSyncers ((branch, rt) # rts) w =
     (if branch \<in> set desired \<or> isBranchUsedByOtherSyncer branch upstreamRepo upstreamBranch otherSyncers
      then prune_branches c rdm desired upstreamRepo upstreamBranch otherSyncers rts w
      else case delete_then_unreference c rt w of
        (Some (Inl err), w1) \<Rightarrow> ((0, Some (ApiError err)), w1)
      | (Some (Inr err), w1) \<Rightarrow> ((requeueAfter + rdm, Some (ApiError err)), w1)
      | (None, w1) \<Rightarrow> prune_branches c rdm desired upstreamRepo upstreamBranch otherSyncers rts w1)"

definition BranchTarget_Reconcile :: "(string \<Rightarrow> go_error + string) \<Rightarrow> (nat \<Rightarrow> string \<Rightarrow> nat) \<Rightarrow> 'w client \<Rightarrow> int \<Rightarrow> Syncer \<Rightarrow> 'w
    \<Rightarrow> (int \<times> go_error option) \<times> 'w" where
  "BranchTarget_Reconcile url_path ord c rdm syncer w =
     (let desired = desired_branches syncer;
          upstreamRepo = RemoteRepository (SyncerSpec syncer); upstreamBranch = DefaultBranch (SyncerSpec syncer)
      in case listManagedBranchTargets c w (IdentityNamespace syncer) of
        Inl err \<Rightarrow> ((0, Some (ApiError err)), w)
      | Inr rts \<Rightarrow>
          let existing = by_branch (filterByUpstream rts upstreamRepo upstreamBranch) in
          (case create_branches url_path c (IdentityNamespace syncer) upstreamRepo upstreamBranch existing desired w of
             (Some err, w1) \<Rightarrow> ((0, Some err), w1)
           | (None, w1) \<Rightarrow>
               (case getOtherSyncersWith c w1 syncer RtAnnotationKeyOneOrManyBranches of
                  Inl err \<Rightarrow> ((0, Some (ApiError err)), w1)
                | Inr others \<Rightarrow> prune_branches c rdm desired upstreamRepo upstreamBranch others (range_map ord existing) w1)))"

fun cleanup_branches :: "'w client \<Rightarrow> string \<Rightarrow> string \<Rightarrow> Syncer list \<Rightarrow> RemoteTarget list \<Rightarrow> 'w \<Rightarrow> go_error option \<times> 'w" where
  "cleanup_branches c upstreamRepo upstreamBranch otherSyncers [] w = (None, w)"
| "cleanup_branches c upstreamRepo upstreamBranch otherSyncers (rt # rts) w =
     (if isBranchUsedByOtherSyncer (TargetBranch (Spec rt)) upstreamRepo upstreamBranch otherSyncers
      then cleanup_branches c upstreamRepo upstreamBranch otherSyncers rts w
      else case delete_then_unreference c rt w of
        (Some (Inl err), w1) \<Rightarrow> (Some (ApiError err), w1)
      | (Some (Inr err), w1) \<Rightarrow> (Some (ApiError err), w1)
      | (None, w1) \<Rightarrow> cleanup_branches c upstreamRepo upstreamBranch otherSyncers rts w1)"

definition cleanupBranchTargets :: "'w client \<Rightarrow> Syncer \<Rightarrow> 'w \<Rightarrow> go_error option \<times> 'w" where
  "cleanupBranchTargets c syncer w =
     (let upstreamRepo = RemoteRepository (SyncerSpec syncer); upstreamBranch = DefaultBranch (SyncerSpec syncer) in
      case listManagedBranchTargets c w (IdentityNamespace syncer) of
        Inl err \<Rightarrow> (Some (ApiError err), w)
      | Inr rts \<Rightarrow>
          (case getOtherSyncersWith c w syncer RtAnnotationKeyOneOrManyBranches of
             Inl err \<Rightarrow> (Some (ApiError err), w)
           | Inr others \<Rightarrow>
               cleanup_branches c upstreamRepo upstreamBranch others (filterByUpstream rts upstreamRepo upstreamBranch) w))"

definition BranchTargetPolicy :: "(string \<Rightarrow> go_error + string) \<Rightarrow> (nat \<Rightarrow> string \<Rightarrow> nat) \<Rightarrow> 'w client \<Rightarrow> ('w, Syncer) policy" where
  "BranchTargetPolicy url_path ord c = \<lparr>Finalizer = branchTargetPolicyFinalizer, Applies = (\<lambda>s. length (desired_branches s) > 0),
     Reconcile = BranchTarget_Reconcile url_path ord c, Cleanup = cleanupBranchTargets c\<rparr>"

subsection \<open>The user policy\<close>

definition userSpecificPolicyFinalizer :: string where "userSpecificPolicyFinalizer = ''syngit.io/userspecific-policy''"

definition buildUserSpecificTarget :: "(string \<Rightarrow> go_error + string) \<Rightarrow> string \<Rightarrow> string \<Rightarrow> string \<Rightarrow> string \<Rightarrow> string \<Rightarrow> string
    \<Rightarrow> go_error + RemoteTarget" where
  "buildUserSpecificTarget url_path namespace upstreamRepo upstreamBranch rawUsername sanitizedUser annotationValue =
     (let targetRepo = (if annotationValue = RtAnnotationValueOneUserOneFork then '''' else upstreamRepo) in
      case RemoteTargetName url_path upstreamRepo upstreamBranch targetRepo sanitizedUser of
        Inl err \<Rightarrow> Inl err
      | Inr rtName \<Rightarrow> Inr
          \<lparr>Meta = no_meta\<lparr>Name := rtName, Namespace := namespace,
             Labels := [(ManagedByLabelKey, ManagedByLabelValue), (RtLabelKeyPolicy, RtLabelValueOneUserOneBranch),
               (K8sUserLabelKey, sanitizedUser)],
             Annotations := (if targetRepo = '''' then [(RtLabelKeyAllowInjection, ''true'')] else [])\<rparr>,
           Spec = \<lparr>UpstreamRepository = upstreamRepo, UpstreamBranch = upstreamBranch, TargetRepository = targetRepo,
             TargetBranch = SoftSanitize rawUsername, MergeStrategy = TryFastForwardOrHardReset\<rparr>,
           Status = []\<rparr>)"

definition ensureRTRefInRUB :: "'w client \<Rightarrow> RemoteUserBinding \<Rightarrow> string \<Rightarrow> 'w \<Rightarrow> api_error option \<times> 'w" where
  "ensureRTRefInRUB c rub rtName w =
     MutateOrDeleteRemoteUserBinding c (key_of rub) (\<lambda>_ r. Inr (AddRemoteTargetRef rtName r)) w"

definition listManagedRUBs :: "'w client \<Rightarrow> 'w \<Rightarrow> string \<Rightarrow> api_error + RemoteUserBinding list" where
  "listManagedRUBs c w namespace = klist (RemoteUserBindings c) w namespace (managed_selector [])"

definition listUserSpecificTargets :: "'w client \<Rightarrow> 'w \<Rightarrow> string \<Rightarrow> string \<Rightarrow> string \<Rightarrow> api_error + RemoteTarget list" where
  "listUserSpecificTargets c w namespace upstreamRepo upstreamBranch =
     map_sum id (\<lambda>rts. filterByUpstream rts upstreamRepo upstreamBranch)
       (klist (RemoteTargets c) w namespace (managed_selector [(RtLabelKeyPolicy, RtLabelValueOneUserOneBranch)]))"

definition isRTUsedByOtherSyncer :: "RemoteTarget \<Rightarrow> Syncer list \<Rightarrow> bool" where
  "isRTUsedByOtherSyncer rt otherSyncers =
     list_ex (\<lambda>s. RemoteRepository (SyncerSpec s) = UpstreamRepository (Spec rt) \<and>
       DefaultBranch (SyncerSpec s) = UpstreamBranch (Spec rt)) otherSyncers"

definition user_label :: "('s, 't) kobj \<Rightarrow> string" where
  "user_label x = alist_get (Labels (Meta x)) K8sUserLabelKey"

definition by_user :: "RemoteTarget list \<Rightarrow> (string \<times> RemoteTarget) list" where
  "by_user rts = fold (\<lambda>rt m. if user_label rt = '''' then m else alist_set (user_label rt) rt m) rts []"

fun reconcileUserTargets :: "(string \<Rightarrow> go_error + string) \<Rightarrow> 'w client \<Rightarrow> int \<Rightarrow> Syncer \<Rightarrow> (string \<times> RemoteTarget) list \<Rightarrow> string
    \<Rightarrow> RemoteUserBinding list \<Rightarrow> string list \<Rightarrow> 'w \<Rightarrow> (int \<times> go_error option) \<times> string list \<times> 'w" where
  \<comment> \<open>The users touched are returned as a list.\<close>
  "reconcileUserTargets url_path c rdm syncer existing annotation [] active w = ((0, None), active, w)"
| "reconcileUserTargets url_path c rdm syncer existing annotation (rub # rubs) active w =
     (let sanitizedUser = user_label rub in
      if sanitizedUser = '''' then reconcileUserTargets url_path c rdm syncer existing annotation rubs active w
      else let active1 = active @ [sanitizedUser] in
        case map_of existing sanitizedUser of
          Some rt \<Rightarrow>
            (case ensureRTRefInRUB c rub (Name (Meta rt)) w of
               (Some err, w1) \<Rightarrow> ((requeueAfter + rdm, Some (ApiError err)), active1, w1)
             | (None, w1) \<Rightarrow> reconcileUserTargets url_path c rdm syncer existing annotation rubs active1 w1)
        | None \<Rightarrow>
            (case buildUserSpecificTarget url_path (IdentityNamespace syncer) (RemoteRepository (SyncerSpec syncer))
                    (DefaultBranch (SyncerSpec syncer)) (SubjName (RubSubject (Spec rub))) sanitizedUser annotation of
               Inl err \<Rightarrow> ((0, Some err), active1, w)
             | Inr rt \<Rightarrow>
                 (case kcreate (RemoteTargets c) rt w of
                    (createErr, w1) \<Rightarrow>
                      if createErr \<noteq> None \<and> createErr \<noteq> Some AlreadyExists then ((0, map_option ApiError createErr), active1, w1)
                      else (case ensureRTRefInRUB c rub (Name (Meta rt)) w1 of
                        (Some err, w2) \<Rightarrow> ((requeueAfter + rdm, Some (ApiError err)), active1, w2)
                      | (None, w2) \<Rightarrow> reconcileUserTargets url_path c rdm syncer existing annotation rubs active1 w2))))"

definition unreference_then_delete :: "'w client \<Rightarrow> RemoteTarget \<Rightarrow> 'w \<Rightarrow> (api_error + api_error) option \<times> 'w" where
  \<comment> \<open>\<open>Inl\<close> an error of the deletion, \<open>Inr\<close> one of the references.\<close>
  "unreference_then_delete c rt w =
     (case RemoveRemoteTargetRefFromRUBs c (Namespace (Meta rt)) (Name (Meta rt)) w of
        (Some err, w1) \<Rightarrow> (Some (Inr err), w1)
      | (None, w1) \<Rightarrow> (case delete_ignoring c rt w1 of (err, w2) \<Rightarrow> (map_option Inl err, w2)))"

fun prune_users :: "'w client \<Rightarrow> int \<Rightarrow> string list \<Rightarrow> Syncer list \<Rightarrow> (string \<times> RemoteTarget) list \<Rightarrow> 'w
    \<Rightarrow> (int \<times> go_error option) \<times> 'w" where
  "prune_users c rdm active otherSyncers [] w = ((0, None), w)"
| "prune_users c rdm active otherSyncers ((userLabel, rt) # rts) w =
     (if userLabel \<in> set active \<or> isRTUsedByOtherSyncer rt otherSyncers then prune_users c rdm active otherSyncers rts w
      else case unreference_then_delete c rt w of
        (Some (Inr err), w1) \<Rightarrow> ((requeueAfter + rdm, Some (ApiError err)), w1)
      | (Some (Inl err), w1) \<Rightarrow> ((0, Some (ApiError err)), w1)
      | (None, w1) \<Rightarrow> prune_users c rdm active otherSyncers rts w1)"

definition pruneStaleTargets :: "(nat \<Rightarrow> string \<Rightarrow> nat) \<Rightarrow> 'w client \<Rightarrow> int \<Rightarrow> Syncer \<Rightarrow> (string \<times> RemoteTarget) list \<Rightarrow> string list
    \<Rightarrow> 'w \<Rightarrow> (int \<times> go_error option) \<times> 'w" where
  "pruneStaleTargets ord c rdm syncer existing active w =
     (case getOtherSyncersWith c w syncer RtAnnotationKeyUserSpecific of
        Inl err \<Rightarrow> ((0, Some (ApiError err)), w)
      | Inr others \<Rightarrow> prune_users c rdm active others (range_map ord existing) w)"

definition UserSpecific_Reconcile :: "(string \<Rightarrow> go_error + string) \<Rightarrow> (nat \<Rightarrow> string \<Rightarrow> nat) \<Rightarrow> 'w client \<Rightarrow> int \<Rightarrow> Syncer \<Rightarrow> 'w
    \<Rightarrow> (int \<times> go_error option) \<times> 'w" where
  "UserSpecific_Reconcile url_path ord c rdm syncer w =
     (case listManagedRUBs c w (IdentityNamespace syncer) of
        Inl err \<Rightarrow> ((0, Some (ApiError err)), w)
      | Inr rubs \<Rightarrow>
          (case listUserSpecificTargets c w (IdentityNamespace syncer) (RemoteRepository (SyncerSpec syncer))
                  (DefaultBranch (SyncerSpec syncer)) of
             Inl err \<Rightarrow> ((0, Some (ApiError err)), w)
           | Inr rts \<Rightarrow>
               let existing = by_user rts in
               (case reconcileUserTargets url_path c rdm syncer existing
                       (SyncerAnnotation syncer RtAnnotationKeyUserSpecific) rubs [] w of
                  ((res, Some err), _, w1) \<Rightarrow> ((res, Some err), w1)
                | ((_, None), active, w1) \<Rightarrow> pruneStaleTargets ord c rdm syncer existing active w1)))"

fun cleanup_users :: "'w client \<Rightarrow> Syncer list \<Rightarrow> RemoteTarget list \<Rightarrow> 'w \<Rightarrow> go_error option \<times> 'w" where
  "cleanup_users c otherSyncers [] w = (None, w)"
| "cleanup_users c otherSyncers (rt # rts) w =
     (if isRTUsedByOtherSyncer rt otherSyncers then cleanup_users c otherSyncers rts w
      else case unreference_then_delete c rt w of
        (Some (Inr err), w1) \<Rightarrow> (Some (ApiError err), w1)
      | (Some (Inl err), w1) \<Rightarrow> (Some (ApiError err), w1)
      | (None, w1) \<Rightarrow> cleanup_users c otherSyncers rts w1)"

definition cleanupUserSpecificTargets :: "'w client \<Rightarrow> Syncer \<Rightarrow> 'w \<Rightarrow> go_error option \<times> 'w" where
  "cleanupUserSpecificTargets c syncer w =
     (case listUserSpecificTargets c w (IdentityNamespace syncer) (RemoteRepository (SyncerSpec syncer))
             (DefaultBranch (SyncerSpec syncer)) of
        Inl err \<Rightarrow> (Some (ApiError err), w)
      | Inr rts \<Rightarrow>
          (case getOtherSyncersWith c w syncer RtAnnotationKeyUserSpecific of
             Inl err \<Rightarrow> (Some (ApiError err), w)
           | Inr others \<Rightarrow> cleanup_users c others rts w))"

definition UserSpecificPolicy :: "(string \<Rightarrow> go_error + string) \<Rightarrow> (nat \<Rightarrow> string \<Rightarrow> nat) \<Rightarrow> 'w client \<Rightarrow> ('w, Syncer) policy" where
  "UserSpecificPolicy url_path ord c = \<lparr>Finalizer = userSpecificPolicyFinalizer,
     Applies = (\<lambda>s. SyncerAnnotation s RtAnnotationKeyUserSpecific \<noteq> ''''),
     Reconcile = UserSpecific_Reconcile url_path ord c, Cleanup = cleanupUserSpecificTargets c\<rparr>"

subsection \<open>The association policy\<close>

definition associationPolicyFinalizer :: string where "associationPolicyFinalizer = ''syngit.io/association-policy''"

definition managed_binding :: "RemoteUser \<Rightarrow> string \<Rightarrow> string \<Rightarrow> string \<Rightarrow> RemoteUserBinding" where
  "managed_binding remoteUser name sanitizedUsername rawUsername =
     \<lparr>Meta = no_meta\<lparr>Name := name, Namespace := Namespace (Meta remoteUser),
        Labels := [(ManagedByLabelKey, ManagedByLabelValue), (K8sUserLabelKey, sanitizedUsername)]\<rparr>,
      Spec = \<lparr>RubSubject = no_subject\<lparr>SubjKind := ''User'', SubjName := rawUsername\<rparr>,
        RemoteUserRefs = [name_ref (Name (Meta remoteUser))], RemoteTargetRefs = []\<rparr>,
      Status = no_rub_status\<rparr>"

fun claim_name :: "'w client \<Rightarrow> RemoteUser \<Rightarrow> string \<Rightarrow> string \<Rightarrow> string \<Rightarrow> nat \<Rightarrow> nat \<Rightarrow> 'w
    \<Rightarrow> (go_error + RemoteUserBinding) \<times> 'w" where
  \<comment> \<open>The loop over the suffixes: \<open>left\<close> attempts are left, \<open>i\<close> is the next suffix.\<close>
  "claim_name c remoteUser baseName sanitizedUsername rawUsername 0 i w =
     (Inl (PlainError (''could not allocate a name for managed RemoteUserBinding (base='' @ [CHR 0x22] @ baseName @ [CHR 0x22] @ '')'')), w)"
| "claim_name c remoteUser baseName sanitizedUsername rawUsername (Suc left) i w =
     (let name = (if i > 0 then baseName @ ''-'' @ Itoa i else baseName);
          rub = managed_binding remoteUser name sanitizedUsername rawUsername
      in case kcreate (RemoteUserBindings c) rub w of
        (None, w1) \<Rightarrow> (Inr rub, w1)
      | (Some AlreadyExists, w1) \<Rightarrow>
          (case kget (RemoteUserBindings c) w1 (nsn (Namespace (Meta remoteUser)) name) of
             Inl NotFound \<Rightarrow> claim_name c remoteUser baseName sanitizedUsername rawUsername left (Suc i) w1
           | Inl err \<Rightarrow> (Inl (ApiError err), w1)
           | Inr existing \<Rightarrow>
               if alist_get (Labels (Meta existing)) ManagedByLabelKey = ManagedByLabelValue \<and>
                  user_label existing = sanitizedUsername
               then (Inr existing, w1)
               else claim_name c remoteUser baseName sanitizedUsername rawUsername left (Suc i) w1)
      | (Some err, w1) \<Rightarrow> (Inl (ApiError err), w1))"

definition findOrCreateManagedRUB :: "'w client \<Rightarrow> RemoteUser \<Rightarrow> string \<Rightarrow> string \<Rightarrow> 'w
    \<Rightarrow> (go_error + RemoteUserBinding) \<times> 'w" where
  "findOrCreateManagedRUB c remoteUser sanitizedUsername rawUsername w =
     (case klist (RemoteUserBindings c) w (Namespace (Meta remoteUser)) (managed_selector [(K8sUserLabelKey, sanitizedUsername)]) of
        Inl err \<Rightarrow> (Inl (ApiError err), w)
      | Inr (first # _) \<Rightarrow>
          (case kget (RemoteUserBindings c) w (nsn (Namespace (Meta remoteUser)) (Name (Meta first))) of
             Inl err \<Rightarrow> (Inl (ApiError err), w)
           | Inr fresh \<Rightarrow> (Inr fresh, w))
      | Inr [] \<Rightarrow> claim_name c remoteUser (RubNamePrefix @ ''-'' @ sanitizedUsername) sanitizedUsername rawUsername 100 0 w)"

definition ensureRemoteUserRef :: "'w client \<Rightarrow> RemoteUserBinding \<Rightarrow> string \<Rightarrow> 'w \<Rightarrow> api_error option \<times> 'w" where
  "ensureRemoteUserRef c rub remoteUserName w =
     MutateOrDeleteRemoteUserBinding c (key_of rub)
       (\<lambda>_ fresh. Inr (if list_ex (\<lambda>ref. RefName ref = remoteUserName) (RemoteUserRefs (Spec fresh)) then fresh
          else set_user_refs fresh (RemoteUserRefs (Spec fresh) @ [name_ref remoteUserName]))) w"

definition associateExistingRemoteTargets :: "'w client \<Rightarrow> RemoteUserBinding \<Rightarrow> 'w \<Rightarrow> api_error option \<times> 'w" where
  "associateExistingRemoteTargets c rub w =
     MutateOrDeleteRemoteUserBinding c (key_of rub)
       (\<lambda>w1 fresh. map_sum id (\<lambda>rts. fold (\<lambda>rt. AddRemoteTargetRef (Name (Meta rt))) rts fresh)
          (klist (RemoteTargets c) w1 (Namespace (Meta rub)) (managed_selector [(RtLabelKeyPolicy, RtLabelValueOneOrManyBranches)]))) w"

fun forget_user :: "'w client \<Rightarrow> string \<Rightarrow> RemoteUserBinding list \<Rightarrow> 'w \<Rightarrow> go_error option \<times> 'w" where
  "forget_user c remoteUserName [] w = (None, w)"
| "forget_user c remoteUserName (rub # rubs) w =
     (case MutateOrDeleteRemoteUserBinding c (key_of rub)
             (\<lambda>_ fresh. Inr (set_user_refs fresh (filter (\<lambda>ref. RefName ref \<noteq> remoteUserName) (RemoteUserRefs (Spec fresh))))) w of
        (None, w1) \<Rightarrow> forget_user c remoteUserName rubs w1
      | (Some NotFound, w1) \<Rightarrow> forget_user c remoteUserName rubs w1
      | (Some err, w1) \<Rightarrow> (Some (ApiError err), w1))"

definition cleanupAssociation :: "'w client \<Rightarrow> RemoteUser \<Rightarrow> string \<Rightarrow> 'w \<Rightarrow> go_error option \<times> 'w" where
  "cleanupAssociation c remoteUser sanitizedUsername w =
     (if sanitizedUsername = '''' then (None, w)
      else case klist (RemoteUserBindings c) w (Namespace (Meta remoteUser)) (managed_selector [(K8sUserLabelKey, sanitizedUsername)]) of
        Inl err \<Rightarrow> (Some (ApiError err), w)
      | Inr rubs \<Rightarrow> forget_user c (Name (Meta remoteUser)) rubs w)"

definition Association_Reconcile :: "'w client \<Rightarrow> int \<Rightarrow> RemoteUser \<Rightarrow> 'w \<Rightarrow> (int \<times> go_error option) \<times> 'w" where
  "Association_Reconcile c rdm remoteUser w =
     (let sanitizedUsername = user_label remoteUser;
          rawUsername = alist_get (Annotations (Meta remoteUser)) K8sUserLabelKey
      in if sanitizedUsername = '''' \<or> rawUsername = '''' then ((0, None), w)
         else case findOrCreateManagedRUB c remoteUser sanitizedUsername rawUsername w of
           (Inl err, w1) \<Rightarrow> ((0, Some err), w1)
         | (Inr rub, w1) \<Rightarrow>
             (case ensureRemoteUserRef c rub (Name (Meta remoteUser)) w1 of
                (Some err, w2) \<Rightarrow> ((requeueAfter + rdm, Some (ApiError err)), w2)
              | (None, w2) \<Rightarrow>
                  (case associateExistingRemoteTargets c rub w2 of
                     (Some err, w3) \<Rightarrow> ((requeueAfter + rdm, Some (ApiError err)), w3)
                   | (None, w3) \<Rightarrow> ((0, None), w3))))"

definition AssociationPolicy :: "'w client \<Rightarrow> ('w, RemoteUser) policy" where
  "AssociationPolicy c = \<lparr>Finalizer = associationPolicyFinalizer,
     Applies = (\<lambda>u. alist_get (Annotations (Meta u)) RubAnnotationKeyManaged = ''true''),
     Reconcile = Association_Reconcile c, Cleanup = (\<lambda>u. cleanupAssociation c u (user_label u))\<rparr>"

subsection \<open>What the branch policy may delete\<close>

text \<open>
  The kinds live apart: writing a binding changes no target, and neither a new target nor a written binding
  changes a syncer.
\<close>

definition bindings_apart :: "'w client \<Rightarrow> ('w \<Rightarrow> 'o) \<Rightarrow> bool" where
  "bindings_apart c tobj \<longleftrightarrow> (\<forall>x w. tobj (snd (kupdate (RemoteUserBindings c) x w)) = tobj w) \<and>
     (\<forall>x w. tobj (snd (kdelete (RemoteUserBindings c) x w)) = tobj w)"

definition targets_apart :: "'w client \<Rightarrow> ('w \<Rightarrow> 'o) \<Rightarrow> bool" where
  "targets_apart c obs \<longleftrightarrow> bindings_apart c obs \<and> (\<forall>x w. obs (snd (kcreate (RemoteTargets c) x w)) = obs w)"

definition other_syncers :: "('w \<Rightarrow> NamespacedName \<Rightarrow> RemoteSyncer option) \<Rightarrow> ('w \<Rightarrow> NamespacedName \<Rightarrow> ClusterWideRemoteSyncer option)
    \<Rightarrow> 'w \<Rightarrow> Syncer \<Rightarrow> Syncer set" where
  \<comment> \<open>The stored syncers of the same identity namespace, of either kind, but the syncer itself.\<close>
  "other_syncers robj cobj w self =
     {NamespacedSyncer rs | rs. robj w (key_of rs) = Some rs \<and> Namespace (Meta rs) = IdentityNamespace self \<and>
        (\<forall>me. self = NamespacedSyncer me \<longrightarrow> key_of rs \<noteq> key_of me)} \<union>
     {ClusterSyncer cwrs | cwrs. cobj w (key_of cwrs) = Some cwrs \<and> IdentityStoreNamespace (Spec cwrs) = IdentityNamespace self \<and>
        (\<forall>me. self = ClusterSyncer me \<longrightarrow> key_of cwrs \<noteq> key_of me)}"

lemma others_listed:
  assumes "store_laws (RemoteSyncers c) robj" and "store_laws (ClusterWideRemoteSyncers c) cobj"
    and "getOtherSyncersWith c w self key = Inr others"
    and "s \<in> other_syncers robj cobj w self" and "SyncerAnnotation s key \<noteq> ''''"
  shows "s \<in> set others"
proof -
  from assms(3) obtain rss cwrss where rss: "klist (RemoteSyncers c) w (IdentityNamespace self) None = Inr rss"
    and cwrss: "klist (ClusterWideRemoteSyncers c) w '''' None = Inr cwrss"
    and others: "others = filter (\<lambda>s. \<not> (isSameSyncer s self \<or> SyncerAnnotation s key = '''')) (map NamespacedSyncer rss) @
      filter (\<lambda>s. \<not> (isSameSyncer s self \<or> SyncerAnnotation s key = ''''))
        (map ClusterSyncer (filter (\<lambda>s. IdentityStoreNamespace (Spec s) = IdentityNamespace self) cwrss))"
    by (auto simp: getOtherSyncersWith_def Let_def split: sum.splits)
  note listed = store_list [OF assms(1) rss] store_list [OF assms(2) cwrss]
  from assms(4) show ?thesis
    using assms(5) listed unfolding other_syncers_def others
    by (cases self) (auto simp: isSameSyncer_def)
qed

lemma retry_keeps:
  assumes "\<And>w. g (snd (f w)) = g w"
  shows "g (snd (retry_on_conflict n f w)) = g w"
proof (induction n arbitrary: w)
  case (Suc n)
  show ?case
  proof (cases n)
    case (Suc m)
    obtain r w1 where f: "f w = (r, w1)" by fastforce
    then have g: "g w1 = g w" using assms [of w] by simp
    show ?thesis
    proof (cases "r = Some Conflict")
      case True
      with f g Suc Suc.IH [of w1] show ?thesis by simp
    next
      case False
      then have "retry_on_conflict (Suc n) f w = (r, w1)" using f Suc by (cases r) (auto split: api_error.splits)
      with g show ?thesis by simp
    qed
  qed (simp add: assms)
qed simp

lemma mutate_keeps_targets:
  assumes "bindings_apart c tobj"
  shows "tobj (snd (MutateOrDeleteRemoteUserBinding c name mutate w)) = tobj w"
  unfolding MutateOrDeleteRemoteUserBinding_def
  using assms by (intro retry_keeps) (auto simp: mutate_or_delete_once_def bindings_apart_def split: sum.splits)

lemma unreference_keeps_targets:
  assumes "bindings_apart c tobj"
  shows "tobj (snd (RemoveRemoteTargetRefFromRUBs c ns n w)) = tobj w"
proof -
  have "tobj (snd (remove_from_all c n rubs w)) = tobj w" for rubs w
  proof (induction rubs arbitrary: w)
    case (Cons rub rubs)
    obtain err w1 where m: "MutateOrDeleteRemoteUserBinding c (key_of rub) (\<lambda>_ r. Inr (RemoveRemoteTargetRef n r)) w = (err, w1)" by fastforce
    then have "tobj w1 = tobj w" using mutate_keeps_targets [OF assms] by (metis snd_conv)
    with m Cons show ?case by (auto split: option.splits api_error.splits)
  qed simp
  then show ?thesis by (simp add: RemoveRemoteTargetRefFromRUBs_def split: sum.split)
qed

lemma delete_keeps_others:
  assumes "store_laws (RemoteTargets c) tobj" and "bindings_apart c tobj" and "k \<noteq> key_of rt"
  shows "tobj (snd (delete_then_unreference c rt w)) k = tobj w k"
proof -
  obtain r w1 where d: "delete_ignoring c rt w = (r, w1)" by fastforce
  then have "tobj w1 k = tobj w k"
    using store_others(3) [OF assms(1) _ assms(3)]
    by (auto simp: delete_ignoring_def split: prod.splits option.splits api_error.splits)
  with d unreference_keeps_targets [OF assms(2)] show ?thesis
    by (auto simp: delete_then_unreference_def split: option.splits prod.splits) (metis snd_conv)
qed

text \<open>Which entry of a pruning loop may have touched a key.\<close>

lemma prune_branches_touched:
  assumes "store_laws (RemoteTargets c) tobj" and "bindings_apart c tobj"
    and "tobj (snd (prune_branches c rdm desired repo branch others rts w)) k \<noteq> tobj w k"
  shows "\<exists>b rt. (b, rt) \<in> set rts \<and> key_of rt = k \<and> b \<notin> set desired \<and> \<not> isBranchUsedByOtherSyncer b repo branch others"
  using assms(3)
proof (induction rts arbitrary: w)
  case (Cons x rts)
  obtain b rt where x: "x = (b, rt)" by fastforce
  obtain r w1 where d: "delete_then_unreference c rt w = (r, w1)" by fastforce
  consider (skip) "b \<in> set desired \<or> isBranchUsedByOtherSyncer b repo branch others"
    | (own) "\<not> (b \<in> set desired \<or> isBranchUsedByOtherSyncer b repo branch others)" "key_of rt = k"
    | (other) "\<not> (b \<in> set desired \<or> isBranchUsedByOtherSyncer b repo branch others)" "key_of rt \<noteq> k" by blast
  then show ?case
  proof cases
    case skip
    with Cons.prems have "tobj (snd (prune_branches c rdm desired repo branch others rts w)) k \<noteq> tobj w k" by (simp add: x)
    from Cons.IH [OF this] show ?thesis by auto
  next
    case own
    then show ?thesis by (auto simp: x)
  next
    case other
    have same: "tobj w1 k = tobj w k" using delete_keeps_others [OF assms(1,2), of k rt w] other(2) d by auto
    with Cons.prems other(1) d have "tobj (snd (prune_branches c rdm desired repo branch others rts w1)) k \<noteq> tobj w1 k"
      by (cases r) (auto simp: x split: sum.splits)
    from Cons.IH [OF this] show ?thesis by auto
  qed
qed simp

lemma alist_set_mem: "set (alist_set k v m) \<subseteq> insert (k, v) (set m)"
  by (auto simp: alist_set_def alist_del_def)

lemma by_branch_mem: "(b, rt) \<in> set (by_branch rts) \<Longrightarrow> rt \<in> set rts \<and> b = TargetBranch (Spec rt)"
proof -
  have "set (fold (\<lambda>rt m. alist_set (TargetBranch (Spec rt)) rt m) rts m) \<subseteq> (\<lambda>rt. (TargetBranch (Spec rt), rt)) ` set rts \<union> set m" for m
  proof (induction rts arbitrary: m)
    case (Cons rt rts)
    have "set (alist_set (TargetBranch (Spec rt)) rt m) \<subseteq> insert (TargetBranch (Spec rt), rt) (set m)" by (rule alist_set_mem)
    with Cons [of "alist_set (TargetBranch (Spec rt)) rt m"] show ?case by auto
  qed simp
  from this [of "[]"] show "(b, rt) \<in> set (by_branch rts) \<Longrightarrow> rt \<in> set rts \<and> b = TargetBranch (Spec rt)"
    by (auto simp: by_branch_def)
qed

lemma create_keeps:
  assumes "store_laws (RemoteTargets c) tobj" and "tobj w k = Some rt"
  shows "tobj (snd (create_branches url_path c ns repo branch existing bs w)) k = Some rt"
  using assms(2)
proof (induction bs arbitrary: w)
  case (Cons b bs)
  show ?case
  proof (cases "map_of existing b = None")
    case True
    show ?thesis
    proof (cases "buildRemoteTarget url_path ns repo branch b")
      case (Inr new)
      obtain r w1 where cr: "kcreate (RemoteTargets c) new w = (r, w1)" by fastforce
      have "tobj w1 k = Some rt"
      proof (cases r)
        case None
        with cr have cr0: "kcreate (RemoteTargets c) new w = (None, w1)" by simp
        obtain y where "tobj w1 = (tobj w)(key_of new := Some y)" using store_create [OF assms(1) cr0] by blast
        moreover have "tobj w (key_of new) = None" by (rule store_others(1) [OF assms(1) cr0])
        ultimately show ?thesis using Cons.prems by auto
      next
        case (Some e)
        with cr have "tobj w1 = tobj w" using store_failed(1) [OF assms(1)] by blast
        with Cons.prems show ?thesis by simp
      qed
      with True Inr cr Cons.IH [of w1] show ?thesis by simp
    qed (use True Cons.prems in simp)
  qed (use Cons in simp)
qed simp

lemma create_branches_keeps:
  assumes "\<And>x w. obs (snd (kcreate (RemoteTargets c) x w)) = obs w"
  shows "obs (snd (create_branches url_path c ns repo branch existing branches w)) = obs w"
proof (induction branches arbitrary: w)
  case (Cons b branches)
  have "obs w1 = obs w" if "kcreate (RemoteTargets c) rt w = (e, w1)" for rt e w1
    using assms [of rt w] that by simp
  with Cons show ?case by (auto split: sum.split prod.split)
qed simp

lemma no_branches [simp]: "BranchesFromAnnotation '''' = []"
  by code_simp


subsection \<open>Examples\<close>

definition demo_branch_syncer :: "string \<Rightarrow> string \<Rightarrow> RemoteSyncer" where
  "demo_branch_syncer name branches = \<lparr>Meta = no_meta\<lparr>Name := name, Namespace := ''team'',
       Annotations := [(RtAnnotationKeyOneOrManyBranches, branches)]\<rparr>,
     Spec = no_syncer_spec\<lparr>RemoteRepository := ''/org/app.git'', DefaultBranch := ''main''\<rparr>, Status = no_syncer_status\<rparr>"

definition demo_policy_cluster :: "RemoteSyncer list \<Rightarrow> RemoteTarget list client" where
  "demo_policy_cluster rss = (flat_client (\<lambda>_ _. True))\<lparr>RemoteTargets := mem_api, RemoteSyncers := read_api rss\<rparr>"

definition demo_branch_target :: "string \<Rightarrow> RemoteTarget" where
  "demo_branch_target branch =
     (case buildRemoteTarget Inr ''team'' ''/org/app.git'' ''main'' branch of Inr rt \<Rightarrow> rt)"

lemma demo_policy_laws:
  "store_laws (RemoteTargets (demo_policy_cluster rss)) mem_obj" "bindings_apart (demo_policy_cluster rss) mem_obj"
  by (simp_all add: demo_policy_cluster_def mem_api_laws) (simp add: bindings_apart_def flat_client_def no_api_def)

lemma no_api_laws: "store_laws no_api (stored_in [])"
  by (simp add: store_laws_def no_api_def stored_in_def)

lemma demo_syncers_laws:
  assumes "distinct (map key_of rss)"
  shows "store_laws (RemoteSyncers (demo_policy_cluster rss)) (stored_in rss)" "targets_apart (demo_policy_cluster rss) (stored_in rss)"
    "store_laws (ClusterWideRemoteSyncers (demo_policy_cluster rss)) (stored_in [])" "targets_apart (demo_policy_cluster rss) (stored_in [])"
  by (simp_all add: demo_policy_cluster_def flat_client_def read_api_laws no_api_laws assms targets_apart_def bindings_apart_def
      fun_eq_iff stored_in_def)

lemma demo_branch_run:
  "BranchTarget_Reconcile Inr (\<lambda>_ _. 0) (demo_policy_cluster [demo_branch_syncer ''a'' ''main'', demo_branch_syncer ''b'' ''test'']) 0
     (NamespacedSyncer (demo_branch_syncer ''a'' ''main'')) [demo_branch_target ''dev'', demo_branch_target ''test'']
   = ((0, None), [demo_branch_target ''main'', demo_branch_target ''test''])"
  by code_simp


subsection \<open>Finalizers and fresh objects\<close>

text \<open>
  C40. Which policies need a finalizer is decided on the object as it was read first, but the policies then
  run on the object as it was read again: when an edit in between makes a second policy applicable,
  that policy reconciles although its finalizer was never stored.
\<close>

theorem edited_object_reconciles_without_finalizer:
  assumes "DeletionTimestamp (ObjMeta ops obj) = None" and "Applies p obj" and "\<not> Applies q obj" and "Finalizer p \<noteq> ''''"
    and "Refresh ops w obj = Inr obj1" and "Applies p obj1" and "Applies q obj1"
    and "Finalizer p \<in> set (Finalizers (ObjMeta ops obj1))" and "Finalizer q \<notin> set (Finalizers (ObjMeta ops obj1))"
  shows "RunPolicies ops rdm [p, q] obj w =
    (let ((res1, err1), w1) = Reconcile p (rdm 0) obj1 w; ((res2, err2), w2) = Reconcile q (rdm 1) obj1 w1
     in ((MergeResults (MergeResults 0 res1) res2, (case err1 of None \<Rightarrow> [] | Some e \<Rightarrow> [e]) @ (case err2 of None \<Rightarrow> [] | Some e \<Rightarrow> [e])),
         obj1, w2))"
proof -
  have "retry_on_conflict DefaultRetrySteps (ensure_once ops [Finalizer p]) (False, obj, w) = (None, False, obj1, w)"
    using assms(5,8) by (simp add: DefaultRetrySteps_def numeral_eq_Suc ensure_once_def AddFinalizer_def)
  then have "ensureFinalizers ops [p, q] obj w = (Inr False, obj1, w)"
    using assms(2-4) by (simp add: ensureFinalizers_def)
  then show ?thesis using assms(1,6,7) by (simp add: RunPolicies_def split: prod.split)
qed

definition log_policy :: "string \<Rightarrow> (ObjectMeta \<Rightarrow> bool) \<Rightarrow> (string list, ObjectMeta) policy" where
  \<comment> \<open>A policy that records its runs.\<close>
  "log_policy name applies = \<lparr>Finalizer = name, Applies = applies, Reconcile = (\<lambda>_ _ w. ((0, None), w @ [name])),
     Cleanup = (\<lambda>_ w. (None, w))\<rparr>"

definition edited_ops :: "(string list, ObjectMeta) object_ops" where
  \<comment> \<open>An object that gains an annotation before it is read again.\<close>
  "edited_ops = \<lparr>ObjMeta = id, WithFinalizers = (\<lambda>fs m. m\<lparr>Finalizers := fs\<rparr>),
     Refresh = (\<lambda>_ m. Inr (m\<lparr>Annotations := [(''b'', ''on'')]\<rparr>)), Update = (\<lambda>_ w. (None, w))\<rparr>"

theorem edited_object_reconciles_without_finalizer_witness:
  "RunPolicies edited_ops (\<lambda>_. 0) [log_policy ''a'' (\<lambda>_. True), log_policy ''b'' (\<lambda>m. Annotations m \<noteq> [])] (no_meta\<lparr>Finalizers := [''a'']\<rparr>) []
     = ((0, []), no_meta\<lparr>Finalizers := [''a''], Annotations := [(''b'', ''on'')]\<rparr>, [''a'', ''b''])"
  using edited_object_reconciles_without_finalizer [of edited_ops "no_meta\<lparr>Finalizers := [''a'']\<rparr>" "log_policy ''a'' (\<lambda>_. True)"
      "log_policy ''b'' (\<lambda>m. Annotations m \<noteq> [])" "[]" "no_meta\<lparr>Finalizers := [''a''], Annotations := [(''b'', ''on'')]\<rparr>" "\<lambda>_. 0"]
  by (simp add: edited_ops_def log_policy_def no_meta_def MergeResults_def)

end
