(* ===== verification/Dynamic_Webhook.thy ===== *)
theory Dynamic_Webhook
  imports Managed
begin

text \<open>
  The shared webhook configuration (\<open>internal/controller/dynamic_webhook.go\<close>): every syncer owns one
  entry of one \<open>ValidatingWebhookConfiguration\<close>, and the two syncer controllers bring it in line by a
  conflict-retried read-modify-write.

  The configuration is a \<open>kobj\<close> whose spec is its list of webhooks.  Reading a file is the parameter
  \<open>readFile\<close>.  Two label selectors are compared as maps.
\<close>

subsection \<open>The configuration\<close>

definition WebhookServiceName :: string where "WebhookServiceName = ''syngit-webhook-service''"
definition certificateName :: string where "certificateName = ''syngit-webhook-cert''"
definition certPath :: string where "certPath = ''/tmp/k8s-webhook-server/serving-certs/tls.crt''"

record ServiceReference =
  SvcName :: string
  SvcNamespace :: string
  SvcPath :: "string option"

record WebhookClientConfig =
  URL :: "string option"
  Service :: "ServiceReference option"
  CABundle :: string

record ValidatingWebhook =
  WhName :: string
  AdmissionReviewVersions :: "string list"
  SideEffects :: string
  WhRules :: "RuleWithOperations list"
  ClientConfig :: WebhookClientConfig
  WhNamespaceSelector :: "LabelSelector option"
  WhObjectSelector :: "LabelSelector option"

type_synonym ValidatingWebhookConfiguration = "(ValidatingWebhook list, unit) kobj"

record dynamicWebhookEntry =
  entryName :: string
  entryPath :: string
  entryRules :: "RuleWithOperations list"
  entryNamespaceSelector :: "LabelSelector option"
  entryObjectSelector :: "LabelSelector option"

record dynamicWebhookManager =
  dynamicWebhookName :: string
  managerNamespace :: string
  devMode :: bool
  devWebhookHost :: string
  devWebhookCert :: string
  devWebhookPort :: string

definition loadFromEnv :: "(string \<Rightarrow> string) \<Rightarrow> dynamicWebhookManager" where
  "loadFromEnv getenv = \<lparr>dynamicWebhookName = getenv ''DYNAMIC_WEBHOOK_NAME'', managerNamespace = getenv ''MANAGER_NAMESPACE'',
     devMode = (getenv ''DEV_MODE'' = ''true''), devWebhookHost = getenv ''DEV_WEBHOOK_HOST'',
     devWebhookCert = getenv ''DEV_WEBHOOK_CERT'', devWebhookPort = getenv ''DEV_WEBHOOK_PORT''\<rparr>"

definition caCert :: "(string \<Rightarrow> go_error + string) \<Rightarrow> dynamicWebhookManager \<Rightarrow> go_error + string" where
  "caCert readFile d =
     (let path = (if devMode d then devWebhookCert d else certPath) in
      case readFile path of
        Inl err \<Rightarrow> Inl (WrapError (''failed to read the cert file '' @ path) err)
      | Inr cert \<Rightarrow> Inr cert)"

definition clientConfig :: "dynamicWebhookManager \<Rightarrow> string \<Rightarrow> string \<Rightarrow> WebhookClientConfig \<times> labels" where
  "clientConfig d cert path =
     (if devMode d then
        (\<lparr>URL = Some (''https://'' @ devWebhookHost d @ '':'' @ devWebhookPort d @ path), Service = None, CABundle = cert\<rparr>, [])
      else
        (\<lparr>URL = None, Service = Some \<lparr>SvcName = WebhookServiceName, SvcNamespace = managerNamespace d, SvcPath = Some path\<rparr>,
           CABundle = cert\<rparr>,
         [(''cert-manager.io/inject-ca-from'', managerNamespace d @ '':'' @ certificateName)]))"

definition rulesAreEqual :: "RuleWithOperations \<Rightarrow> RuleWithOperations \<Rightarrow> bool" where
  "rulesAreEqual r1 r2 \<longleftrightarrow> APIGroups r1 = APIGroups r2 \<and> APIVersions r1 = APIVersions r2 \<and>
     Resources r1 = Resources r2 \<and> Operations r1 = Operations r2"

definition selectors_equal :: "LabelSelector option \<Rightarrow> LabelSelector option \<Rightarrow> bool" where
  \<comment> \<open>\<open>reflect.DeepEqual\<close> of two selectors\<close>
  "selectors_equal a b = (case (a, b) of
     (None, None) \<Rightarrow> True
   | (Some s, Some t) \<Rightarrow> set (MatchLabels s) = set (MatchLabels t) \<and> MatchExpressions s = MatchExpressions t
   | _ \<Rightarrow> False)"

definition webhookEntryEqual :: "ValidatingWebhook \<Rightarrow> ValidatingWebhook \<Rightarrow> bool" where
  "webhookEntryEqual a b \<longleftrightarrow> list_all2 rulesAreEqual (WhRules a) (WhRules b) \<and>
     selectors_equal (WhNamespaceSelector a) (WhNamespaceSelector b) \<and>
     selectors_equal (WhObjectSelector a) (WhObjectSelector b)"

definition up_to_date :: "ValidatingWebhook \<Rightarrow> ValidatingWebhook list \<Rightarrow> bool" where
  \<comment> \<open>The last entry of the name decides.\<close>
  "up_to_date webhook whs = fold (\<lambda>wh upToDate. if WhName wh = WhName webhook then webhookEntryEqual wh webhook else upToDate) whs False"

definition rebuild :: "ValidatingWebhook \<Rightarrow> bool \<Rightarrow> ValidatingWebhook list \<Rightarrow> ValidatingWebhook list option" where
  \<comment> \<open>The list to write, or \<open>None\<close> when there is nothing to write.\<close>
  "rebuild webhook isDeleted whs =
     (let others = filter (\<lambda>wh. WhName wh \<noteq> WhName webhook) whs in
      if up_to_date webhook whs \<and> \<not> isDeleted then None
      else Some (if isDeleted then others else others @ [webhook]))"

definition upsert_once :: "('w, ValidatingWebhookConfiguration) kind_api \<Rightarrow> string \<Rightarrow> labels \<Rightarrow> ValidatingWebhook \<Rightarrow> bool \<Rightarrow> 'w
    \<Rightarrow> api_error option \<times> 'w" where
  "upsert_once api name annotations webhook isDeleted w =
     (case kget api w (nsn '''' name) of
        Inl NotFound \<Rightarrow>
          if isDeleted then (None, w)
          else kcreate api \<lparr>Meta = no_meta\<lparr>Name := name, Annotations := annotations\<rparr>, Spec = [webhook], Status = ()\<rparr> w
      | Inl err \<Rightarrow> (Some err, w)
      | Inr found \<Rightarrow>
          (case rebuild webhook isDeleted (Spec found) of
             None \<Rightarrow> (None, w)
           | Some whs \<Rightarrow> kupdate api (found\<lparr>Spec := whs\<rparr>) w))"

definition webhook_of :: "dynamicWebhookEntry \<Rightarrow> WebhookClientConfig \<Rightarrow> ValidatingWebhook" where
  "webhook_of e cfg = \<lparr>WhName = entryName e, AdmissionReviewVersions = [''v1''], SideEffects = ''None'',
     WhRules = entryRules e, ClientConfig = cfg, WhNamespaceSelector = entryNamespaceSelector e,
     WhObjectSelector = entryObjectSelector e\<rparr>"

definition upsert :: "(string \<Rightarrow> go_error + string) \<Rightarrow> ('w, ValidatingWebhookConfiguration) kind_api \<Rightarrow> dynamicWebhookManager
    \<Rightarrow> dynamicWebhookEntry \<Rightarrow> bool \<Rightarrow> 'w \<Rightarrow> go_error option \<times> 'w" where
  "upsert readFile api d e isDeleted w =
     (case caCert readFile d of
        Inl err \<Rightarrow> (Some err, w)
      | Inr cert \<Rightarrow>
          (case clientConfig d cert (entryPath e) of (cfg, annotations) \<Rightarrow>
             (case retry_on_conflict DefaultRetrySteps
                     (upsert_once api (dynamicWebhookName d) annotations (webhook_of e cfg) isDeleted) w of
                (err, w1) \<Rightarrow> (map_option ApiError err, w1))))"

subsection \<open>One entry at a time\<close>

definition entries_of :: "string \<Rightarrow> ValidatingWebhook list \<Rightarrow> ValidatingWebhook list" where
  "entries_of n whs = filter (\<lambda>wh. WhName wh = n) whs"

definition entries_besides :: "string \<Rightarrow> ValidatingWebhook list \<Rightarrow> ValidatingWebhook list" where
  "entries_besides n whs = filter (\<lambda>wh. WhName wh \<noteq> n) whs"

lemma selectors_equal_refl [simp]: "selectors_equal a a"
  by (simp add: selectors_equal_def split: option.split)

lemma webhookEntryEqual_refl [simp]: "webhookEntryEqual a a"
  by (simp add: webhookEntryEqual_def rulesAreEqual_def list_all2_conv_all_nth)

lemma up_to_date_last:
  "up_to_date webhook whs \<longleftrightarrow> entries_of (WhName webhook) whs \<noteq> [] \<and>
     webhookEntryEqual (last (entries_of (WhName webhook) whs)) webhook"
proof -
  let ?f = "\<lambda>wh upToDate. if WhName wh = WhName webhook then webhookEntryEqual wh webhook else upToDate"
  have "fold ?f whs b = (if entries_of (WhName webhook) whs = [] then b
      else webhookEntryEqual (last (entries_of (WhName webhook) whs)) webhook)" for b
    by (induction whs rule: rev_induct) (auto simp: entries_of_def)
  then show ?thesis by (simp add: up_to_date_def)
qed

lemma rebuild_Some:
  assumes "rebuild webhook isDeleted whs = Some whs'"
  shows "entries_besides (WhName webhook) whs' = entries_besides (WhName webhook) whs"
    and "entries_of (WhName webhook) whs' = (if isDeleted then [] else [webhook])"
  using assms by (auto simp: rebuild_def Let_def entries_besides_def entries_of_def filter_empty_conv split: if_splits)

lemma rebuild_None:
  assumes "rebuild webhook isDeleted whs = None"
  shows "\<not> isDeleted \<and> entries_of (WhName webhook) whs \<noteq> [] \<and> webhookEntryEqual (last (entries_of (WhName webhook) whs)) webhook"
  using assms by (simp add: rebuild_def Let_def up_to_date_last split: if_splits)

text \<open>What the API server intercepts by an entry, field by field: the scope of a rule and the client configuration are no part of it.\<close>

definition same_selection :: "LabelSelector option \<Rightarrow> LabelSelector option \<Rightarrow> bool" where
  "same_selection a b \<longleftrightarrow> map_option (\<lambda>s. (set (MatchLabels s), MatchExpressions s)) a = map_option (\<lambda>s. (set (MatchLabels s), MatchExpressions s)) b"

definition selects_as :: "ValidatingWebhook \<Rightarrow> RuleWithOperations list \<Rightarrow> LabelSelector option \<Rightarrow> LabelSelector option \<Rightarrow> bool" where
  "selects_as entry rules namespaceSelector objectSelector \<longleftrightarrow> length (WhRules entry) = length rules \<and>
     (\<forall>i < length rules. APIGroups (WhRules entry ! i) = APIGroups (rules ! i) \<and> APIVersions (WhRules entry ! i) = APIVersions (rules ! i) \<and>
        Resources (WhRules entry ! i) = Resources (rules ! i) \<and> Operations (WhRules entry ! i) = Operations (rules ! i)) \<and>
     same_selection (WhNamespaceSelector entry) namespaceSelector \<and> same_selection (WhObjectSelector entry) objectSelector"

lemma webhookEntryEqual_selects:
  "webhookEntryEqual a b \<longleftrightarrow> selects_as a (WhRules b) (WhNamespaceSelector b) (WhObjectSelector b)"
proof -
  have "selectors_equal x y \<longleftrightarrow> same_selection x y" for x y
    by (cases x; cases y) (simp_all add: selectors_equal_def same_selection_def)
  then show ?thesis by (auto simp: webhookEntryEqual_def selects_as_def list_all2_conv_all_nth rulesAreEqual_def)
qed

subsection \<open>Controllers at the same time\<close>

text \<open>
  The two controllers run at the same time.  What one reconcile does is a read and an attempt to write what
  it rebuilt from that read: the API server refuses an update of a version that is no longer the
  stored one, and a creation when there is one already.
\<close>

record webhook_cluster =
  cfgVersion :: nat
  cfgStored :: "ValidatingWebhook list option"

definition webhooks_now :: "webhook_cluster \<Rightarrow> ValidatingWebhook list" where
  "webhooks_now c = (case cfgStored c of None \<Rightarrow> [] | Some whs \<Rightarrow> whs)"

definition attempt :: "ValidatingWebhook \<Rightarrow> bool \<Rightarrow> webhook_cluster \<Rightarrow> webhook_cluster \<Rightarrow> webhook_cluster option" where
  \<comment> \<open>What follows a read of \<open>seen\<close> in a cluster that is now \<open>c\<close>; \<open>None\<close> when the server refuses the write.\<close>
  "attempt webhook isDeleted seen c =
     (case cfgStored seen of
        None \<Rightarrow> if isDeleted then Some c
          else if cfgStored c = None then Some \<lparr>cfgVersion = Suc (cfgVersion c), cfgStored = Some [webhook]\<rparr> else None
      | Some whs \<Rightarrow>
          (case rebuild webhook isDeleted whs of
             None \<Rightarrow> Some c
           | Some whs' \<Rightarrow>
               if cfgVersion c = cfgVersion seen \<and> cfgStored c \<noteq> None
               then Some \<lparr>cfgVersion = Suc (cfgVersion c), cfgStored = Some whs'\<rparr> else None))"

definition config_api :: "string \<Rightarrow> labels \<Rightarrow> (webhook_cluster, ValidatingWebhookConfiguration) kind_api" where
  \<comment> \<open>The calls of \<open>upsert\<close> on such a cluster, between which nothing else happens.\<close>
  "config_api name annotations = no_api\<lparr>
     kget := (\<lambda>c k. case cfgStored c of None \<Rightarrow> Inl NotFound
        | Some whs \<Rightarrow> Inr \<lparr>Meta = no_meta\<lparr>Name := name, Annotations := annotations\<rparr>, Spec = whs, Status = ()\<rparr>),
     kcreate := (\<lambda>x c. if cfgStored c = None then (None, \<lparr>cfgVersion = Suc (cfgVersion c), cfgStored = Some (Spec x)\<rparr>)
        else (Some AlreadyExists, c)),
     kupdate := (\<lambda>x c. if cfgStored c = None then (Some NotFound, c)
        else (None, \<lparr>cfgVersion = Suc (cfgVersion c), cfgStored = Some (Spec x)\<rparr>))\<rparr>"

lemma upsert_once_attempt:
  "upsert_once (config_api name annotations) name annotations webhook isDeleted c =
     (case attempt webhook isDeleted c c of Some c' \<Rightarrow> (None, c') | None \<Rightarrow> (Some Conflict, c))"
  by (auto simp: upsert_once_def attempt_def config_api_def no_api_def split: option.splits)

record webhook_run =
  runCluster :: webhook_cluster
  runReads :: "string \<Rightarrow> (ValidatingWebhook \<times> bool \<times> webhook_cluster) option"
  runSettled :: "string \<Rightarrow> (ValidatingWebhook \<times> bool) option"

text \<open>
  The reconciles of one entry name are serialized, as those of one syncer are, those of different names are not; a
  \<open>RemoteSyncer\<close> and a \<open>ClusterWideRemoteSyncer\<close> that share an entry name are outside of this.  \<open>runSettled\<close> is the
  last finished wish for each name.
\<close>

inductive webhook_step :: "webhook_run \<Rightarrow> webhook_run \<Rightarrow> bool" where
  read: "runReads s (WhName wh) = None \<Longrightarrow>
    webhook_step s (s\<lparr>runReads := (runReads s)(WhName wh \<mapsto> (wh, del, runCluster s))\<rparr>)"
| finish: "runReads s n = Some (wh, del, seen) \<Longrightarrow> attempt wh del seen (runCluster s) = Some c \<Longrightarrow>
    webhook_step s (s\<lparr>runCluster := c, runReads := (runReads s)(n := None), runSettled := (runSettled s)(n \<mapsto> (wh, del))\<rparr>)"
| refused: "runReads s n = Some (wh, del, seen) \<Longrightarrow> attempt wh del seen (runCluster s) = None \<Longrightarrow>
    webhook_step s (s\<lparr>runReads := (runReads s)(n := None)\<rparr>)"

definition fresh_run :: "webhook_cluster \<Rightarrow> webhook_run" where
  "fresh_run c = \<lparr>runCluster = c, runReads = (\<lambda>_. None), runSettled = (\<lambda>_. None)\<rparr>"

definition entry_granted :: "string \<Rightarrow> ValidatingWebhook \<Rightarrow> bool \<Rightarrow> ValidatingWebhook list \<Rightarrow> bool" where
  "entry_granted n wh del whs \<longleftrightarrow>
     (if del then entries_of n whs = [] else entries_of n whs \<noteq> [] \<and> webhookEntryEqual (last (entries_of n whs)) wh)"

definition run_inv :: "webhook_run \<Rightarrow> bool" where
  "run_inv s \<longleftrightarrow>
     (\<forall>n wh del seen. runReads s n = Some (wh, del, seen) \<longrightarrow> WhName wh = n \<and> cfgVersion seen \<le> cfgVersion (runCluster s) \<and>
        (cfgStored (runCluster s) = None \<longrightarrow> cfgStored seen = None) \<and>
        entries_of n (webhooks_now seen) = entries_of n (webhooks_now (runCluster s)) \<and>
        (cfgVersion seen = cfgVersion (runCluster s) \<longrightarrow> seen = runCluster s)) \<and>
     (\<forall>n wh del. runSettled s n = Some (wh, del) \<longrightarrow> entry_granted n wh del (webhooks_now (runCluster s)))"

lemma entries_besides_of: "n \<noteq> m \<Longrightarrow> entries_besides m whs' = entries_besides m whs \<Longrightarrow> entries_of n whs' = entries_of n whs"
proof -
  assume n: "n \<noteq> m" and e: "entries_besides m whs' = entries_besides m whs"
  have "entries_of n whs = filter (\<lambda>wh. WhName wh = n) (entries_besides m whs)" for whs
    using n by (auto simp: entries_of_def entries_besides_def intro: filter_cong)
  with e show ?thesis by simp
qed

text \<open>A write that the server accepts changes the entries of its own name alone.\<close>

lemma attempt_Some:
  assumes "attempt wh del seen c = Some c'" and "cfgVersion seen = cfgVersion c \<longrightarrow> seen = c"
    and "cfgStored c = None \<longrightarrow> cfgStored seen = None"
    and "entries_of (WhName wh) (webhooks_now seen) = entries_of (WhName wh) (webhooks_now c)"
  shows "entry_granted (WhName wh) wh del (webhooks_now c')"
    and "n \<noteq> WhName wh \<Longrightarrow> entries_of n (webhooks_now c') = entries_of n (webhooks_now c)"
    and "c' = c \<or> cfgVersion c' = Suc (cfgVersion c) \<and> cfgStored c' \<noteq> None"
proof -
  have "entry_granted (WhName wh) wh del (webhooks_now c') \<and>
      (n \<noteq> WhName wh \<longrightarrow> entries_of n (webhooks_now c') = entries_of n (webhooks_now c)) \<and>
      (c' = c \<or> cfgVersion c' = Suc (cfgVersion c) \<and> cfgStored c' \<noteq> None)"
  proof (cases "cfgStored seen")
    case None
    show ?thesis
    proof (cases del)
      case True
      with assms(1) None have "c' = c" by (simp add: attempt_def)
      with True None assms(4) show ?thesis by (simp add: entry_granted_def webhooks_now_def [of seen] entries_of_def)
    next
      case False
      with assms(1) None have "cfgStored c = None" "c' = \<lparr>cfgVersion = Suc (cfgVersion c), cfgStored = Some [wh]\<rparr>"
        by (simp_all add: attempt_def split: if_splits)
      with False show ?thesis by (simp add: entry_granted_def webhooks_now_def entries_of_def)
    qed
  next
    case (Some whs)
    show ?thesis
    proof (cases "rebuild wh del whs")
      case None
      with assms(1) Some have "c' = c" by (simp add: attempt_def)
      with rebuild_None [OF None] Some assms(4) show ?thesis by (simp add: entry_granted_def webhooks_now_def [of seen])
    next
      case (Some whs')
      from assms(1) \<open>cfgStored seen = Some whs\<close> Some have v: "cfgVersion c = cfgVersion seen"
        and c': "c' = \<lparr>cfgVersion = Suc (cfgVersion c), cfgStored = Some whs'\<rparr>"
        by (simp_all add: attempt_def split: if_splits)
      from v assms(2) \<open>cfgStored seen = Some whs\<close> have "webhooks_now c = whs" by (simp add: webhooks_now_def)
      moreover from c' have "webhooks_now c' = whs'" by (simp add: webhooks_now_def)
      ultimately show ?thesis using c' rebuild_Some [OF Some] entries_besides_of [of n "WhName wh" whs' whs]
        by (simp add: entry_granted_def)
    qed
  qed
  then show "entry_granted (WhName wh) wh del (webhooks_now c')"
    and "n \<noteq> WhName wh \<Longrightarrow> entries_of n (webhooks_now c') = entries_of n (webhooks_now c)"
    and "c' = c \<or> cfgVersion c' = Suc (cfgVersion c) \<and> cfgStored c' \<noteq> None" by auto
qed

lemma run_inv_step:
  assumes "webhook_step s s'" and "run_inv s"
  shows "run_inv s'"
  using assms
proof cases
  case (finish n wh del seen c)
  let ?c = "runCluster s"
  from assms(2) finish(2) have own: "WhName wh = n" "cfgStored ?c = None \<longrightarrow> cfgStored seen = None"
    "entries_of n (webhooks_now seen) = entries_of n (webhooks_now ?c)" "cfgVersion seen = cfgVersion ?c \<longrightarrow> seen = ?c"
    by (auto simp: run_inv_def)
  note a = attempt_Some [OF finish(3) own(4,2) own(3) [folded own(1)], unfolded own(1)]
  have "runReads s' m = Some (wh', del', seen') \<longrightarrow> WhName wh' = m \<and> cfgVersion seen' \<le> cfgVersion c \<and>
      (cfgStored c = None \<longrightarrow> cfgStored seen' = None) \<and>
      entries_of m (webhooks_now seen') = entries_of m (webhooks_now c) \<and> (cfgVersion seen' = cfgVersion c \<longrightarrow> seen' = c)"
    for m wh' del' seen'
  proof (cases "m = n")
    case False
    have read: "runReads s m = Some (wh', del', seen') \<longrightarrow> WhName wh' = m \<and> cfgVersion seen' \<le> cfgVersion ?c \<and>
        (cfgStored ?c = None \<longrightarrow> cfgStored seen' = None) \<and>
        entries_of m (webhooks_now seen') = entries_of m (webhooks_now ?c) \<and> (cfgVersion seen' = cfgVersion ?c \<longrightarrow> seen' = ?c)"
      using assms(2) by (simp add: run_inv_def)
    have reads: "runReads s' m = runReads s m" using False finish(1) by simp
    show ?thesis
    proof (cases "c = ?c")
      case True
      with read reads show ?thesis by simp
    next
      case False
      with a(3) have "cfgVersion c = Suc (cfgVersion ?c)" "cfgStored c \<noteq> None" by auto
      with read a(2) [OF \<open>m \<noteq> n\<close>] reads show ?thesis by auto
    qed
  qed (simp add: finish(1))
  moreover have "runSettled s' m = Some (wh', del') \<longrightarrow> entry_granted m wh' del' (webhooks_now c)" for m wh' del'
    proof (cases "m = n")
    case False
    have "runSettled s m = Some (wh', del') \<longrightarrow> entry_granted m wh' del' (webhooks_now ?c)" using assms(2) by (simp add: run_inv_def)
    with False a(2) [of m] finish(1) show ?thesis by (simp add: entry_granted_def)
  qed (use a(1) finish(1) in auto)
  ultimately show ?thesis by (simp add: run_inv_def finish(1))
qed (auto simp: run_inv_def split: if_splits)

text \<open>
  C12. No entry is lost to another: whatever the interleaving of the reconciles for any number of
  entry names, those for one name one after the other, the shared configuration has for each name what its last finished reconcile asked
  for.  Once it asked for a removal there is no entry of the name.  Otherwise there is one, and the last of them has as many
  rules as asked for, with these groups, versions, resources and operations in order, this namespace selector and this object
  selector.  The scope of a rule, the certificate and the callback are not compared and may be those of an earlier reconcile.
\<close>

theorem concurrent_reconciles_keep_every_entry:
  assumes "webhook_step\<^sup>*\<^sup>* (fresh_run c) s" and "runSettled s n = Some (wh, del)"
  shows "if del then entries_of n (webhooks_now (runCluster s)) = []
    else entries_of n (webhooks_now (runCluster s)) \<noteq> [] \<and>
      selects_as (last (entries_of n (webhooks_now (runCluster s)))) (WhRules wh) (WhNamespaceSelector wh) (WhObjectSelector wh)"
proof -
  have "run_inv (fresh_run c)" by (simp add: run_inv_def fresh_run_def)
  with assms(1) have "run_inv s" by (induction rule: rtranclp_induct) (auto intro: run_inv_step)
  with assms(2) have "entry_granted n wh del (webhooks_now (runCluster s))" by (simp add: run_inv_def)
  then show ?thesis by (simp add: entry_granted_def webhookEntryEqual_selects split: if_splits)
qed

subsection \<open>Two syncers\<close>

definition demo_webhook :: "string \<Rightarrow> ValidatingWebhook" where
  "demo_webhook n = webhook_of \<lparr>entryName = n, entryPath = ''/'' @ n, entryRules = [], entryNamespaceSelector = None,
     entryObjectSelector = None\<rparr> \<lparr>URL = None, Service = None, CABundle = ''''\<rparr>"

definition empty_cluster :: webhook_cluster where
  "empty_cluster = \<lparr>cfgVersion = 0, cfgStored = None\<rparr>"

definition both_stored :: webhook_cluster where
  "both_stored = \<lparr>cfgVersion = 2, cfgStored = Some [demo_webhook ''a'', demo_webhook ''b'']\<rparr>"

text \<open>Both read that there is no configuration; the first creates it, the second is refused, reads again and adds its entry.\<close>

lemma two_syncers:
  "webhook_step\<^sup>*\<^sup>* (fresh_run empty_cluster) \<lparr>runCluster = both_stored, runReads = (\<lambda>_. None)(''a'' := None, ''b'' := None),
     runSettled = (\<lambda>_. None)(''a'' \<mapsto> (demo_webhook ''a'', False), ''b'' \<mapsto> (demo_webhook ''b'', False))\<rparr>"
proof -
  let ?a = "demo_webhook ''a''" and ?b = "demo_webhook ''b''" and ?one = "\<lparr>cfgVersion = 1, cfgStored = Some [demo_webhook ''a'']\<rparr>"
  have n: "WhName ?a = ''a''" "WhName ?b = ''b''" by (simp_all add: demo_webhook_def webhook_of_def)
  have at1: "attempt ?a False empty_cluster empty_cluster = Some ?one" by (simp add: attempt_def empty_cluster_def)
  have at2: "attempt ?b False empty_cluster ?one = None" by (simp add: attempt_def empty_cluster_def)
  have at3: "attempt ?b False ?one ?one = Some both_stored"
    by (simp add: attempt_def both_stored_def rebuild_def up_to_date_def n)
  define s1 where "s1 = (fresh_run empty_cluster)\<lparr>runReads := [''a'' \<mapsto> (?a, False, empty_cluster)]\<rparr>"
  define s2 where "s2 = s1\<lparr>runReads := (runReads s1)(''b'' \<mapsto> (?b, False, empty_cluster))\<rparr>"
  define s3 where "s3 = s2\<lparr>runCluster := ?one, runReads := (runReads s2)(''a'' := None), runSettled := (runSettled s2)(''a'' \<mapsto> (?a, False))\<rparr>"
  define s4 where "s4 = s3\<lparr>runReads := (runReads s3)(''b'' := None)\<rparr>"
  define s5 where "s5 = s4\<lparr>runReads := (runReads s4)(''b'' \<mapsto> (?b, False, ?one))\<rparr>"
  define s6 where "s6 = s5\<lparr>runCluster := both_stored, runReads := (runReads s5)(''b'' := None), runSettled := (runSettled s5)(''b'' \<mapsto> (?b, False))\<rparr>"
  note defs = s1_def s2_def s3_def s4_def s5_def s6_def fresh_run_def
  have "webhook_step (fresh_run empty_cluster) s1"
    using webhook_step.read [of "fresh_run empty_cluster" ?a False] by (simp add: n defs)
  moreover have "webhook_step s1 s2" using webhook_step.read [of s1 ?b False] by (simp add: n defs)
  moreover have "webhook_step s2 s3" using webhook_step.finish [of s2 "''a''" ?a False empty_cluster ?one] at1 by (simp add: defs)
  moreover have "webhook_step s3 s4" using webhook_step.refused [of s3 "''b''" ?b False empty_cluster] at2 by (simp add: defs)
  moreover have "webhook_step s4 s5" using webhook_step.read [of s4 ?b False] by (simp add: n defs)
  moreover have "webhook_step s5 s6" using webhook_step.finish [of s5 "''b''" ?b False ?one both_stored] at3 by (simp add: defs)
  ultimately have "webhook_step\<^sup>*\<^sup>* (fresh_run empty_cluster) s6" by (meson converse_rtranclp_into_rtranclp rtranclp.rtrancl_refl)
  moreover have "s6 = \<lparr>runCluster = both_stored, runReads = (\<lambda>_. None)(''a'' := None, ''b'' := None),
     runSettled = (\<lambda>_. None)(''a'' \<mapsto> (?a, False), ''b'' \<mapsto> (?b, False))\<rparr>" by (simp add: defs)
  ultimately show ?thesis by simp
qed

theorem concurrent_reconciles_keep_every_entry_witness:
  "entries_of ''a'' (webhooks_now both_stored) \<noteq> [] \<and>
   selects_as (last (entries_of ''a'' (webhooks_now both_stored))) (WhRules (demo_webhook ''a''))
     (WhNamespaceSelector (demo_webhook ''a'')) (WhObjectSelector (demo_webhook ''a''))"
  using concurrent_reconciles_keep_every_entry [OF two_syncers, of "''a''" "demo_webhook ''a''" False] by simp

subsection \<open>An undisturbed upsert\<close>

definition stored_webhooks :: "('w \<Rightarrow> NamespacedName \<Rightarrow> ValidatingWebhookConfiguration option) \<Rightarrow> string \<Rightarrow> 'w \<Rightarrow> ValidatingWebhook list" where
  "stored_webhooks obj name w = (case obj w (nsn '''' name) of None \<Rightarrow> [] | Some x \<Rightarrow> Spec x)"

definition config_alive :: "('w \<Rightarrow> NamespacedName \<Rightarrow> ValidatingWebhookConfiguration option) \<Rightarrow> string \<Rightarrow> 'w \<Rightarrow> bool" where
  "config_alive obj name w \<longleftrightarrow> (case obj w (nsn '''' name) of None \<Rightarrow> True | Some x \<Rightarrow> DeletionTimestamp (Meta x) = None)"

lemma retry_Some_step:
  assumes "retry_on_conflict n f w = (None, w')" and "\<And>w e w1. f w = (Some e, w1) \<Longrightarrow> g w1 = g w"
  obtains w1 where "f w1 = (None, w')" "g w1 = g w"
  using assms(1)
proof (induction n arbitrary: w thesis)
  case (Suc n)
  show ?case
  proof (cases n)
    case (Suc m)
    obtain r w2 where f: "f w = (r, w2)" by fastforce
    show ?thesis
    proof (cases "r = Some Conflict")
      case True
      with Suc.prems(2) f Suc have "retry_on_conflict n f w2 = (None, w')" by simp
      from Suc.IH [OF _ this] obtain w1 where "f w1 = (None, w')" "g w1 = g w2" by blast
      with assms(2) f True Suc.prems(1) show ?thesis by simp
    next
      case False
      then have "retry_on_conflict (Suc n) f w = (r, w2)" using f Suc by (cases r) (auto split: api_error.splits)
      with Suc.prems f show ?thesis by simp
    qed
  qed (use Suc.prems in simp)
qed simp

lemma upsert_once_failed:
  assumes "store_laws api obj" and "upsert_once api name annotations wh del w = (Some e, w')"
  shows "obj w' = obj w"
  using assms(2) store_failed [OF assms(1)]
  by (auto simp: upsert_once_def split: sum.splits api_error.splits if_splits option.splits)

lemma upsert_once_effect:
  assumes "store_laws api obj" and "config_alive obj name w" and "upsert_once api name annotations wh del w = (None, w')"
  shows "entry_granted (WhName wh) wh del (stored_webhooks obj name w') \<and>
    entries_besides (WhName wh) (stored_webhooks obj name w') = entries_besides (WhName wh) (stored_webhooks obj name w) \<and>
    (del \<or> stored_webhooks obj name w' = stored_webhooks obj name w \<or> entries_of (WhName wh) (stored_webhooks obj name w') = [wh])"
proof (cases "kget api w (nsn '''' name)")
  case (Inl e)
  with assms(3) have e: "e = NotFound" by (cases e) (simp_all add: upsert_once_def)
  with store_get(2) [OF assms(1)] Inl have none: "obj w (nsn '''' name) = None" by blast
  show ?thesis
  proof (cases del)
    case True
    with assms(3) Inl e have "w' = w" by (simp add: upsert_once_def)
    with none True show ?thesis by (simp add: entry_granted_def stored_webhooks_def entries_of_def)
  next
    case False
    let ?x = "\<lparr>Meta = no_meta\<lparr>Name := name, Annotations := annotations\<rparr>, Spec = [wh], Status = ()\<rparr> :: ValidatingWebhookConfiguration"
    from assms(3) Inl e False have "kcreate api ?x w = (None, w')" by (simp add: upsert_once_def)
    then obtain y where y: "same_desired ?x y" "obj w' = (obj w)(key_of ?x := Some y)" by (rule store_create [OF assms(1)])
    have "key_of ?x = nsn '''' name" by (simp add: key_of_def no_meta_def)
    with y False none show ?thesis
      by (simp add: entry_granted_def stored_webhooks_def entries_of_def entries_besides_def same_desired_def)
  qed
next
  case (Inr found)
  then have f: "obj w (nsn '''' name) = Some found" by (rule store_get(1) [OF assms(1)])
  then have k: "key_of found = nsn '''' name" by (rule store_get(3) [OF assms(1)])
  have old: "stored_webhooks obj name w = Spec found" using f by (simp add: stored_webhooks_def)
  show ?thesis
  proof (cases "rebuild wh del (Spec found)")
    case None
    with assms(3) Inr have "w' = w" by (simp add: upsert_once_def)
    with rebuild_None [OF None] old show ?thesis by (simp add: entry_granted_def)
  next
    case (Some whs)
    with assms(3) Inr have u: "kupdate api (found\<lparr>Spec := whs\<rparr>) w = (None, w')" by (simp add: upsert_once_def)
    have "DeletionTimestamp (Meta (found\<lparr>Spec := whs\<rparr>)) = None" using assms(2) f by (simp add: config_alive_def)
    then obtain y where y: "same_desired (found\<lparr>Spec := whs\<rparr>) y" "obj w' = (obj w)(key_of (found\<lparr>Spec := whs\<rparr>) := Some y)"
      by (rule store_update [OF assms(1) u])
    have "key_of (found\<lparr>Spec := whs\<rparr>) = nsn '''' name" using k by (simp add: key_of_def)
    with y have "stored_webhooks obj name w' = whs" by (simp add: stored_webhooks_def same_desired_def)
    with rebuild_Some [OF Some] old show ?thesis by (simp add: entry_granted_def)
  qed
qed

lemma upsert_effect:
  assumes "store_laws api obj" and "config_alive obj (dynamicWebhookName d) w" and "upsert readFile api d e del w = (None, w')"
  obtains cert where "entry_granted (entryName e) (webhook_of e (fst (clientConfig d cert (entryPath e)))) del
      (stored_webhooks obj (dynamicWebhookName d) w')"
    and "entries_besides (entryName e) (stored_webhooks obj (dynamicWebhookName d) w') =
      entries_besides (entryName e) (stored_webhooks obj (dynamicWebhookName d) w)"
    and "del \<or> stored_webhooks obj (dynamicWebhookName d) w' = stored_webhooks obj (dynamicWebhookName d) w \<or>
      entries_of (entryName e) (stored_webhooks obj (dynamicWebhookName d) w') = [webhook_of e (fst (clientConfig d cert (entryPath e)))]"
proof -
  let ?name = "dynamicWebhookName d"
  from assms(3) obtain cert where "caCert readFile d = Inr cert" by (auto simp: upsert_def split: sum.splits)
  moreover obtain cfg ann where cfg: "clientConfig d cert (entryPath e) = (cfg, ann)" by fastforce
  ultimately have "retry_on_conflict DefaultRetrySteps (upsert_once api ?name ann (webhook_of e cfg) del) w = (None, w')"
    using assms(3) by (auto simp: upsert_def split: prod.splits)
  then obtain w1 where once: "upsert_once api ?name ann (webhook_of e cfg) del w1 = (None, w')" and o: "obj w1 = obj w"
    by (rule retry_Some_step [where g = obj]) (blast intro: upsert_once_failed [OF assms(1)])+
  have "config_alive obj ?name w1" using assms(2) o by (simp add: config_alive_def)
  note effect = upsert_once_effect [OF assms(1) this once]
  have "WhName (webhook_of e cfg) = entryName e" "stored_webhooks obj ?name w1 = stored_webhooks obj ?name w"
    using o by (simp_all add: webhook_of_def stored_webhooks_def)
  with effect cfg that [of cert] show ?thesis by simp
qed

end
