(* ===== verification/Interceptor_Targets.thy ===== *)
theory Interceptor_Targets
  imports Refs_Rbac
begin

text \<open>
  Whose credentials push where: the lookup of the remote user binding of the author of a
  change, of the remote users and remote targets it references, and the association of
  git credentials with remote targets (\<open>internal/interceptor/target.go\<close>, \<open>k8s_references.go\<close>,
  \<open>subject.go\<close>), and the CA bundle of the remote (\<open>pkg/interceptor/tls.go\<close>).

  \<open>url.Parse\<close> is the parameter \<open>parse\<close>, of which the host is used.  The map from credentials to
  targets is an association list in insertion order.
\<close>

subsection \<open>Subjects\<close>

definition serviceAccountUsernamePrefix :: string where
  "serviceAccountUsernamePrefix = ''system:serviceaccount:''"

definition IsServiceAccount :: "UserInfo \<Rightarrow> bool" where
  "IsServiceAccount userInfo = HasPrefix (Username userInfo) serviceAccountUsernamePrefix"

fun count_subjects :: "string \<Rightarrow> Subject list \<Rightarrow> nat \<Rightarrow> nat" where
  "count_subjects username [] userCountLoop = userCountLoop"
| "count_subjects username (s # ss) userCountLoop =
     count_subjects username ss (if SubjName s = username then Suc userCountLoop else userCountLoop)"

definition IsBypassSubject :: "UserInfo \<Rightarrow> SyncerContext \<Rightarrow> go_error + bool" where
  "IsBypassSubject userInfo sc =
     (let userCountLoop = count_subjects (Username userInfo) (BypassInterceptionSubjects (ScSpec sc)) 0
      in if userCountLoop > 1
         then Inl (TooMuchSubject (''the name of the user is not unique ('' @ Itoa userCountLoop
           @ ''); this version of the operator work with the name as unique identifier for users''))
         else Inr (userCountLoop > 0))"

subsection \<open>References\<close>

fun resolve_from :: "('w, 'a) kind_api \<Rightarrow> 'w \<Rightarrow> string \<Rightarrow> string \<Rightarrow> nat \<Rightarrow> ObjectReference list \<Rightarrow> go_error + 'a list" where
  "resolve_from api w owner fieldName i [] = Inr []"
| "resolve_from api w owner fieldName i (ref # refs) =
     (if RefName ref = '''' then resolve_from api w owner fieldName (Suc i) refs
      else case ResolveNamespace (RefNamespace ref) owner (index_path (''spec.'' @ fieldName) i) of
        Inl err \<Rightarrow> Inl err
      | Inr namespace \<Rightarrow>
          (case kget api w (nsn namespace (RefName ref)) of
             Inl e \<Rightarrow> if e = NotFound then resolve_from api w owner fieldName (Suc i) refs
                      else Inl (ApiError e)
           | Inr x \<Rightarrow>
               (case resolve_from api w owner fieldName (Suc i) refs of
                  Inl err \<Rightarrow> Inl err
                | Inr xs \<Rightarrow> Inr (x # xs))))"

definition resolveRefs :: "('w, 'a) kind_api \<Rightarrow> 'w \<Rightarrow> ObjectReference list \<Rightarrow> string \<Rightarrow> string \<Rightarrow> go_error + 'a list" where
  "resolveRefs api w objectRefs owner fieldName = resolve_from api w owner fieldName 0 objectRefs"

subsection \<open>Credentials\<close>

definition GetGitUserInfoByRemoteUser :: "'w client \<Rightarrow> 'w \<Rightarrow> RemoteUser \<Rightarrow> go_error + GitUserInfo" where
  "GetGitUserInfoByRemoteUser c w remoteUser =
     (case ResolveNamespace (SecNamespace (SecretRef (Spec remoteUser))) (Namespace (Meta remoteUser)) ''spec.secretRef'' of
        Inl err \<Rightarrow> Inl err
      | Inr secretNamespace \<Rightarrow>
          let secretName = SecName (SecretRef (Spec remoteUser)) in
          case kget (Secrets c) w (nsn secretNamespace secretName) of
            Inl e \<Rightarrow>
              if e = NotFound
              then Inl (CredentialsNotFound (''secret not found for remote user: '' @ Name (Meta remoteUser)) secretName)
              else Inl (CredentialsNotFound ''connection error'' secretName)
          | Inr secret \<Rightarrow>
              let token = alist_get (SecretData secret) ''password'' in
              if token = '''' then
                Inl (CredentialsNotFound
                  ''token not found; the token must be specified in the password field and the secret type must be kubernetes.io/basic-auth''
                  secretName)
              else Inr \<lparr>GitUserName = alist_get (SecretData secret) ''username'',
                        GitEmail = Email (Spec remoteUser), Token = token\<rparr>)"

fun binding_users :: "'w client \<Rightarrow> 'w \<Rightarrow> string \<Rightarrow> string \<Rightarrow> nat \<Rightarrow> ObjectReference list \<Rightarrow> nat
    \<Rightarrow> GitUserInfo option \<Rightarrow> go_error + nat \<times> GitUserInfo option" where
  \<comment> \<open>The loop over the references with its count and the last credentials found.\<close>
  "binding_users c w owner fqdn i [] remoteUserCount gitUser = Inr (remoteUserCount, gitUser)"
| "binding_users c w owner fqdn i (ref # refs) remoteUserCount gitUser =
     (case ResolveNamespace (RefNamespace ref) owner (index_path ''spec.remoteUserRefs'' i) of
        Inl err \<Rightarrow> Inl err
      | Inr namespace \<Rightarrow>
          (case kget (RemoteUsers c) w (nsn namespace (RefName ref)) of
             Inl _ \<Rightarrow> binding_users c w owner fqdn (Suc i) refs remoteUserCount gitUser
           | Inr remoteUser \<Rightarrow>
               if GitBaseDomainFQDN (Spec remoteUser) = fqdn then
                 (case GetGitUserInfoByRemoteUser c w remoteUser of
                    Inl err \<Rightarrow> Inl err
                  | Inr g \<Rightarrow> binding_users c w owner fqdn (Suc i) refs (Suc remoteUserCount) (Some g))
               else binding_users c w owner fqdn (Suc i) refs remoteUserCount gitUser))"

definition GetGitUserInfoByRemoteUserBinding ::
  "'w client \<Rightarrow> 'w \<Rightarrow> RemoteUserBinding \<Rightarrow> string \<Rightarrow> go_error + GitUserInfo option" where
  "GetGitUserInfoByRemoteUserBinding c w rub fqdn =
     (case binding_users c w (Namespace (Meta rub)) fqdn 0 (RemoteUserRefs (Spec rub)) 0 None of
        Inl err \<Rightarrow> Inl err
      | Inr (remoteUserCount, gitUser) \<Rightarrow>
          if remoteUserCount = 0
          then Inl (RemoteUserNotFound (''no RemoteUser found for the current user for '' @ fqdn))
          else if remoteUserCount > 1
          then Inl (TooMuchRemoteUser (''more than one RemoteUser found for the current user for'' @ fqdn) remoteUserCount)
          else Inr gitUser)"

fun bindings_of_user :: "'w client \<Rightarrow> 'w \<Rightarrow> string \<Rightarrow> string \<Rightarrow> RemoteUserBinding list \<Rightarrow> nat
    \<Rightarrow> RemoteUserBinding option \<Rightarrow> go_error + nat \<times> RemoteUserBinding option" where
  "bindings_of_user c w username fqdn [] userCountLoop rub = Inr (userCountLoop, rub)"
| "bindings_of_user c w username fqdn (rubItem # items) userCountLoop rub =
     (if SubjName (RubSubject (Spec rubItem)) = username then
        (case GetGitUserInfoByRemoteUserBinding c w rubItem fqdn of
           Inl err \<Rightarrow> Inl err
         | Inr _ \<Rightarrow> bindings_of_user c w username fqdn items (Suc userCountLoop) (Some rubItem))
      else bindings_of_user c w username fqdn items userCountLoop rub)"

definition GetRemoteUserBindingByUsername ::
  "'w client \<Rightarrow> 'w \<Rightarrow> SyncerContext \<Rightarrow> string \<Rightarrow> string \<Rightarrow> go_error + RemoteUserBinding option" where
  "GetRemoteUserBindingByUsername c w sc username fqdn =
     (let selector = (case RemoteUserBindingSelector (ScSpec sc) of
            None \<Rightarrow> Inr None
          | Some ls \<Rightarrow> (case SelectorAs c ls of
                Inl labelErr \<Rightarrow> Inl (WrongLabelParsing
                  (''error parsing the LabelSelector for the remoteUserBindingSelector: '' @ labelErr))
              | Inr s \<Rightarrow> Inr (Some s)))
      in case selector of
        Inl err \<Rightarrow> Inl err
      | Inr sel \<Rightarrow>
          (case klist (RemoteUserBindings c) w (RUBNamespace sc) sel of
             Inl e \<Rightarrow> Inl (ApiError e)
           | Inr items \<Rightarrow>
               (case bindings_of_user c w username fqdn items 0 None of
                  Inl err \<Rightarrow> Inl err
                | Inr (userCountLoop, rub) \<Rightarrow>
                    if userCountLoop > 1 then
                      Inl (TooMuchRemoteUserBinding
                        ''multiple RemoteUserBinding found OR the name of the user is not unique; this version of the operator work with the name as unique identifier for users''
                        userCountLoop)
                    else (case rub of
                       None \<Rightarrow> Inr None
                     | Some r \<Rightarrow>
                         (case kget (RemoteUserBindings c) w (key_of r) of
                            Inl e \<Rightarrow> Inl (ApiError e)
                          | Inr rub' \<Rightarrow> Inr (Some rub'))))))"

subsection \<open>Association of credentials with targets\<close>

type_synonym user_targets = "(GitUserInfo \<times> RemoteTarget list) list"

fun append_target :: "GitUserInfo \<Rightarrow> RemoteTarget \<Rightarrow> user_targets \<Rightarrow> user_targets" where
  "append_target g rt [] = [(g, [rt])]"
| "append_target g rt ((g', rts) # m) =
     (if g' = g then (g', rts @ [rt]) # m else (g', rts) # append_target g rt m)"

fun associate_users :: "'w client \<Rightarrow> 'w \<Rightarrow> string \<Rightarrow> RemoteTarget \<Rightarrow> RemoteUser list \<Rightarrow> user_targets
    \<Rightarrow> go_error + user_targets" where
  "associate_users c w host rt [] m = Inr m"
| "associate_users c w host rt (remoteUser # users) m =
     (if host = GitBaseDomainFQDN (Spec remoteUser) then
        (case GetGitUserInfoByRemoteUser c w remoteUser of
           Inl err \<Rightarrow> Inl err
         | Inr g \<Rightarrow> associate_users c w host rt users (append_target g rt m))
      else associate_users c w host rt users m)"

definition same_upstream :: "RemoteSyncerSpec \<Rightarrow> RemoteTarget \<Rightarrow> bool" where
  "same_upstream spec rt \<longleftrightarrow> UpstreamRepository (Spec rt) = RemoteRepository spec \<and>
     UpstreamBranch (Spec rt) = DefaultBranch spec"

fun associate_targets :: "(string \<Rightarrow> go_error + string) \<Rightarrow> 'w client \<Rightarrow> 'w \<Rightarrow> RemoteSyncerSpec \<Rightarrow> selector option
    \<Rightarrow> RemoteUser list \<Rightarrow> RemoteTarget list \<Rightarrow> user_targets \<Rightarrow> go_error + user_targets" where
  "associate_targets parse c w spec sel users [] m = Inr m"
| "associate_targets parse c w spec sel users (rt # rts) m =
     (if (case sel of None \<Rightarrow> False | Some matches \<Rightarrow> \<not> matches (Labels (Meta rt)))
      then associate_targets parse c w spec sel users rts m
      else case parse (TargetRepository (Spec rt)) of
        Inl err \<Rightarrow> Inl err
      | Inr host \<Rightarrow>
          if same_upstream spec rt then
            (case associate_users c w host rt users m of
               Inl err \<Rightarrow> Inl err
             | Inr m1 \<Rightarrow> associate_targets parse c w spec sel users rts m1)
          else associate_targets parse c w spec sel users rts m)"

definition total_targets :: "user_targets \<Rightarrow> nat" where
  "total_targets m = sum_list (map (\<lambda>(g, rts). length rts) m)"

definition bound_targets :: "(string \<Rightarrow> go_error + string) \<Rightarrow> 'w client \<Rightarrow> 'w \<Rightarrow> SyncerContext
    \<Rightarrow> RemoteUserBinding \<Rightarrow> go_error + user_targets" where
  \<comment> \<open>The branch of \<open>GetUserInfoRemoteTargetsAssociation\<close> for a user with a binding.\<close>
  "bound_targets parse c w sc rub =
     (let selector = (case RemoteTargetSelector (ScSpec sc) of
            None \<Rightarrow> Inr None
          | Some ls \<Rightarrow> (case SelectorAs c ls of
                Inl err \<Rightarrow> Inl (WrongLabelParsing
                  (''error parsing the LabelSelector for the remoteTargetSelector: '' @ err))
              | Inr s \<Rightarrow> Inr (Some s)))
      in case selector of
        Inl err \<Rightarrow> Inl err
      | Inr sel \<Rightarrow>
        (case resolveRefs (RemoteTargets c) w (RemoteTargetRefs (Spec rub)) (Namespace (Meta rub)) ''remoteTargetRefs'' of
           Inl err \<Rightarrow> Inl err
         | Inr rts \<Rightarrow>
           (case resolveRefs (RemoteUsers c) w (RemoteUserRefs (Spec rub)) (Namespace (Meta rub)) ''remoteUserRefs'' of
              Inl err \<Rightarrow> Inl err
            | Inr users \<Rightarrow>
              (case associate_targets parse c w (ScSpec sc) sel users rts [] of
                 Inl err \<Rightarrow> Inl err
               | Inr m \<Rightarrow>
                 if TargetStrategy (ScSpec sc) = OneTarget \<and> total_targets m > 1 then
                   Inl (TooMuchRemoteTarget
                     ''multiple RemoteTargets found for OneTarget set as the TargetStrategy in the RemoteSyncer''
                     (total_targets m))
                 else if length m = 0 then Inl (RemoteTargetNotFound ''no matching remote target found'')
                 else Inr m))))"

definition default_targets :: "'w client \<Rightarrow> 'w \<Rightarrow> SyncerContext \<Rightarrow> string \<Rightarrow> string \<Rightarrow> go_error + user_targets" where
  \<comment> \<open>The branch for a user without a binding.\<close>
  "default_targets c w sc username host =
     (case DefaultRemoteUserRef (ScSpec sc) of
        None \<Rightarrow> Inl (RemoteUserBindingNotFound username)
      | Some uref \<Rightarrow>
        if DefaultUnauthorizedUserMode (ScSpec sc) \<noteq> UseDefaultUser \<or> RefName uref = ''''
        then Inl (RemoteUserBindingNotFound username)
        else (case ResolveNamespace (RefNamespace uref) (RefOwnerNamespace sc) ''spec.defaultRemoteUserRef'' of
          Inl err \<Rightarrow> Inl err
        | Inr userNamespace \<Rightarrow>
          (case kget (RemoteUsers c) w (nsn userNamespace (RefName uref)) of
             Inl _ \<Rightarrow> Inl (RemoteUserNotFound ''the default RemoteUser is not found'')
           | Inr remoteUser \<Rightarrow>
             if GitBaseDomainFQDN (Spec remoteUser) \<noteq> host
             then Inl (WrongRemoteTargetConfig (sc_String sc) remoteUser)
             else (case GetGitUserInfoByRemoteUser c w remoteUser of
               Inl err \<Rightarrow> Inl err
             | Inr g \<Rightarrow>
               (case DefaultRemoteTargetRef (ScSpec sc) of
                  None \<Rightarrow> Inl (RemoteTargetNotFound ''no default remote target is set'')
                | Some tref \<Rightarrow>
                  if RefName tref = '''' then Inl (RemoteTargetNotFound ''no default remote target is set'')
                  else (case ResolveNamespace (RefNamespace tref) (RefOwnerNamespace sc) ''spec.defaultRemoteTargetRef'' of
                    Inl err \<Rightarrow> Inl err
                  | Inr targetNamespace \<Rightarrow>
                    (case kget (RemoteTargets c) w (nsn targetNamespace (RefName tref)) of
                       Inl _ \<Rightarrow> Inl (RemoteTargetNotFound (''default remote target does not exist: '' @ RefName tref))
                     | Inr rt \<Rightarrow>
                       if \<not> same_upstream (ScSpec sc) rt then
                         Inl (WrongRemoteSyncerConfig
                           (''the RemoteSyncer's repository or branch does not match the upstream repository or branch of the default RemoteTarget. RemoteSyncer repo: ''
                             @ UpstreamRepository (Spec rt) @ ''; RemoteSyncer branch: '' @ UpstreamBranch (Spec rt)
                             @ ''; RemoteTarget upstream repo: '' @ TargetRepository (Spec rt)
                             @ ''; RemoteTarget upstream branch: '' @ TargetBranch (Spec rt)))
                       else Inr (append_target g rt []))))))))"

definition GetUserInfoRemoteTargetsAssociation :: "(string \<Rightarrow> go_error + string) \<Rightarrow> 'w client \<Rightarrow> 'w
    \<Rightarrow> UserInfo \<Rightarrow> string \<Rightarrow> SyncerContext \<Rightarrow> go_error + user_targets" where
  "GetUserInfoRemoteTargetsAssociation parse c w user host sc =
     (case GetRemoteUserBindingByUsername c w sc (Username user) host of
        Inl err \<Rightarrow> Inl err
      | Inr (Some rub) \<Rightarrow> bound_targets parse c w sc rub
      | Inr None \<Rightarrow> default_targets c w sc (Username user) host)"

subsection \<open>The CA bundle\<close>

definition ErrCaSecretWrongType :: go_error where
  "ErrCaSecretWrongType = PlainError (''the CA bundle secret must be of type '' @ [CHR 0x22]
     @ ''kubernetes.io/ts'' @ [CHR 0x22])"

definition FindCABundle :: "'w client \<Rightarrow> 'w \<Rightarrow> string \<Rightarrow> string \<Rightarrow> go_error + string option" where
  "FindCABundle c w namespace name =
     (if name = '''' then Inr None
      else case kget (Secrets c) w (nsn namespace name) of
        Inl e \<Rightarrow> Inl (ApiError e)
      | Inr secret \<Rightarrow>
          if SecretType secret \<noteq> ''kubernetes.io/tls'' then Inl ErrCaSecretWrongType
          else Inr (map_of (SecretData secret) ''tls.crt''))"

definition FindGlobalCABundle :: "'w client \<Rightarrow> 'w \<Rightarrow> string \<Rightarrow> string \<Rightarrow> go_error + string option" where
  "FindGlobalCABundle c w managerNs host = FindCABundle c w managerNs (host @ ''-ca-cert'')"

definition CABundleBuilder :: "'w client \<Rightarrow> 'w \<Rightarrow> string \<Rightarrow> SyncerContext \<Rightarrow> string \<Rightarrow> go_error + string option" where
  "CABundleBuilder c w managerNs sc host =
     (let global = FindGlobalCABundle c w managerNs (hd (Split host '':'')) in
      if global = Inl ErrCaSecretWrongType then Inl ErrCaSecretWrongType
      else
        let caBundle = (case global of Inl _ \<Rightarrow> None | Inr b \<Rightarrow> b);
            ref = CABundleSecretRef (ScSpec sc)
        in if SecName ref = '''' then Inr caBundle
           else case ResolveNamespace (SecNamespace ref) (RefOwnerNamespace sc) ''spec.caBundleSecretRef'' of
             Inl err \<Rightarrow> Inl err
           | Inr ns \<Rightarrow>
               (case FindCABundle c w ns (SecName ref) of
                  Inl err \<Rightarrow> Inl err
                | Inr own \<Rightarrow> Inr (case own of None \<Rightarrow> caBundle | Some _ \<Rightarrow> own)))"

subsection \<open>Associated pairs\<close>

definition all_pairs :: "(GitUserInfo \<Rightarrow> RemoteTarget \<Rightarrow> bool) \<Rightarrow> user_targets \<Rightarrow> bool" where
  "all_pairs P m \<longleftrightarrow> (\<forall>(g, rts) \<in> set m. rts \<noteq> [] \<and> (\<forall>rt \<in> set rts. P g rt))"

lemma append_target_keys: "fst ` set (append_target g rt m) = insert g (fst ` set m)"
  by (induction g rt m rule: append_target.induct) (simp_all add: insert_commute)

lemma append_target_distinct:
  "distinct (map fst m) \<Longrightarrow> distinct (map fst (append_target g rt m))"
proof (induction m)
  case (Cons p m)
  then show ?case using append_target_keys [of g rt m] by (cases p) auto
qed simp

lemma append_target_pairs:
  assumes "all_pairs P m" and "P g rt"
  shows "all_pairs P (append_target g rt m)"
  using assms(1)
proof (induction m)
  case Nil
  then show ?case using assms(2) by (simp add: all_pairs_def)
next
  case (Cons p m)
  obtain g' rts where p: "p = (g', rts)" by (cases p)
  from Cons.prems p have h: "rts \<noteq> []" "\<forall>x \<in> set rts. P g' x" "all_pairs P m"
    by (auto simp: all_pairs_def)
  show ?case
  proof (cases "g' = g")
    case True
    with h p assms(2) show ?thesis by (simp add: all_pairs_def)
  next
    case False
    with h p Cons.IH show ?thesis by (simp add: all_pairs_def)
  qed
qed

definition granted :: "(string \<Rightarrow> go_error + string) \<Rightarrow> 'w client \<Rightarrow> 'w \<Rightarrow> RemoteSyncerSpec \<Rightarrow> RemoteUser list
    \<Rightarrow> GitUserInfo \<Rightarrow> RemoteTarget \<Rightarrow> bool" where
  \<comment> \<open>The credentials of one of the users, for a target of this syncer on the git host of that user.\<close>
  "granted parse c w spec users g rt \<longleftrightarrow> same_upstream spec rt \<and>
     (\<exists>ru \<in> set users. GetGitUserInfoByRemoteUser c w ru = Inr g \<and>
        parse (TargetRepository (Spec rt)) = Inr (GitBaseDomainFQDN (Spec ru)))"

lemma associate_users_pairs:
  assumes "associate_users c w host rt us m = Inr m'" and "set us \<subseteq> set users"
    and "parse (TargetRepository (Spec rt)) = Inr host" and "same_upstream spec rt"
    and "all_pairs (granted parse c w spec users) m" and "distinct (map fst m)"
  shows "all_pairs (granted parse c w spec users) m' \<and> distinct (map fst m')"
  using assms
proof (induction us arbitrary: m)
  case (Cons u us)
  show ?case
  proof (cases "host = GitBaseDomainFQDN (Spec u)")
    case True
    with Cons.prems(1) obtain g where g: "GetGitUserInfoByRemoteUser c w u = Inr g"
      "associate_users c w host rt us (append_target g rt m) = Inr m'"
      by (auto split: sum.splits)
    have "granted parse c w spec users g rt"
      using g(1) True Cons.prems(2-4) by (auto simp: granted_def)
    with Cons.IH [OF g(2)] Cons.prems show ?thesis
      by (simp add: append_target_pairs append_target_distinct)
  qed (use Cons in simp)
qed simp

lemma associate_targets_pairs:
  assumes "associate_targets parse c w spec sel users rts m = Inr m'"
    and "all_pairs (granted parse c w spec users) m" and "distinct (map fst m)"
  shows "all_pairs (granted parse c w spec users) m' \<and> distinct (map fst m')"
  using assms
proof (induction rts arbitrary: m)
  case (Cons rt rts)
  show ?case
  proof (cases "case sel of None \<Rightarrow> False | Some matches \<Rightarrow> \<not> matches (Labels (Meta rt))")
    case True
    with Cons show ?thesis by simp
  next
    case False
    with Cons.prems(1) obtain host where host: "parse (TargetRepository (Spec rt)) = Inr host"
      by (auto split: sum.splits)
    show ?thesis
    proof (cases "same_upstream spec rt")
      case True
      with False host Cons.prems(1) obtain m1 where m1: "associate_users c w host rt users m = Inr m1"
        "associate_targets parse c w spec sel users rts m1 = Inr m'"
        by (auto split: sum.splits)
      from associate_users_pairs [OF m1(1) order_refl host True Cons.prems(2,3)] Cons.IH [OF m1(2)]
      show ?thesis by blast
    next
      case f: False
      have "associate_targets parse c w spec sel users rts m = Inr m'"
        using Cons.prems(1) False f host by simp
      then show ?thesis using Cons.IH Cons.prems(2,3) by blast
    qed
  qed
qed simp

lemma bound_targetsD:
  assumes "bound_targets parse c w sc rub = Inr m"
  obtains users where
    "resolveRefs (RemoteUsers c) w (RemoteUserRefs (Spec rub)) (Namespace (Meta rub)) ''remoteUserRefs'' = Inr users"
    "all_pairs (granted parse c w (ScSpec sc) users) m" "distinct (map fst m)" "m \<noteq> []"
    "TargetStrategy (ScSpec sc) = OneTarget \<longrightarrow> total_targets m \<le> 1"
proof -
  from assms obtain sel users rts where
    u: "resolveRefs (RemoteUsers c) w (RemoteUserRefs (Spec rub)) (Namespace (Meta rub)) ''remoteUserRefs'' = Inr users"
    and a: "associate_targets parse c w (ScSpec sc) sel users rts [] = Inr m"
    and t: "\<not> (TargetStrategy (ScSpec sc) = OneTarget \<and> total_targets m > 1)" "m \<noteq> []"
    unfolding bound_targets_def Let_def
    by (auto split: sum.splits option.splits if_splits)
  from associate_targets_pairs [OF a] u t show thesis
    by (intro that [of users]) (auto simp: all_pairs_def)
qed

lemma resolve_from_spec:
  "resolve_from api w owner f i refs = Inr xs \<Longrightarrow> x \<in> set xs \<Longrightarrow>
   \<exists>ref \<in> set refs. RefName ref \<noteq> '''' \<and> (RefNamespace ref \<noteq> '''' \<or> owner \<noteq> '''') \<and>
     kget api w (nsn (if RefNamespace ref = '''' then owner else RefNamespace ref) (RefName ref)) = Inr x"
proof (induction refs arbitrary: i xs)
  case (Cons ref refs)
  show ?case
  proof (cases "RefName ref = ''''")
    case True
    with Cons.prems Cons.IH show ?thesis by auto
  next
    case False
    with Cons.prems(1) obtain ns where ns: "ResolveNamespace (RefNamespace ref) owner (index_path (''spec.'' @ f) i) = Inr ns"
      by (auto split: sum.splits)
    then have ns': "ns = (if RefNamespace ref = '''' then owner else RefNamespace ref)" "RefNamespace ref \<noteq> '''' \<or> owner \<noteq> ''''"
      by (auto simp: ResolveNamespace_def split: if_splits)
    show ?thesis
    proof (cases "kget api w (nsn ns (RefName ref))")
      case (Inl e)
      with Cons.prems(1) False ns have "resolve_from api w owner f (Suc i) refs = Inr xs"
        by (auto split: if_splits)
      from Cons.IH [OF this Cons.prems(2)] show ?thesis by simp
    next
      case (Inr y)
      with Cons.prems(1) False ns obtain ys where "resolve_from api w owner f (Suc i) refs = Inr ys" "xs = y # ys"
        by (auto split: sum.splits)
      then consider "x = y" | "x \<in> set ys" "resolve_from api w owner f (Suc i) refs = Inr ys"
        using Cons.prems(2) by auto
      then show ?thesis
      proof cases
        case 1
        with Inr False ns' show ?thesis by simp
      next
        case 2
        from Cons.IH [OF 2(2,1)] show ?thesis by (meson list.set_intros(2))
      qed
    qed
  qed
qed simp

lemma bindings_of_user_last:
  "bindings_of_user c w username fqdn items n rub = Inr (k, Some r) \<Longrightarrow>
   (rub = Some r \<or> r \<in> set items \<and> SubjName (RubSubject (Spec r)) = username)"
  by (induction items arbitrary: n rub) (auto split: if_splits sum.splits)

lemma bindings_of_user_count:
  "bindings_of_user c w username fqdn items n rub = Inr (k, r) \<Longrightarrow>
   k = n + length (filter (\<lambda>i. SubjName (RubSubject (Spec i)) = username) items)"
proof (induction items arbitrary: n rub)
  case (Cons i items)
  then show ?case
    by (cases "SubjName (RubSubject (Spec i)) = username") (fastforce split: sum.splits)+
qed simp

subsection \<open>A small cluster\<close>

definition demo_user :: RemoteUser where
  "demo_user = \<lparr>Meta = no_meta\<lparr>Name := ''ru'', Namespace := ''team''\<rparr>,
     Spec = \<lparr>SecretRef = no_secret_ref\<lparr>SecName := ''creds''\<rparr>, Email = ''a@b'', GitBaseDomainFQDN = ''git''\<rparr>,
     Status = no_user_status\<rparr>"

definition demo_target :: "string \<Rightarrow> RemoteTarget" where
  "demo_target url = \<lparr>Meta = no_meta\<lparr>Name := ''rt'', Namespace := ''team''\<rparr>,
     Spec = \<lparr>UpstreamRepository = ''up'', UpstreamBranch = ''main'', TargetRepository = url,
       TargetBranch = ''main'', MergeStrategy = ''''\<rparr>,
     Status = []\<rparr>"

definition demo_binding :: RemoteUserBinding where
  "demo_binding = \<lparr>Meta = no_meta\<lparr>Name := ''rub'', Namespace := ''team''\<rparr>,
     Spec = \<lparr>RubSubject = no_subject\<lparr>SubjName := ''ann''\<rparr>, RemoteUserRefs = [name_ref ''ru''],
       RemoteTargetRefs = [name_ref ''rt'']\<rparr>,
     Status = no_rub_status\<rparr>"

definition demo_secret :: Secret where
  "demo_secret = \<lparr>SecretMeta = no_meta\<lparr>Name := ''creds'', Namespace := ''team''\<rparr>,
     SecretType = ''kubernetes.io/basic-auth'', SecretData = [(''username'', ''u''), (''password'', ''p'')]\<rparr>"

definition demo_credentials :: GitUserInfo where
  "demo_credentials = \<lparr>GitUserName = ''u'', GitEmail = ''a@b'', Token = ''p''\<rparr>"

definition demo_cluster :: "RemoteUserBinding list \<Rightarrow> string \<Rightarrow> unit client" where
  "demo_cluster rubs url = (flat_client (\<lambda>_ _. True))\<lparr>RemoteUserBindings := read_api rubs,
     RemoteUsers := read_api [demo_user], RemoteTargets := read_api [demo_target url],
     Secrets := no_api\<lparr>kget := (\<lambda>_ k. if k = nsn ''team'' ''creds'' then Inr demo_secret else Inl NotFound)\<rparr>\<rparr>"

definition demo_syncer :: SyncerContext where
  "demo_syncer = \<lparr>ScSpec = no_syncer_spec\<lparr>RemoteRepository := ''up'', DefaultBranch := ''main'',
       TargetStrategy := OneTarget, DefaultUnauthorizedUserMode := UseDefaultUser,
       DefaultRemoteUserRef := Some ((name_ref ''ru'')\<lparr>RefNamespace := ''team''\<rparr>),
       DefaultRemoteTargetRef := Some ((name_ref ''rt'')\<lparr>RefNamespace := ''team''\<rparr>)\<rparr>,
     Ref = nsn ''team'' ''rs'', ScAnnotations = [], ClusterWide = False, InterceptedNamespace = ''team'',
     RUBNamespace = ''team'', RefOwnerNamespace = ''team''\<rparr>"

definition demo_author :: "string \<Rightarrow> UserInfo" where
  "demo_author name = no_user\<lparr>Username := name\<rparr>"

lemmas demo_defs = demo_user_def demo_target_def demo_binding_def demo_secret_def demo_credentials_def
  demo_cluster_def demo_syncer_def demo_author_def flat_client_def read_api_def no_api_def
  no_meta_def no_secret_ref_def no_subject_def no_syncer_spec_def no_user_def no_ref_def name_ref_def
  OneTarget_def UseDefaultUser_def

lemma demo_binding_found:
  "GetRemoteUserBindingByUsername (demo_cluster [demo_binding] ''git/x'') () demo_syncer ''ann'' ''git'' = Inr (Some demo_binding)"
  by code_simp

lemma demo_association:
  "GetUserInfoRemoteTargetsAssociation (\<lambda>url. Inr (hd (Split url ''/''))) (demo_cluster [demo_binding] ''git/x'') ()
     (demo_author ''ann'') ''git'' demo_syncer = Inr [(demo_credentials, [demo_target ''git/x''])]"
  by code_simp

subsection \<open>Properties\<close>

text \<open>
  C2. For an author with a binding, every selected pair is the credentials of a remote user the
  binding references, resolved in the binding's own namespace or the one the reference names,
  used for a target that the binding references for this very repository and branch and that
  lives on the git host of that user.  At least one pair is selected, and at most one with the
  one-target strategy.
\<close>

theorem bound_credentials_stay_on_their_host:
  assumes "GetRemoteUserBindingByUsername c w sc (Username user) host = Inr (Some rub)"
    and "GetUserInfoRemoteTargetsAssociation parse c w user host sc = Inr m"
    and "(g, rts) \<in> set m" and "rt \<in> set rts"
  shows "same_upstream (ScSpec sc) rt \<and>
    (\<exists>ru ref. ref \<in> set (RemoteUserRefs (Spec rub)) \<and>
       kget (RemoteUsers c) w (nsn (if RefNamespace ref = '''' then Namespace (Meta rub) else RefNamespace ref) (RefName ref)) = Inr ru \<and>
       GetGitUserInfoByRemoteUser c w ru = Inr g \<and>
       parse (TargetRepository (Spec rt)) = Inr (GitBaseDomainFQDN (Spec ru))) \<and>
    (TargetStrategy (ScSpec sc) = OneTarget \<longrightarrow> total_targets m = 1)"
proof -
  have "bound_targets parse c w sc rub = Inr m"
    using assms(1,2) by (simp add: GetUserInfoRemoteTargetsAssociation_def)
  then obtain users where
    u: "resolveRefs (RemoteUsers c) w (RemoteUserRefs (Spec rub)) (Namespace (Meta rub)) ''remoteUserRefs'' = Inr users"
    and p: "all_pairs (granted parse c w (ScSpec sc) users) m"
    and one: "TargetStrategy (ScSpec sc) = OneTarget \<longrightarrow> total_targets m \<le> 1"
    by (rule bound_targetsD)
  from p assms(3,4) have "granted parse c w (ScSpec sc) users g rt" by (auto simp: all_pairs_def)
  then obtain ru where ru: "ru \<in> set users" "GetGitUserInfoByRemoteUser c w ru = Inr g"
    "parse (TargetRepository (Spec rt)) = Inr (GitBaseDomainFQDN (Spec ru))" "same_upstream (ScSpec sc) rt"
    by (auto simp: granted_def)
  have "length rts \<in> set (map (\<lambda>(g, rts). length rts) m)" using assms(3) by force
  then have "length rts \<le> total_targets m" unfolding total_targets_def by (simp add: member_le_sum_list)
  moreover have "0 < length rts" using assms(4) by (cases rts) auto
  ultimately have "TargetStrategy (ScSpec sc) = OneTarget \<longrightarrow> total_targets m = 1" using one by linarith
  with ru resolve_from_spec [OF u [unfolded resolveRefs_def] ru(1)] show ?thesis by blast
qed

theorem bound_credentials_stay_on_their_host_witness:
  "same_upstream (ScSpec demo_syncer) (demo_target ''git/x'') \<and>
    (\<exists>ru ref. ref \<in> set (RemoteUserRefs (Spec demo_binding)) \<and>
       kget (RemoteUsers (demo_cluster [demo_binding] ''git/x'')) () (nsn (if RefNamespace ref = '''' then Namespace (Meta demo_binding)
         else RefNamespace ref) (RefName ref)) = Inr ru \<and>
       GetGitUserInfoByRemoteUser (demo_cluster [demo_binding] ''git/x'') () ru = Inr demo_credentials \<and>
       Inr (hd (Split (TargetRepository (Spec (demo_target ''git/x''))) ''/'')) = (Inr (GitBaseDomainFQDN (Spec ru)) :: go_error + string))"
  using bound_credentials_stay_on_their_host [of "demo_cluster [demo_binding] ''git/x''" "()" demo_syncer
      "demo_author ''ann''" "''git''" demo_binding "\<lambda>url. Inr (hd (Split url ''/''))"
      "[(demo_credentials, [demo_target ''git/x''])]" demo_credentials "[demo_target ''git/x'']" "demo_target ''git/x''"]
    demo_binding_found demo_association
  by (simp add: demo_author_def)

text \<open>
  The binding used for an author is one of the bindings of the syncer's identity namespace that
  the selector accepts, its subject has the author's name, and no second such binding exists.
\<close>

theorem binding_is_unique_for_user:
  assumes "store_laws (RemoteUserBindings c) obj"
    and "GetRemoteUserBindingByUsername c w sc username fqdn = Inr (Some rub)"
  shows "\<exists>items sel. klist (RemoteUserBindings c) w (RUBNamespace sc) sel = Inr items \<and>
    length (filter (\<lambda>i. SubjName (RubSubject (Spec i)) = username) items) = 1 \<and>
    rub \<in> set items \<and> SubjName (RubSubject (Spec rub)) = username"
proof -
  from assms(2) obtain sel items k r where
    l: "klist (RemoteUserBindings c) w (RUBNamespace sc) sel = Inr items"
    and b: "bindings_of_user c w username fqdn items 0 None = Inr (k, Some r)"
    and k: "\<not> 1 < k" and get: "kget (RemoteUserBindings c) w (key_of r) = Inr rub"
    unfolding GetRemoteUserBindingByUsername_def Let_def
    by (auto split: sum.splits option.splits if_splits)
  from bindings_of_user_last [OF b] have r: "r \<in> set items" "SubjName (RubSubject (Spec r)) = username" by auto
  have "obj w (key_of r) = Some r" using store_list [OF assms(1) l] r(1) by blast
  with store_get(1) [OF assms(1) get] have "rub = r" by simp
  moreover have "length (filter (\<lambda>i. SubjName (RubSubject (Spec i)) = username) items) = 1"
  proof -
    have "r \<in> set (filter (\<lambda>i. SubjName (RubSubject (Spec i)) = username) items)" using r by simp
    then have "0 < length (filter (\<lambda>i. SubjName (RubSubject (Spec i)) = username) items)"
      by (metis length_pos_if_in_set)
    with bindings_of_user_count [OF b] k show ?thesis by linarith
  qed
  ultimately show ?thesis using l r by blast
qed

theorem binding_is_unique_for_user_witness:
  "\<exists>items sel. klist (RemoteUserBindings (demo_cluster [demo_binding] ''git/x'')) () (RUBNamespace demo_syncer) sel = Inr items \<and>
    length (filter (\<lambda>i. SubjName (RubSubject (Spec i)) = ''ann'') items) = 1 \<and>
    demo_binding \<in> set items \<and> SubjName (RubSubject (Spec demo_binding)) = ''ann''"
  using binding_is_unique_for_user [OF _ demo_binding_found, of "stored_in [demo_binding]"]
    read_api_laws [of "[demo_binding]"]
  by (simp add: demo_cluster_def)

text \<open>
  For an author without a binding, the credentials of the default remote user are associated
  with the default target whatever host the target repository has: only the host of the syncer's
  own repository is compared with the git host of that user.
\<close>

theorem default_credentials_ignore_target_host:
  assumes "GetRemoteUserBindingByUsername c w sc (Username user) host = Inr None"
    and "DefaultUnauthorizedUserMode (ScSpec sc) = UseDefaultUser"
    and "DefaultRemoteUserRef (ScSpec sc) = Some uref" and "RefName uref \<noteq> ''''" and "RefNamespace uref \<noteq> ''''"
    and "DefaultRemoteTargetRef (ScSpec sc) = Some tref" and "RefName tref \<noteq> ''''" and "RefNamespace tref \<noteq> ''''"
    and "kget (RemoteUsers c) w (nsn (RefNamespace uref) (RefName uref)) = Inr ru"
    and "GitBaseDomainFQDN (Spec ru) = host" and "GetGitUserInfoByRemoteUser c w ru = Inr g"
    and "kget (RemoteTargets c) w (nsn (RefNamespace tref) (RefName tref)) = Inr rt"
    and "same_upstream (ScSpec sc) rt"
  shows "GetUserInfoRemoteTargetsAssociation parse c w user host sc = Inr [(g, [rt])]"
  using assms by (simp add: GetUserInfoRemoteTargetsAssociation_def default_targets_def ResolveNamespace_def)

theorem default_credentials_ignore_target_host_witness:
  "GetUserInfoRemoteTargetsAssociation Inr (demo_cluster [] ''elsewhere/x'') () (demo_author ''bob'') ''git'' demo_syncer
     = Inr [(demo_credentials, [demo_target ''elsewhere/x''])]"
proof (rule default_credentials_ignore_target_host [where uref = "(name_ref ''ru'')\<lparr>RefNamespace := ''team''\<rparr>"
      and tref = "(name_ref ''rt'')\<lparr>RefNamespace := ''team''\<rparr>" and ru = demo_user])
  show "GetRemoteUserBindingByUsername (demo_cluster [] ''elsewhere/x'') () demo_syncer (Username (demo_author ''bob'')) ''git'' = Inr None"
    by code_simp
  show "GetGitUserInfoByRemoteUser (demo_cluster [] ''elsewhere/x'') () demo_user = Inr demo_credentials" by code_simp
  show "same_upstream (ScSpec demo_syncer) (demo_target ''elsewhere/x'')" by code_simp
qed (simp_all add: demo_defs key_of_def nsn_def)

end
