(* ===== verification/Interceptor_Pipeline.thy ===== *)
theory Interceptor_Pipeline
  imports Interceptor_Targets Pusher_Safety "HOL-Library.Multiset"
begin

text \<open>
  The interception of a change (\<open>internal/interceptor\<close>: \<open>pipeline.go\<close>, \<open>response.go\<close>,
  \<open>k8s_utils.go\<close>, \<open>dynamic_webhook_handlers.go\<close>): from the admission request to the admission
  review, with the pushes in between and the status of the syncer after.

  The state is the cluster and the state of the pusher.  \<open>None\<close> is a pipeline that does not
  return, because a push does not.  One clock reading serves a whole request.
\<close>

subsection \<open>Requests and reviews\<close>

record AdmissionRequest =
  AdmUID :: string
  AdmResource :: GroupVersionResource
  AdmRequestResource :: GroupVersionResource
  AdmName :: string
  AdmNamespace :: string
  AdmOperation :: string
  AdmUserInfo :: UserInfo
  AdmObjectRaw :: string
  AdmOldObjectRaw :: string

record AdmissionReview =
  RevUID :: string
  RevAllowed :: bool
  RevStatus :: string
  RevMessage :: string

record ObjectMetadata =
  OmGVR :: GroupVersionResource
  OmName :: string
  OmNamespace :: string

definition ExtractObjectMetadata :: "AdmissionRequest \<Rightarrow> ObjectMetadata" where
  "ExtractObjectMetadata admReq = \<lparr>OmGVR = AdmRequestResource admReq, OmName = AdmName admReq, OmNamespace = AdmNamespace admReq\<rparr>"

record ('g, 'w, 'n, 'r, 'i) interceptor_env =
  PusherEnv :: "('g, 'w, 'n, 'r, 'i) pusher_env"
  KubeClient :: "'w client"
  ParseURL :: "string \<Rightarrow> go_error + string" \<comment> \<open>the host of the parsed URL\<close>
  ApiCodec :: codec
  Now :: int
  ManagerNs :: string
  CredentialsOrd :: "nat \<Rightarrow> GitUserInfo \<Rightarrow> nat"

subsection \<open>The status of the syncer\<close>

definition mutate_status :: "'w client \<Rightarrow> SyncerContext \<Rightarrow> (RemoteSyncerStatus \<Rightarrow> RemoteSyncerStatus) \<Rightarrow> 'w
    \<Rightarrow> api_error option \<times> 'w" where
  \<comment> \<open>One attempt of \<open>updateRemoteSyncerStatus\<close>.\<close>
  "mutate_status c sc mutate w =
     (if ClusterWide sc then
        (case kget (ClusterWideRemoteSyncers c) w (Ref sc) of
           Inl err \<Rightarrow> (Some err, w)
         | Inr cwrs \<Rightarrow> kstatus (ClusterWideRemoteSyncers c) (cwrs\<lparr>Status := mutate (Status cwrs)\<rparr>) w)
      else
        (case kget (RemoteSyncers c) w (Ref sc) of
           Inl err \<Rightarrow> (Some err, w)
         | Inr rsy \<Rightarrow> kstatus (RemoteSyncers c) (rsy\<lparr>Status := mutate (Status rsy)\<rparr>) w))"

definition updateRemoteSyncerStatus :: "'w client \<Rightarrow> SyncerContext \<Rightarrow> (RemoteSyncerStatus \<Rightarrow> RemoteSyncerStatus) \<Rightarrow> 'w \<Rightarrow> 'w" where
  \<comment> \<open>The final error is only logged.\<close>
  "updateRemoteSyncerStatus c sc mutate w = snd (retry_on_conflict 5 (mutate_status c sc mutate) w)"

datatype ObservedState = LastBypassedObjectStateKey | LastObservedObjectStateKey | LastPushedObjectStateKey

record RemoteSyncerStatusUpdater =
  UpdSyncer :: SyncerContext
  UpdObject :: JsonGVRN
  UpdUserInfo :: UserInfo

definition NewRemoteSyncerStatusUpdater :: "AdmissionRequest \<Rightarrow> SyncerContext \<Rightarrow> RemoteSyncerStatusUpdater" where
  "NewRemoteSyncerStatusUpdater admReq sc =
     \<lparr>UpdSyncer = sc,
      UpdObject = \<lparr>JGroup = Group (AdmResource admReq), JVersion = Version (AdmResource admReq),
        JResource = Resource (AdmResource admReq), JName = AdmName admReq\<rparr>,
      UpdUserInfo = AdmUserInfo admReq\<rparr>"

definition state_mutation :: "int \<Rightarrow> RemoteSyncerStatusUpdater \<Rightarrow> GitPushResponse list \<Rightarrow> ObservedState \<Rightarrow> string
    \<Rightarrow> RemoteSyncerStatus \<Rightarrow> RemoteSyncerStatus" where
  "state_mutation now updater targetRepos kind lastPushDetails status =
     (case kind of
        LastBypassedObjectStateKey \<Rightarrow> status\<lparr>LastBypassed := \<lparr>LastBypassedObjectTime = now,
          LastBypassedObjectUserInfo = UpdUserInfo updater, LastBypassedObject = UpdObject updater\<rparr>\<rparr>
      | LastObservedObjectStateKey \<Rightarrow> status\<lparr>LastObserved := \<lparr>LastObservedObjectTime = now,
          LastObservedObjectUsername = Username (UpdUserInfo updater), LastObservedObject = UpdObject updater\<rparr>\<rparr>
      | LastPushedObjectStateKey \<Rightarrow> status\<lparr>LastPushed := \<lparr>LastPushedObjectTime = now,
          LastPushedGitUser = Username (UpdUserInfo updater), LastPushedObjectGitRepos = map PushURL targetRepos,
          LastPushedObjectGitPaths = '''' # concat (map Paths targetRepos),
          LastPushedObjectGitCommitHashes = map CommitHash targetRepos,
          LastPushedObject = UpdObject updater, LastPushedObjectStatus = lastPushDetails\<rparr>\<rparr>)"

definition UpdateRemoteSyncerState :: "'w client \<Rightarrow> int \<Rightarrow> RemoteSyncerStatusUpdater \<Rightarrow> GitPushResponse list \<Rightarrow> ObservedState
    \<Rightarrow> string \<Rightarrow> 'w \<Rightarrow> 'w" where
  "UpdateRemoteSyncerState c now updater targetRepos kind lastPushDetails w =
     updateRemoteSyncerStatus c (UpdSyncer updater) (state_mutation now updater targetRepos kind lastPushDetails) w"

definition BuildErrorCondition :: "int \<Rightarrow> string \<Rightarrow> Condition" where
  "BuildErrorCondition now details = \<lparr>CondType = ''Synced'', CondStatus = ''False'', ObservedGeneration = 0,
     LastTransitionTime = now, Reason = ''WebhookHandlerError'', Message = details\<rparr>"

definition BuildSuccessCondition :: "int \<Rightarrow> string \<Rightarrow> Condition" where
  "BuildSuccessCondition now details = \<lparr>CondType = ''Synced'', CondStatus = ''True'', ObservedGeneration = 0,
     LastTransitionTime = now, Reason = ''WebhookHandlerSucceeded'', Message = details\<rparr>"

definition UpdateRemoteSyncerConditions :: "'w client \<Rightarrow> SyncerContext \<Rightarrow> Condition \<Rightarrow> 'w \<Rightarrow> 'w" where
  "UpdateRemoteSyncerConditions c sc condition w =
     updateRemoteSyncerStatus c sc (\<lambda>status. status\<lparr>SyncerConditions := SetCondition (SyncerConditions status) condition\<rparr>) w"

subsection \<open>The review\<close>

definition defaultFailureMessage :: string where
  "defaultFailureMessage = ''the changes have not been pushed to the remote git repository: ''"

definition defaultSuccessMessage :: string where
  "defaultSuccessMessage = ''the changes were correctly been pushed on the remote git repository''"

definition AdmissionReviewBuilder :: "'w client \<Rightarrow> int \<Rightarrow> string \<Rightarrow> AdmissionRequest \<Rightarrow> bool \<Rightarrow> bool \<Rightarrow> SyncerContext \<Rightarrow> 'w
    \<Rightarrow> AdmissionReview \<times> 'w" where
  "AdmissionReviewBuilder c now addionalMessage admReq requestAllowed processErrored sc w =
     (let statusUpdater = NewRemoteSyncerStatusUpdater admReq sc;
          successMessage = (if DefaultBlockAppliedMessage (ScSpec sc) \<noteq> '''' then DefaultBlockAppliedMessage (ScSpec sc)
                            else defaultSuccessMessage);
          status = (if processErrored then ''Failure'' else ''Success'');
          w1 = UpdateRemoteSyncerConditions c sc
                 (if processErrored then BuildErrorCondition now addionalMessage else BuildSuccessCondition now '''') w;
          message = (if processErrored then defaultFailureMessage else successMessage) @ addionalMessage;
          w2 = UpdateRemoteSyncerState c now statusUpdater [] LastObservedObjectStateKey message w1
      in (\<lparr>RevUID = AdmUID admReq, RevAllowed = requestAllowed, RevStatus = status, RevMessage = message\<rparr>, w2))"

definition IsWebhookAllowed :: "SyncerContext \<Rightarrow> bool \<Rightarrow> bool" where
  "IsWebhookAllowed sc pipelineErrored \<longleftrightarrow> \<not> pipelineErrored \<and> Strategy (ScSpec sc) = CommitApply"

definition BuildWebhookSuccessMessage :: "GitPushResponse list \<Rightarrow> string" where
  "BuildWebhookSuccessMessage responses =
     ''The resource has been push to:'' @ [newline] @
     concat (map (\<lambda>res. ''- repo: '' @ PushURL res @ [newline] @ ''  paths:'' @
       concat (map (\<lambda>path. ''    '' @ path @ [newline]) (Paths res)) @ ''  commit hash: '' @ CommitHash res) responses)"

subsection \<open>The pushes\<close>

record GitPushParameters =
  UserInfoRemoteTargets :: user_targets
  GpSyncer :: SyncerContext
  GpInterceptedManifest :: string
  GpDeletedManifest :: string
  GpObjectMetadata :: ObjectMetadata
  GpOperation :: string
  GpCABundle :: "string option"

definition pipeline_params :: "GitPushParameters \<Rightarrow> GitUserInfo \<Rightarrow> RemoteTarget \<Rightarrow> GitPipelineParams" where
  "pipeline_params params userInfo remoteTarget =
     \<lparr>GppSyncer = GpSyncer params, GppRemoteTarget = remoteTarget,
      InterceptedManifest = GpInterceptedManifest params, DeletedManifest = GpDeletedManifest params,
      InterceptedGVR = OmGVR (GpObjectMetadata params), InterceptedName = OmName (GpObjectMetadata params),
      GppGitUserInfo = userInfo, Operation = GpOperation params, CABundle = GpCABundle params\<rparr>"

definition push_order :: "('g, 'w, 'n, 'r, 'i) interceptor_env \<Rightarrow> user_targets \<Rightarrow> (GitUserInfo \<times> RemoteTarget) list" where
  "push_order env m = concat (map (\<lambda>(userInfo, remoteTargets). map (\<lambda>rt. (userInfo, rt)) remoteTargets)
     (range_map (CredentialsOrd env) m))"

definition env_at :: "('g, 'w, 'n, 'r, 'i) interceptor_env \<Rightarrow> 'w \<Rightarrow> ('g, 'w, 'n, 'r, 'i) pusher_env" where
  \<comment> \<open>The pusher reads the cluster as it is.\<close>
  "env_at env w = (PusherEnv env)\<lparr>MutatorEnv := (MutatorEnv (PusherEnv env))\<lparr>World := w\<rparr>\<rparr>"

fun push_all :: "('g, 'w, 'n, 'r, 'i) pusher_env \<Rightarrow> GitPushParameters \<Rightarrow> (GitUserInfo \<times> RemoteTarget) list
    \<Rightarrow> GitPushResponse list \<Rightarrow> 'g pstate \<Rightarrow> ((go_error + GitPushResponse list) \<times> 'g pstate) option" where
  "push_all env params [] responses ps = Some (Inr responses, ps)"
| "push_all env params ((userInfo, remoteTarget) # rest) responses ps =
     (case RunGitPipeline env (pipeline_params params userInfo remoteTarget) ps of
        None \<Rightarrow> None
      | Some (Inl err, ps1) \<Rightarrow> Some (Inl err, ps1)
      | Some (Inr (res, Some err), ps1) \<Rightarrow> Some (Inl err, ps1)
      | Some (Inr (res, None), ps1) \<Rightarrow>
          if CommitHash res = '''' then Some (Inl (PlainError ''the commit hash is empty''), ps1)
          else push_all env params rest (responses @ [res]) ps1)"

definition RunGitPushPipeline :: "('g, 'w, 'n, 'r, 'i) interceptor_env \<Rightarrow> 'w \<Rightarrow> GitPushParameters \<Rightarrow> 'g pstate
    \<Rightarrow> ((go_error + GitPushResponse list) \<times> 'g pstate) option" where
  "RunGitPushPipeline env w params ps = push_all (env_at env w) params (push_order env (UserInfoRemoteTargets params)) [] ps"

subsection \<open>The interception\<close>

definition manifests :: "('g, 'w, 'n, 'r, 'i) interceptor_env \<Rightarrow> 'w \<Rightarrow> AdmissionRequest \<Rightarrow> SyncerContext
    \<Rightarrow> go_error + string \<times> string" where
  \<comment> \<open>The intercepted and the deleted manifest.\<close>
  "manifests env w admReq sc =
     (if AdmOperation admReq \<noteq> ''DELETE'' then
        (case ObjectToYAML (ApiCodec env) (KubeClient env) w (AdmObjectRaw admReq) (ManagerNs env) (ScSpec sc) (RefOwnerNamespace sc) of
           Inl err \<Rightarrow> Inl err | Inr y \<Rightarrow> Inr (y, ''''))
      else
        (case JSONToYAML (ApiCodec env) (AdmOldObjectRaw admReq) of
           Inl err \<Rightarrow> Inl err | Inr y \<Rightarrow> Inr ('''', y)))"

type_synonym ('g, 'w) reviewed = "(AdmissionReview \<times> 'w \<times> 'g pstate) option"

definition review :: "('g, 'w, 'n, 'r, 'i) interceptor_env \<Rightarrow> AdmissionRequest \<Rightarrow> SyncerContext \<Rightarrow> string \<Rightarrow> bool \<Rightarrow> bool
    \<Rightarrow> 'w \<times> 'g pstate \<Rightarrow> ('g, 'w) reviewed" where
  "review env admReq sc message requestAllowed processErrored st =
     (case AdmissionReviewBuilder (KubeClient env) (Now env) message admReq requestAllowed processErrored sc (fst st) of
        (rv, w) \<Rightarrow> Some (rv, w, snd st))"

definition push_and_review :: "('g, 'w, 'n, 'r, 'i) interceptor_env \<Rightarrow> AdmissionRequest \<Rightarrow> SyncerContext \<Rightarrow> GitPushParameters
    \<Rightarrow> 'w \<times> 'g pstate \<Rightarrow> ('g, 'w) reviewed" where
  \<comment> \<open>The pipeline from the push on.\<close>
  "push_and_review env admReq sc params st =
     (let u = PrintUser (PusherEnv env) in
      case RunGitPushPipeline env (fst st) params (snd st) of
        None \<Rightarrow> None
      | Some (Inl err, ps) \<Rightarrow>
          let message = BuildInterceptorPipelineErr (Error u err) in
          if Strategy (ScSpec sc) = CommitApply \<and> DefaultPushErrorBehavior (ScSpec sc) = Pass
          then review env admReq sc message True True (fst st, ps)
          else review env admReq sc message False True (fst st, ps)
      | Some (Inr responses, ps) \<Rightarrow>
          let w1 = UpdateRemoteSyncerState (KubeClient env) (Now env) (NewRemoteSyncerStatusUpdater admReq sc) responses
                     LastPushedObjectStateKey '''' (fst st)
          in if \<not> IsWebhookAllowed sc False
             then review env admReq sc (BuildInterceptorPipelineErr ''the remote syncer is in CommitOnly mode'') False False (w1, ps)
             else review env admReq sc (BuildWebhookSuccessMessage responses) True False (w1, ps))"

definition after_targets :: "('g, 'w, 'n, 'r, 'i) interceptor_env \<Rightarrow> AdmissionRequest \<Rightarrow> SyncerContext \<Rightarrow> string \<Rightarrow> user_targets
    \<Rightarrow> 'w \<times> 'g pstate \<Rightarrow> ('g, 'w) reviewed" where
  \<comment> \<open>The pipeline once the targets are known.\<close>
  "after_targets env admReq sc host userRemoteTargets st =
     (let u = PrintUser (PusherEnv env);
          failed = (\<lambda>err. review env admReq sc (BuildInterceptorPipelineErr (Error u err)) False True st)
      in case manifests env (fst st) admReq sc of
        Inl err \<Rightarrow> failed err
      | Inr (interceptedManifest, deletedManifest) \<Rightarrow>
          let manifestMap = (if length (AdmObjectRaw admReq) \<noteq> 0 then JSONToMap (ApiCodec env) (AdmObjectRaw admReq) else Inr []) in
          (case manifestMap of
             Inl err \<Rightarrow> review env admReq sc (Error u err) False True st
           | Inr m \<Rightarrow>
               if length (AdmObjectRaw admReq) \<noteq> 0 \<and> ContainsDeletionTimestamp m then
                 review env admReq sc
                   (BuildInterceptorPipelineErr ''object is being deleted and the interception already happened'') True False st
               else (case CABundleBuilder (KubeClient env) (fst st) (ManagerNs env) sc host of
                  Inl err \<Rightarrow> failed err
                | Inr caBundle \<Rightarrow>
                    push_and_review env admReq sc
                      \<lparr>UserInfoRemoteTargets = userRemoteTargets, GpSyncer = sc, GpInterceptedManifest = interceptedManifest,
                       GpDeletedManifest = deletedManifest, GpObjectMetadata = ExtractObjectMetadata admReq,
                       GpOperation = AdmOperation admReq, GpCABundle = caBundle\<rparr> st)))"

definition RunInterceptionPipeline :: "('g, 'w, 'n, 'r, 'i) interceptor_env \<Rightarrow> AdmissionRequest \<Rightarrow> SyncerContext
    \<Rightarrow> 'w \<times> 'g pstate \<Rightarrow> ('g, 'w) reviewed" where
  "RunInterceptionPipeline env admReq sc st =
     (let userInfo = AdmUserInfo admReq; u = PrintUser (PusherEnv env); c = KubeClient env; w = fst st;
          failed = (\<lambda>message. review env admReq sc message False True st);
          bypass = (\<lambda>message. review env admReq sc (BuildInterceptorPipelineErr message) True False st)
      in case ParseURL env (RemoteRepository (ScSpec sc)) of
        Inl _ \<Rightarrow> failed (BuildInterceptorPipelineErr ''cannot parse the RemoteSyncer's upstream URL'')
      | Inr host \<Rightarrow>
          if BypassAllServiceAccounts (ScSpec sc) \<and> IsServiceAccount userInfo then
            bypass ''service account bypasses the interception''
          else (case IsBypassSubject userInfo sc of
            Inl err \<Rightarrow> failed (Error u err)
          | Inr True \<Rightarrow> bypass ''subject bypasses the interception''
          | Inr False \<Rightarrow>
              (case RemoteSyncerRefs (ScSpec sc) (RefOwnerNamespace sc) of
                 Inl err \<Rightarrow> failed (Error u err)
               | Inr objectRefs \<Rightarrow>
                   (case AuthorizeCrossNamespaceRefs c w userInfo objectRefs (RefOwnerNamespace sc) [ManagerNs env] of
                      Inl err \<Rightarrow> failed (BuildInterceptorPipelineErr (Error u err))
                    | Inr (Some denied) \<Rightarrow>
                        failed (Error u (CrossNamespaceRefDenied userInfo (FieldPath denied) (OrResource denied)
                          (OrNamespace denied) (OrName denied)))
                    | Inr None \<Rightarrow>
                        (case GetUserInfoRemoteTargetsAssociation (ParseURL env) c w userInfo host sc of
                           Inl err \<Rightarrow> failed (Error u err)
                         | Inr userRemoteTargets \<Rightarrow> after_targets env admReq sc host userRemoteTargets st)))))"

subsection \<open>The handlers\<close>

definition RemoteSyncerWebhookPath :: "NamespacedName \<Rightarrow> string" where
  "RemoteSyncerWebhookPath n = ''/syngit/namespace-scoped-validate/'' @ NsnNamespace n @ ''/'' @ NsnName n"

definition ClusterWideRemoteSyncerWebhookPath :: "string \<Rightarrow> string" where
  "ClusterWideRemoteSyncerWebhookPath name = ''/syngit/cluster-scoped-validate/'' @ name"

text \<open>A handler holds its syncer; the handlers are a map from paths.\<close>

definition syncerContext :: "Syncer \<Rightarrow> string \<Rightarrow> SyncerContext" where
  "syncerContext s interceptedNamespace = (case s of
     ClusterSyncer cwrs \<Rightarrow> NewClusterWideSyncerContext cwrs interceptedNamespace
   | NamespacedSyncer rs \<Rightarrow> NewRemoteSyncerContext rs interceptedNamespace)"

type_synonym pathHandlers = "(string \<times> Syncer) list"

definition handlerFor :: "pathHandlers \<Rightarrow> string \<Rightarrow> Syncer option" where
  "handlerFor hs path = map_of hs path"

definition register :: "string \<Rightarrow> Syncer \<Rightarrow> pathHandlers \<Rightarrow> pathHandlers" where
  "register path handler hs = alist_set path handler hs"

definition Register :: "RemoteSyncer \<Rightarrow> string \<Rightarrow> pathHandlers \<Rightarrow> pathHandlers" where
  "Register remoteSyncer path hs = register path (NamespacedSyncer remoteSyncer) hs"

definition RegisterClusterWide :: "ClusterWideRemoteSyncer \<Rightarrow> string \<Rightarrow> pathHandlers \<Rightarrow> pathHandlers" where
  "RegisterClusterWide cwrs path hs = register path (ClusterSyncer cwrs) hs"

definition Unregister :: "string \<Rightarrow> pathHandlers \<Rightarrow> pathHandlers" where
  "Unregister path hs = alist_del path hs"

text \<open>
  The two routes: a path without a handler is looked up in the cluster and registered.  The
  segments come from the router; an undecodable body is a bad request.
\<close>

datatype 'a http = NotFoundPage | BadRequest | Reply 'a

definition serve :: "('g, 'w, 'n, 'r, 'i) interceptor_env \<Rightarrow> Syncer \<Rightarrow> AdmissionRequest option \<Rightarrow> 'w \<times> 'g pstate
    \<Rightarrow> (AdmissionReview http \<times> 'w \<times> 'g pstate) option" where
  \<comment> \<open>\<open>DynamicWebhookHandler.Handle\<close>\<close>
  "serve env s body st = (case body of
     None \<Rightarrow> Some (BadRequest, st)
   | Some admReq \<Rightarrow>
       (case RunInterceptionPipeline env admReq (syncerContext s (AdmNamespace admReq)) st of
          None \<Rightarrow> None
        | Some (rv, st1) \<Rightarrow> Some (Reply rv, st1)))"

definition route_namespaced :: "('g, 'w, 'n, 'r, 'i) interceptor_env \<Rightarrow> NamespacedName \<Rightarrow> AdmissionRequest option
    \<Rightarrow> pathHandlers \<Rightarrow> 'w \<times> 'g pstate \<Rightarrow> (AdmissionReview http \<times> pathHandlers \<times> 'w \<times> 'g pstate) option" where
  "route_namespaced env n body hs st =
     (let path = RemoteSyncerWebhookPath n in
      case handlerFor hs path of
        Some s \<Rightarrow> map_option (\<lambda>(r, st1). (r, hs, st1)) (serve env s body st)
      | None \<Rightarrow>
          (case kget (RemoteSyncers (KubeClient env)) (fst st) n of
             Inl _ \<Rightarrow> Some (NotFoundPage, hs, st)
           | Inr found \<Rightarrow> map_option (\<lambda>(r, st1). (r, Register found path hs, st1)) (serve env (NamespacedSyncer found) body st)))"

definition route_cluster_wide :: "('g, 'w, 'n, 'r, 'i) interceptor_env \<Rightarrow> string \<Rightarrow> AdmissionRequest option
    \<Rightarrow> pathHandlers \<Rightarrow> 'w \<times> 'g pstate \<Rightarrow> (AdmissionReview http \<times> pathHandlers \<times> 'w \<times> 'g pstate) option" where
  "route_cluster_wide env name body hs st =
     (let path = ClusterWideRemoteSyncerWebhookPath name in
      case handlerFor hs path of
        Some s \<Rightarrow> map_option (\<lambda>(r, st1). (r, hs, st1)) (serve env s body st)
      | None \<Rightarrow>
          (case kget (ClusterWideRemoteSyncers (KubeClient env)) (fst st) (nsn '''' name) of
             Inl _ \<Rightarrow> Some (NotFoundPage, hs, st)
           | Inr found \<Rightarrow> map_option (\<lambda>(r, st1). (r, RegisterClusterWide found path hs, st1)) (serve env (ClusterSyncer found) body st)))"

subsection \<open>The registry of handlers\<close>

text \<open>
  The controllers change the registry and the routes read it, each under its lock.  Both rely on these laws only: a change
  of one path is seen there and nowhere else.
\<close>

fun apply_changes :: "('p \<Rightarrow> 's \<Rightarrow> 'h \<Rightarrow> 'h) \<Rightarrow> ('p \<Rightarrow> 'h \<Rightarrow> 'h) \<Rightarrow> ('p \<times> 's option) list \<Rightarrow> 'h \<Rightarrow> 'h" where
  \<comment> \<open>A sequence of registrations and removals.\<close>
  "apply_changes reg unreg [] hs = hs"
| "apply_changes reg unreg ((p, None) # cs) hs = apply_changes reg unreg cs (unreg p hs)"
| "apply_changes reg unreg ((p, Some s) # cs) hs = apply_changes reg unreg cs (reg p s hs)"

lemma apply_changes_append: "apply_changes reg unreg (xs @ ys) hs = apply_changes reg unreg ys (apply_changes reg unreg xs hs)"
  by (induction reg unreg xs hs rule: apply_changes.induct) auto

locale handler_registry =
  fixes look :: "'h \<Rightarrow> 'p \<Rightarrow> 's option" and reg :: "'p \<Rightarrow> 's \<Rightarrow> 'h \<Rightarrow> 'h" and unreg :: "'p \<Rightarrow> 'h \<Rightarrow> 'h"
  assumes look_reg: "look (reg p s hs) q = (if q = p then Some s else look hs q)"
    and look_unreg: "look (unreg p hs) q = (if q = p then None else look hs q)"
begin

lemma untouched_path: "p \<notin> fst ` set cs \<Longrightarrow> look (apply_changes reg unreg cs hs) p = look hs p"
proof (induction cs arbitrary: hs)
  case (Cons c cs)
  obtain q s where "c = (q, s)" by (cases c)
  with Cons show ?case by (cases s) (simp_all add: look_reg look_unreg)
qed simp

lemma last_change_wins:
  assumes "p \<notin> fst ` set later"
  shows "look (apply_changes reg unreg (earlier @ (p, s) # later) hs) p = s"
proof -
  have "apply_changes reg unreg (earlier @ (p, s) # later) hs =
      apply_changes reg unreg ((p, s) # later) (apply_changes reg unreg earlier hs)"
    by (rule apply_changes_append)
  then show ?thesis using untouched_path [OF assms] by (cases s) (simp_all add: look_reg look_unreg)
qed

end

interpretation registry: handler_registry handlerFor register Unregister
  by unfold_locales (simp_all add: handlerFor_def register_def Unregister_def alist_set_def)

subsection \<open>Reviews\<close>

lemma review_eq:
  "review env admReq sc message al pe st = Some (rv, w, ps) \<Longrightarrow> RevAllowed rv = al \<and> ps = snd st"
  by (auto simp: review_def AdmissionReviewBuilder_def Let_def split: prod.splits)

lemma review_returns: "\<exists>rv w. review env admReq sc message al pe st = Some (rv, w, snd st) \<and> RevAllowed rv = al"
  by (simp add: review_def AdmissionReviewBuilder_def Let_def)

text \<open>
  Pipelines that run one after the other, each ending without an error, with a commit and with a push its remote
  has accepted.
\<close>

inductive pushed_in_turn :: "('g, 'w, 'n, 'r, 'i) pusher_env \<Rightarrow> (GitUserInfo \<times> RemoteTarget \<Rightarrow> GitPipelineParams)
    \<Rightarrow> (GitUserInfo \<times> RemoteTarget) list \<Rightarrow> 'g pstate \<Rightarrow> 'g pstate \<Rightarrow> bool" for env params where
  pushed_none: "pushed_in_turn env params [] ps ps"
| pushed_one: "RunGitPipeline env (params pair) ps = Some (Inr (res, None), ps1) \<Longrightarrow> CommitHash res \<noteq> '''' \<Longrightarrow>
    push_accepted env (params pair) (PsGit ps1) \<Longrightarrow> pushed_in_turn env params rest ps1 ps' \<Longrightarrow>
    pushed_in_turn env params (pair # rest) ps ps'"

inductive_cases pushed_in_turn_Cons: "pushed_in_turn env params (pair # rest) ps ps'"

lemma push_all_in_turn:
  "push_all env params pairs responses ps = Some (Inr rs, ps') \<Longrightarrow>
   pushed_in_turn env (\<lambda>(userInfo, rt). pipeline_params params userInfo rt) pairs ps ps'"
proof (induction pairs arbitrary: responses ps)
  case Nil
  then show ?case by (simp add: pushed_none)
next
  case (Cons pair pairs)
  obtain userInfo rt where pair: "pair = (userInfo, rt)" by (cases pair)
  from Cons.prems pair obtain res ps1 where run: "RunGitPipeline env (pipeline_params params userInfo rt) ps = Some (Inr (res, None), ps1)"
    and hash: "CommitHash res \<noteq> ''''" and rest: "push_all env params pairs (responses @ [res]) ps1 = Some (Inr rs, ps')"
    by (auto split: option.splits prod.splits sum.splits if_splits)
  from run RunGitPipeline_accepted [OF run] Cons.IH [OF rest] show ?case
    unfolding pair by (intro pushed_one [OF _ hash]) simp_all
qed

lemma mset_push_order:
  "mset (push_order env m) = mset (concat (map (\<lambda>(userInfo, rts). map (Pair userInfo) rts) m))"
proof -
  have eq: "mset (range_map (CredentialsOrd env) m) = mset m" by (simp add: range_map_def)
  have "mset (concat (map f xs)) = \<Sum>\<^sub># (image_mset (\<lambda>x. mset (f x)) (mset xs))"
    for f :: "GitUserInfo \<times> RemoteTarget list \<Rightarrow> (GitUserInfo \<times> RemoteTarget) list" and xs
    by (induction xs) simp_all
  then show ?thesis unfolding push_order_def by (simp only: eq)
qed

definition all_pushed :: "('g, 'w, 'n, 'r, 'i) interceptor_env \<Rightarrow> AdmissionRequest \<Rightarrow> SyncerContext \<Rightarrow> string \<Rightarrow> user_targets
    \<Rightarrow> 'w \<Rightarrow> 'g pstate \<Rightarrow> 'g pstate \<Rightarrow> bool" where
  \<comment> \<open>The manifests of the request were pushed once for every pair of credentials and target of \<open>m\<close>, one pipeline after the other.\<close>
  "all_pushed env admReq sc host m w ps ps' \<longleftrightarrow> (\<exists>intercepted deleted caBundle pairs.
     manifests env w admReq sc = Inr (intercepted, deleted) \<and>
     CABundleBuilder (KubeClient env) w (ManagerNs env) sc host = Inr caBundle \<and>
     mset pairs = mset (concat (map (\<lambda>(userInfo, rts). map (Pair userInfo) rts) m)) \<and>
     pushed_in_turn (env_at env w) (\<lambda>(userInfo, rt).
       \<lparr>GppSyncer = sc, GppRemoteTarget = rt, InterceptedManifest = intercepted, DeletedManifest = deleted,
        InterceptedGVR = AdmRequestResource admReq, InterceptedName = AdmName admReq,
        GppGitUserInfo = userInfo, Operation = AdmOperation admReq, CABundle = caBundle\<rparr>) pairs ps ps')"

lemma push_and_review_allowed:
  assumes "push_and_review env admReq sc params (w, ps) = Some (rv, w', ps')" and "RevAllowed rv"
  shows "Strategy (ScSpec sc) = CommitApply \<and>
    (pushed_in_turn (env_at env w) (\<lambda>(userInfo, rt). pipeline_params params userInfo rt)
       (push_order env (UserInfoRemoteTargets params)) ps ps' \<or> DefaultPushErrorBehavior (ScSpec sc) = Pass)"
proof -
  from assms(1) obtain r ps1 where run: "RunGitPushPipeline env w params ps = Some (r, ps1)"
    by (auto simp: push_and_review_def Let_def split: option.splits)
  show ?thesis
  proof (cases r)
    case (Inl err)
    with assms run show ?thesis
      by (auto simp: push_and_review_def Let_def split: if_splits dest!: review_eq)
  next
    case (Inr responses)
    with assms run have "Strategy (ScSpec sc) = CommitApply" "ps1 = ps'"
      by (auto simp: push_and_review_def Let_def IsWebhookAllowed_def split: if_splits dest!: review_eq)
    with push_all_in_turn [OF run [unfolded Inr RunGitPushPipeline_def]] show ?thesis by blast
  qed
qed

definition terminating :: "('g, 'w, 'n, 'r, 'i) interceptor_env \<Rightarrow> AdmissionRequest \<Rightarrow> bool" where
  "terminating env admReq \<longleftrightarrow> (\<exists>m. JSONToMap (ApiCodec env) (AdmObjectRaw admReq) = Inr m \<and> ContainsDeletionTimestamp m)"

lemma after_targets_allowed:
  assumes "after_targets env admReq sc host m (w, ps) = Some (rv, w', ps')" and "RevAllowed rv"
  shows "terminating env admReq \<or> Strategy (ScSpec sc) = CommitApply \<and>
    (all_pushed env admReq sc host m w ps ps' \<or> DefaultPushErrorBehavior (ScSpec sc) = Pass)"
proof (cases "terminating env admReq")
  case False
  with assms obtain intercepted deleted caBundle where man: "manifests env w admReq sc = Inr (intercepted, deleted)"
    and ca: "CABundleBuilder (KubeClient env) w (ManagerNs env) sc host = Inr caBundle"
    and push: "push_and_review env admReq sc
      \<lparr>UserInfoRemoteTargets = m, GpSyncer = sc, GpInterceptedManifest = intercepted, GpDeletedManifest = deleted,
       GpObjectMetadata = ExtractObjectMetadata admReq, GpOperation = AdmOperation admReq, GpCABundle = caBundle\<rparr> (w, ps)
      = Some (rv, w', ps')"
    by (auto simp: after_targets_def Let_def terminating_def split: sum.splits prod.splits if_splits dest!: review_eq)
  from push_and_review_allowed [OF push assms(2)] man ca mset_push_order [of env m] show ?thesis
    unfolding all_pushed_def pipeline_params_def ExtractObjectMetadata_def by (auto simp del: case_prod_conv)
qed simp

definition bypasses :: "AdmissionRequest \<Rightarrow> SyncerContext \<Rightarrow> bool" where
  "bypasses admReq sc \<longleftrightarrow> (BypassAllServiceAccounts (ScSpec sc) \<and> IsServiceAccount (AdmUserInfo admReq)) \<or>
     IsBypassSubject (AdmUserInfo admReq) sc = Inr True"

lemma allowed_only_pushed:
  assumes "RunInterceptionPipeline env admReq sc (w, ps) = Some (rv, w', ps')" and "RevAllowed rv"
  shows "bypasses admReq sc \<or>
    (\<exists>host m. ParseURL env (RemoteRepository (ScSpec sc)) = Inr host \<and>
       GetUserInfoRemoteTargetsAssociation (ParseURL env) (KubeClient env) w (AdmUserInfo admReq) host sc = Inr m \<and>
       (terminating env admReq \<or> Strategy (ScSpec sc) = CommitApply \<and>
         (all_pushed env admReq sc host m w ps ps' \<or> DefaultPushErrorBehavior (ScSpec sc) = Pass)))"
proof (cases "bypasses admReq sc")
  case False
  with assms obtain host m where "ParseURL env (RemoteRepository (ScSpec sc)) = Inr host"
    "GetUserInfoRemoteTargetsAssociation (ParseURL env) (KubeClient env) w (AdmUserInfo admReq) host sc = Inr m"
    "after_targets env admReq sc host m (w, ps) = Some (rv, w', ps')"
    by (auto simp: RunInterceptionPipeline_def Let_def bypasses_def split: sum.splits option.splits bool.splits if_splits
        dest!: review_eq)
  with after_targets_allowed [OF this(3) assms(2)] show ?thesis by blast
qed simp

text \<open>
  C3. A change is let through only for a bypassing author, for an object that is already being
  deleted, or by a syncer in CommitApply mode whose push errors are set to pass or for which the manifest of the
  request was pushed once for every pair of credentials and target associated with the author:
  the pipelines of these pairs, each with its own credentials and target and all with this request's data, have run one after the
  other from the state before to the state after, and each ended without an error, with a commit hash and with a push
  its remote accepted.
\<close>

theorem interception_allows_only_pushed_changes:
  assumes "RunInterceptionPipeline env admReq sc (w, ps) = Some (rv, w', ps')" and "RevAllowed rv"
  shows "bypasses admReq sc \<or>
    (\<exists>host m. ParseURL env (RemoteRepository (ScSpec sc)) = Inr host \<and>
       GetUserInfoRemoteTargetsAssociation (ParseURL env) (KubeClient env) w (AdmUserInfo admReq) host sc = Inr m \<and>
       (terminating env admReq \<or> Strategy (ScSpec sc) = CommitApply \<and>
         (all_pushed env admReq sc host m w ps ps' \<or> DefaultPushErrorBehavior (ScSpec sc) = Pass)))"
  using assms by (rule allowed_only_pushed)

text \<open>
  C5. An author whom the syncer does not bypass and who may not read an object the syncer references outside its own and the manager's
  namespace is refused, and nothing is cloned, written or pushed.
\<close>

theorem unreadable_reference_blocks_the_change:
  assumes "\<not> bypasses admReq sc"
    and "RemoteSyncerRefs (ScSpec sc) (RefOwnerNamespace sc) = Inr objectRefs"
    and "ref \<in> set objectRefs" and "OrNamespace ref \<noteq> RefOwnerNamespace sc" and "OrNamespace ref \<noteq> ManagerNs env"
    and "AccessReview (KubeClient env) w (reviewed_as (AdmUserInfo admReq)) (get_attrs ref) \<noteq> Inr True"
  shows "\<exists>rv w'. RunInterceptionPipeline env admReq sc (w, ps) = Some (rv, w', ps) \<and> \<not> RevAllowed rv"
proof -
  have bad: "AuthorizeRefs c w user rs \<noteq> Inr None"
    if "r \<in> set rs" "AccessReview c w (reviewed_as user) (get_attrs r) \<noteq> Inr True" for c :: "'b client" and user rs r
    using that by (induction rs) (auto simp: CheckAccess_def split: sum.splits)
  have "AuthorizeCrossNamespaceRefs (KubeClient env) w (AdmUserInfo admReq) objectRefs (RefOwnerNamespace sc) [ManagerNs env] \<noteq> Inr None"
    unfolding AuthorizeCrossNamespaceRefs_def using assms(3-6) by (intro bad) auto
  then have "\<exists>message. RunInterceptionPipeline env admReq sc (w, ps) = review env admReq sc message False True (w, ps)"
    using assms(1,2)
    by (auto simp: RunInterceptionPipeline_def Let_def bypasses_def split: sum.splits option.splits bool.splits)
  then show ?thesis using review_returns [of env admReq sc _ False True "(w, ps)"] by (metis snd_conv)
qed

text \<open>
  The paths of the handlers keep syncers apart: no two syncers share a path, a namespaced one and a
  cluster-wide one neither, so a lookup after registering two different syncers finds each.
\<close>

theorem webhook_paths_keep_syncers_apart:
  assumes "CHR ''/'' \<notin> set (NsnNamespace n)" and "CHR ''/'' \<notin> set (NsnNamespace n')"
  shows "(RemoteSyncerWebhookPath n = RemoteSyncerWebhookPath n') = (n = n') \<and>
    (ClusterWideRemoteSyncerWebhookPath a = ClusterWideRemoteSyncerWebhookPath b) = (a = b) \<and>
    handlerFor (RegisterClusterWide cwrs (ClusterWideRemoteSyncerWebhookPath a)
      (Register rs (RemoteSyncerWebhookPath n) hs)) (RemoteSyncerWebhookPath n) = Some (NamespacedSyncer rs) \<and>
    handlerFor (Unregister (ClusterWideRemoteSyncerWebhookPath a) (Register rs (RemoteSyncerWebhookPath n) hs))
      (RemoteSyncerWebhookPath n) = Some (NamespacedSyncer rs)"
proof -
  have inj: "xs = ys \<and> as = bs" if "xs @ ''/'' @ as = ys @ ''/'' @ bs" "CHR ''/'' \<notin> set xs" "CHR ''/'' \<notin> set ys" for xs ys as bs :: string
    using that by (induction xs arbitrary: ys) (case_tac ys; auto)+
  have "(RemoteSyncerWebhookPath n = RemoteSyncerWebhookPath n') = (n = n')"
    using inj [of "NsnNamespace n" "NsnName n" "NsnNamespace n'" "NsnName n'"] assms
    by (auto simp: RemoteSyncerWebhookPath_def intro: NamespacedName.equality)
  moreover have "RemoteSyncerWebhookPath n \<noteq> ClusterWideRemoteSyncerWebhookPath a"
    by (simp add: RemoteSyncerWebhookPath_def ClusterWideRemoteSyncerWebhookPath_def)
  ultimately show ?thesis
    by (simp add: handlerFor_def RegisterClusterWide_def Register_def register_def Unregister_def alist_set_def
        ClusterWideRemoteSyncerWebhookPath_def [of a] ClusterWideRemoteSyncerWebhookPath_def [of b])
qed

subsection \<open>An interception\<close>

definition demo_cluster_env :: "RemoteUserBinding list \<Rightarrow> string \<Rightarrow> ((string \<times> string) list, unit, unit, unit, unit) interceptor_env" where
  "demo_cluster_env rubs url = \<lparr>PusherEnv = quiet_env (demo_cluster rubs url) (), KubeClient = demo_cluster rubs url,
     ParseURL = (\<lambda>u. Inr (if u = ''up'' then ''git'' else hd (Split u ''/''))), ApiCodec = plain_codec, Now = 7,
     ManagerNs = ''syngit'', CredentialsOrd = (\<lambda>_ _. 0)\<rparr>"

definition demo_request :: AdmissionRequest where
  "demo_request = \<lparr>AdmUID = ''1'', AdmResource = \<lparr>Group = '''', Version = ''v1'', Resource = ''configmaps''\<rparr>,
     AdmRequestResource = \<lparr>Group = '''', Version = ''v1'', Resource = ''configmaps''\<rparr>, AdmName = ''cm'', AdmNamespace = ''team'',
     AdmOperation = ''CREATE'', AdmUserInfo = demo_author ''ann'', AdmObjectRaw = ''data'', AdmOldObjectRaw = ''''\<rparr>"

definition demo_apply :: SyncerContext where
  "demo_apply = demo_syncer\<lparr>ScSpec := (ScSpec demo_syncer)\<lparr>Strategy := CommitApply\<rparr>\<rparr>"

abbreviation demo_ienv :: "((string \<times> string) list, unit, unit, unit, unit) interceptor_env" where
  "demo_ienv \<equiv> demo_cluster_env [demo_binding] ''git/x''"

text \<open>The change of a bound author ends in the layout's file and is let through.\<close>

lemma demo_interception:
  "(case RunInterceptionPipeline demo_ienv demo_request demo_apply ((), quiet_state 2 []) of
     None \<Rightarrow> False | Some (rv, w, ps) \<Rightarrow> RevAllowed rv \<and> PsGit ps = [(''team/v1/configmaps/cm.yaml'', ''data'')])"
  by code_simp

lemma demo_not_bypassing: "\<not> bypasses demo_request demo_apply"
  unfolding bypasses_def by code_simp

theorem interception_allows_only_pushed_changes_witness:
  "\<exists>host m ps. GetUserInfoRemoteTargetsAssociation (ParseURL demo_ienv) (KubeClient demo_ienv) ()
     (AdmUserInfo demo_request) host demo_apply = Inr m \<and> PsGit ps = [(''team/v1/configmaps/cm.yaml'', ''data'')] \<and>
     (terminating demo_ienv demo_request \<or> all_pushed demo_ienv demo_request demo_apply host m () (quiet_state 2 []) ps)"
proof -
  obtain rv ps where run: "RunInterceptionPipeline demo_ienv demo_request demo_apply ((), quiet_state 2 []) = Some (rv, (), ps)"
    and ok: "RevAllowed rv" and git: "PsGit ps = [(''team/v1/configmaps/cm.yaml'', ''data'')]"
    using demo_interception by (auto split: option.splits)
  have block: "DefaultPushErrorBehavior (ScSpec demo_apply) \<noteq> Pass" by code_simp
  show ?thesis
    using interception_allows_only_pushed_changes [OF run ok] demo_not_bypassing block git by blast
qed

definition demo_far :: SyncerContext where
  \<comment> \<open>A syncer of another namespace than the user and the target it references.\<close>
  "demo_far = demo_apply\<lparr>RefOwnerNamespace := ''home''\<rparr>"

definition demo_denied :: "((string \<times> string) list, unit, unit, unit, unit) interceptor_env" where
  "demo_denied = demo_ienv\<lparr>KubeClient := flat_client (\<lambda>_ _. False)\<rparr>"

definition demo_far_refs :: "ObjectRef list" where
  "demo_far_refs = (case RemoteSyncerRefs (ScSpec demo_far) (RefOwnerNamespace demo_far) of Inl _ \<Rightarrow> [] | Inr refs \<Rightarrow> refs)"

theorem unreadable_reference_blocks_the_change_witness:
  "\<exists>rv w'. RunInterceptionPipeline demo_denied demo_request demo_far ((), quiet_state 2 []) = Some (rv, w', quiet_state 2 []) \<and>
     \<not> RevAllowed rv"
proof (rule unreadable_reference_blocks_the_change [where ref = "hd demo_far_refs"])
  show "\<not> bypasses demo_request demo_far" unfolding bypasses_def by code_simp
  show "RemoteSyncerRefs (ScSpec demo_far) (RefOwnerNamespace demo_far) = Inr demo_far_refs" by code_simp
  show "hd demo_far_refs \<in> set demo_far_refs" by code_simp
  show "OrNamespace (hd demo_far_refs) \<noteq> RefOwnerNamespace demo_far" by code_simp
  show "OrNamespace (hd demo_far_refs) \<noteq> ManagerNs demo_denied" by code_simp
  show "AccessReview (KubeClient demo_denied) () (reviewed_as (AdmUserInfo demo_request)) (get_attrs (hd demo_far_refs)) \<noteq> Inr True"
    by (simp add: demo_denied_def flat_client_def)
qed

theorem webhook_paths_keep_syncers_apart_witness:
  "RemoteSyncerWebhookPath (nsn ''a'' ''b'') \<noteq> RemoteSyncerWebhookPath (nsn ''b'' ''b'') \<and>
   ClusterWideRemoteSyncerWebhookPath ''a'' \<noteq> ClusterWideRemoteSyncerWebhookPath ''b''"
  using webhook_paths_keep_syncers_apart [of "nsn ''a'' ''b''" "nsn ''b'' ''b''" "''a''" "''b''"] by (simp add: nsn_def)

end
