(* ===== verification/Controllers.thy ===== *)
theory Controllers
  imports Policies Dynamic_Webhook Interceptor_Pipeline
begin

text \<open>
  The controllers (\<open>internal/controller\<close>): what each does with a request to reconcile one object, and
  which requests a change of another object causes.

  A request is the name of an object.  The controllers of the two syncer kinds change the cluster and
  the handlers of the interception server; \<open>now\<close> is the time of the call, \<open>showUser\<close> prints a user in an
  error text.  Events and logs are left out.  The indexed lists of the client library return
  the objects whose index values hold the key.
\<close>

subsection \<open>The syncer controllers\<close>

record 'w controller_env =
  CtlClient :: "'w client"
  CtlWebhooks :: "('w, ValidatingWebhookConfiguration) kind_api"
  CtlManager :: dynamicWebhookManager
  CtlReadFile :: "string \<Rightarrow> go_error + string"
  CtlUrlPath :: "string \<Rightarrow> go_error + string"
  CtlOrder :: "nat \<Rightarrow> string \<Rightarrow> nat"
  CtlShowUser :: "UserInfo \<Rightarrow> string"

definition webhook_condition :: "int \<Rightarrow> go_error option \<Rightarrow> (UserInfo \<Rightarrow> string) \<Rightarrow> Condition" where
  "webhook_condition now err showUser = (case err of
     Some e \<Rightarrow> \<lparr>CondType = ''WebhookReconciled'', CondStatus = ''False'', ObservedGeneration = 0, LastTransitionTime = now,
       Reason = ''WebhookNotUpdated'', Message = ''The dynamic webhook has not been updated: '' @ Error showUser e\<rparr>
   | None \<Rightarrow> \<lparr>CondType = ''WebhookReconciled'', CondStatus = ''True'', ObservedGeneration = 0, LastTransitionTime = now,
       Reason = ''WebhookUpdated'', Message = ''The resources have been successfully assigned to the webhook''\<rparr>)"

definition updateStatus :: "('w, ('s, RemoteSyncerStatus) kobj) kind_api \<Rightarrow> ('s, RemoteSyncerStatus) kobj \<Rightarrow> Condition \<Rightarrow> 'w
    \<Rightarrow> api_error option \<times> 'w" where
  "updateStatus api syncer condition w =
     kstatus api (syncer\<lparr>Status := (Status syncer)\<lparr>SyncerConditions := SetCondition (SyncerConditions (Status syncer)) condition\<rparr>\<rparr>) w"

definition no_syncer :: RemoteSyncer where
  "no_syncer = \<lparr>Meta = no_meta, Spec = no_syncer_spec, Status = no_syncer_status\<rparr>"

definition no_cluster_syncer :: ClusterWideRemoteSyncer where
  "no_cluster_syncer = \<lparr>Meta = no_meta, Spec = \<lparr>InlineSpec = no_syncer_spec, NamespaceSelector = None, IdentityStoreNamespace = ''''\<rparr>,
     Status = no_syncer_status\<rparr>"

definition entry_name :: "NamespacedName \<Rightarrow> string" where
  "entry_name req = NsnName req @ ''.'' @ NsnNamespace req @ ''.syngit.io''"

definition syncer_entry :: "NamespacedName \<Rightarrow> RemoteSyncer \<Rightarrow> dynamicWebhookEntry" where
  "syncer_entry req remoteSyncer =
     \<lparr>entryName = entry_name req, entryPath = RemoteSyncerWebhookPath req,
      entryRules = Rules (ScopedRes (Spec remoteSyncer)),
      entryNamespaceSelector = Some \<lparr>MatchLabels = [(''kubernetes.io/metadata.name'', NsnNamespace req)], MatchExpressions = []\<rparr>,
      entryObjectSelector = ScopedObjectSelector (ScopedRes (Spec remoteSyncer))\<rparr>"

definition cluster_syncer_entry :: "NamespacedName \<Rightarrow> ClusterWideRemoteSyncer \<Rightarrow> dynamicWebhookEntry" where
  "cluster_syncer_entry req cwrs =
     \<lparr>entryName = NsnName req @ ''.clusterwide.syngit.io'', entryPath = ClusterWideRemoteSyncerWebhookPath (NsnName req),
      entryRules = Rules (ScopedRes (InlineSpec (Spec cwrs))),
      entryNamespaceSelector = NamespaceSelector (Spec cwrs),
      entryObjectSelector = ScopedObjectSelector (ScopedRes (InlineSpec (Spec cwrs)))\<rparr>"

definition reconcile_entry :: "'w controller_env \<Rightarrow> ('w, ('s, RemoteSyncerStatus) kobj) kind_api \<Rightarrow> int \<Rightarrow> ('s, RemoteSyncerStatus) kobj
    \<Rightarrow> dynamicWebhookEntry \<Rightarrow> bool \<Rightarrow> 'w \<Rightarrow> go_error option \<times> 'w" where
  \<comment> \<open>What both controllers do once the entry is known.\<close>
  "reconcile_entry env api now syncer e isDeleted w =
     (case upsert (CtlReadFile env) (CtlWebhooks env) (CtlManager env) e isDeleted w of
        (Some err, w1) \<Rightarrow> (Some err, snd (updateStatus api syncer (webhook_condition now (Some err) (CtlShowUser env)) w1))
      | (None, w1) \<Rightarrow>
          if isDeleted then (None, w1)
          else (None, snd (updateStatus api syncer (webhook_condition now None (CtlShowUser env)) w1)))"

definition reconcileWebhook :: "'w controller_env \<Rightarrow> int \<Rightarrow> NamespacedName \<Rightarrow> pathHandlers \<Rightarrow> 'w
    \<Rightarrow> go_error option \<times> pathHandlers \<times> 'w" where
  "reconcileWebhook env now req hs w =
     (let webhookPath = RemoteSyncerWebhookPath req;
          (isDeleted, remoteSyncer, hs1) = (case kget (RemoteSyncers (CtlClient env)) w req of
             Inl _ \<Rightarrow> (True, no_syncer, Unregister webhookPath hs)
           | Inr rs \<Rightarrow> (False, rs, Register rs webhookPath hs));
          (err, w1) = reconcile_entry env (RemoteSyncers (CtlClient env)) now remoteSyncer (syncer_entry req remoteSyncer) isDeleted w
      in (err, hs1, w1))"

definition reconcileWebhook_cluster :: "'w controller_env \<Rightarrow> int \<Rightarrow> NamespacedName \<Rightarrow> pathHandlers \<Rightarrow> 'w
    \<Rightarrow> go_error option \<times> pathHandlers \<times> 'w" where
  "reconcileWebhook_cluster env now req hs w =
     (let webhookPath = ClusterWideRemoteSyncerWebhookPath (NsnName req);
          (isDeleted, cwrs, hs1) = (case kget (ClusterWideRemoteSyncers (CtlClient env)) w req of
             Inl _ \<Rightarrow> (True, no_cluster_syncer, Unregister webhookPath hs)
           | Inr cwrs \<Rightarrow> (False, cwrs, RegisterClusterWide cwrs webhookPath hs));
          (err, w1) = reconcile_entry env (ClusterWideRemoteSyncers (CtlClient env)) now cwrs (cluster_syncer_entry req cwrs) isDeleted w
      in (err, hs1, w1))"

definition with_finalizers :: "string list \<Rightarrow> ('s, 't) kobj \<Rightarrow> ('s, 't) kobj" where
  "with_finalizers fins x = x\<lparr>Meta := (Meta x)\<lparr>Finalizers := fins\<rparr>\<rparr>"

definition syncer_ops :: "'w client \<Rightarrow> ('w, Syncer) object_ops" where
  "syncer_ops c = \<lparr>ObjMeta = SyncerMeta,
     WithFinalizers = (\<lambda>fins s. case s of NamespacedSyncer x \<Rightarrow> NamespacedSyncer (with_finalizers fins x)
       | ClusterSyncer x \<Rightarrow> ClusterSyncer (with_finalizers fins x)),
     Refresh = (\<lambda>w s. case s of NamespacedSyncer x \<Rightarrow> map_sum id NamespacedSyncer (kget (RemoteSyncers c) w (key_of x))
       | ClusterSyncer x \<Rightarrow> map_sum id ClusterSyncer (kget (ClusterWideRemoteSyncers c) w (key_of x))),
     Update = (\<lambda>s w. case s of NamespacedSyncer x \<Rightarrow> kupdate (RemoteSyncers c) x w
       | ClusterSyncer x \<Rightarrow> kupdate (ClusterWideRemoteSyncers c) x w)\<rparr>"

definition syncer_policies :: "'w controller_env \<Rightarrow> ('w, Syncer) policy list" where
  "syncer_policies env = [BranchTargetPolicy (CtlUrlPath env) (CtlOrder env) (CtlClient env),
     UserSpecificPolicy (CtlUrlPath env) (CtlOrder env) (CtlClient env)]"

definition err_list :: "go_error option \<Rightarrow> go_error list" where
  "err_list e = (case e of None \<Rightarrow> [] | Some x \<Rightarrow> [x])"

definition run_syncer_policies :: "'w controller_env \<Rightarrow> (nat \<Rightarrow> int) \<Rightarrow> go_error option \<Rightarrow> Syncer \<Rightarrow> 'w \<Rightarrow> (int \<times> go_error list) \<times> 'w" where
  "run_syncer_policies env rdm coreErr syncer w =
     (case RunPolicies (syncer_ops (CtlClient env)) rdm (syncer_policies env) syncer w of
        ((polResult, polErrs), _, w1) \<Rightarrow> ((MergeResults 0 polResult, err_list coreErr @ polErrs), w1))"

definition RemoteSyncer_Reconcile :: "'w controller_env \<Rightarrow> int \<Rightarrow> (nat \<Rightarrow> int) \<Rightarrow> NamespacedName \<Rightarrow> pathHandlers \<Rightarrow> 'w
    \<Rightarrow> (int \<times> go_error list) \<times> pathHandlers \<times> 'w" where
  "RemoteSyncer_Reconcile env now rdm req hs w =
     (case reconcileWebhook env now req hs w of
        (coreErr, hs1, w1) \<Rightarrow>
          (case kget (RemoteSyncers (CtlClient env)) w1 req of
             Inl _ \<Rightarrow> ((0, err_list coreErr), hs1, w1)
           | Inr remoteSyncer \<Rightarrow>
               (case run_syncer_policies env rdm coreErr (NamespacedSyncer remoteSyncer) w1 of
                  (res, w2) \<Rightarrow> (res, hs1, w2))))"

definition ClusterWideRemoteSyncer_Reconcile :: "'w controller_env \<Rightarrow> int \<Rightarrow> (nat \<Rightarrow> int) \<Rightarrow> NamespacedName \<Rightarrow> pathHandlers \<Rightarrow> 'w
    \<Rightarrow> (int \<times> go_error list) \<times> pathHandlers \<times> 'w" where
  "ClusterWideRemoteSyncer_Reconcile env now rdm req hs w =
     (case reconcileWebhook_cluster env now req hs w of
        (coreErr, hs1, w1) \<Rightarrow>
          (case kget (ClusterWideRemoteSyncers (CtlClient env)) w1 req of
             Inl _ \<Rightarrow> ((0, err_list coreErr), hs1, w1)
           | Inr cwrs \<Rightarrow>
               (case run_syncer_policies env rdm coreErr (ClusterSyncer cwrs) w1 of
                  (res, w2) \<Rightarrow> (res, hs1, w2))))"

text \<open>Which requests a change of the shared configuration or of a binding causes; a failed list causes none.\<close>

definition requests :: "('s, 't) kobj list \<Rightarrow> NamespacedName list" where
  "requests xs = map key_of xs"

definition cluster_requests :: "('s, 't) kobj list \<Rightarrow> NamespacedName list" where
  "cluster_requests xs = map (\<lambda>x. nsn '''' (Name (Meta x))) xs"

definition findObjectsForDynamicWebhook :: "'w client \<Rightarrow> 'w \<Rightarrow> NamespacedName list" where
  "findObjectsForDynamicWebhook c w = (case klist (RemoteSyncers c) w '''' None of Inl _ \<Rightarrow> [] | Inr rss \<Rightarrow> requests rss)"

definition findObjectsForDynamicWebhook_cluster :: "'w client \<Rightarrow> 'w \<Rightarrow> NamespacedName list" where
  "findObjectsForDynamicWebhook_cluster c w =
     (case klist (ClusterWideRemoteSyncers c) w '''' None of Inl _ \<Rightarrow> [] | Inr cwrss \<Rightarrow> cluster_requests cwrss)"

definition is_managed :: "('s, 't) kobj \<Rightarrow> bool" where
  "is_managed x \<longleftrightarrow> alist_get (Labels (Meta x)) ManagedByLabelKey = ManagedByLabelValue"

definition findRemoteSyncersForRUB :: "'w client \<Rightarrow> RemoteUserBinding \<Rightarrow> 'w \<Rightarrow> NamespacedName list" where
  "findRemoteSyncersForRUB c rub w =
     (if \<not> is_managed rub then []
      else case klist (RemoteSyncers c) w (Namespace (Meta rub)) None of
        Inl _ \<Rightarrow> []
      | Inr rss \<Rightarrow> requests (filter (\<lambda>rs. alist_get (Annotations (Meta rs)) RtAnnotationKeyUserSpecific \<noteq> '''') rss))"

definition findSyncersForRUB :: "'w client \<Rightarrow> RemoteUserBinding \<Rightarrow> 'w \<Rightarrow> NamespacedName list" where
  "findSyncersForRUB c rub w =
     (if \<not> is_managed rub then []
      else case klist (ClusterWideRemoteSyncers c) w '''' None of
        Inl _ \<Rightarrow> []
      | Inr cwrss \<Rightarrow> cluster_requests (filter (\<lambda>cwrs. IdentityStoreNamespace (Spec cwrs) = Namespace (Meta rub) \<and>
          alist_get (Annotations (Meta cwrs)) RtAnnotationKeyUserSpecific \<noteq> '''') cwrss))"

definition webhookNamePredicate :: "string \<Rightarrow> ValidatingWebhookConfiguration \<Rightarrow> bool" where
  "webhookNamePredicate name configuration \<longleftrightarrow> Name (Meta configuration) = name"

subsection \<open>The remote user controller\<close>

definition SecretFound :: string where "SecretFound = ''Secret found''"
definition secretBoundConditionType :: string where "secretBoundConditionType = ''SecretBound''"
definition SecretTypeBasicAuth :: string where "SecretTypeBasicAuth = ''kubernetes.io/basic-auth''"

definition updateUserStatus :: "'w client \<Rightarrow> RemoteUser \<Rightarrow> Condition \<Rightarrow> 'w \<Rightarrow> RemoteUser \<times> 'w" where
  \<comment> \<open>The object in memory keeps its new status whether the write succeeds or not.\<close>
  "updateUserStatus c remoteUser condition w =
     (let u = remoteUser\<lparr>Status := (Status remoteUser)\<lparr>UserConditions := SetCondition (UserConditions (Status remoteUser)) condition\<rparr>\<rparr>
      in (u, snd (kstatus (RemoteUsers c) u w)))"

definition secret_condition :: "int \<Rightarrow> string \<Rightarrow> string \<Rightarrow> string \<Rightarrow> Condition" where
  "secret_condition now status reason message = \<lparr>CondType = secretBoundConditionType, CondStatus = status, ObservedGeneration = 0,
     LastTransitionTime = now, Reason = reason, Message = message\<rparr>"

definition set_bound :: "string \<Rightarrow> RemoteUser \<Rightarrow> RemoteUser" where
  "set_bound s u = u\<lparr>Status := (Status u)\<lparr>SecretBoundStatus := s\<rparr>\<rparr>"

definition clear_connexion :: "RemoteUser \<Rightarrow> RemoteUser" where
  "clear_connexion u = u\<lparr>Status := (Status u)\<lparr>ConnexionStatus := (ConnexionStatus (Status u))\<lparr>ConnStatus := ''''\<rparr>\<rparr>\<rparr>"

definition reconcileSecretStatus :: "'w controller_env \<Rightarrow> int \<Rightarrow> RemoteUser \<Rightarrow> 'w \<Rightarrow> RemoteUser \<times> 'w" where
  "reconcileSecretStatus env now remoteUser w =
     (let c = CtlClient env; ref = SecretRef (Spec remoteUser) in
      case ResolveNamespace (SecNamespace ref) (Namespace (Meta remoteUser)) ''spec.secretRef'' of
        Inl err \<Rightarrow> updateUserStatus c (clear_connexion (set_bound SecretNotFound remoteUser))
          (secret_condition now ''False'' ''SecretNotFound'' (Error (CtlShowUser env) err)) w
      | Inr secretNamespace \<Rightarrow>
          (case kget (Secrets c) w (nsn secretNamespace (SecName ref)) of
             Inl _ \<Rightarrow> updateUserStatus c (clear_connexion (set_bound SecretNotFound remoteUser))
               (secret_condition now ''False'' ''SecretNotFound'' SecretNotFound) w
           | Inr secret \<Rightarrow>
               if SecretType secret \<noteq> SecretTypeBasicAuth
               then updateUserStatus c (set_bound SecretWrongType remoteUser)
                 (secret_condition now ''False'' ''SecretWrongType'' SecretWrongType) w
               else updateUserStatus c (set_bound SecretBound remoteUser)
                 (secret_condition now ''True'' ''SecretBound'' SecretBound) w))"

definition user_ops :: "'w client \<Rightarrow> ('w, RemoteUser) object_ops" where
  "user_ops c = \<lparr>ObjMeta = Meta, WithFinalizers = with_finalizers, Refresh = (\<lambda>w u. kget (RemoteUsers c) w (key_of u)),
     Update = kupdate (RemoteUsers c)\<rparr>"

definition RemoteUser_Reconcile :: "'w controller_env \<Rightarrow> int \<Rightarrow> (nat \<Rightarrow> int) \<Rightarrow> NamespacedName \<Rightarrow> 'w \<Rightarrow> (int \<times> go_error list) \<times> 'w" where
  "RemoteUser_Reconcile env now rdm req w =
     (case kget (RemoteUsers (CtlClient env)) w req of
        Inl NotFound \<Rightarrow> ((0, []), w)
      | Inl err \<Rightarrow> ((0, [ApiError err]), w)
      | Inr remoteUser \<Rightarrow>
          (case (if DeletionTimestamp (Meta remoteUser) = None then reconcileSecretStatus env now remoteUser w else (remoteUser, w)) of
             (u, w1) \<Rightarrow>
               (case RunPolicies (user_ops (CtlClient env)) rdm [AssociationPolicy (CtlClient env)] u w1 of
                  (res, _, w2) \<Rightarrow> (res, w2))))"

definition remoteUserValueExtractor :: "RemoteUser \<Rightarrow> string list" where
  "remoteUserValueExtractor u =
     (let ref = SecretRef (Spec u) in
      if SecName ref = '''' then []
      else case ResolveNamespace (SecNamespace ref) (Namespace (Meta u)) ''spec.secretRef'' of
        Inl _ \<Rightarrow> []
      | Inr namespace \<Rightarrow> [namespace @ ''/'' @ SecName ref])"

definition indexed_list :: "('w, 'a) kind_api \<Rightarrow> ('a \<Rightarrow> string list) \<Rightarrow> 'w \<Rightarrow> string \<Rightarrow> api_error + 'a list" where
  "indexed_list api extract w key = map_sum id (filter (\<lambda>x. key \<in> set (extract x))) (klist api w '''' None)"

definition findObjectsForSecret :: "'w client \<Rightarrow> NamespacedName \<Rightarrow> 'w \<Rightarrow> NamespacedName list" where
  "findObjectsForSecret c secret w =
     (case indexed_list (RemoteUsers c) remoteUserValueExtractor w (NsnNamespace secret @ ''/'' @ NsnName secret) of
        Inl _ \<Rightarrow> [] | Inr us \<Rightarrow> requests us)"

definition findRemoteUsersForRemoteTarget :: "'w client \<Rightarrow> RemoteTarget \<Rightarrow> 'w \<Rightarrow> NamespacedName list" where
  "findRemoteUsersForRemoteTarget c rt w =
     (if alist_get (Labels (Meta rt)) RtLabelKeyPolicy \<noteq> RtLabelValueOneOrManyBranches then []
      else case klist (RemoteUsers c) w (Namespace (Meta rt)) None of
        Inl _ \<Rightarrow> []
      | Inr us \<Rightarrow> requests (filter (\<lambda>u. alist_get (Annotations (Meta u)) RubAnnotationKeyManaged = ''true'') us))"

subsection \<open>The binding controller\<close>

definition find_user :: "'w client \<Rightarrow> 'w \<Rightarrow> RemoteUserBinding \<Rightarrow> nat \<Rightarrow> ObjectReference \<Rightarrow> RemoteUser option" where
  \<comment> \<open>The remote user of the reference at an index, \<open>None\<close> on any error.\<close>
  "find_user c w rub i ref =
     (case ResolveNamespace (RefNamespace ref) (Namespace (Meta rub)) (index_path ''spec.remoteUserRefs'' i) of
        Inl _ \<Rightarrow> None
      | Inr namespace \<Rightarrow> (case kget (RemoteUsers c) w (nsn namespace (RefName ref)) of Inl _ \<Rightarrow> None | Inr u \<Rightarrow> Some u))"

definition user_host :: "ObjectReference \<Rightarrow> RemoteUser option \<Rightarrow> RemoteUserHost" where
  "user_host ref found = (case found of
     None \<Rightarrow> \<lparr>RemoteUserUsed = RefName ref, HostSecretRef = no_secret_ref, GitFQDN = '''', HostState = NotBound\<rparr>
   | Some u \<Rightarrow> \<lparr>RemoteUserUsed = RefName ref,
       HostSecretRef = (let s = SecretRef (Spec u) in if SecNamespace s = '''' then s\<lparr>SecNamespace := Namespace (Meta u)\<rparr> else s),
       GitFQDN = GitBaseDomainFQDN (Spec u), HostState = Bound\<rparr>)"

fun user_hosts :: "'w client \<Rightarrow> 'w \<Rightarrow> RemoteUserBinding \<Rightarrow> nat \<Rightarrow> ObjectReference list \<Rightarrow> RemoteUserHost list \<times> string list" where
  \<comment> \<open>The hosts and the names of the missing references.\<close>
  "user_hosts c w rub i [] = ([], [])"
| "user_hosts c w rub i (ref # refs) =
     (let found = find_user c w rub i ref; (hosts, missing) = user_hosts c w rub (Suc i) refs
      in (user_host ref found # hosts, if found = None then RefName ref # missing else missing))"

definition prune_refs :: "string list \<Rightarrow> RemoteUserBinding \<Rightarrow> RemoteUserBinding" where
  "prune_refs missing fresh = set_user_refs fresh (filter (\<lambda>ref. RefName ref \<notin> set missing) (RemoteUserRefs (Spec fresh)))"

definition RemoteUserBinding_Reconcile :: "'w client \<Rightarrow> NamespacedName \<Rightarrow> 'w \<Rightarrow> go_error option \<times> 'w" where
  "RemoteUserBinding_Reconcile c req w =
     (case kget (RemoteUserBindings c) w req of
        Inl NotFound \<Rightarrow> (None, w)
      | Inl err \<Rightarrow> (Some (ApiError err), w)
      | Inr rub \<Rightarrow>
          (case user_hosts c w rub 0 (RemoteUserRefs (Spec rub)) of
             (hosts, missing) \<Rightarrow>
               if is_managed rub \<and> missing \<noteq> [] then
                 (case MutateOrDeleteRemoteUserBinding c req (\<lambda>_ fresh. Inr (prune_refs missing fresh)) w of
                    (None, w1) \<Rightarrow> (None, w1)
                  | (Some NotFound, w1) \<Rightarrow> (None, w1)
                  | (Some err, w1) \<Rightarrow> (Some (ApiError err), w1))
               else (None, snd (kstatus (RemoteUserBindings c)
                 (rub\<lparr>Status := (Status rub)\<lparr>RemoteUserHosts := hosts,
                    RemoteUserState := (if missing \<noteq> [] then PartiallyBound else Bound),
                    UserKubernetesID := SubjName (RubSubject (Spec rub))\<rparr>\<rparr>) w))))"

fun ref_keys :: "RemoteUserBinding \<Rightarrow> nat \<Rightarrow> ObjectReference list \<Rightarrow> string list \<Rightarrow> string list" where
  "ref_keys rub i [] acc = acc"
| "ref_keys rub i (ref # refs) acc =
     (if RefName ref = '''' then []
      else case ResolveNamespace (RefNamespace ref) (Namespace (Meta rub)) (index_path ''spec.remoteUserRefs'' i) of
        Inl _ \<Rightarrow> ref_keys rub (Suc i) refs acc
      | Inr namespace \<Rightarrow> ref_keys rub (Suc i) refs (acc @ [namespace @ ''/'' @ RefName ref]))"

definition remoteTargetValueExtractor :: "RemoteUserBinding \<Rightarrow> string list" where
  "remoteTargetValueExtractor rub = ref_keys rub 0 (RemoteUserRefs (Spec rub)) []"

definition findObjectsForRemoteUser :: "'w client \<Rightarrow> NamespacedName \<Rightarrow> 'w \<Rightarrow> NamespacedName list" where
  "findObjectsForRemoteUser c user w =
     (case indexed_list (RemoteUserBindings c) remoteTargetValueExtractor w (NsnNamespace user @ ''/'' @ NsnName user) of
        Inl _ \<Rightarrow> [] | Inr rubs \<Rightarrow> requests rubs)"

subsection \<open>The remote target controller\<close>

definition RemoteTarget_Reconcile :: "'w client \<Rightarrow> NamespacedName \<Rightarrow> 'w \<Rightarrow> go_error option" where
  "RemoteTarget_Reconcile c req w =
     (case kget (RemoteTargets c) w req of
        Inl NotFound \<Rightarrow> None | Inl err \<Rightarrow> Some (ApiError err) | Inr _ \<Rightarrow> None)"

subsection \<open>What a reconcile leaves behind\<close>

text \<open>The webhook configurations live apart from the syncers: writing a status changes no configuration.\<close>

definition status_apart :: "('w, 'a) kind_api \<Rightarrow> ('w \<Rightarrow> NamespacedName \<Rightarrow> ValidatingWebhookConfiguration option) \<Rightarrow> bool" where
  "status_apart api wobj \<longleftrightarrow> (\<forall>x w. wobj (snd (kstatus api x w)) = wobj w)"

definition shared_entries :: "'w controller_env \<Rightarrow> ('w \<Rightarrow> NamespacedName \<Rightarrow> ValidatingWebhookConfiguration option) \<Rightarrow> 'w \<Rightarrow> ValidatingWebhook list" where
  "shared_entries env wobj w = stored_webhooks wobj (dynamicWebhookName (CtlManager env)) w"

definition calls_back :: "dynamicWebhookManager \<Rightarrow> string \<Rightarrow> WebhookClientConfig \<Rightarrow> bool" where
  \<comment> \<open>The API server is sent to the path, at the service of the manager or, in development, at the host.\<close>
  "calls_back d path cfg \<longleftrightarrow>
     (if devMode d then Service cfg = None \<and> URL cfg = Some (''https://'' @ devWebhookHost d @ '':'' @ devWebhookPort d @ path)
      else URL cfg = None \<and> Service cfg = Some \<lparr>SvcName = ''syngit-webhook-service'', SvcNamespace = managerNamespace d, SvcPath = Some path\<rparr>)"

lemma clientConfig_calls_back: "calls_back d path (fst (clientConfig d cert path))"
  by (simp add: calls_back_def clientConfig_def WebhookServiceName_def)

lemma reconcile_entry_effect:
  assumes "store_laws (CtlWebhooks env) wobj" and "status_apart api wobj"
    and "config_alive wobj (dynamicWebhookName (CtlManager env)) w"
    and "reconcile_entry env api now syncer e del w = (None, w')"
  obtains cfg where "entry_granted (entryName e) (webhook_of e cfg) del (shared_entries env wobj w')"
    and "entries_besides (entryName e) (shared_entries env wobj w') = entries_besides (entryName e) (shared_entries env wobj w)"
    and "calls_back (CtlManager env) (entryPath e) cfg"
    and "del \<or> shared_entries env wobj w' = shared_entries env wobj w \<or> entries_of (entryName e) (shared_entries env wobj w') = [webhook_of e cfg]"
proof -
  obtain r w1 where u: "upsert (CtlReadFile env) (CtlWebhooks env) (CtlManager env) e del w = (r, w1)" by fastforce
  with assms(4) have r: "r = None" by (cases r) (simp_all add: reconcile_entry_def)
  with u assms(2,4) have same: "wobj w' = wobj w1"
    by (auto simp: reconcile_entry_def updateStatus_def status_apart_def split: if_splits)
  show ?thesis
    by (rule upsert_effect [OF assms(1,3) u [unfolded r]], rule that [OF _ _ clientConfig_calls_back])
      (simp_all add: shared_entries_def stored_webhooks_def same)
qed

text \<open>
  C13. A reconcile that reports no error has brought the interception of its syncer in line.
  When the syncer could be read, its path is handled by it as read, and the shared configuration has an entry of its
  name; the last of them has the groups, versions, resources and operations of its rules in order, selects its
  namespace alone by the label the API server maintains, and selects the objects the syncer selects. When the reconcile wrote the entry, it is the only one of its
  name and calls back on the path of the syncer. When reading the syncer failed, whatever the error, its
  handler and its entries are gone.  The handlers of other paths and the entries of other names are as they were.
  An entry that was found in line already is left as it is, with the scope of its rules, its certificate and its callback.
\<close>

theorem reconcile_brings_interception_in_line:
  assumes "store_laws (CtlWebhooks env) wobj" and "status_apart (RemoteSyncers (CtlClient env)) wobj"
    and "config_alive wobj (dynamicWebhookName (CtlManager env)) w"
    and "reconcileWebhook env now req hs w = (None, hs', w')"
    and "path = ''/syngit/namespace-scoped-validate/'' @ NsnNamespace req @ ''/'' @ NsnName req"
    and "name = NsnName req @ ''.'' @ NsnNamespace req @ ''.syngit.io''"
  shows "(case kget (RemoteSyncers (CtlClient env)) w req of
       Inr rs \<Rightarrow> handlerFor hs' path = Some (NamespacedSyncer rs) \<and>
         entries_of name (shared_entries env wobj w') \<noteq> [] \<and>
         selects_as (last (entries_of name (shared_entries env wobj w'))) (Rules (ScopedRes (Spec rs)))
           (Some \<lparr>MatchLabels = [(''kubernetes.io/metadata.name'', NsnNamespace req)], MatchExpressions = []\<rparr>)
           (ScopedObjectSelector (ScopedRes (Spec rs))) \<and>
         (shared_entries env wobj w' = shared_entries env wobj w \<or>
          (\<exists>entry. entries_of name (shared_entries env wobj w') = [entry] \<and> WhRules entry = Rules (ScopedRes (Spec rs)) \<and>
             calls_back (CtlManager env) path (ClientConfig entry)))
     | Inl err \<Rightarrow> handlerFor hs' path = None \<and> entries_of name (shared_entries env wobj w') = []) \<and>
    (\<forall>other. other \<noteq> path \<longrightarrow> handlerFor hs' other = handlerFor hs other) \<and>
    entries_besides name (shared_entries env wobj w') = entries_besides name (shared_entries env wobj w)"
proof (cases "kget (RemoteSyncers (CtlClient env)) w req")
  case (Inl err)
  have path: "path = RemoteSyncerWebhookPath req" using assms(5) by (simp add: RemoteSyncerWebhookPath_def)
  from Inl assms(4) have hs: "hs' = Unregister path hs"
    and r: "reconcile_entry env (RemoteSyncers (CtlClient env)) now no_syncer (syncer_entry req no_syncer) True w = (None, w')"
    by (simp_all add: reconcileWebhook_def path split: prod.splits)
  have "entryName (syncer_entry req no_syncer) = name" by (simp add: syncer_entry_def entry_name_def assms(6))
  with reconcile_entry_effect [OF assms(1-3) r] have "entries_of name (shared_entries env wobj w') = []"
    "entries_besides name (shared_entries env wobj w') = entries_besides name (shared_entries env wobj w)"
    by (metis (full_types) entry_granted_def)+
  with Inl hs show ?thesis by (simp add: registry.look_unreg)
next
  case (Inr rs)
  have path: "path = RemoteSyncerWebhookPath req" using assms(5) by (simp add: RemoteSyncerWebhookPath_def)
  from Inr assms(4) have hs: "hs' = Register rs path hs"
    and r: "reconcile_entry env (RemoteSyncers (CtlClient env)) now rs (syncer_entry req rs) False w = (None, w')"
    by (simp_all add: reconcileWebhook_def path split: prod.splits)
  have n: "entryName (syncer_entry req rs) = name" "entryPath (syncer_entry req rs) = path"
    by (simp_all add: syncer_entry_def entry_name_def assms(6) path)
  obtain cfg where g: "entry_granted name (webhook_of (syncer_entry req rs) cfg) False (shared_entries env wobj w')"
    and o: "entries_besides name (shared_entries env wobj w') = entries_besides name (shared_entries env wobj w)"
    and call: "calls_back (CtlManager env) path cfg"
    and wrote: "shared_entries env wobj w' = shared_entries env wobj w \<or>
      entries_of name (shared_entries env wobj w') = [webhook_of (syncer_entry req rs) cfg]"
    using reconcile_entry_effect [OF assms(1-3) r] unfolding n by blast
  from g have "entries_of name (shared_entries env wobj w') \<noteq> [] \<and>
      selects_as (last (entries_of name (shared_entries env wobj w'))) (Rules (ScopedRes (Spec rs)))
        (Some \<lparr>MatchLabels = [(''kubernetes.io/metadata.name'', NsnNamespace req)], MatchExpressions = []\<rparr>) (ScopedObjectSelector (ScopedRes (Spec rs)))"
    by (simp add: entry_granted_def webhookEntryEqual_selects webhook_of_def syncer_entry_def)
  moreover from wrote call have "shared_entries env wobj w' = shared_entries env wobj w \<or>
      (\<exists>entry. entries_of name (shared_entries env wobj w') = [entry] \<and> WhRules entry = Rules (ScopedRes (Spec rs)) \<and>
         calls_back (CtlManager env) path (ClientConfig entry))"
    by (auto simp: webhook_of_def syncer_entry_def)
  ultimately show ?thesis using Inr hs o by (simp add: Register_def registry.look_reg)
qed

text \<open>
  A change of a secret reaches exactly the remote users whose status depends on it: the requests it
  causes are those of the stored users whose secret reference, with its namespace resolved as the
  reconcile resolves it, names that secret.
\<close>

theorem secret_change_reaches_its_users:
  assumes "store_laws (RemoteUsers c) uobj" and "klist (RemoteUsers c) w '''' None = Inr us"
    and "CHR ''/'' \<notin> set ns" and "SecName (SecretRef (Spec u)) \<noteq> ''''" and "uobj w (key_of u) = Some u"
    and "CHR ''/'' \<notin> set (SecNamespace (SecretRef (Spec u))) \<union> set (Namespace (Meta u))"
  shows "key_of u \<in> set (findObjectsForSecret c (nsn ns n) w) \<longleftrightarrow>
    ResolveNamespace (SecNamespace (SecretRef (Spec u))) (Namespace (Meta u)) ''spec.secretRef'' = Inr ns \<and>
    SecName (SecretRef (Spec u)) = n"
proof -
  have slash: "xs = ys \<and> as = bs" if "xs @ ''/'' @ as = ys @ ''/'' @ bs" "CHR ''/'' \<notin> set xs" "CHR ''/'' \<notin> set ys" for xs ys as bs :: string
    using that by (induction xs arbitrary: ys) (case_tac ys; auto)+
  have "key_of u \<in> set (findObjectsForSecret c (nsn ns n) w) \<longleftrightarrow>
      (\<exists>v \<in> set us. key_of v = key_of u \<and> ns @ ''/'' @ n \<in> set (remoteUserValueExtractor v))"
    using assms(2) by (auto simp: findObjectsForSecret_def indexed_list_def requests_def nsn_def image_iff)
  also have "\<dots> \<longleftrightarrow> ns @ ''/'' @ n \<in> set (remoteUserValueExtractor u)"
    using store_list [OF assms(1,2)] assms(5) by auto
  also have "\<dots> \<longleftrightarrow> ResolveNamespace (SecNamespace (SecretRef (Spec u))) (Namespace (Meta u)) ''spec.secretRef'' = Inr ns \<and>
      SecName (SecretRef (Spec u)) = n"
  proof (cases "ResolveNamespace (SecNamespace (SecretRef (Spec u))) (Namespace (Meta u)) ''spec.secretRef''")
    case (Inr m)
    with assms(6) have "CHR ''/'' \<notin> set m" by (auto simp: ResolveNamespace_def split: if_splits)
    with Inr assms(3,4) slash [of ns n m "SecName (SecretRef (Spec u))"] show ?thesis
      by (auto simp: remoteUserValueExtractor_def Let_def)
  qed (simp add: remoteUserValueExtractor_def Let_def)
  finally show ?thesis .
qed

text \<open>
  The pruning of a managed binding goes by the name of a reference alone: a reference to a user that was found is
  dropped from the binding when another reference of the same name, in whatever namespace, was not found.
\<close>

theorem pruning_drops_found_user_of_the_same_name:
  assumes "kget (RemoteUserBindings c) w req = Inr rub" and "is_managed rub"
    and "i < length (RemoteUserRefs (Spec rub))" and "find_user c w rub i (RemoteUserRefs (Spec rub) ! i) = None"
    and "j < length (RemoteUserRefs (Spec rub))" and "find_user c w rub j (RemoteUserRefs (Spec rub) ! j) = Some u"
    and "RefName (RemoteUserRefs (Spec rub) ! i) = RefName (RemoteUserRefs (Spec rub) ! j)"
    and "RemoteTargetRefs (Spec rub) \<noteq> []"
    and "key_of rub = req" and "\<forall>x. key_of x = req \<longrightarrow> fst (kupdate (RemoteUserBindings c) x w) = None"
  shows "\<exists>rub'. RemoteUserBinding_Reconcile c req w = (None, snd (kupdate (RemoteUserBindings c) rub' w)) \<and>
    Meta rub' = Meta rub \<and> RemoteUserRefs (Spec rub) ! j \<notin> set (RemoteUserRefs (Spec rub'))"
proof -
  have missing: "k < length refs \<Longrightarrow> find_user c w rub (m + k) (refs ! k) = None \<Longrightarrow>
      RefName (refs ! k) \<in> set (snd (user_hosts c w rub m refs))" for k m refs
  proof (induction refs arbitrary: k m)
    case (Cons ref refs)
    show ?case
    proof (cases k)
      case (Suc k')
      with Cons.prems Cons.IH [of k' "Suc m"] show ?thesis by (auto simp: Let_def split: prod.splits)
    qed (use Cons.prems in \<open>auto simp: Let_def split: prod.splits\<close>)
  qed simp
  obtain hosts ms where h: "user_hosts c w rub 0 (RemoteUserRefs (Spec rub)) = (hosts, ms)" by fastforce
  with missing [OF assms(3), of 0] assms(4) have m: "RefName (RemoteUserRefs (Spec rub) ! i) \<in> set ms" by simp
  let ?rub = "prune_refs ms rub"
  have r: "RemoteTargetRefs (Spec ?rub) \<noteq> []" "key_of ?rub = req" "Meta ?rub = Meta rub"
    using assms(8,9) by (simp_all add: prune_refs_def set_user_refs_def key_of_def)
  from assms(10) r(2) obtain w' where u: "kupdate (RemoteUserBindings c) ?rub w = (None, w')" by (metis prod.collapse)
  have "MutateOrDeleteRemoteUserBinding c req (\<lambda>_ fresh. Inr (prune_refs ms fresh)) w = (None, w')"
    using assms(1) r(1) u by (simp add: MutateOrDeleteRemoteUserBinding_def DefaultRetrySteps_def numeral_eq_Suc mutate_or_delete_once_def)
  with assms(1,2) h m u have "RemoteUserBinding_Reconcile c req w = (None, snd (kupdate (RemoteUserBindings c) ?rub w))"
    by (auto simp: RemoteUserBinding_Reconcile_def)
  moreover have "RemoteUserRefs (Spec rub) ! j \<notin> set (RemoteUserRefs (Spec ?rub))"
    using m assms(7) by (simp add: prune_refs_def set_user_refs_def)
  ultimately show ?thesis using r(3) by blast
qed

subsection \<open>Examples\<close>

definition demo_ctl_client :: "RemoteSyncer list \<Rightarrow> ValidatingWebhookConfiguration list client" where
  "demo_ctl_client rss = (flat_client (\<lambda>_ _. True))\<lparr>RemoteSyncers := read_api rss\<rparr>"

definition demo_ctl :: "RemoteSyncer list \<Rightarrow> ValidatingWebhookConfiguration list controller_env" where
  "demo_ctl rss = \<lparr>CtlClient = demo_ctl_client rss, CtlWebhooks = mem_api, CtlManager = loadFromEnv id,
     CtlReadFile = Inr, CtlUrlPath = Inr, CtlOrder = (\<lambda>_ _. 0), CtlShowUser = Username\<rparr>"

definition demo_config :: "ValidatingWebhook list \<Rightarrow> ValidatingWebhookConfiguration" where
  "demo_config whs = \<lparr>Meta = no_meta\<lparr>Name := ''DYNAMIC_WEBHOOK_NAME''\<rparr>, Spec = whs, Status = ()\<rparr>"

definition old_entry :: ValidatingWebhook where
  "old_entry = (demo_webhook ''x'')\<lparr>WhName := ''app.team.syngit.io''\<rparr>"

text \<open>The syncer \<open>app\<close> of \<open>team\<close> is gone, the entry of another name stays.\<close>

lemma demo_gone:
  "reconcileWebhook (demo_ctl []) 0 (nsn ''team'' ''app'') [(RemoteSyncerWebhookPath (nsn ''team'' ''app''), NamespacedSyncer no_syncer)]
     [demo_config [old_entry, demo_webhook ''other'']]
   = (None, [], [demo_config [demo_webhook ''other'']])"
  by code_simp

definition demo_named_syncer :: RemoteSyncer where
  "demo_named_syncer = no_syncer\<lparr>Meta := no_meta\<lparr>Name := ''app'', Namespace := ''team''\<rparr>\<rparr>"

lemma demo_wrote:
  "(case reconcileWebhook (demo_ctl [demo_named_syncer]) 0 (nsn ''team'' ''app'') [] [demo_config [old_entry, demo_webhook ''other'']] of
     (err, hs, w) \<Rightarrow> err = None \<and> shared_entries (demo_ctl [demo_named_syncer]) mem_obj w
       \<noteq> shared_entries (demo_ctl [demo_named_syncer]) mem_obj [demo_config [old_entry, demo_webhook ''other'']])"
  by code_simp

text \<open>A syncer that is gone loses its entry; one whose stored entry selects every namespace gets one that selects its own.\<close>

theorem reconcile_brings_interception_in_line_witness:
  "entries_of ''app.team.syngit.io'' (shared_entries (demo_ctl []) mem_obj [demo_config [demo_webhook ''other'']]) = [] \<and>
   (\<exists>hs w entry. reconcileWebhook (demo_ctl [demo_named_syncer]) 0 (nsn ''team'' ''app'') [] [demo_config [old_entry, demo_webhook ''other'']] = (None, hs, w) \<and>
      entries_of ''app.team.syngit.io'' (shared_entries (demo_ctl [demo_named_syncer]) mem_obj w) = [entry] \<and>
      calls_back (CtlManager (demo_ctl [demo_named_syncer])) ''/syngit/namespace-scoped-validate/team/app'' (ClientConfig entry))"
proof (rule conjI)
  let ?w = "[demo_config [old_entry, demo_webhook ''other'']]"
  have laws: "store_laws (CtlWebhooks (demo_ctl rss)) mem_obj" for rss by (simp add: demo_ctl_def mem_api_laws)
  have apart: "status_apart (RemoteSyncers (CtlClient (demo_ctl rss))) mem_obj" for rss
    by (simp add: status_apart_def demo_ctl_def demo_ctl_client_def read_api_def no_api_def)
  have alive: "config_alive mem_obj (dynamicWebhookName (CtlManager (demo_ctl rss))) ?w" for rss
    by (simp add: demo_ctl_def config_alive_def loadFromEnv_def mem_obj_def demo_config_def key_of_def nsn_def no_meta_def)
  have names: "''/syngit/namespace-scoped-validate/team/app'' = ''/syngit/namespace-scoped-validate/'' @ NsnNamespace (nsn ''team'' ''app'') @ ''/'' @ NsnName (nsn ''team'' ''app'')"
    "''app.team.syngit.io'' = NsnName (nsn ''team'' ''app'') @ ''.'' @ NsnNamespace (nsn ''team'' ''app'') @ ''.syngit.io''"
    by (simp_all add: nsn_def)
  have gone: "kget (RemoteSyncers (CtlClient (demo_ctl []))) ?w (nsn ''team'' ''app'') = Inl NotFound"
    by (simp add: demo_ctl_def demo_ctl_client_def read_api_def)
  show "entries_of ''app.team.syngit.io'' (shared_entries (demo_ctl []) mem_obj [demo_config [demo_webhook ''other'']]) = []"
    using reconcile_brings_interception_in_line [OF laws apart alive demo_gone names] by (simp add: gone)
  obtain hs w where run: "reconcileWebhook (demo_ctl [demo_named_syncer]) 0 (nsn ''team'' ''app'') [] ?w = (None, hs, w)"
    and new: "shared_entries (demo_ctl [demo_named_syncer]) mem_obj w \<noteq> shared_entries (demo_ctl [demo_named_syncer]) mem_obj ?w"
    using demo_wrote by (auto split: prod.splits)
  have "kget (RemoteSyncers (CtlClient (demo_ctl [demo_named_syncer]))) ?w (nsn ''team'' ''app'') = Inr demo_named_syncer" by code_simp
  with reconcile_brings_interception_in_line [OF laws apart alive run names] new run
  show "\<exists>hs w entry. reconcileWebhook (demo_ctl [demo_named_syncer]) 0 (nsn ''team'' ''app'') [] ?w = (None, hs, w) \<and>
      entries_of ''app.team.syngit.io'' (shared_entries (demo_ctl [demo_named_syncer]) mem_obj w) = [entry] \<and>
      calls_back (CtlManager (demo_ctl [demo_named_syncer])) ''/syngit/namespace-scoped-validate/team/app'' (ClientConfig entry)"
    by auto
qed

definition demo_secret_user :: RemoteUser where
  "demo_secret_user = \<lparr>Meta = no_meta\<lparr>Name := ''u'', Namespace := ''team''\<rparr>,
     Spec = \<lparr>SecretRef = \<lparr>SecName = ''token'', SecNamespace = ''''\<rparr>, Email = '''', GitBaseDomainFQDN = ''git.example''\<rparr>,
     Status = no_user_status\<rparr>"

definition demo_users_client :: "RemoteUserBinding list client" where
  "demo_users_client = (flat_client (\<lambda>_ _. True))\<lparr>RemoteUsers := read_api [demo_secret_user], RemoteUserBindings := mem_api\<rparr>"

theorem secret_change_reaches_its_users_witness:
  "nsn ''team'' ''u'' \<in> set (findObjectsForSecret demo_users_client (nsn ''team'' ''token'') [])"
proof -
  have laws: "store_laws (RemoteUsers demo_users_client) (stored_in [demo_secret_user])"
    by (simp add: demo_users_client_def read_api_laws)
  have l: "klist (RemoteUsers demo_users_client) [] '''' None = Inr [demo_secret_user]"
    by (simp add: demo_users_client_def read_api_def)
  have k: "key_of demo_secret_user = nsn ''team'' ''u''" by (simp add: key_of_def demo_secret_user_def)
  have s: "stored_in [demo_secret_user] [] (key_of demo_secret_user) = Some demo_secret_user" by (simp add: stored_in_def)
  show ?thesis
    using secret_change_reaches_its_users [OF laws l _ _ s, of "''team''" "''token''"]
    by (simp add: key_of_def demo_secret_user_def ResolveNamespace_def no_meta_def)
qed

definition demo_shared_name :: RemoteUserBinding where
  "demo_shared_name = \<lparr>Meta = no_meta\<lparr>Name := ''b'', Namespace := ''team'', Labels := [(ManagedByLabelKey, ManagedByLabelValue)]\<rparr>,
     Spec = \<lparr>RubSubject = no_subject, RemoteUserRefs = [(name_ref ''u'')\<lparr>RefNamespace := ''old''\<rparr>, name_ref ''u''],
       RemoteTargetRefs = [name_ref ''t'']\<rparr>, Status = no_rub_status\<rparr>"

theorem pruning_drops_found_user_of_the_same_name_witness:
  "\<exists>rub'. RemoteUserBinding_Reconcile demo_users_client (nsn ''team'' ''b'') [demo_shared_name] =
      (None, snd (kupdate (RemoteUserBindings demo_users_client) rub' [demo_shared_name])) \<and>
    Meta rub' = Meta demo_shared_name \<and> name_ref ''u'' \<notin> set (RemoteUserRefs (Spec rub'))"
proof -
  let ?refs = "RemoteUserRefs (Spec demo_shared_name)"
  have get: "kget (RemoteUserBindings demo_users_client) [demo_shared_name] (nsn ''team'' ''b'') = Inr demo_shared_name" by code_simp
  have m: "is_managed demo_shared_name" by code_simp
  have none: "find_user demo_users_client [demo_shared_name] demo_shared_name 0 (?refs ! 0) = None" by code_simp
  have some: "find_user demo_users_client [demo_shared_name] demo_shared_name 1 (?refs ! 1) = Some demo_secret_user" by code_simp
  have k: "key_of demo_shared_name = nsn ''team'' ''b''" by code_simp
  have up: "\<forall>x. key_of x = nsn ''team'' ''b'' \<longrightarrow> fst (kupdate (RemoteUserBindings demo_users_client) x [demo_shared_name]) = None"
    using k by (simp add: demo_users_client_def mem_api_calls mem_obj_def)
  show ?thesis
    using pruning_drops_found_user_of_the_same_name [OF get m _ none _ some _ _ k up] by (simp add: demo_shared_name_def name_ref_def)
qed

end
