(* ===== verification/Admission.thy ===== *)
theory Admission
  imports Refs_Rbac
begin

text \<open>
  The permission webhooks of \<open>internal/webhook/v1beta5\<close>: who may create or change a syncer, a
  remote user or a remote user binding.

  The decoder of the admission library is part of the request: \<open>ReqObject\<close> and
  \<open>ReqOldObject\<close> are what decoding the raw objects gives.  \<open>u\<close> is how \<open>fmt\<close> prints a user.
\<close>

subsection \<open>Requests and responses\<close>

datatype 'o response =
  Allowed string
| Denied string
| Errored nat go_error
| Patched 'o

record 'o request =
  ReqOperation :: string
  ReqUser :: UserInfo
  ReqObject :: "go_error + 'o"
  ReqOldObject :: "go_error + 'o"

definition DecodeObject :: "'o request \<Rightarrow> go_error + 'o" where
  "DecodeObject req = (if ReqOperation req \<noteq> ''DELETE'' then ReqObject req else ReqOldObject req)"

fun allowed :: "'o response \<Rightarrow> bool" where
  "allowed (Allowed _) = True"
| "allowed (Denied _) = False"
| "allowed (Errored _ _) = False"
| "allowed (Patched _) = True"

subsection \<open>Helpers\<close>

definition doesUserBypassWebhook :: "UserInfo \<Rightarrow> string \<Rightarrow> bool" where
  "doesUserBypassWebhook user managerNs \<longleftrightarrow>
     ''system:masters'' \<in> set (Groups user) \<or>
     HasPrefix (Username user) (''system:serviceaccount:'' @ managerNs)"

definition denyRef :: "(UserInfo \<Rightarrow> string) \<Rightarrow> UserInfo \<Rightarrow> ObjectRef \<Rightarrow> string \<Rightarrow> go_error \<Rightarrow> 'o response" where
  "denyRef u user denied owner sameNamespaceErr =
     (if OrNamespace denied \<noteq> owner
      then Denied (Error u (CrossNamespaceRefDenied user (FieldPath denied) (OrResource denied)
             (OrNamespace denied) (OrName denied)))
      else Denied (Error u sameNamespaceErr))"

definition isInvalidCombinationError :: "(UserInfo \<Rightarrow> string) \<Rightarrow> go_error \<Rightarrow> bool" where
  "isInvalidCombinationError u err \<longleftrightarrow>
     Contains (Error u err) ''no matches for kind'' \<or>
     Contains (Error u err) ''could not find the requested resource''"

definition verb_attrs :: "string \<Rightarrow> string \<Rightarrow> string \<Rightarrow> string \<Rightarrow> string \<Rightarrow> ResourceAttributes" where
  "verb_attrs namespace verb grp version resource =
     \<lparr>AttrNamespace = namespace, AttrVerb = verb, AttrGroup = grp, AttrVersion = version,
      AttrResource = resource, AttrName = ''''\<rparr>"

subsection \<open>Scoped resources\<close>

text \<open>
  The verbs are tried in order in one namespace.  \<open>Inr (Some b)\<close> is the answer for that
  namespace, \<open>Inr None\<close> settles the operation everywhere.
\<close>

fun verbs_here :: "(UserInfo \<Rightarrow> string) \<Rightarrow> 'w client \<Rightarrow> 'w \<Rightarrow> UserInfo \<Rightarrow> string \<Rightarrow> string \<Rightarrow> string \<Rightarrow> string
    \<Rightarrow> string list \<Rightarrow> go_error + bool option" where
  "verbs_here u c w user namespace grp version resource [] = Inr (Some False)"
| "verbs_here u c w user namespace grp version resource (verb # verbs) =
     (case CheckAccess c w user (verb_attrs namespace verb grp version resource) of
        Inl err \<Rightarrow> if isInvalidCombinationError u err then Inr None else Inl err
      | Inr verbAllowed \<Rightarrow>
          if verbAllowed then Inr (Some True)
          else verbs_here u c w user namespace grp version resource verbs)"

fun isOperationAllowed :: "(UserInfo \<Rightarrow> string) \<Rightarrow> 'w client \<Rightarrow> 'w \<Rightarrow> UserInfo \<Rightarrow> string list \<Rightarrow> string \<Rightarrow> string
    \<Rightarrow> string \<Rightarrow> string list \<Rightarrow> go_error + bool" where
  "isOperationAllowed u c w user [] grp version resource verbs = Inr True"
| "isOperationAllowed u c w user (namespace # namespaces) grp version resource verbs =
     (case verbs_here u c w user namespace grp version resource verbs of
        Inl err \<Rightarrow> Inl err
      | Inr None \<Rightarrow> Inr True
      | Inr (Some False) \<Rightarrow> Inr False
      | Inr (Some True) \<Rightarrow> isOperationAllowed u c w user namespaces grp version resource verbs)"

fun forbidden_operations :: "(UserInfo \<Rightarrow> string) \<Rightarrow> 'w client \<Rightarrow> 'w \<Rightarrow> UserInfo \<Rightarrow> string list \<Rightarrow> string \<Rightarrow> string
    \<Rightarrow> string \<Rightarrow> string list \<Rightarrow> go_error + string list" where
  "forbidden_operations u c w user namespaces grp version resource [] = Inr []"
| "forbidden_operations u c w user namespaces grp version resource (operation # ops) =
     (case OperationToVerb operation of
        None \<Rightarrow> forbidden_operations u c w user namespaces grp version resource ops
      | Some verbs \<Rightarrow>
          (case isOperationAllowed u c w user namespaces grp version resource verbs of
             Inl err \<Rightarrow> Inl err
           | Inr ok \<Rightarrow>
               (case forbidden_operations u c w user namespaces grp version resource ops of
                  Inl err \<Rightarrow> Inl err
                | Inr rest \<Rightarrow> Inr (if ok then rest else operation # rest))))"

definition rule_targets :: "RuleWithOperations list \<Rightarrow> (string \<times> string \<times> string \<times> string list) list" where
  \<comment> \<open>The iterations of the nested loops, in their order.\<close>
  "rule_targets rules =
     concat (map (\<lambda>rule. concat (map (\<lambda>grp. concat (map (\<lambda>version. map (\<lambda>resource.
        (grp, version, resource, Operations rule)) (Resources rule)) (APIVersions rule)))
        (APIGroups rule))) rules)"

fun forbidden_map :: "(UserInfo \<Rightarrow> string) \<Rightarrow> 'w client \<Rightarrow> 'w \<Rightarrow> UserInfo \<Rightarrow> string list
    \<Rightarrow> (string \<times> string \<times> string \<times> string list) list \<Rightarrow> labels \<Rightarrow> go_error + labels" where
  "forbidden_map u c w user namespaces [] m = Inr m"
| "forbidden_map u c w user namespaces ((grp, version, resource, ops) # ts) m =
     (case forbidden_operations u c w user namespaces grp version resource ops of
        Inl err \<Rightarrow> Inl err
      | Inr forbidden \<Rightarrow>
          forbidden_map u c w user namespaces ts
            (if forbidden = [] then m
             else alist_set (grp @ ''/'' @ version @ '' '' @ resource) (Join forbidden '', '') m))"

definition hasRightResourcesPermissions :: "(UserInfo \<Rightarrow> string) \<Rightarrow> (nat \<Rightarrow> string \<Rightarrow> nat) \<Rightarrow> 'w client \<Rightarrow> 'w
    \<Rightarrow> ScopedResources \<Rightarrow> UserInfo \<Rightarrow> string list \<Rightarrow> go_error + bool \<times> string list" where
  "hasRightResourcesPermissions u ord c w scoped user namespaces =
     (case forbidden_map u c w user namespaces (rule_targets (Rules scoped)) [] of
        Inl err \<Rightarrow> Inl err
      | Inr m \<Rightarrow>
          let forbiddenResources = map (\<lambda>(k, v). k @ '' ['' @ v @ '']'') (range_map ord m)
          in Inr (forbiddenResources = [], forbiddenResources))"

definition authorizeSyncer :: "(UserInfo \<Rightarrow> string) \<Rightarrow> (nat \<Rightarrow> string \<Rightarrow> nat) \<Rightarrow> 'w client \<Rightarrow> 'w \<Rightarrow> Syncer
    \<Rightarrow> UserInfo \<Rightarrow> string list \<Rightarrow> 'o response" where
  "authorizeSyncer u ord c w syncer user namespaces =
     (let spec = SyncerSpec syncer; ownNamespace = Namespace (SyncerMeta syncer) in
      case hasRightResourcesPermissions u ord c w (ScopedRes spec) user namespaces of
        Inl err \<Rightarrow> Errored 500 err
      | Inr (authorized, forbiddenResources) \<Rightarrow>
        if \<not> authorized then Denied (Error u (ResourceScopeForbidden user forbiddenResources))
        else
          let identityNamespace = IdentityNamespace syncer;
              identity = (if identityNamespace \<noteq> ownNamespace
                then CheckAccess c w user (verb_attrs identityNamespace ''list'' GroupName ApiVersion
                       ''remoteuserbindings'')
                else Inr True)
          in case identity of
            Inl err \<Rightarrow> Errored 500 err
          | Inr identityAllowed \<Rightarrow>
            if \<not> identityAllowed then
              Denied (''the user '' @ Username user
                @ '' is not allowed to list the remoteuserbindings of the identity store namespace ''
                @ identityNamespace)
            else (case RemoteSyncerRefs spec ownNamespace of
              Inl err \<Rightarrow> Errored 400 err
            | Inr objectRefs \<Rightarrow>
              (case AuthorizeCrossNamespaceRefs c w user objectRefs ownNamespace [] of
                 Inl err \<Rightarrow> Errored 500 err
               | Inr (Some denied) \<Rightarrow>
                   Denied (Error u (CrossNamespaceRefDenied user (FieldPath denied) (OrResource denied)
                     (OrNamespace denied) (OrName denied)))
               | Inr None \<Rightarrow>
                   Allowed (''The user '' @ u user @ '' is allowed to scope all of the listed resources''))))"

definition RemoteSyncerWebhook_Handle :: "(UserInfo \<Rightarrow> string) \<Rightarrow> (nat \<Rightarrow> string \<Rightarrow> nat) \<Rightarrow> 'w client \<Rightarrow> 'w
    \<Rightarrow> string \<Rightarrow> RemoteSyncer request \<Rightarrow> RemoteSyncer response" where
  "RemoteSyncerWebhook_Handle u ord c w managerNs req =
     (let user = ReqUser req in
      if doesUserBypassWebhook user managerNs
      then Allowed ''System user is allowed to scope any resources''
      else case DecodeObject req of
        Inl err \<Rightarrow> Errored 400 err
      | Inr rs \<Rightarrow> authorizeSyncer u ord c w (NamespacedSyncer rs) user [Namespace (Meta rs)])"

definition selectedNamespaces :: "'w client \<Rightarrow> 'w \<Rightarrow> ClusterWideRemoteSyncer \<Rightarrow> go_error + string list" where
  "selectedNamespaces c w cwrs =
     (case NamespaceSelector (Spec cwrs) of
        None \<Rightarrow> Inr ['''']
      | Some ls \<Rightarrow>
          (case SelectorAs c ls of
             Inl msg \<Rightarrow> Inl (PlainError msg)
           | Inr sel \<Rightarrow>
               if SelectorEmpty c ls then Inr ['''']
               else (case Namespaces c w sel of
                  Inl e \<Rightarrow> Inl (ApiError e)
                | Inr nss \<Rightarrow> Inr nss)))"

definition ClusterWideRemoteSyncerWebhook_Handle :: "(UserInfo \<Rightarrow> string) \<Rightarrow> (nat \<Rightarrow> string \<Rightarrow> nat) \<Rightarrow> 'w client
    \<Rightarrow> 'w \<Rightarrow> string \<Rightarrow> ClusterWideRemoteSyncer request \<Rightarrow> ClusterWideRemoteSyncer response" where
  "ClusterWideRemoteSyncerWebhook_Handle u ord c w managerNs req =
     (let user = ReqUser req in
      if doesUserBypassWebhook user managerNs
      then Allowed ''System user is allowed to scope any resources''
      else case DecodeObject req of
        Inl err \<Rightarrow> Errored 400 err
      | Inr cwrs \<Rightarrow>
          (case selectedNamespaces c w cwrs of
             Inl err \<Rightarrow> Errored 500 err
           | Inr namespaces \<Rightarrow> authorizeSyncer u ord c w (ClusterSyncer cwrs) user namespaces))"

subsection \<open>Remote users and bindings\<close>

definition RemoteUserPermissions_Handle :: "(UserInfo \<Rightarrow> string) \<Rightarrow> 'w client \<Rightarrow> 'w
    \<Rightarrow> RemoteUser request \<Rightarrow> RemoteUser response" where
  "RemoteUserPermissions_Handle u c w req =
     (let user = ReqUser req in
      case DecodeObject req of
        Inl err \<Rightarrow> Errored 400 err
      | Inr ru \<Rightarrow>
          (case RemoteUserRefs_of (Spec ru) (Namespace (Meta ru)) of
             Inl err \<Rightarrow> Errored 400 err
           | Inr objectRefs \<Rightarrow>
               (case AuthorizeRefs c w user objectRefs of
                  Inl err \<Rightarrow> Errored 400 err
                | Inr (Some denied) \<Rightarrow>
                    denyRef u user denied (Namespace (Meta ru))
                      (CredentialsNotFound
                        (''the user '' @ u user @ '' is not allowed to get the secret for its own remote user'')
                        (SecName (SecretRef (Spec ru))))
                | Inr None \<Rightarrow>
                    Allowed (''The user '' @ u user @ '' is allowed to get the secret: ''
                      @ SecName (SecretRef (Spec ru))))))"

definition RemoteUserBindingPermissions_Handle :: "(UserInfo \<Rightarrow> string) \<Rightarrow> 'w client \<Rightarrow> 'w
    \<Rightarrow> RemoteUserBinding request \<Rightarrow> RemoteUserBinding response" where
  "RemoteUserBindingPermissions_Handle u c w req =
     (let user = ReqUser req in
      case DecodeObject req of
        Inl err \<Rightarrow> Errored 400 err
      | Inr rub \<Rightarrow>
          (case RemoteUserBindingRefs (Spec rub) (Namespace (Meta rub)) of
             Inl err \<Rightarrow> Errored 400 err
           | Inr objectRefs \<Rightarrow>
               (case AuthorizeRefs c w user objectRefs of
                  Inl err \<Rightarrow> Errored 400 err
                | Inr (Some denied) \<Rightarrow>
                    let ref = (name_ref (OrName denied))\<lparr>RefNamespace := OrNamespace denied\<rparr>;
                        sameNamespaceErr = (if OrResource denied = ''remotetargets''
                          then RemoteTargetDenied user ref else RemoteUserDenied user ref)
                    in denyRef u user denied (Namespace (Meta rub)) sameNamespaceErr
                | Inr None \<Rightarrow>
                    Allowed (''The user '' @ u user
                      @ '' is allowed to get all the referenced remoteusers and remotetargets.''))))"

subsection \<open>Reviewed references\<close>

definition may_get :: "'w client \<Rightarrow> 'w \<Rightarrow> UserInfo \<Rightarrow> string \<times> string \<times> string \<Rightarrow> string \<Rightarrow> string \<Rightarrow> bool" where
  "may_get c w user gvr namespace name \<longleftrightarrow> (case gvr of (g, v, r) \<Rightarrow>
     AccessReview c w (reviewed_as user) \<lparr>AttrNamespace = namespace, AttrVerb = ''get'', AttrGroup = g,
       AttrVersion = v, AttrResource = r, AttrName = name\<rparr> = Inr True)"

definition effective_ns :: "string \<Rightarrow> string \<Rightarrow> string" where
  "effective_ns refNamespace owner = (if refNamespace = '''' then owner else refNamespace)"

lemma CheckAccess_True: "CheckAccess c w user a = Inr True \<longleftrightarrow> AccessReview c w (reviewed_as user) a = Inr True"
  by (simp add: CheckAccess_def split: sum.splits)

lemma AuthorizeRefs_None:
  "AuthorizeRefs c w user rs = Inr None \<longleftrightarrow>
     (\<forall>r \<in> set rs. CheckAccess c w user (get_attrs r) = Inr True)"
  by (induction rs) (auto split: sum.splits)

lemma AuthorizeRefs_Some:
  "AuthorizeRefs c w user rs = Inr (Some r) \<Longrightarrow> r \<in> set rs \<and> CheckAccess c w user (get_attrs r) = Inr False"
  by (induction rs) (auto split: sum.splits if_splits)

definition lists_ref :: "ObjectRef list \<Rightarrow> string \<times> string \<times> string \<Rightarrow> string \<Rightarrow> string \<Rightarrow> bool" where
  "lists_ref rs gvr ns n \<longleftrightarrow> (\<exists>r \<in> set rs. OrNamespace r = ns \<and> OrName r = n \<and>
     (OrGroup r, OrVersion r, OrResource r) = gvr)"

lemma lists_ref_mono: "lists_ref rs gvr ns n \<Longrightarrow> set rs \<subseteq> set rs' \<Longrightarrow> lists_ref rs' gvr ns n"
  unfolding lists_ref_def by blast

lemma collector_add_err: "collectErr (collector_add ns n gvr p c) = None \<Longrightarrow> collectErr c = None"
  by (auto simp: collector_add_def split: if_splits sum.splits prod.splits)

lemma collector_add_owner [simp]: "ownerNamespace (collector_add ns n gvr p c) = ownerNamespace c"
  by (auto simp: collector_add_def split: sum.splits prod.splits)

lemma collector_add_mono: "set (collected c) \<subseteq> set (collected (collector_add ns n gvr p c))"
  by (auto simp: collector_add_def split: sum.splits prod.splits)

lemma collector_add_lists:
  assumes "collectErr (collector_add ns n gvr p c) = None" and "n \<noteq> ''''"
  shows "lists_ref (collected (collector_add ns n gvr p c)) gvr (effective_ns ns (ownerNamespace c)) n"
  using assms collector_add_err [OF assms(1)]
  by (auto simp: collector_add_def ResolveNamespace_def effective_ns_def lists_ref_def
      split: if_splits sum.splits prod.splits)

lemma add_refs_owner [simp]: "ownerNamespace (add_refs p gvr i rs c) = ownerNamespace c"
  by (induction p gvr i rs c rule: add_refs.induct) auto

lemma add_refs_err: "collectErr (add_refs p gvr i rs c) = None \<Longrightarrow> collectErr c = None"
  by (induction p gvr i rs c rule: add_refs.induct) (auto dest: collector_add_err)

lemma add_refs_mono: "set (collected c) \<subseteq> set (collected (add_refs p gvr i rs c))"
proof (induction p gvr i rs c rule: add_refs.induct)
  case (3 p gvr i ref rs c)
  then show ?case using collector_add_mono by (metis add_refs.simps(3) subset_trans)
qed simp_all

lemma add_refs_lists:
  "collectErr (add_refs p gvr i rs c) = None \<Longrightarrow> Some ref \<in> set rs \<Longrightarrow> RefName ref \<noteq> '''' \<Longrightarrow>
   lists_ref (collected (add_refs p gvr i rs c)) gvr
     (effective_ns (RefNamespace ref) (ownerNamespace c)) (RefName ref)"
proof (induction p gvr i rs c rule: add_refs.induct)
  case (3 p gvr i r rs c)
  show ?case
  proof (cases "Some ref \<in> set rs")
    case True
    with 3 show ?thesis by simp
  next
    case False
    with "3.prems" have r: "ref = r" by simp
    have "collectErr (collector_add (RefNamespace r) (RefName r) gvr (index_path p i) c) = None"
      using "3.prems"(1) by (simp add: add_refs_err)
    from collector_add_lists [OF this] "3.prems"(3) r show ?thesis
      using lists_ref_mono [OF _ add_refs_mono] by simp
  qed
qed simp_all

lemma RemoteUserBindingRefs_complete:
  assumes "RemoteUserBindingRefs spec owner = Inr rs" and "RefName ref \<noteq> ''''"
  shows "ref \<in> set (RemoteUserRefs spec) \<Longrightarrow>
      lists_ref rs remoteUsersGVR (effective_ns (RefNamespace ref) owner) (RefName ref)"
    and "ref \<in> set (RemoteTargetRefs spec) \<Longrightarrow>
      lists_ref rs remoteTargetsGVR (effective_ns (RefNamespace ref) owner) (RefName ref)"
proof -
  let ?c1 = "add_refs ''spec.remoteUserRefs'' remoteUsersGVR 0 (map Some (RemoteUserRefs spec)) (newRefCollector owner)"
  let ?c2 = "add_refs ''spec.remoteTargetRefs'' remoteTargetsGVR 0 (map Some (RemoteTargetRefs spec)) ?c1"
  have ok: "collectErr ?c2 = None" and rs: "rs = collected ?c2"
    using assms by (auto simp: RemoteUserBindingRefs_def collector_result_def split: option.splits)
  have o: "ownerNamespace (newRefCollector owner) = owner" by (simp add: newRefCollector_def)
  show "lists_ref rs remoteTargetsGVR (effective_ns (RefNamespace ref) owner) (RefName ref)"
    if "ref \<in> set (RemoteTargetRefs spec)"
    using add_refs_lists [OF ok _ assms(2)] that o rs by simp
  show "lists_ref rs remoteUsersGVR (effective_ns (RefNamespace ref) owner) (RefName ref)"
    if "ref \<in> set (RemoteUserRefs spec)"
    using add_refs_lists [OF add_refs_err [OF ok] _ assms(2)] that o rs
      lists_ref_mono [OF _ add_refs_mono] by simp
qed

lemma authorized_refs_may_get:
  assumes "AuthorizeRefs c w user rs = Inr None" and "lists_ref rs gvr ns n"
  shows "may_get c w user gvr ns n"
  using assms by (auto simp: AuthorizeRefs_None lists_ref_def may_get_def CheckAccess_True get_attrs_def)

subsection \<open>Reviewed rules\<close>

definition op_authorized :: "(UserInfo \<Rightarrow> string) \<Rightarrow> 'w client \<Rightarrow> 'w \<Rightarrow> UserInfo \<Rightarrow> string list
    \<Rightarrow> string \<Rightarrow> string \<Rightarrow> string \<Rightarrow> string list \<Rightarrow> bool" where
  \<comment> \<open>One of the verbs is held in every namespace, or the API server does not know the resource.\<close>
  "op_authorized u c w user nss g v r verbs \<longleftrightarrow>
     (\<forall>ns \<in> set nss. \<exists>verb \<in> set verbs. AccessReview c w (reviewed_as user) (verb_attrs ns verb g v r) = Inr True) \<or>
     (\<exists>ns \<in> set nss. \<exists>verb \<in> set verbs. \<exists>e. AccessReview c w (reviewed_as user) (verb_attrs ns verb g v r) = Inl e \<and>
        isInvalidCombinationError u (ApiError e))"

lemma verbs_here_spec:
  "verbs_here u c w user ns g v r verbs = Inr x \<Longrightarrow>
   (case x of
      Some True \<Rightarrow> \<exists>verb \<in> set verbs. AccessReview c w (reviewed_as user) (verb_attrs ns verb g v r) = Inr True
    | Some False \<Rightarrow> \<forall>verb \<in> set verbs. AccessReview c w (reviewed_as user) (verb_attrs ns verb g v r) = Inr False
    | None \<Rightarrow> \<exists>verb \<in> set verbs. \<exists>e. AccessReview c w (reviewed_as user) (verb_attrs ns verb g v r) = Inl e \<and>
        isInvalidCombinationError u (ApiError e))"
  by (induction verbs) (auto simp: CheckAccess_def split: sum.splits if_splits option.splits bool.splits)

lemma isOperationAllowed_True:
  "isOperationAllowed u c w user nss g v r verbs = Inr True \<Longrightarrow> op_authorized u c w user nss g v r verbs"
proof (induction nss)
  case Nil
  then show ?case by (simp add: op_authorized_def)
next
  case (Cons ns nss)
  then obtain x where x: "verbs_here u c w user ns g v r verbs = Inr x"
    by (auto split: sum.splits)
  from verbs_here_spec [OF x] show ?case
    using Cons x by (auto simp: op_authorized_def split: option.splits bool.splits)
qed

lemma forbidden_operations_Nil:
  "forbidden_operations u c w user nss g v r ops = Inr [] \<Longrightarrow> op \<in> set ops \<Longrightarrow>
   OperationToVerb op = Some verbs \<Longrightarrow> op_authorized u c w user nss g v r verbs"
  by (induction ops) (auto split: option.splits sum.splits if_splits dest: isOperationAllowed_True)

lemma alist_set_not_Nil [simp]: "alist_set k v m \<noteq> []"
  by (simp add: alist_set_def)

lemma forbidden_map_Nil:
  "forbidden_map u c w user nss ts m = Inr [] \<Longrightarrow>
   m = [] \<and> (\<forall>(g, v, r, ops) \<in> set ts. forbidden_operations u c w user nss g v r ops = Inr [])"
proof (induction ts arbitrary: m)
  case (Cons t ts)
  obtain g v r ops where t: "t = (g, v, r, ops)" by (cases t)
  with Cons.prems obtain f where f: "forbidden_operations u c w user nss g v r ops = Inr f"
    and rest: "forbidden_map u c w user nss ts
      (if f = [] then m else alist_set (g @ ''/'' @ v @ '' '' @ r) (Join f '', '') m) = Inr []"
    by (auto split: sum.splits)
  from Cons.IH [OF rest] f t show ?case by (auto split: if_splits)
qed simp

lemma range_map_Nil [simp]: "range_map ord m = [] \<longleftrightarrow> m = []"
  by (metis set_empty set_range_map)

lemma hasRight_authorized:
  assumes "hasRightResourcesPermissions u ord c w scoped user nss = Inr (True, fs)"
    and "(g, v, r, ops) \<in> set (rule_targets (Rules scoped))" and "op \<in> set ops"
    and "OperationToVerb op = Some verbs"
  shows "op_authorized u c w user nss g v r verbs"
proof -
  from assms(1) have "forbidden_map u c w user nss (rule_targets (Rules scoped)) [] = Inr []"
    by (auto simp: hasRightResourcesPermissions_def Let_def split: sum.splits)
  from forbidden_map_Nil [OF this] assms(2)
  have "forbidden_operations u c w user nss g v r ops = Inr []" by blast
  then show ?thesis using assms(3,4) by (rule forbidden_operations_Nil)
qed

subsection \<open>The references of a syncer\<close>

definition syncer_holds_ref :: "RemoteSyncerSpec \<Rightarrow> string \<times> string \<times> string \<Rightarrow> string \<Rightarrow> string \<Rightarrow> bool" where
  "syncer_holds_ref spec gvr ns n \<longleftrightarrow>
     (gvr = remoteUsersGVR \<and> (\<exists>r. DefaultRemoteUserRef spec = Some r \<and> RefNamespace r = ns \<and> RefName r = n)) \<or>
     (gvr = remoteTargetsGVR \<and> (\<exists>r. DefaultRemoteTargetRef spec = Some r \<and> RefNamespace r = ns \<and> RefName r = n)) \<or>
     (gvr = configMapsGVR \<and> (\<exists>r. Some r \<in> set (ExcludedFieldsConfigMapsRef spec) \<and> RefNamespace r = ns \<and> RefName r = n)) \<or>
     (gvr = secretsGVR \<and> (SecNamespace (CABundleSecretRef spec) = ns \<and> SecName (CABundleSecretRef spec) = n \<or>
                           SecNamespace (SopsSecretRef (SOPS spec)) = ns \<and> SecName (SopsSecretRef (SOPS spec)) = n))"

lemma add_opt_ref_facts:
  "ownerNamespace (add_opt_ref p gvr r c) = ownerNamespace c"
  "collectErr (add_opt_ref p gvr r c) = None \<Longrightarrow> collectErr c = None"
  "set (collected c) \<subseteq> set (collected (add_opt_ref p gvr r c))"
  "collectErr (add_opt_ref p gvr (Some ref) c) = None \<Longrightarrow> RefName ref \<noteq> '''' \<Longrightarrow>
     lists_ref (collected (add_opt_ref p gvr (Some ref) c)) gvr
       (effective_ns (RefNamespace ref) (ownerNamespace c)) (RefName ref)"
  using collector_add_mono
  by (auto simp: add_opt_ref_def collector_add_lists dest: collector_add_err split: option.splits)

lemma add_secret_ref_facts:
  "ownerNamespace (add_secret_ref p r c) = ownerNamespace c"
  "collectErr (add_secret_ref p r c) = None \<Longrightarrow> collectErr c = None"
  "set (collected c) \<subseteq> set (collected (add_secret_ref p r c))"
  "collectErr (add_secret_ref p r c) = None \<Longrightarrow> SecName r \<noteq> '''' \<Longrightarrow>
     lists_ref (collected (add_secret_ref p r c)) secretsGVR
       (effective_ns (SecNamespace r) (ownerNamespace c)) (SecName r)"
  using collector_add_mono
  by (auto simp: add_secret_ref_def collector_add_lists dest: collector_add_err split: if_splits)

lemma RemoteSyncerRefs_complete:
  assumes "RemoteSyncerRefs spec owner = Inr rs" and "syncer_holds_ref spec gvr ns n" and "n \<noteq> ''''"
  shows "lists_ref rs gvr (effective_ns ns owner) n"
proof -
  define c1 where "c1 = add_opt_ref ''spec.defaultRemoteUserRef'' remoteUsersGVR (DefaultRemoteUserRef spec) (newRefCollector owner)"
  define c2 where "c2 = add_opt_ref ''spec.defaultRemoteTargetRef'' remoteTargetsGVR (DefaultRemoteTargetRef spec) c1"
  define c3 where "c3 = add_refs ''spec.excludedFieldsConfigMapsRef'' configMapsGVR 0 (ExcludedFieldsConfigMapsRef spec) c2"
  define c4 where "c4 = add_secret_ref ''spec.caBundleSecretRef'' (CABundleSecretRef spec) c3"
  define c5 where "c5 = add_secret_ref ''spec.sops.secretRef'' (SopsSecretRef (SOPS spec)) c4"
  have e5: "collectErr c5 = None" and rs: "rs = collected c5"
    using assms(1) unfolding c5_def c4_def c3_def c2_def c1_def
    by (auto simp: RemoteSyncerRefs_def collector_result_def split: option.splits)
  from e5 have e4: "collectErr c4 = None" unfolding c5_def by (rule add_secret_ref_facts(2))
  then have e3: "collectErr c3 = None" unfolding c4_def by (rule add_secret_ref_facts(2))
  then have e2: "collectErr c2 = None" unfolding c3_def by (rule add_refs_err)
  then have e1: "collectErr c1 = None" unfolding c2_def by (rule add_opt_ref_facts(2))
  have o: "ownerNamespace (newRefCollector owner) = owner" by (simp add: newRefCollector_def)
  have owners: "ownerNamespace c1 = owner" "ownerNamespace c2 = owner" "ownerNamespace c3 = owner" "ownerNamespace c4 = owner"
    unfolding c4_def c3_def c2_def c1_def by (simp_all add: add_opt_ref_facts add_secret_ref_facts o)
  have m4: "set (collected c4) \<subseteq> set rs" unfolding rs c5_def by (rule add_secret_ref_facts(3))
  have m3: "set (collected c3) \<subseteq> set rs" using add_secret_ref_facts(3) m4 unfolding c4_def by blast
  have m2: "set (collected c2) \<subseteq> set rs" using add_refs_mono m3 unfolding c3_def by blast
  have m1: "set (collected c1) \<subseteq> set rs" using add_opt_ref_facts(3) m2 unfolding c2_def by blast
  consider (user) r where "gvr = remoteUsersGVR" "DefaultRemoteUserRef spec = Some r" "RefNamespace r = ns" "RefName r = n"
    | (target) r where "gvr = remoteTargetsGVR" "DefaultRemoteTargetRef spec = Some r" "RefNamespace r = ns" "RefName r = n"
    | (cm) r where "gvr = configMapsGVR" "Some r \<in> set (ExcludedFieldsConfigMapsRef spec)" "RefNamespace r = ns" "RefName r = n"
    | (ca) "gvr = secretsGVR" "SecNamespace (CABundleSecretRef spec) = ns" "SecName (CABundleSecretRef spec) = n"
    | (sops) "gvr = secretsGVR" "SecNamespace (SopsSecretRef (SOPS spec)) = ns" "SecName (SopsSecretRef (SOPS spec)) = n"
    using assms(2) unfolding syncer_holds_ref_def by blast
  then show ?thesis
  proof cases
    case user
    with e1 assms(3) o add_opt_ref_facts(4) [of _ _ r "newRefCollector owner"]
    have "lists_ref (collected c1) gvr (effective_ns ns owner) n" by (simp add: c1_def)
    then show ?thesis using m1 by (rule lists_ref_mono)
  next
    case target
    with e2 assms(3) owners add_opt_ref_facts(4) [of _ _ r c1]
    have "lists_ref (collected c2) gvr (effective_ns ns owner) n" by (simp add: c2_def)
    then show ?thesis using m2 by (rule lists_ref_mono)
  next
    case cm
    with e3 assms(3) owners add_refs_lists [of _ _ _ "ExcludedFieldsConfigMapsRef spec" c2 r]
    have "lists_ref (collected c3) gvr (effective_ns ns owner) n" by (simp add: c3_def)
    then show ?thesis using m3 by (rule lists_ref_mono)
  next
    case ca
    with e4 assms(3) owners add_secret_ref_facts(4) [of _ "CABundleSecretRef spec" c3]
    have "lists_ref (collected c4) gvr (effective_ns ns owner) n" by (simp add: c4_def)
    then show ?thesis using m4 by (rule lists_ref_mono)
  next
    case sops
    with e5 assms(3) owners rs add_secret_ref_facts(4) [of _ "SopsSecretRef (SOPS spec)" c4]
    show ?thesis by (simp add: c5_def)
  qed
qed

lemma cross_refs_may_get:
  assumes "AuthorizeCrossNamespaceRefs c w user rs owner ex = Inr None" and "lists_ref rs gvr ns n"
    and "ns \<noteq> owner" and "ns \<notin> set ex"
  shows "may_get c w user gvr ns n"
proof -
  let ?rs = "filter (\<lambda>ref. \<not> (OrNamespace ref = owner \<or> OrNamespace ref \<in> set ex)) rs"
  have "lists_ref ?rs gvr ns n" using assms(2-4) by (auto simp: lists_ref_def)
  with assms(1) show ?thesis unfolding AuthorizeCrossNamespaceRefs_def by (rule authorized_refs_may_get)
qed

lemma denyRef_not_allowed [simp]: "\<not> allowed (denyRef u user d owner e)"
  by (simp add: denyRef_def)

lemma authorizeSyncer_allowedD:
  assumes "allowed (authorizeSyncer u ord c w syncer user nss)"
  obtains fs rs where
    "hasRightResourcesPermissions u ord c w (ScopedRes (SyncerSpec syncer)) user nss = Inr (True, fs)"
    "IdentityNamespace syncer \<noteq> Namespace (SyncerMeta syncer) \<longrightarrow>
      AccessReview c w (reviewed_as user) (verb_attrs (IdentityNamespace syncer) ''list'' GroupName ApiVersion ''remoteuserbindings'') = Inr True"
    "RemoteSyncerRefs (SyncerSpec syncer) (Namespace (SyncerMeta syncer)) = Inr rs"
    "AuthorizeCrossNamespaceRefs c w user rs (Namespace (SyncerMeta syncer)) [] = Inr None"
proof -
  let ?h = "hasRightResourcesPermissions u ord c w (ScopedRes (SyncerSpec syncer)) user nss"
  obtain a fs where h: "?h = Inr (a, fs)" and a: "a"
    using assms by (cases ?h) (auto simp: authorizeSyncer_def Let_def split: prod.splits if_splits)
  let ?id = "if IdentityNamespace syncer \<noteq> Namespace (SyncerMeta syncer)
    then CheckAccess c w user (verb_attrs (IdentityNamespace syncer) ''list'' GroupName ApiVersion ''remoteuserbindings'')
    else Inr True"
  obtain b where b: "?id = Inr b" "b"
    using assms h a by (cases ?id) (auto simp: authorizeSyncer_def Let_def split: if_splits)
  obtain rs where rs: "RemoteSyncerRefs (SyncerSpec syncer) (Namespace (SyncerMeta syncer)) = Inr rs"
    using assms h a b
    by (cases "RemoteSyncerRefs (SyncerSpec syncer) (Namespace (SyncerMeta syncer))")
      (simp_all add: authorizeSyncer_def Let_def)
  have "AuthorizeCrossNamespaceRefs c w user rs (Namespace (SyncerMeta syncer)) [] = Inr None"
    using assms h a b rs
    by (cases "AuthorizeCrossNamespaceRefs c w user rs (Namespace (SyncerMeta syncer)) []")
      (auto simp: authorizeSyncer_def Let_def split: option.splits)
  moreover have "AccessReview c w (reviewed_as user) (verb_attrs (IdentityNamespace syncer) ''list'' GroupName ApiVersion ''remoteuserbindings'') = Inr True"
    if "IdentityNamespace syncer \<noteq> Namespace (SyncerMeta syncer)"
    using b that by (simp add: CheckAccess_True)
  ultimately show thesis using that h a rs by simp
qed

subsection \<open>Properties\<close>


text \<open>
  C21. A binding is admitted only if its author may get every remote user and every remote
  target it names, in the namespace each reference resolves to, its own namespace included.
\<close>

theorem RemoteUserBinding_admission_sound:
  assumes "allowed (RemoteUserBindingPermissions_Handle u c w req)" and "DecodeObject req = Inr rub"
  shows "(\<forall>ref. ref \<in> set (RemoteUserRefs (Spec rub)) \<longrightarrow> RefName ref \<noteq> '''' \<longrightarrow>
      may_get c w (ReqUser req) remoteUsersGVR (effective_ns (RefNamespace ref) (Namespace (Meta rub))) (RefName ref)) \<and>
    (\<forall>ref. ref \<in> set (RemoteTargetRefs (Spec rub)) \<longrightarrow> RefName ref \<noteq> '''' \<longrightarrow>
      may_get c w (ReqUser req) remoteTargetsGVR (effective_ns (RefNamespace ref) (Namespace (Meta rub))) (RefName ref))"
proof -
  obtain rs where rs: "RemoteUserBindingRefs (Spec rub) (Namespace (Meta rub)) = Inr rs"
    using assms by (cases "RemoteUserBindingRefs (Spec rub) (Namespace (Meta rub))")
      (simp_all add: RemoteUserBindingPermissions_Handle_def Let_def)
  have "AuthorizeRefs c w (ReqUser req) rs = Inr None"
    using assms rs by (cases "AuthorizeRefs c w (ReqUser req) rs")
      (auto simp: RemoteUserBindingPermissions_Handle_def Let_def split: option.splits)
  note may = authorized_refs_may_get [OF this]
  show ?thesis
    using may [OF RemoteUserBindingRefs_complete(1) [OF rs]] may [OF RemoteUserBindingRefs_complete(2) [OF rs]]
    by simp
qed

text \<open>
  The operation \<open>*\<close>, which stands for every operation in a webhook rule, has no verb and is
  skipped: rules whose operations are all unknown to the review, such as \<open>*\<close>, are authorized
  for every user.
\<close>

theorem wildcard_operations_authorized:
  assumes "list_all (\<lambda>rule. list_all (\<lambda>op. OperationToVerb op = None) (Operations rule)) (Rules scoped)"
  shows "hasRightResourcesPermissions u ord c w scoped user nss = Inr (True, [])"
proof -
  have ops: "forbidden_operations u c w user nss g v r ops = Inr []"
    if "list_all (\<lambda>op. OperationToVerb op = None) ops" for g v r ops
    using that by (induction ops) auto
  have "list_all (\<lambda>(g, v, r, ops). list_all (\<lambda>op. OperationToVerb op = None) ops) (rule_targets (Rules scoped))"
    using assms by (auto simp: rule_targets_def list_all_iff)
  moreover have "list_all (\<lambda>(g, v, r, ops). list_all (\<lambda>op. OperationToVerb op = None) ops) ts \<Longrightarrow>
      forbidden_map u c w user nss ts [] = Inr []" for ts
    by (induction ts) (auto simp: ops)
  ultimately have "forbidden_map u c w user nss (rule_targets (Rules scoped)) [] = Inr []" by blast
  then show ?thesis by (simp add: hasRightResourcesPermissions_def range_map_def)
qed

text \<open>
  A namespace selector that matches no namespace at the time of the request gives an empty
  list of namespaces to review, and then the scoped rules are authorized for every user.
\<close>

theorem unmatched_selector_authorizes_rules:
  assumes "NamespaceSelector (Spec cwrs) = Some ls" and "SelectorAs c ls = Inr sel"
    and "\<not> SelectorEmpty c ls" and "Namespaces c w sel = Inr []"
  shows "selectedNamespaces c w cwrs = Inr [] \<and>
    hasRightResourcesPermissions u ord c w (ScopedRes (InlineSpec (Spec cwrs))) user [] = Inr (True, [])"
proof -
  have ops: "forbidden_operations u c w user [] g v r ops = Inr []" for g v r ops
    by (induction ops) (auto split: option.splits)
  have "forbidden_map u c w user [] ts [] = Inr []" for ts
    by (induction ts) (auto simp: ops)
  with assms show ?thesis
    by (simp add: selectedNamespaces_def hasRightResourcesPermissions_def range_map_def)
qed

text \<open>
  The bypass for the manager's service accounts compares a prefix without the separator that
  ends the namespace, so a service account of any namespace whose name merely starts with
  the manager's namespace bypasses the permission webhooks as well.
\<close>

theorem bypass_matches_longer_namespace:
  "doesUserBypassWebhook
     \<lparr>Username = ''system:serviceaccount:'' @ managerNs @ suffix @ '':'' @ name, UserUID = uid,
      Groups = gs, Extra = ex\<rparr> managerNs"
  by (simp add: doesUserBypassWebhook_def HasPrefix_iff)

subsection \<open>Witnesses\<close>

definition pod_rule :: "string list \<Rightarrow> RuleWithOperations" where
  "pod_rule ops = \<lparr>Operations = ops, APIGroups = [''''], APIVersions = [''v1''], Resources = [''pods''], Scope = None\<rparr>"

definition pod_syncer :: RemoteSyncer where
  "pod_syncer = \<lparr>Meta = no_meta\<lparr>Name := ''rs'', Namespace := ''team''\<rparr>,
     Spec = no_syncer_spec\<lparr>
       ScopedRes := \<lparr>MatchPolicy = None, ScopedObjectSelector = None, Rules = [pod_rule [''CREATE'', ''UPDATE'']]\<rparr>,
       DefaultRemoteUserRef := Some ((name_ref ''bot'')\<lparr>RefNamespace := ''shared''\<rparr>)\<rparr>,
     Status = no_syncer_status\<rparr>"

definition alice :: UserInfo where
  "alice = \<lparr>Username = ''alice'', UserUID = ''1'', Groups = [], Extra = []\<rparr>"

lemma pod_syncer_allowed:
  "allowed (authorizeSyncer Username (\<lambda>_ _. 0) (flat_client (\<lambda>_ _. True)) () (NamespacedSyncer pod_syncer) alice [''team''])"
  by code_simp


definition one_binding :: RemoteUserBinding where
  "one_binding = \<lparr>Meta = no_meta\<lparr>Name := ''b'', Namespace := ''team''\<rparr>,
     Spec = \<lparr>RubSubject = no_subject, RemoteUserRefs = [name_ref ''ru''], RemoteTargetRefs = []\<rparr>,
     Status = no_rub_status\<rparr>"

theorem RemoteUserBinding_admission_sound_witness:
  "may_get (flat_client (\<lambda>_ _. True)) () alice remoteUsersGVR ''team'' ''ru''"
proof -
  let ?req = "\<lparr>ReqOperation = ''CREATE'', ReqUser = alice, ReqObject = Inr one_binding, ReqOldObject = Inl (PlainError '''')\<rparr>"
  have a: "allowed (RemoteUserBindingPermissions_Handle Username (flat_client (\<lambda>_ _. True)) () ?req)"
    by code_simp
  have d: "DecodeObject ?req = Inr one_binding" by (simp add: DecodeObject_def)
  have "name_ref ''ru'' \<in> set (RemoteUserRefs (Spec one_binding))" by (simp add: one_binding_def)
  from RemoteUserBinding_admission_sound [OF a d, THEN conjunct1, rule_format, OF this]
  show ?thesis by (simp add: effective_ns_def one_binding_def name_ref_def no_ref_def)
qed

theorem wildcard_operations_authorized_witness:
  "hasRightResourcesPermissions Username (\<lambda>_ _. 0) (flat_client (\<lambda>_ _. False)) ()
     \<lparr>MatchPolicy = None, ScopedObjectSelector = None, Rules = [pod_rule [''*'']]\<rparr> alice [''team''] = Inr (True, [])"
  by (rule wildcard_operations_authorized) (simp add: pod_rule_def OperationToVerb_def)

definition pod_cluster_syncer :: ClusterWideRemoteSyncer where
  "pod_cluster_syncer = \<lparr>Meta = no_meta\<lparr>Name := ''cw''\<rparr>,
     Spec = \<lparr>InlineSpec = Spec pod_syncer,
       NamespaceSelector = Some \<lparr>MatchLabels = [(''env'', ''later'')], MatchExpressions = []\<rparr>,
       IdentityStoreNamespace = ''ids''\<rparr>,
     Status = no_syncer_status\<rparr>"

theorem unmatched_selector_authorizes_rules_witness:
  "hasRightResourcesPermissions Username (\<lambda>_ _. 0) (flat_client (\<lambda>_ _. False)) ()
     (ScopedRes (InlineSpec (Spec pod_cluster_syncer))) alice [] = Inr (True, [])"
  using unmatched_selector_authorizes_rules [of pod_cluster_syncer
      "\<lparr>MatchLabels = [(''env'', ''later'')], MatchExpressions = []\<rparr>" "flat_client (\<lambda>_ _. False)"
      "\<lambda>_. True" "()" Username "\<lambda>_ _. 0" alice]
  by (simp add: pod_cluster_syncer_def flat_client_def)

end
