(* ===== verification/Manager.thy ===== *)
theory Manager
  imports Controllers Admission
begin

text \<open>
  Starting the program (\<open>cmd/main.go\<close>): its flags and environment, the caches and gates it sets up, the controllers with what
  they watch (the \<open>SetupWithManager\<close> of \<open>internal/controller\<close>), the webhooks, and the checks.

  The controller-runtime manager is the parameter \<open>manager_api\<close>: which of its calls fail.  A failed step ends the program with
  exit code 1; the model then has the state reached so far.  Logs are left out.
\<close>

subsection \<open>Options\<close>

record cli_flags =
  metricsAddr :: string
  probeAddr :: string
  enableLeaderElection :: bool
  secureMetrics :: bool
  enableHTTP2 :: bool
  featureGatesFlag :: string
  repoCacheSize :: int
  documentCacheSize :: int

definition default_flags :: cli_flags where
  "default_flags = \<lparr>metricsAddr = '':8080'', probeAddr = '':8081'', enableLeaderElection = False, secureMetrics = False,
     enableHTTP2 = False, featureGatesFlag = '''', repoCacheSize = 0, documentCacheSize = 0\<rparr>"

record tls_config =
  NextProtos :: "string list"

definition disableHTTP2 :: "tls_config \<Rightarrow> tls_config" where
  "disableHTTP2 c = c\<lparr>NextProtos := [''http/1.1'']\<rparr>"

definition tls_opts :: "cli_flags \<Rightarrow> (tls_config \<Rightarrow> tls_config) list" where
  "tls_opts flags = (if \<not> enableHTTP2 flags then [disableHTTP2] else [])"

datatype metrics_filter = WithAuthenticationAndAuthorization

record metrics_options =
  BindAddress :: string
  SecureServing :: bool
  MetricsTLSOpts :: "(tls_config \<Rightarrow> tls_config) list"
  FilterProvider :: "metrics_filter option"

definition metricsServerOptions :: "cli_flags \<Rightarrow> metrics_options" where
  "metricsServerOptions flags =
     (let options = \<lparr>BindAddress = metricsAddr flags, SecureServing = secureMetrics flags, MetricsTLSOpts = tls_opts flags, FilterProvider = None\<rparr> in
      if secureMetrics flags then options\<lparr>FilterProvider := Some WithAuthenticationAndAuthorization\<rparr> else options)"

record manager_options =
  Metrics :: metrics_options
  WebhookTLSOpts :: "(tls_config \<Rightarrow> tls_config) list"
  HealthProbeBindAddress :: string
  LeaderElection :: bool
  LeaderElectionID :: string

definition manager_options_of :: "cli_flags \<Rightarrow> manager_options" where
  \<comment> \<open>The metrics options are built anew here.\<close>
  "manager_options_of flags =
     \<lparr>Metrics = \<lparr>BindAddress = metricsAddr flags, SecureServing = secureMetrics flags, MetricsTLSOpts = tls_opts flags, FilterProvider = None\<rparr>,
      WebhookTLSOpts = tls_opts flags, HealthProbeBindAddress = probeAddr flags, LeaderElection = enableLeaderElection flags,
      LeaderElectionID = ''23bf18fa.syngit.io''\<rparr>"

definition Impersonate :: "(string \<Rightarrow> string) \<Rightarrow> UserInfo option" where
  "Impersonate getenv =
     (if getenv ''DEV_MODE'' = ''true'' then
        let managerNs = getenv ''MANAGER_NAMESPACE'' in
        Some \<lparr>Username = ''system:serviceaccount:'' @ managerNs @ '':syngit-controller-manager'', UserUID = '''',
          Groups = [''system:serviceaccounts'', ''system:serviceaccounts:'' @ managerNs, ''system:authenticated''], Extra = []\<rparr>
      else None)"

subsection \<open>Controllers\<close>

text \<open>
  A change in the cluster as a watch sees it.  The flag of an event says that the resource version changed, or that the
  object was created or deleted.
\<close>

datatype cluster_change =
  SecretChanged NamespacedName
| RemoteTargetChanged RemoteTarget
| RemoteUserChanged NamespacedName
| RemoteUserBindingChanged RemoteUserBinding
| WebhookConfigurationChanged ValidatingWebhookConfiguration
| RemoteSyncerChanged NamespacedName
| ClusterWideRemoteSyncerChanged NamespacedName

record 'w registration =
  RegFor :: string
  RegNamespace :: string
  RegRequests :: "cluster_change \<Rightarrow> bool \<Rightarrow> 'w \<Rightarrow> NamespacedName list"

record manager_api =
  GetConfig :: "go_error option"
  NewManager :: "manager_options \<Rightarrow> UserInfo option \<Rightarrow> go_error option"
  IndexField :: "string \<Rightarrow> string \<Rightarrow> go_error option"
  Complete :: "string \<Rightarrow> go_error option"
  CompleteWebhook :: "string \<Rightarrow> go_error option"
  AddHealthzCheck :: "string \<Rightarrow> go_error option"
  AddReadyzCheck :: "string \<Rightarrow> go_error option"
  StartManager :: "go_error option"

definition SecretRefField :: string where
  "SecretRefField = ''spec.secretRef''"

definition RemoteRefsField :: string where
  "RemoteRefsField = ''spec.remoteRefs''"

definition complete :: "manager_api \<Rightarrow> 'w registration \<Rightarrow> go_error + 'w registration" where
  "complete mgr r = (case Complete mgr (RegFor r) of Some err \<Rightarrow> Inl err | None \<Rightarrow> Inr r)"

definition RemoteUser_SetupWithManager :: "manager_api \<Rightarrow> (string \<Rightarrow> string) \<Rightarrow> 'w client \<Rightarrow> go_error + 'w registration" where
  "RemoteUser_SetupWithManager mgr getenv c =
     (case IndexField mgr ''RemoteUser'' SecretRefField of
        Some err \<Rightarrow> Inl err
      | None \<Rightarrow> complete mgr \<lparr>RegFor = ''RemoteUser'', RegNamespace = getenv ''MANAGER_NAMESPACE'',
          RegRequests = (\<lambda>change versionChanged w. case change of
             RemoteUserChanged n \<Rightarrow> [n]
           | SecretChanged n \<Rightarrow> if versionChanged then findObjectsForSecret c n w else []
           | RemoteTargetChanged rt \<Rightarrow> if versionChanged then findRemoteUsersForRemoteTarget c rt w else []
           | _ \<Rightarrow> [])\<rparr>)"

definition RemoteUserBinding_SetupWithManager :: "manager_api \<Rightarrow> 'w client \<Rightarrow> go_error + 'w registration" where
  "RemoteUserBinding_SetupWithManager mgr c =
     (case IndexField mgr ''RemoteUserBinding'' RemoteRefsField of
        Some err \<Rightarrow> Inl err
      | None \<Rightarrow> complete mgr \<lparr>RegFor = ''RemoteUserBinding'', RegNamespace = '''',
          RegRequests = (\<lambda>change versionChanged w. case change of
             RemoteUserBindingChanged rub \<Rightarrow> [key_of rub]
           | RemoteUserChanged n \<Rightarrow> if versionChanged then findObjectsForRemoteUser c n w else []
           | _ \<Rightarrow> [])\<rparr>)"

definition RemoteSyncer_SetupWithManager :: "manager_api \<Rightarrow> (string \<Rightarrow> string) \<Rightarrow> 'w client \<Rightarrow> pathHandlers option \<Rightarrow> go_error + 'w registration" where
  "RemoteSyncer_SetupWithManager mgr getenv c webhookServer =
     (let d = loadFromEnv getenv in
      if webhookServer = None then Inl (PlainError ''the RemoteSyncer reconciler requires a WebhookServer'')
      else complete mgr \<lparr>RegFor = ''RemoteSyncer'', RegNamespace = managerNamespace d,
        RegRequests = (\<lambda>change versionChanged w. case change of
           RemoteSyncerChanged n \<Rightarrow> [n]
         | WebhookConfigurationChanged conf \<Rightarrow> if webhookNamePredicate (dynamicWebhookName d) conf then findObjectsForDynamicWebhook c w else []
         | RemoteUserBindingChanged rub \<Rightarrow> if versionChanged then findRemoteSyncersForRUB c rub w else []
         | _ \<Rightarrow> [])\<rparr>)"

definition ClusterWideRemoteSyncer_SetupWithManager :: "manager_api \<Rightarrow> (string \<Rightarrow> string) \<Rightarrow> 'w client \<Rightarrow> pathHandlers option
    \<Rightarrow> go_error + 'w registration" where
  "ClusterWideRemoteSyncer_SetupWithManager mgr getenv c webhookServer =
     (let d = loadFromEnv getenv in
      if webhookServer = None then Inl (PlainError ''the ClusterWideRemoteSyncer reconciler requires a WebhookServer'')
      else complete mgr \<lparr>RegFor = ''ClusterWideRemoteSyncer'', RegNamespace = managerNamespace d,
        RegRequests = (\<lambda>change versionChanged w. case change of
           ClusterWideRemoteSyncerChanged n \<Rightarrow> [n]
         | WebhookConfigurationChanged conf \<Rightarrow> if webhookNamePredicate (dynamicWebhookName d) conf then findObjectsForDynamicWebhook_cluster c w else []
         | RemoteUserBindingChanged rub \<Rightarrow> if versionChanged then findSyncersForRUB c rub w else []
         | _ \<Rightarrow> [])\<rparr>)"

definition RemoteTarget_SetupWithManager :: "manager_api \<Rightarrow> go_error + 'w registration" where
  "RemoteTarget_SetupWithManager mgr =
     complete mgr \<lparr>RegFor = ''RemoteTarget'', RegNamespace = '''',
       RegRequests = (\<lambda>change _ _. case change of RemoteTargetChanged rt \<Rightarrow> [key_of rt] | _ \<Rightarrow> [])\<rparr>"

subsection \<open>Webhooks\<close>

datatype webhook_registration =
  ValidatorFor string string  \<comment> \<open>kind and validator\<close>
| HandlerAt string string  \<comment> \<open>path and handler\<close>

definition validator_setup :: "manager_api \<Rightarrow> string \<Rightarrow> string \<Rightarrow> go_error + webhook_registration" where
  "validator_setup mgr kind validator = (case CompleteWebhook mgr kind of Some err \<Rightarrow> Inl err | None \<Rightarrow> Inr (ValidatorFor kind validator))"

definition SetupRemoteUserWebhookWithManager :: "manager_api \<Rightarrow> go_error + webhook_registration" where
  "SetupRemoteUserWebhookWithManager mgr = validator_setup mgr ''RemoteUser'' ''RemoteUserCustomValidator''"

definition SetupRemoteSyncerWebhookWithManager :: "manager_api \<Rightarrow> go_error + webhook_registration" where
  "SetupRemoteSyncerWebhookWithManager mgr = validator_setup mgr ''RemoteSyncer'' ''RemoteSyncerCustomValidator''"

definition SetupRemoteUserBindingWebhookWithManager :: "manager_api \<Rightarrow> go_error + webhook_registration" where
  "SetupRemoteUserBindingWebhookWithManager mgr = validator_setup mgr ''RemoteUserBinding'' ''RemoteUserBindingCustomValidator''"

definition SetupRemoteTargetWebhookWithManager :: "manager_api \<Rightarrow> go_error + webhook_registration" where
  "SetupRemoteTargetWebhookWithManager mgr = validator_setup mgr ''RemoteTarget'' ''RemoteTargetCustomValidator''"

definition SetupClusterWideRemoteSyncerWebhookWithManager :: "manager_api \<Rightarrow> go_error + webhook_registration" where
  "SetupClusterWideRemoteSyncerWebhookWithManager mgr = validator_setup mgr ''ClusterWideRemoteSyncer'' ''ClusterWideRemoteSyncerCustomValidator''"

definition NewWebhookInterceptsAll :: pathHandlers where
  "NewWebhookInterceptsAll = []"

definition WebhookInterceptsAll_Start :: "pathHandlers \<Rightarrow> pathHandlers \<times> webhook_registration" where
  \<comment> \<open>The map is there already, so it is kept; the router serves below one path.\<close>
  "WebhookInterceptsAll_Start hs = (hs, HandlerAt ''/syngit/'' ''router'')"

subsection \<open>The program\<close>

record 'w program =
  ProgGates :: FeatureGates
  ProgRepos :: lease_state
  ProgDocuments :: docCache
  ProgOptions :: manager_options
  ProgIdentity :: "UserInfo option"
  ProgControllers :: "'w registration list"
  ProgInterception :: "pathHandlers option"
  ProgWebhooks :: "webhook_registration list"
  ProgChecks :: "string list"

datatype 'w outcome = Exited string go_error "'w program" | Finished "'w program"

definition or_exit :: "string \<Rightarrow> 'w program \<Rightarrow> go_error + 'a \<Rightarrow> ('a \<Rightarrow> 'w outcome) \<Rightarrow> 'w outcome" where
  \<comment> \<open>\<open>if err != nil { setupLog.Error(err, message); os.Exit(1) }\<close>\<close>
  "or_exit message p r k = (case r of Inl err \<Rightarrow> Exited message err p | Inr x \<Rightarrow> k x)"

definition err_result :: "go_error option \<Rightarrow> go_error + unit" where
  "err_result e = (case e of Some err \<Rightarrow> Inl err | None \<Rightarrow> Inr ())"

definition add_controller :: "'w registration \<Rightarrow> 'w program \<Rightarrow> 'w program" where
  "add_controller r p = p\<lparr>ProgControllers := ProgControllers p @ [r]\<rparr>"

definition add_webhook :: "webhook_registration \<Rightarrow> 'w program \<Rightarrow> 'w program" where
  "add_webhook r p = p\<lparr>ProgWebhooks := ProgWebhooks p @ [r]\<rparr>"

definition add_check :: "string \<Rightarrow> 'w program \<Rightarrow> 'w program" where
  "add_check name p = p\<lparr>ProgChecks := ProgChecks p @ [name]\<rparr>"

definition initial_program :: "cli_flags \<Rightarrow> 'w program" where
  \<comment> \<open>Gates that do not parse are logged and left as they are by then.\<close>
  "initial_program flags =
     \<lparr>ProgGates = snd (gates_Set (featureGatesFlag flags) LoadedFeatureGates), ProgRepos = InitRepoCache (cli_flags.repoCacheSize flags),
      ProgDocuments = InitDocumentCache (documentCacheSize flags), ProgOptions = manager_options_of flags,
      ProgIdentity = None, ProgControllers = [], ProgInterception = None, ProgWebhooks = [], ProgChecks = []\<rparr>"

definition setup_controllers :: "manager_api \<Rightarrow> (string \<Rightarrow> string) \<Rightarrow> 'w client \<Rightarrow> 'w program \<Rightarrow> ('w program \<Rightarrow> 'w outcome) \<Rightarrow> 'w outcome" where
  "setup_controllers mgr getenv c p0 k =
     or_exit ''unable to create controller'' p0 (RemoteUser_SetupWithManager mgr getenv c) (\<lambda>r1.
     let p1 = add_controller r1 p0 in
     or_exit ''unable to create controller'' p1 (RemoteUserBinding_SetupWithManager mgr c) (\<lambda>r2.
     let p2 = add_controller r2 p1; (hs, route) = WebhookInterceptsAll_Start NewWebhookInterceptsAll;
         p3 = add_webhook route (p2\<lparr>ProgInterception := Some hs\<rparr>) in
     or_exit ''unable to create controller'' p3 (RemoteSyncer_SetupWithManager mgr getenv c (ProgInterception p3)) (\<lambda>r4.
     let p4 = add_controller r4 p3 in
     or_exit ''unable to create controller'' p4 (ClusterWideRemoteSyncer_SetupWithManager mgr getenv c (ProgInterception p4)) (\<lambda>r5.
     let p5 = add_controller r5 p4 in
     or_exit ''unable to create controller'' p5 (RemoteTarget_SetupWithManager mgr) (\<lambda>r6.
     k (add_controller r6 p5))))))"

definition permission_handlers :: "webhook_registration list" where
  "permission_handlers =
     [HandlerAt ''/syngit-v1beta5-remoteuser-permissions'' ''RemoteUserPermissionsWebhookHandler'',
      HandlerAt ''/syngit-v1beta5-remoteuserbinding-permissions'' ''RemoteUserBindingPermissionsWebhookHandler'',
      HandlerAt ''/syngit-v1beta5-remotesyncer-rules-permissions'' ''RemoteSyncerWebhookHandler'',
      HandlerAt ''/syngit-v1beta5-clusterwideremotesyncer-rules-permissions'' ''ClusterWideRemoteSyncerWebhookHandler'',
      HandlerAt ''/syngit-v1beta5-remoteuser-managed'' ''RemoteUserManagedWebhookHandler'']"

primrec setup_validators :: "(go_error + webhook_registration) list \<Rightarrow> 'w program \<Rightarrow> ('w program \<Rightarrow> 'w outcome) \<Rightarrow> 'w outcome" where
  "setup_validators [] p k = k p"
| "setup_validators (v # vs) p k = or_exit ''unable to create webhook'' p v (\<lambda>r. setup_validators vs (add_webhook r p) k)"

definition setup_webhooks :: "manager_api \<Rightarrow> (string \<Rightarrow> string) \<Rightarrow> 'w program \<Rightarrow> ('w program \<Rightarrow> 'w outcome) \<Rightarrow> 'w outcome" where
  "setup_webhooks mgr getenv p k =
     (if getenv ''ENABLE_WEBHOOKS'' \<noteq> ''false'' then
        setup_validators [SetupRemoteUserWebhookWithManager mgr, SetupRemoteSyncerWebhookWithManager mgr,
          SetupRemoteUserBindingWebhookWithManager mgr, SetupRemoteTargetWebhookWithManager mgr,
          SetupClusterWideRemoteSyncerWebhookWithManager mgr] p (\<lambda>p1. k (fold add_webhook permission_handlers p1))
      else k p)"

definition main :: "manager_api \<Rightarrow> cli_flags \<Rightarrow> (string \<Rightarrow> string) \<Rightarrow> 'w client \<Rightarrow> 'w outcome" where
  "main mgr flags getenv c =
     (let start = initial_program flags in
      or_exit '''' start (err_result (GetConfig mgr)) (\<lambda>_.
      let p0 = start\<lparr>ProgIdentity := Impersonate getenv\<rparr> in
      or_exit ''unable to start manager'' p0 (err_result (NewManager mgr (ProgOptions p0) (ProgIdentity p0))) (\<lambda>_.
      setup_controllers mgr getenv c p0 (\<lambda>p1.
      setup_webhooks mgr getenv p1 (\<lambda>p2.
      or_exit ''unable to set up health check'' p2 (err_result (AddHealthzCheck mgr ''healthz'')) (\<lambda>_.
      let p3 = add_check ''healthz'' p2 in
      or_exit ''unable to set up ready check'' p3 (err_result (AddReadyzCheck mgr ''readyz'')) (\<lambda>_.
      let p4 = add_check ''readyz'' p3 in
      or_exit ''problem running manager'' p4 (err_result (StartManager mgr)) (\<lambda>_. Finished p4))))))))"
subsection \<open>A program that runs\<close>

lemmas setup_defs = RemoteUser_SetupWithManager_def RemoteUserBinding_SetupWithManager_def RemoteSyncer_SetupWithManager_def
  ClusterWideRemoteSyncer_SetupWithManager_def RemoteTarget_SetupWithManager_def complete_def

lemmas validator_defs = SetupRemoteUserWebhookWithManager_def SetupRemoteSyncerWebhookWithManager_def SetupRemoteUserBindingWebhookWithManager_def
  SetupRemoteTargetWebhookWithManager_def SetupClusterWideRemoteSyncerWebhookWithManager_def validator_setup_def

definition manager_failures :: "manager_api \<Rightarrow> manager_options \<Rightarrow> UserInfo option \<Rightarrow> bool \<Rightarrow> go_error option list" where
  \<comment> \<open>What the calls of the manager say, in their order.\<close>
  "manager_failures mgr options identity webhooks =
     [GetConfig mgr, NewManager mgr options identity, IndexField mgr ''RemoteUser'' SecretRefField, Complete mgr ''RemoteUser'',
      IndexField mgr ''RemoteUserBinding'' RemoteRefsField, Complete mgr ''RemoteUserBinding'', Complete mgr ''RemoteSyncer'',
      Complete mgr ''ClusterWideRemoteSyncer'', Complete mgr ''RemoteTarget''] @
     (if webhooks then map (CompleteWebhook mgr) [''RemoteUser'', ''RemoteSyncer'', ''RemoteUserBinding'', ''RemoteTarget'', ''ClusterWideRemoteSyncer''] else []) @
     [AddHealthzCheck mgr ''healthz'', AddReadyzCheck mgr ''readyz'', StartManager mgr]"

primrec first_failure :: "go_error option list \<Rightarrow> go_error option" where
  "first_failure [] = None"
| "first_failure (e # es) = (case e of Some err \<Rightarrow> Some err | None \<Rightarrow> first_failure es)"

lemma first_failure_append: "first_failure (xs @ ys) = (case first_failure xs of Some e \<Rightarrow> Some e | None \<Rightarrow> first_failure ys)"
  by (induction xs) (auto split: option.split)

definition outcome_error :: "'w outcome \<Rightarrow> go_error option" where
  "outcome_error out = (case out of Exited _ err _ \<Rightarrow> Some err | Finished _ \<Rightarrow> None)"

lemma outcome_Finished [simp]: "outcome_error (Finished p) = None"
  by (simp add: outcome_error_def)

lemma outcome_or_exit: "outcome_error (or_exit m p r k) = (case r of Inl err \<Rightarrow> Some err | Inr x \<Rightarrow> outcome_error (k x))"
  by (simp add: or_exit_def outcome_error_def split: sum.split)

lemma outcome_err_result: "outcome_error (or_exit m p (err_result e) k) = (case e of Some err \<Rightarrow> Some err | None \<Rightarrow> outcome_error (k ()))"
  by (simp add: outcome_or_exit err_result_def split: option.split)

lemma or_exit_Finished: "or_exit m p r k = Finished q \<longleftrightarrow> (\<exists>x. r = Inr x \<and> k x = Finished q)"
  by (simp add: or_exit_def split: sum.split)

definition result_error :: "go_error + 'a \<Rightarrow> go_error option" where
  "result_error r = (case r of Inl err \<Rightarrow> Some err | Inr _ \<Rightarrow> None)"

lemma outcome_step:
  assumes "result_error r = first_failure es" and "\<And>x. outcome_error (k x) = rest"
  shows "outcome_error (or_exit m p r k) = first_failure (es @ [rest])"
  unfolding first_failure_append assms(1) [symmetric] using assms(2) by (cases r) (auto simp: outcome_or_exit result_error_def split: option.split)

lemma setup_errors:
  "result_error (RemoteUser_SetupWithManager mgr getenv c) = first_failure [IndexField mgr ''RemoteUser'' SecretRefField, Complete mgr ''RemoteUser'']"
  "result_error (RemoteUserBinding_SetupWithManager mgr c) =
     first_failure [IndexField mgr ''RemoteUserBinding'' RemoteRefsField, Complete mgr ''RemoteUserBinding'']"
  "hs \<noteq> None \<Longrightarrow> result_error (RemoteSyncer_SetupWithManager mgr getenv c hs) = first_failure [Complete mgr ''RemoteSyncer'']"
  "hs \<noteq> None \<Longrightarrow> result_error (ClusterWideRemoteSyncer_SetupWithManager mgr getenv c hs) = first_failure [Complete mgr ''ClusterWideRemoteSyncer'']"
  "result_error (RemoteTarget_SetupWithManager mgr) = first_failure [Complete mgr ''RemoteTarget'']"
  by (auto simp: setup_defs result_error_def Let_def split: option.split)

lemma setup_controllers_error:
  assumes "\<And>p. outcome_error (k p) = rest"
  shows "outcome_error (setup_controllers mgr getenv c p k) =
    first_failure ([IndexField mgr ''RemoteUser'' SecretRefField, Complete mgr ''RemoteUser''] @ [
    first_failure ([IndexField mgr ''RemoteUserBinding'' RemoteRefsField, Complete mgr ''RemoteUserBinding''] @ [
    first_failure ([Complete mgr ''RemoteSyncer''] @ [
    first_failure ([Complete mgr ''ClusterWideRemoteSyncer''] @ [
    first_failure ([Complete mgr ''RemoteTarget''] @ [rest])])])])])"
  unfolding setup_controllers_def Let_def WebhookInterceptsAll_Start_def split
  by (intro outcome_step setup_errors assms) (simp_all add: add_webhook_def add_controller_def)

lemma setup_webhooks_error:
  assumes "\<And>p. outcome_error (k p) = rest"
  shows "outcome_error (setup_webhooks mgr getenv p k) =
    first_failure ((if getenv ''ENABLE_WEBHOOKS'' \<noteq> ''false'' then map (CompleteWebhook mgr)
      [''RemoteUser'', ''RemoteSyncer'', ''RemoteUserBinding'', ''RemoteTarget'', ''ClusterWideRemoteSyncer''] else []) @ [rest])"
  by (simp add: setup_webhooks_def outcome_or_exit validator_defs assms split: option.split)

text \<open>The program ends with the first error of the manager, and runs when there is none.\<close>

lemma main_error:
  "outcome_error (main mgr flags getenv c) =
     first_failure (manager_failures mgr (manager_options_of flags) (Impersonate getenv) (getenv ''ENABLE_WEBHOOKS'' \<noteq> ''false''))"
proof -
  let ?last = "first_failure [AddHealthzCheck mgr ''healthz'', AddReadyzCheck mgr ''readyz'', StartManager mgr]"
  have finish: "outcome_error (or_exit m1 p (err_result (AddHealthzCheck mgr ''healthz'')) (\<lambda>_.
      let p3 = add_check ''healthz'' p in or_exit m2 p3 (err_result (AddReadyzCheck mgr ''readyz'')) (\<lambda>_.
      let p4 = add_check ''readyz'' p3 in or_exit m3 p4 (err_result (StartManager mgr)) (\<lambda>_. Finished p4)))) = ?last" for m1 m2 m3 and p :: "'a program"
    unfolding Let_def outcome_err_result by (simp split: option.split)
  show ?thesis
    unfolding main_def Let_def outcome_err_result setup_controllers_error [OF setup_webhooks_error [OF finish [unfolded Let_def]]]
    by (simp add: manager_failures_def initial_program_def first_failure_append split: option.split)
qed

lemmas add_defs = add_controller_def add_webhook_def add_check_def

lemma setup_controllers_Finished:
  assumes "setup_controllers mgr getenv c p k = Finished q"
  obtains r1 r2 r3 r4 r5 where
    "RemoteUser_SetupWithManager mgr getenv c = Inr r1" "RemoteUserBinding_SetupWithManager mgr c = Inr r2"
    "RemoteSyncer_SetupWithManager mgr getenv c (Some []) = Inr r3" "ClusterWideRemoteSyncer_SetupWithManager mgr getenv c (Some []) = Inr r4"
    "RemoteTarget_SetupWithManager mgr = Inr r5"
    "k (p\<lparr>ProgInterception := Some [], ProgWebhooks := ProgWebhooks p @ [HandlerAt ''/syngit/'' ''router''],
        ProgControllers := ProgControllers p @ [r1, r2, r3, r4, r5]\<rparr>) = Finished q"
  using assms
  by (auto simp: setup_controllers_def WebhookInterceptsAll_Start_def NewWebhookInterceptsAll_def Let_def or_exit_Finished add_defs)

definition validators :: "webhook_registration list" where
  "validators = [ValidatorFor ''RemoteUser'' ''RemoteUserCustomValidator'', ValidatorFor ''RemoteSyncer'' ''RemoteSyncerCustomValidator'',
     ValidatorFor ''RemoteUserBinding'' ''RemoteUserBindingCustomValidator'', ValidatorFor ''RemoteTarget'' ''RemoteTargetCustomValidator'',
     ValidatorFor ''ClusterWideRemoteSyncer'' ''ClusterWideRemoteSyncerCustomValidator'']"

lemma setup_webhooks_Finished:
  assumes "setup_webhooks mgr getenv p k = Finished q"
  shows "k (p\<lparr>ProgWebhooks := ProgWebhooks p @ (if getenv ''ENABLE_WEBHOOKS'' \<noteq> ''false'' then validators @ permission_handlers else [])\<rparr>) = Finished q"
  using assms
  by (auto simp: setup_webhooks_def or_exit_Finished validator_defs validators_def permission_handlers_def add_defs split: option.splits if_splits)

lemma main_Finished:
  assumes "main mgr flags getenv c = Finished p"
  obtains r1 r2 r3 r4 r5 where
    "RemoteUser_SetupWithManager mgr getenv c = Inr r1" "RemoteUserBinding_SetupWithManager mgr c = Inr r2"
    "RemoteSyncer_SetupWithManager mgr getenv c (Some []) = Inr r3" "ClusterWideRemoteSyncer_SetupWithManager mgr getenv c (Some []) = Inr r4"
    "RemoteTarget_SetupWithManager mgr = Inr r5"
    "p = (initial_program flags)\<lparr>ProgIdentity := Impersonate getenv, ProgControllers := [r1, r2, r3, r4, r5], ProgInterception := Some [],
       ProgWebhooks := HandlerAt ''/syngit/'' ''router'' #
         (if getenv ''ENABLE_WEBHOOKS'' \<noteq> ''false'' then validators @ permission_handlers else []),
       ProgChecks := [''healthz'', ''readyz'']\<rparr>"
proof -
  define k where "k = (\<lambda>p2 :: 'a program. or_exit ''unable to set up health check'' p2 (err_result (AddHealthzCheck mgr ''healthz'')) (\<lambda>_.
      or_exit ''unable to set up ready check'' (add_check ''healthz'' p2) (err_result (AddReadyzCheck mgr ''readyz'')) (\<lambda>_.
      or_exit ''problem running manager'' (add_check ''readyz'' (add_check ''healthz'' p2)) (err_result (StartManager mgr)) (\<lambda>_.
      Finished (add_check ''readyz'' (add_check ''healthz'' p2))))))"
  have k: "k p2 = Finished q \<Longrightarrow> q = add_check ''readyz'' (add_check ''healthz'' p2)" for p2 q
    by (auto simp: k_def or_exit_Finished)
  from assms have "setup_controllers mgr getenv c ((initial_program flags)\<lparr>ProgIdentity := Impersonate getenv\<rparr>) (\<lambda>p1. setup_webhooks mgr getenv p1 k) = Finished p"
    unfolding main_def Let_def or_exit_Finished k_def [symmetric] by auto
  then show ?thesis
  proof (elim setup_controllers_Finished)
    fix r1 r2 r3 r4 r5 :: "'a registration"
    assume r: "RemoteUser_SetupWithManager mgr getenv c = Inr r1" "RemoteUserBinding_SetupWithManager mgr c = Inr r2"
      "RemoteSyncer_SetupWithManager mgr getenv c (Some []) = Inr r3" "ClusterWideRemoteSyncer_SetupWithManager mgr getenv c (Some []) = Inr r4"
      "RemoteTarget_SetupWithManager mgr = Inr r5"
    assume w: "setup_webhooks mgr getenv (((initial_program flags)\<lparr>ProgIdentity := Impersonate getenv\<rparr>)
        \<lparr>ProgInterception := Some [], ProgWebhooks := ProgWebhooks ((initial_program flags)\<lparr>ProgIdentity := Impersonate getenv\<rparr>) @ [HandlerAt ''/syngit/'' ''router''],
         ProgControllers := ProgControllers ((initial_program flags)\<lparr>ProgIdentity := Impersonate getenv\<rparr>) @ [r1, r2, r3, r4, r5]\<rparr>) k = Finished p"
    from k [OF setup_webhooks_Finished [OF w]] r show ?thesis by (intro that) (simp_all add: initial_program_def add_defs)
  qed
qed

definition handler_paths :: "webhook_registration list \<Rightarrow> string list" where
  "handler_paths ws = concat (map (\<lambda>r. case r of HandlerAt path _ \<Rightarrow> [path] | ValidatorFor _ _ \<Rightarrow> []) ws)"

text \<open>C28. The program exits with the first error a call of the manager returns and runs when there is none; unless webhooks are
  disabled this takes all of the validating webhooks too.  A program that runs has a controller for each of the five kinds, one
  interception server, and, with webhooks, a validator for each kind and on their paths the handlers of the permissions of remote users,
  bindings, syncers and cluster-wide syncers and of managed remote users, no two of the handlers on one path.\<close>

theorem main_starts_everything:
  "(case main mgr flags getenv c of
      Exited _ err _ \<Rightarrow> first_failure (manager_failures mgr (manager_options_of flags) (Impersonate getenv) (getenv ''ENABLE_WEBHOOKS'' \<noteq> ''false'')) = Some err
    | Finished p \<Rightarrow>
        first_failure (manager_failures mgr (manager_options_of flags) (Impersonate getenv) (getenv ''ENABLE_WEBHOOKS'' \<noteq> ''false'')) = None \<and>
        map RegFor (ProgControllers p) = [''RemoteUser'', ''RemoteUserBinding'', ''RemoteSyncer'', ''ClusterWideRemoteSyncer'', ''RemoteTarget''] \<and>
        ProgInterception p = Some [] \<and>
        ProgWebhooks p = HandlerAt ''/syngit/'' ''router'' # (if getenv ''ENABLE_WEBHOOKS'' = ''false'' then [] else
          [ValidatorFor ''RemoteUser'' ''RemoteUserCustomValidator'', ValidatorFor ''RemoteSyncer'' ''RemoteSyncerCustomValidator'',
           ValidatorFor ''RemoteUserBinding'' ''RemoteUserBindingCustomValidator'', ValidatorFor ''RemoteTarget'' ''RemoteTargetCustomValidator'',
           ValidatorFor ''ClusterWideRemoteSyncer'' ''ClusterWideRemoteSyncerCustomValidator'',
           HandlerAt ''/syngit-v1beta5-remoteuser-permissions'' ''RemoteUserPermissionsWebhookHandler'',
           HandlerAt ''/syngit-v1beta5-remoteuserbinding-permissions'' ''RemoteUserBindingPermissionsWebhookHandler'',
           HandlerAt ''/syngit-v1beta5-remotesyncer-rules-permissions'' ''RemoteSyncerWebhookHandler'',
           HandlerAt ''/syngit-v1beta5-clusterwideremotesyncer-rules-permissions'' ''ClusterWideRemoteSyncerWebhookHandler'',
           HandlerAt ''/syngit-v1beta5-remoteuser-managed'' ''RemoteUserManagedWebhookHandler'']) \<and>
        distinct (handler_paths (ProgWebhooks p)))"
proof (cases "main mgr flags getenv c")
  case (Exited m err p)
  with main_error [of mgr flags getenv c] show ?thesis by (simp add: outcome_error_def)
next
  case (Finished p)
  with main_error [of mgr flags getenv c] have ok: "first_failure (manager_failures mgr (manager_options_of flags) (Impersonate getenv)
      (getenv ''ENABLE_WEBHOOKS'' \<noteq> ''false'')) = None" by simp
  from Finished obtain r1 r2 r3 r4 r5 where
    r: "RemoteUser_SetupWithManager mgr getenv c = Inr r1" "RemoteUserBinding_SetupWithManager mgr c = Inr r2"
      "RemoteSyncer_SetupWithManager mgr getenv c (Some []) = Inr r3" "ClusterWideRemoteSyncer_SetupWithManager mgr getenv c (Some []) = Inr r4"
      "RemoteTarget_SetupWithManager mgr = Inr r5"
    and p: "p = (initial_program flags)\<lparr>ProgIdentity := Impersonate getenv, ProgControllers := [r1, r2, r3, r4, r5], ProgInterception := Some [],
       ProgWebhooks := HandlerAt ''/syngit/'' ''router'' #
         (if getenv ''ENABLE_WEBHOOKS'' \<noteq> ''false'' then validators @ permission_handlers else []),
       ProgChecks := [''healthz'', ''readyz'']\<rparr>" by (rule main_Finished)
  from r have "map RegFor [r1, r2, r3, r4, r5] = [''RemoteUser'', ''RemoteUserBinding'', ''RemoteSyncer'', ''ClusterWideRemoteSyncer'', ''RemoteTarget'']"
    by (auto simp: setup_defs Let_def split: option.splits)
  moreover have "distinct (handler_paths (HandlerAt ''/syngit/'' ''router'' # validators @ permission_handlers))"
    "distinct (handler_paths [HandlerAt ''/syngit/'' ''router''])" by code_simp+
  ultimately show ?thesis using Finished ok
    by (cases "getenv ''ENABLE_WEBHOOKS'' = ''false''") (simp_all add: p validators_def permission_handlers_def del: list.map)
qed

subsection \<open>Metrics, identity and watches\<close>

text \<open>C39. With secure metrics the options first built carry the filter that asks for authentication and authorization, but
  those a running manager was given serve metrics over TLS without any filter; HTTP/2 is off for metrics and webhooks unless it was enabled.\<close>

theorem secure_metrics_lose_their_filter:
  assumes "main mgr flags getenv c = Finished p" and "secureMetrics flags"
  shows "FilterProvider (metricsServerOptions flags) = Some WithAuthenticationAndAuthorization \<and>
    SecureServing (Metrics (ProgOptions p)) \<and> FilterProvider (Metrics (ProgOptions p)) = None \<and>
    (\<not> enableHTTP2 flags \<longrightarrow> (\<forall>conf.
       NextProtos (fold id (MetricsTLSOpts (Metrics (ProgOptions p))) conf) = [''http/1.1''] \<and>
       NextProtos (fold id (WebhookTLSOpts (ProgOptions p)) conf) = [''http/1.1'']))"
proof -
  from assms(1) obtain r1 r2 r3 r4 r5 where "p = (initial_program flags)\<lparr>ProgIdentity := Impersonate getenv, ProgControllers := [r1, r2, r3, r4, r5],
    ProgInterception := Some [], ProgWebhooks := HandlerAt ''/syngit/'' ''router'' #
      (if getenv ''ENABLE_WEBHOOKS'' \<noteq> ''false'' then validators @ permission_handlers else []), ProgChecks := [''healthz'', ''readyz'']\<rparr>"
    by (rule main_Finished)
  with assms(2) show ?thesis
    by (simp add: initial_program_def manager_options_of_def metricsServerOptions_def tls_opts_def disableHTTP2_def Let_def)
qed

definition quiet_manager :: manager_api where
  "quiet_manager = \<lparr>GetConfig = None, NewManager = \<lambda>_ _. None, IndexField = \<lambda>_ _. None, Complete = \<lambda>_. None, CompleteWebhook = \<lambda>_. None,
     AddHealthzCheck = \<lambda>_. None, AddReadyzCheck = \<lambda>_. None, StartManager = None\<rparr>"

lemma quiet_manager_runs: "\<exists>p. main quiet_manager flags getenv c = Finished p"
proof (cases "main quiet_manager flags getenv c")
  case (Exited m err p)
  with main_error [of quiet_manager flags getenv c] show ?thesis
    by (simp add: outcome_error_def manager_failures_def quiet_manager_def split: if_splits)
qed simp

theorem secure_metrics_lose_their_filter_witness:
  "\<exists>p. main quiet_manager (default_flags\<lparr>secureMetrics := True\<rparr>) (\<lambda>_. '''') (demo_ctl_client []) = Finished p \<and>
     FilterProvider (Metrics (ProgOptions p)) = None"
proof -
  obtain p where p: "main quiet_manager (default_flags\<lparr>secureMetrics := True\<rparr>) (\<lambda>_. '''') (demo_ctl_client []) = Finished p"
    using quiet_manager_runs by blast
  with secure_metrics_lose_their_filter [OF p] show ?thesis by simp
qed

text \<open>In development the program acts as a service account that its own webhooks let pass.\<close>

lemma impersonated_bypasses: "Impersonate getenv = Some u \<Longrightarrow> doesUserBypassWebhook u (getenv ''MANAGER_NAMESPACE'')"
  by (auto simp: Impersonate_def doesUserBypassWebhook_def Let_def HasPrefix_iff split: if_splits)

definition all_requests :: "'w program \<Rightarrow> cluster_change \<Rightarrow> bool \<Rightarrow> 'w \<Rightarrow> (string \<times> NamespacedName) set" where
  \<comment> \<open>The kinds and keys that are reconciled after a change.\<close>
  "all_requests p change versionChanged w = (\<Union>r \<in> set (ProgControllers p). (\<lambda>n. (RegFor r, n)) ` set (RegRequests r change versionChanged w))"

lemma main_requests:
  assumes "main mgr flags getenv c = Finished p"
  shows "all_requests p (WebhookConfigurationChanged conf) v w =
      (if Name (Meta conf) = getenv ''DYNAMIC_WEBHOOK_NAME'' then
         Pair ''RemoteSyncer'' ` set (findObjectsForDynamicWebhook c w) \<union> Pair ''ClusterWideRemoteSyncer'' ` set (findObjectsForDynamicWebhook_cluster c w)
       else {})"
    and "all_requests p (SecretChanged n) v w = (if v then Pair ''RemoteUser'' ` set (findObjectsForSecret c n w) else {})"
    and "all_requests p (RemoteUserChanged n) v w =
      insert (''RemoteUser'', n) (if v then Pair ''RemoteUserBinding'' ` set (findObjectsForRemoteUser c n w) else {})"
proof -
  from assms obtain r1 r2 r3 r4 r5 where
    r: "RemoteUser_SetupWithManager mgr getenv c = Inr r1" "RemoteUserBinding_SetupWithManager mgr c = Inr r2"
      "RemoteSyncer_SetupWithManager mgr getenv c (Some []) = Inr r3" "ClusterWideRemoteSyncer_SetupWithManager mgr getenv c (Some []) = Inr r4"
      "RemoteTarget_SetupWithManager mgr = Inr r5" and p: "ProgControllers p = [r1, r2, r3, r4, r5]"
    by (rule main_Finished) simp
  from r have reg: "RegFor r1 = ''RemoteUser''" "RegFor r2 = ''RemoteUserBinding''" "RegFor r3 = ''RemoteSyncer''" "RegFor r4 = ''ClusterWideRemoteSyncer''"
    by (auto simp: setup_defs Let_def split: option.splits)
  from r(1,2,5) have eqs: "RegRequests r1 ch v w = (case ch of RemoteUserChanged n \<Rightarrow> [n]
           | SecretChanged n \<Rightarrow> if v then findObjectsForSecret c n w else []
           | RemoteTargetChanged rt \<Rightarrow> if v then findRemoteUsersForRemoteTarget c rt w else [] | _ \<Rightarrow> [])"
    "RegRequests r2 ch v w = (case ch of RemoteUserBindingChanged rub \<Rightarrow> [key_of rub]
           | RemoteUserChanged n \<Rightarrow> if v then findObjectsForRemoteUser c n w else [] | _ \<Rightarrow> [])"
    "RegRequests r5 ch v w = (case ch of RemoteTargetChanged rt \<Rightarrow> [key_of rt] | _ \<Rightarrow> [])" for ch
    by (auto simp: setup_defs split: option.splits)
  from r(3,4) have "RegRequests r3 ch v w = (case ch of RemoteSyncerChanged n \<Rightarrow> [n]
         | WebhookConfigurationChanged conf \<Rightarrow> if Name (Meta conf) = getenv ''DYNAMIC_WEBHOOK_NAME'' then findObjectsForDynamicWebhook c w else []
         | RemoteUserBindingChanged rub \<Rightarrow> if v then findRemoteSyncersForRUB c rub w else [] | _ \<Rightarrow> [])"
    "RegRequests r4 ch v w = (case ch of ClusterWideRemoteSyncerChanged n \<Rightarrow> [n]
         | WebhookConfigurationChanged conf \<Rightarrow> if Name (Meta conf) = getenv ''DYNAMIC_WEBHOOK_NAME'' then findObjectsForDynamicWebhook_cluster c w else []
         | RemoteUserBindingChanged rub \<Rightarrow> if v then findSyncersForRUB c rub w else [] | _ \<Rightarrow> [])" for ch
    by (cases ch; auto simp: setup_defs Let_def webhookNamePredicate_def loadFromEnv_def split: option.splits)+
  note eqs = eqs this
  show "all_requests p (WebhookConfigurationChanged conf) v w =
      (if Name (Meta conf) = getenv ''DYNAMIC_WEBHOOK_NAME'' then
         Pair ''RemoteSyncer'' ` set (findObjectsForDynamicWebhook c w) \<union> Pair ''ClusterWideRemoteSyncer'' ` set (findObjectsForDynamicWebhook_cluster c w)
       else {})" by (simp add: all_requests_def p reg eqs)
  show "all_requests p (SecretChanged n) v w = (if v then Pair ''RemoteUser'' ` set (findObjectsForSecret c n w) else {})"
    by (simp add: all_requests_def p reg eqs)
  show "all_requests p (RemoteUserChanged n) v w =
      insert (''RemoteUser'', n) (if v then Pair ''RemoteUserBinding'' ` set (findObjectsForRemoteUser c n w) else {})"
    by (simp add: all_requests_def p reg eqs)
qed

definition resolved :: "string \<Rightarrow> string \<Rightarrow> string" where
  \<comment> \<open>The namespace a reference means: its own, or the one of its owner when it has none.\<close>
  "resolved refNs ownerNs = (if refNs = '''' then ownerNs else refNs)"

lemma key_injective:
  assumes "CHR ''/'' \<notin> set ns" and "CHR ''/'' \<notin> set ns'"
  shows "ns @ ''/'' @ n = ns' @ ''/'' @ n' \<longleftrightarrow> ns = ns' \<and> n = n'"
  using assms by (induction ns arbitrary: ns') (case_tac ns'; auto)+

lemma secret_key_iff:
  assumes "ns \<noteq> ''''" and "n \<noteq> ''''" and "CHR ''/'' \<notin> set ns"
    and "CHR ''/'' \<notin> set (resolved (SecNamespace (SecretRef (Spec u))) (Namespace (Meta u)))"
  shows "ns @ ''/'' @ n \<in> set (remoteUserValueExtractor u) \<longleftrightarrow>
    SecName (SecretRef (Spec u)) = n \<and> resolved (SecNamespace (SecretRef (Spec u))) (Namespace (Meta u)) = ns"
  using assms key_injective [OF assms(3,4)]
  by (auto simp: remoteUserValueExtractor_def Let_def ResolveNamespace_def resolved_def split: if_splits)

lemma set_ref_keys:
  "set (ref_keys rub i refs acc) = (if list_ex (\<lambda>ref. RefName ref = '''') refs then {} else set acc \<union>
     {resolved (RefNamespace ref) (Namespace (Meta rub)) @ ''/'' @ RefName ref | ref.
        ref \<in> set refs \<and> resolved (RefNamespace ref) (Namespace (Meta rub)) \<noteq> ''''})"
  by (induction refs arbitrary: i acc) (auto simp: ResolveNamespace_def resolved_def split: sum.splits)

lemma user_key_iff:
  assumes "ns \<noteq> ''''" and "CHR ''/'' \<notin> set ns"
    and "\<And>ref. ref \<in> set (RemoteUserRefs (Spec rub)) \<Longrightarrow> CHR ''/'' \<notin> set (resolved (RefNamespace ref) (Namespace (Meta rub)))"
  shows "ns @ ''/'' @ n \<in> set (remoteTargetValueExtractor rub) \<longleftrightarrow>
    (\<forall>ref \<in> set (RemoteUserRefs (Spec rub)). RefName ref \<noteq> '''') \<and>
    (\<exists>ref \<in> set (RemoteUserRefs (Spec rub)). RefName ref = n \<and> resolved (RefNamespace ref) (Namespace (Meta rub)) = ns)"
  using assms(1) key_injective [OF assms(2,3)]
  by (auto simp: remoteTargetValueExtractor_def set_ref_keys list_ex_iff)

text \<open>C29. When the shared webhook configuration changes, a running program reconciles exactly the syncers of the cluster, of both
  kinds; when another configuration changes, nothing.  When a secret changes it reconciles exactly the remote users whose secret
  reference has that name and, in its own namespace or else in that of the user, that namespace.  When a remote user changes it
  reconciles that user and exactly the bindings with such a reference to it, those with a nameless reference apart.  The names of
  namespaces have no slash, as Kubernetes has it, and the changed secret or user has a name and a namespace.\<close>

theorem changes_reach_their_dependents:
  assumes "main mgr flags getenv c = Finished p"
    and "klist (RemoteSyncers c) w '''' None = Inr rss" and "klist (ClusterWideRemoteSyncers c) w '''' None = Inr cwrss"
    and "klist (RemoteUsers c) w '''' None = Inr us" and "klist (RemoteUserBindings c) w '''' None = Inr rubs"
    and "NsnNamespace n \<noteq> ''''" and "NsnName n \<noteq> ''''" and "CHR ''/'' \<notin> set (NsnNamespace n)"
    and "\<forall>u \<in> set us. CHR ''/'' \<notin> set (SecNamespace (SecretRef (Spec u))) \<union> set (Namespace (Meta u))"
    and "\<forall>rub \<in> set rubs. CHR ''/'' \<notin> set (Namespace (Meta rub)) \<and> (\<forall>ref \<in> set (RemoteUserRefs (Spec rub)). CHR ''/'' \<notin> set (RefNamespace ref))"
  shows "all_requests p (WebhookConfigurationChanged conf) v w =
      (if Name (Meta conf) = getenv ''DYNAMIC_WEBHOOK_NAME'' then
         {(''RemoteSyncer'', key_of rs) | rs. rs \<in> set rss} \<union> {(''ClusterWideRemoteSyncer'', nsn '''' (Name (Meta s))) | s. s \<in> set cwrss}
       else {}) \<and>
    all_requests p (SecretChanged n) True w =
      {(''RemoteUser'', key_of u) | u. u \<in> set us \<and> SecName (SecretRef (Spec u)) = NsnName n \<and>
         (if SecNamespace (SecretRef (Spec u)) = '''' then Namespace (Meta u) else SecNamespace (SecretRef (Spec u))) = NsnNamespace n} \<and>
    all_requests p (RemoteUserChanged n) True w = insert (''RemoteUser'', n)
      {(''RemoteUserBinding'', key_of rub) | rub. rub \<in> set rubs \<and> (\<forall>ref \<in> set (RemoteUserRefs (Spec rub)). RefName ref \<noteq> '''') \<and>
         (\<exists>ref \<in> set (RemoteUserRefs (Spec rub)). RefName ref = NsnName n \<and>
            (if RefNamespace ref = '''' then Namespace (Meta rub) else RefNamespace ref) = NsnNamespace n)}"
proof (intro conjI)
  show "all_requests p (WebhookConfigurationChanged conf) v w =
      (if Name (Meta conf) = getenv ''DYNAMIC_WEBHOOK_NAME'' then
         {(''RemoteSyncer'', key_of rs) | rs. rs \<in> set rss} \<union> {(''ClusterWideRemoteSyncer'', nsn '''' (Name (Meta s))) | s. s \<in> set cwrss}
       else {})"
    unfolding main_requests [OF assms(1)] findObjectsForDynamicWebhook_def findObjectsForDynamicWebhook_cluster_def assms(2,3)
    by (auto simp: requests_def cluster_requests_def)
  have "NsnNamespace n @ ''/'' @ NsnName n \<in> set (remoteUserValueExtractor u) \<longleftrightarrow> SecName (SecretRef (Spec u)) = NsnName n \<and>
      (if SecNamespace (SecretRef (Spec u)) = '''' then Namespace (Meta u) else SecNamespace (SecretRef (Spec u))) = NsnNamespace n"
    if "u \<in> set us" for u
    using secret_key_iff [OF assms(6-8), of u] assms(9) that by (auto simp: resolved_def)
  then have users: "filter (\<lambda>u. NsnNamespace n @ ''/'' @ NsnName n \<in> set (remoteUserValueExtractor u)) us =
      filter (\<lambda>u. SecName (SecretRef (Spec u)) = NsnName n \<and>
        (if SecNamespace (SecretRef (Spec u)) = '''' then Namespace (Meta u) else SecNamespace (SecretRef (Spec u))) = NsnNamespace n) us"
    by (rule filter_cong [OF refl])
  show "all_requests p (SecretChanged n) True w =
      {(''RemoteUser'', key_of u) | u. u \<in> set us \<and> SecName (SecretRef (Spec u)) = NsnName n \<and>
         (if SecNamespace (SecretRef (Spec u)) = '''' then Namespace (Meta u) else SecNamespace (SecretRef (Spec u))) = NsnNamespace n}"
    unfolding main_requests [OF assms(1)] findObjectsForSecret_def indexed_list_def assms(4) requests_def map_sum.simps users
    by auto
  have "NsnNamespace n @ ''/'' @ NsnName n \<in> set (remoteTargetValueExtractor rub) \<longleftrightarrow> (\<forall>ref \<in> set (RemoteUserRefs (Spec rub)). RefName ref \<noteq> '''') \<and>
      (\<exists>ref \<in> set (RemoteUserRefs (Spec rub)). RefName ref = NsnName n \<and>
         (if RefNamespace ref = '''' then Namespace (Meta rub) else RefNamespace ref) = NsnNamespace n)"
    if "rub \<in> set rubs" for rub
    using user_key_iff [OF assms(6,8), of rub "NsnName n"] assms(10) that by (auto simp: resolved_def)
  then have bindings: "filter (\<lambda>rub. NsnNamespace n @ ''/'' @ NsnName n \<in> set (remoteTargetValueExtractor rub)) rubs =
      filter (\<lambda>rub. (\<forall>ref \<in> set (RemoteUserRefs (Spec rub)). RefName ref \<noteq> '''') \<and>
        (\<exists>ref \<in> set (RemoteUserRefs (Spec rub)). RefName ref = NsnName n \<and>
           (if RefNamespace ref = '''' then Namespace (Meta rub) else RefNamespace ref) = NsnNamespace n)) rubs"
    by (rule filter_cong [OF refl])
  show "all_requests p (RemoteUserChanged n) True w = insert (''RemoteUser'', n)
      {(''RemoteUserBinding'', key_of rub) | rub. rub \<in> set rubs \<and> (\<forall>ref \<in> set (RemoteUserRefs (Spec rub)). RefName ref \<noteq> '''') \<and>
         (\<exists>ref \<in> set (RemoteUserRefs (Spec rub)). RefName ref = NsnName n \<and>
            (if RefNamespace ref = '''' then Namespace (Meta rub) else RefNamespace ref) = NsnNamespace n)}"
    unfolding main_requests [OF assms(1)] findObjectsForRemoteUser_def indexed_list_def assms(5) requests_def map_sum.simps bindings
    by auto
qed

definition demo_far_user :: RemoteUser where
  \<comment> \<open>A user of another namespace whose reference names the namespace of the secret.\<close>
  "demo_far_user = demo_secret_user\<lparr>Meta := no_meta\<lparr>Name := ''v'', Namespace := ''home''\<rparr>,
     Spec := (Spec demo_secret_user)\<lparr>SecretRef := \<lparr>SecName = ''token'', SecNamespace = ''team''\<rparr>\<rparr>\<rparr>"

definition demo_watch_client :: "RemoteUserBinding list client" where
  "demo_watch_client = (flat_client (\<lambda>_ _. True))\<lparr>RemoteUsers := read_api [demo_secret_user, demo_far_user]\<rparr>"

theorem changes_reach_their_dependents_witness:
  "\<exists>p. main quiet_manager default_flags id demo_watch_client = Finished p \<and>
     all_requests p (SecretChanged (nsn ''team'' ''token'')) True [] = {(''RemoteUser'', nsn ''team'' ''u''), (''RemoteUser'', nsn ''home'' ''v'')}"
proof -
  let ?n = "nsn ''team'' ''token''"
  obtain p where p: "main quiet_manager default_flags id demo_watch_client = Finished p" using quiet_manager_runs by blast
  have lists: "klist (RemoteSyncers demo_watch_client) [] '''' None = Inr []" "klist (ClusterWideRemoteSyncers demo_watch_client) [] '''' None = Inr []"
    "klist (RemoteUsers demo_watch_client) [] '''' None = Inr [demo_secret_user, demo_far_user]"
    "klist (RemoteUserBindings demo_watch_client) [] '''' None = Inr []"
    by (simp_all add: demo_watch_client_def flat_client_def no_api_def read_api_def)
  have names: "NsnNamespace ?n \<noteq> ''''" "NsnName ?n \<noteq> ''''" "CHR ''/'' \<notin> set (NsnNamespace ?n)"
    "\<forall>u \<in> set [demo_secret_user, demo_far_user]. CHR ''/'' \<notin> set (SecNamespace (SecretRef (Spec u))) \<union> set (Namespace (Meta u))"
    "\<forall>rub \<in> set ([] :: RemoteUserBinding list). CHR ''/'' \<notin> set (Namespace (Meta rub)) \<and> (\<forall>ref \<in> set (RemoteUserRefs (Spec rub)). CHR ''/'' \<notin> set (RefNamespace ref))"
    by (simp_all add: nsn_def demo_secret_user_def demo_far_user_def no_meta_def)
  have far: "key_of demo_secret_user = nsn ''team'' ''u''" "key_of demo_far_user = nsn ''home'' ''v''"
    "SecretRef (Spec demo_secret_user) = \<lparr>SecName = ''token'', SecNamespace = ''''\<rparr>" "Namespace (Meta demo_secret_user) = ''team''"
    "SecretRef (Spec demo_far_user) = \<lparr>SecName = ''token'', SecNamespace = ''team''\<rparr>"
    by (simp_all add: demo_secret_user_def demo_far_user_def key_of_def no_meta_def)
  have "all_requests p (SecretChanged ?n) True [] = {(''RemoteUser'', key_of u) | u. u \<in> set [demo_secret_user, demo_far_user] \<and>
      SecName (SecretRef (Spec u)) = NsnName ?n \<and>
      (if SecNamespace (SecretRef (Spec u)) = '''' then Namespace (Meta u) else SecNamespace (SecretRef (Spec u))) = NsnNamespace ?n}"
    using changes_reach_their_dependents [OF p lists names] by blast
  also have "\<dots> = {(''RemoteUser'', nsn ''team'' ''u''), (''RemoteUser'', nsn ''home'' ''v'')}"
    using far by (force simp: nsn_def)
  finally show ?thesis using p by blast
qed

end
