(* ===== verification/User_Policy.thy ===== *)
theory User_Policy
  imports Policies
begin

text \<open>
  What a reconcile of the user policy (\<open>internal/policy/userspecific_policy.go\<close>) does to the remote targets of a cluster: it
  creates the targets of the users with a managed binding and removes those of the users that have none any more.
\<close>

subsection \<open>Creating\<close>

definition target_for :: "Syncer \<Rightarrow> RemoteUserBinding \<Rightarrow> RemoteTarget \<Rightarrow> bool" where
  \<comment> \<open>The target of the user of a binding: on a branch of the upstream named after the user, or on the same branch of a fork that is not known yet.\<close>
  "target_for syncer rub rt \<longleftrightarrow>
     Labels (Meta rt) = [(ManagedByLabelKey, ManagedByLabelValue), (RtLabelKeyPolicy, RtLabelValueOneUserOneBranch), (K8sUserLabelKey, user_label rub)] \<and>
     NsnNamespace (key_of rt) = IdentityNamespace syncer \<and>
     UpstreamRepository (Spec rt) = RemoteRepository (SyncerSpec syncer) \<and> UpstreamBranch (Spec rt) = DefaultBranch (SyncerSpec syncer) \<and>
     TargetRepository (Spec rt) =
       (if SyncerAnnotation syncer RtAnnotationKeyUserSpecific = RtAnnotationValueOneUserOneFork then '''' else RemoteRepository (SyncerSpec syncer)) \<and>
     TargetBranch (Spec rt) = SoftSanitize (SubjName (RubSubject (Spec rub)))"

definition grew :: "Syncer \<Rightarrow> RemoteUserBinding set \<Rightarrow> (NamespacedName \<Rightarrow> RemoteTarget option) \<Rightarrow> (NamespacedName \<Rightarrow> RemoteTarget option) \<Rightarrow> bool" where
  \<comment> \<open>Targets of users were added, and nothing else happened.\<close>
  "grew syncer R ts ts' \<longleftrightarrow> (\<forall>k. ts' k = ts k \<or> ts k = None \<and> (\<exists>rub \<in> R. \<exists>rt. user_label rub \<noteq> '''' \<and> ts' k = Some rt \<and> target_for syncer rub rt))"

lemma grew_refl [simp]: "grew syncer R ts ts"
  by (simp add: grew_def)

lemma grew_trans:
  assumes "grew syncer R ts ts1" and "grew syncer R ts1 ts2"
  shows "grew syncer R ts ts2"
  using assms unfolding grew_def by (metis option.distinct(1))

lemma grew_mono: "grew syncer R ts ts' \<Longrightarrow> R \<subseteq> R' \<Longrightarrow> grew syncer R' ts ts'"
  unfolding grew_def by blast

lemma built_target:
  assumes "buildUserSpecificTarget url_path (IdentityNamespace syncer) (RemoteRepository (SyncerSpec syncer)) (DefaultBranch (SyncerSpec syncer))
      (SubjName (RubSubject (Spec rub))) (user_label rub) (SyncerAnnotation syncer RtAnnotationKeyUserSpecific) = Inr rt"
    and "same_desired rt y"
  shows "target_for syncer rub y"
  using assms by (auto simp: buildUserSpecificTarget_def target_for_def same_desired_def key_of_def nsn_def Let_def split: sum.splits)

lemma create_grows:
  assumes "store_laws (RemoteTargets c) tobj" and "kcreate (RemoteTargets c) rt w = (r, w1)" and "\<And>y. same_desired rt y \<Longrightarrow> target_for syncer rub y"
    and "user_label rub \<noteq> ''''"
  shows "grew syncer {rub} (tobj w) (tobj w1)"
proof (cases r)
  case None
  with assms(2) have made: "kcreate (RemoteTargets c) rt w = (None, w1)" by simp
  obtain y where "same_desired rt y" "tobj w1 = (tobj w)(key_of rt := Some y)" by (rule store_create [OF assms(1) made])
  moreover have "tobj w (key_of rt) = None" by (rule store_others(1) [OF assms(1) made])
  ultimately show ?thesis using assms(3,4) by (simp add: grew_def)
next
  case (Some e)
  with assms(2) have "kcreate (RemoteTargets c) rt w = (Some e, w1)" by simp
  from store_failed(1) [OF assms(1) this] show ?thesis by simp
qed

lemma ensure_keeps:
  assumes "bindings_apart c tobj" and "ensureRTRefInRUB c rub n w = (r, w1)"
  shows "tobj w1 = tobj w"
  using mutate_keeps_targets [OF assms(1)] assms(2) unfolding ensureRTRefInRUB_def by (metis snd_conv)

lemma reconcileUserTargets_grows:
  assumes "store_laws (RemoteTargets c) tobj" and "bindings_apart c tobj"
  shows "reconcileUserTargets url_path c rdm syncer existing (SyncerAnnotation syncer RtAnnotationKeyUserSpecific) rubs active w = ((res, err), active', w') \<Longrightarrow>
    grew syncer (set rubs) (tobj w) (tobj w') \<and> (err = None \<longrightarrow> set active' = set active \<union> (user_label ` set rubs - {''''}))"
proof (induction rubs arbitrary: active w)
  case (Cons rub rubs)
  let ?u = "user_label rub"
  have step: "grew syncer (set (rub # rubs)) (tobj w) (tobj w') \<and> (err = None \<longrightarrow> set active' = set active \<union> (user_label ` set (rub # rubs) - {''''}))"
    if run: "reconcileUserTargets url_path c rdm syncer existing (SyncerAnnotation syncer RtAnnotationKeyUserSpecific) rubs active1 w1 = ((res, err), active', w')"
      and grow: "grew syncer {rub} (tobj w) (tobj w1)" and active1: "set active1 = set active \<union> ({?u} - {''''})" for active1 w1
  proof -
    note ih = Cons.IH [OF run]
    from ih have "grew syncer (set (rub # rubs)) (tobj w1) (tobj w')" by (auto intro: grew_mono)
    moreover from grow have "grew syncer (set (rub # rubs)) (tobj w) (tobj w1)" by (rule grew_mono) simp
    ultimately show ?thesis using ih active1 grew_trans by (cases "?u = ''''") (auto 0 3)
  qed
  have stop: "grew syncer (set (rub # rubs)) (tobj w) (tobj w1)" if "grew syncer {rub} (tobj w) (tobj w1)" for w1
    using that by (rule grew_mono) simp
  show ?case
  proof (cases "?u = ''''")
    case True
    with Cons.prems show ?thesis by (intro step [of active w]) simp_all
  next
    case named: False
    show ?thesis
    proof (cases "map_of existing ?u")
      case (Some rt)
      obtain r w1 where e: "ensureRTRefInRUB c rub (Name (Meta rt)) w = (r, w1)" by fastforce
      from ensure_keeps [OF assms(2) e] Cons.prems Some named e stop [of w1] step [of "active @ [?u]" w1] show ?thesis
        by (cases r) (auto simp: Let_def)
    next
      case None
      show ?thesis
      proof (cases "buildUserSpecificTarget url_path (IdentityNamespace syncer) (RemoteRepository (SyncerSpec syncer))
          (DefaultBranch (SyncerSpec syncer)) (SubjName (RubSubject (Spec rub))) ?u (SyncerAnnotation syncer RtAnnotationKeyUserSpecific)")
        case (Inl e)
        with Cons.prems None named show ?thesis by (auto simp: Let_def)
      next
        case (Inr rt)
        obtain r w1 where cr: "kcreate (RemoteTargets c) rt w = (r, w1)" by fastforce
        obtain q w2 where e: "ensureRTRefInRUB c rub (Name (Meta rt)) w1 = (q, w2)" by fastforce
        from create_grows [OF assms(1) cr built_target [OF Inr] named] have g: "grew syncer {rub} (tobj w) (tobj w1)" .
        with ensure_keeps [OF assms(2) e] have g2: "grew syncer {rub} (tobj w) (tobj w2)" by simp
        show ?thesis
        proof (cases "r \<noteq> None \<and> r \<noteq> Some AlreadyExists")
          case True
          with Cons.prems None named Inr cr have "w' = w1" "err \<noteq> None" by (auto simp: Let_def)
          with stop [OF g] show ?thesis by auto
        next
          case False
          with Cons.prems None named Inr cr e stop [OF g2] step [of "active @ [?u]" w2, OF _ g2] show ?thesis
            by (cases q) (auto simp: Let_def)
        qed
      qed
    qed
  qed
qed simp

lemma reconcileUserTargets_keeps:
  assumes "targets_apart c obs"
  shows "obs (snd (snd (reconcileUserTargets url_path c rdm syncer existing annotation rubs active w))) = obs w"
proof (induction rubs arbitrary: active w)
  case (Cons rub rubs)
  have made: "obs w1 = obs w" if "kcreate (RemoteTargets c) rt w = (r, w1)" for rt r w w1
    using assms that unfolding targets_apart_def by (metis snd_conv)
  have bound: "obs w1 = obs w" if "ensureRTRefInRUB c rub n w = (r, w1)" for n r w w1
    using assms ensure_keeps [OF _ that] unfolding targets_apart_def by blast
  show ?case
    using Cons.IH by (auto simp: Let_def dest: made bound split: option.split sum.split prod.split) (metis made bound)+
qed simp

subsection \<open>Pruning\<close>

lemma unreference_delete_keeps_others:
  assumes "store_laws (RemoteTargets c) tobj" and "bindings_apart c tobj" and "k \<noteq> key_of rt"
  shows "tobj (snd (unreference_then_delete c rt w)) k = tobj w k"
proof -
  obtain r w1 where u: "RemoveRemoteTargetRefFromRUBs c (Namespace (Meta rt)) (Name (Meta rt)) w = (r, w1)" by fastforce
  obtain q w2 where d: "delete_ignoring c rt w1 = (q, w2)" by fastforce
  have "tobj w1 = tobj w" using unreference_keeps_targets [OF assms(2)] u by (metis snd_conv)
  moreover have "tobj w2 k = tobj w1 k"
    using store_others(3) [OF assms(1) _ assms(3)] d by (auto simp: delete_ignoring_def split: prod.splits option.splits api_error.splits)
  ultimately show ?thesis using u d by (simp add: unreference_then_delete_def split: option.split)
qed

lemma prune_users_touched:
  assumes "store_laws (RemoteTargets c) tobj" and "bindings_apart c tobj"
    and "tobj (snd (prune_users c rdm active others rts w)) k \<noteq> tobj w k"
  shows "\<exists>u rt. (u, rt) \<in> set rts \<and> key_of rt = k \<and> u \<notin> set active \<and> \<not> isRTUsedByOtherSyncer rt others"
  using assms(3)
proof (induction rts arbitrary: w)
  case (Cons x rts)
  obtain u rt where x: "x = (u, rt)" by fastforce
  obtain r w1 where d: "unreference_then_delete c rt w = (r, w1)" by fastforce
  consider (skip) "u \<in> set active \<or> isRTUsedByOtherSyncer rt others"
    | (own) "\<not> (u \<in> set active \<or> isRTUsedByOtherSyncer rt others)" "key_of rt = k"
    | (other) "\<not> (u \<in> set active \<or> isRTUsedByOtherSyncer rt others)" "key_of rt \<noteq> k" by blast
  then show ?case
  proof cases
    case skip
    with Cons.prems have "tobj (snd (prune_users c rdm active others rts w)) k \<noteq> tobj w k" by (simp add: x)
    from Cons.IH [OF this] show ?thesis by auto
  next
    case own
    then show ?thesis by (auto simp: x)
  next
    case other
    have same: "tobj w1 k = tobj w k" using unreference_delete_keeps_others [OF assms(1,2), of k rt w] other(2) d by auto
    with Cons.prems other(1) d have "tobj (snd (prune_users c rdm active others rts w1)) k \<noteq> tobj w1 k"
      by (cases r) (auto simp: x split: sum.splits)
    from Cons.IH [OF this] show ?thesis by auto
  qed
qed simp

lemma by_user_mem: "(u, rt) \<in> set (by_user rts) \<Longrightarrow> rt \<in> set rts \<and> u = user_label rt"
proof -
  have "set (fold (\<lambda>rt m. if user_label rt = '''' then m else alist_set (user_label rt) rt m) rts m) \<subseteq> (\<lambda>rt. (user_label rt, rt)) ` set rts \<union> set m" for m
  proof (induction rts arbitrary: m)
    case (Cons rt rts)
    have "set (alist_set (user_label rt) rt m) \<subseteq> insert (user_label rt, rt) (set m)" by (rule alist_set_mem)
    with Cons [of "alist_set (user_label rt) rt m"] Cons [of m] show ?case by auto
  qed simp
  from this [of "[]"] show "(u, rt) \<in> set (by_user rts) \<Longrightarrow> rt \<in> set rts \<and> u = user_label rt" by (auto simp: by_user_def)
qed

subsection \<open>The reconcile\<close>

definition managed_bindings :: "('w \<Rightarrow> NamespacedName \<Rightarrow> RemoteUserBinding option) \<Rightarrow> 'w \<Rightarrow> string \<Rightarrow> RemoteUserBinding set" where
  \<comment> \<open>The stored managed bindings of a namespace, of every namespace when it is empty.\<close>
  "managed_bindings bobj w ns = {rub. bobj w (key_of rub) = Some rub \<and> (ns = '''' \<or> Namespace (Meta rub) = ns) \<and>
     map_of (Labels (Meta rub)) ManagedByLabelKey = Some ManagedByLabelValue}"

lemma listManagedRUBs_stored:
  assumes "store_laws (RemoteUserBindings c) bobj" and "listManagedRUBs c w ns = Inr rubs"
  shows "set rubs = managed_bindings bobj w ns"
  using store_list [OF assms(1) assms(2) [unfolded listManagedRUBs_def]]
  by (auto simp: managed_bindings_def managed_selector_def SelectorFromSet_def)

text \<open>C11. A reconcile of the user policy creates remote targets only for users with a managed binding stored in the identity namespace of the
  syncer, for the upstream of the syncer and on the branch named after that user, in the upstream repository itself or, in the fork mode,
  with the target repository left empty; and it changes or removes only managed user targets
  of that namespace for that upstream, whose user has no managed binding there and while no other syncer stored in the cluster with that
  identity namespace, of either kind, has the policy and the same upstream.\<close>

theorem user_policy_touches_only_its_targets:
  assumes "store_laws (RemoteTargets c) tobj" and "bindings_apart c tobj" and "store_laws (RemoteUserBindings c) bobj"
    and "store_laws (RemoteSyncers c) robj" and "targets_apart c robj"
    and "store_laws (ClusterWideRemoteSyncers c) cobj" and "targets_apart c cobj"
    and "UserSpecific_Reconcile url_path ord c rdm syncer w = (res, w')" and "tobj w' k \<noteq> tobj w k"
  shows "case tobj w k of
      None \<Rightarrow> \<exists>rub \<in> managed_bindings bobj w (IdentityNamespace syncer). user_label rub \<noteq> '''' \<and>
        (\<exists>rt. tobj w' k = Some rt \<and> target_for syncer rub rt)
    | Some rt \<Rightarrow>
        (IdentityNamespace syncer = '''' \<or> Namespace (Meta rt) = IdentityNamespace syncer) \<and>
        map_of (Labels (Meta rt)) ManagedByLabelKey = Some ManagedByLabelValue \<and>
        map_of (Labels (Meta rt)) RtLabelKeyPolicy = Some RtLabelValueOneUserOneBranch \<and>
        UpstreamRepository (Spec rt) = RemoteRepository (SyncerSpec syncer) \<and> UpstreamBranch (Spec rt) = DefaultBranch (SyncerSpec syncer) \<and>
        (\<forall>rub \<in> managed_bindings bobj w (IdentityNamespace syncer). user_label rub \<noteq> '''' \<longrightarrow> user_label rub \<noteq> user_label rt) \<and>
        (\<forall>s \<in> other_syncers robj cobj w syncer. \<not> (SyncerAnnotation s RtAnnotationKeyUserSpecific \<noteq> '''' \<and>
           RemoteRepository (SyncerSpec s) = UpstreamRepository (Spec rt) \<and> DefaultBranch (SyncerSpec s) = UpstreamBranch (Spec rt)))"
proof -
  let ?repo = "RemoteRepository (SyncerSpec syncer)" and ?branch = "DefaultBranch (SyncerSpec syncer)"
  let ?annotation = "SyncerAnnotation syncer RtAnnotationKeyUserSpecific"
  from assms(8,9) obtain rubs rts where rubs: "listManagedRUBs c w (IdentityNamespace syncer) = Inr rubs"
    and rts: "listUserSpecificTargets c w (IdentityNamespace syncer) ?repo ?branch = Inr rts"
    by (auto simp: UserSpecific_Reconcile_def split: sum.splits)
  obtain res1 err active w1 where run: "reconcileUserTargets url_path c rdm syncer (by_user rts) ?annotation rubs [] w = ((res1, err), active, w1)"
    by (metis prod.exhaust)
  note grow = reconcileUserTargets_grows [OF assms(1,2) run]
  note stored = listManagedRUBs_stored [OF assms(3) rubs]
  show ?thesis
  proof (cases "tobj w' k = tobj w1 k")
    case True
    with assms(9) grow stored show ?thesis unfolding grew_def by (force split: option.split)
  next
    case False
    with assms(8) rubs rts run obtain others where e: "err = None" and o: "getOtherSyncersWith c w1 syncer RtAnnotationKeyUserSpecific = Inr others"
      and p: "prune_users c rdm active others (range_map ord (by_user rts)) w1 = (res, w')"
      by (auto simp: UserSpecific_Reconcile_def pruneStaleTargets_def Let_def split: option.splits sum.splits)
    from p False have "tobj (snd (prune_users c rdm active others (range_map ord (by_user rts)) w1)) k \<noteq> tobj w1 k" by simp
    from prune_users_touched [OF assms(1,2) this] obtain rt where
      rt: "rt \<in> set rts" "key_of rt = k" "user_label rt \<notin> set active" "\<not> isRTUsedByOtherSyncer rt others"
      using by_user_mem by (auto simp del: range_map_def)
    from rts obtain all where all: "klist (RemoteTargets c) w (IdentityNamespace syncer)
        (managed_selector [(RtLabelKeyPolicy, RtLabelValueOneUserOneBranch)]) = Inr all" "rts = filterByUpstream all ?repo ?branch"
      unfolding listUserSpecificTargets_def by (cases "klist (RemoteTargets c) w (IdentityNamespace syncer)
        (managed_selector [(RtLabelKeyPolicy, RtLabelValueOneUserOneBranch)])") auto
    from rt(1) all(2) have rt': "rt \<in> set all" "UpstreamRepository (Spec rt) = ?repo" "UpstreamBranch (Spec rt) = ?branch"
      by (auto simp: filterByUpstream_def)
    note ls = store_list [OF assms(1) all(1), of rt]
    from ls rt'(1) rt(2) have "tobj w k = Some rt" by simp
    moreover have "\<forall>rub \<in> set rubs. user_label rub \<noteq> '''' \<longrightarrow> user_label rub \<noteq> user_label rt" using grow e rt(3) by (simp add: image_iff) metis
    moreover have "\<not> (SyncerAnnotation s RtAnnotationKeyUserSpecific \<noteq> '''' \<and> RemoteRepository (SyncerSpec s) = UpstreamRepository (Spec rt) \<and>
        DefaultBranch (SyncerSpec s) = UpstreamBranch (Spec rt))" if "s \<in> other_syncers robj cobj w syncer" for s
    proof -
      have "robj w1 = robj w" "cobj w1 = cobj w"
        using reconcileUserTargets_keeps [OF assms(5)] reconcileUserTargets_keeps [OF assms(7)] run by (metis snd_conv)+
      with that have "s \<in> other_syncers robj cobj w1 syncer" by (simp add: other_syncers_def)
      with others_listed [OF assms(4,6) o] rt(4) show ?thesis by (auto simp: isRTUsedByOtherSyncer_def list_ex_iff)
    qed
    ultimately show ?thesis using ls rt' stored by (auto simp: managed_selector_def SelectorFromSet_def)
  qed
qed

subsection \<open>An example\<close>

definition demo_user_syncer :: RemoteSyncer where
  "demo_user_syncer = \<lparr>Meta = no_meta\<lparr>Name := ''a'', Namespace := ''team'', Annotations := [(RtAnnotationKeyUserSpecific, RtAnnotationValueOneUserOneBranch)]\<rparr>,
     Spec = no_syncer_spec\<lparr>RemoteRepository := ''/org/app.git'', DefaultBranch := ''main''\<rparr>, Status = no_syncer_status\<rparr>"

definition demo_user_target :: RemoteTarget where
  "demo_user_target = (case buildUserSpecificTarget Inr ''team'' ''/org/app.git'' ''main'' ''jane'' ''jane'' RtAnnotationValueOneUserOneBranch of Inr rt \<Rightarrow> rt)"

lemma demo_user_run:
  "UserSpecific_Reconcile Inr (\<lambda>_ _. 0) (demo_policy_cluster [demo_user_syncer]) 0 (NamespacedSyncer demo_user_syncer) [demo_user_target] = ((0, None), [])"
  by code_simp

lemma demo_user_key: "mem_obj [demo_user_target] (key_of demo_user_target) = Some demo_user_target"
  by code_simp

theorem user_policy_touches_only_its_targets_witness:
  "mem_obj [] (key_of demo_user_target) \<noteq> mem_obj [demo_user_target] (key_of demo_user_target) \<and>
   UpstreamRepository (Spec demo_user_target) = ''/org/app.git''"
proof -
  have gone: "mem_obj [] (key_of demo_user_target) \<noteq> mem_obj [demo_user_target] (key_of demo_user_target)"
    unfolding demo_user_key by (simp add: mem_obj_def)
  have bindings: "store_laws (RemoteUserBindings (demo_policy_cluster [demo_user_syncer])) (stored_in [])"
    by (simp add: demo_policy_cluster_def flat_client_def no_api_laws)
  have one: "distinct (map key_of [demo_user_syncer])" by simp
  from user_policy_touches_only_its_targets [OF demo_policy_laws bindings demo_syncers_laws [OF one] demo_user_run gone]
  have "UpstreamRepository (Spec demo_user_target) = RemoteRepository (SyncerSpec (NamespacedSyncer demo_user_syncer))" by (auto simp: demo_user_key)
  moreover have "RemoteRepository (SyncerSpec (NamespacedSyncer demo_user_syncer)) = ''/org/app.git''" by code_simp
  ultimately show ?thesis using gone by simp
qed

end
