(* ===== verification/Managed_Users.thy ===== *)
theory Managed_Users
  imports Admission Policies
begin

text \<open>
  The mutating webhook of managed remote users (\<open>internal/webhook/v1beta5/remoteuser_managed_permissions.go\<close>):
  it stamps a managed remote user with the name of who writes it, and lets nobody else change or
  delete it.

  A patch of the admission library is the object it leads to.  Encoding an object cannot fail.
\<close>

definition managed_annotation :: "('s, 't) kobj \<Rightarrow> bool" where
  "managed_annotation x \<longleftrightarrow> alist_get (Annotations (Meta x)) RubAnnotationKeyManaged = ''true''"

definition stamp :: "UserInfo \<Rightarrow> ('s, 't) kobj \<Rightarrow> ('s, 't) kobj" where
  "stamp user x = x\<lparr>Meta := (Meta x)\<lparr>Labels := alist_set K8sUserLabelKey (Sanitize (Username user)) (Labels (Meta x)),
     Annotations := alist_set K8sUserLabelKey (Username user) (Annotations (Meta x))\<rparr>\<rparr>"

definition owned_by :: "UserInfo \<Rightarrow> ('s, 't) kobj \<Rightarrow> bool" where
  "owned_by user x \<longleftrightarrow> user_label x = Sanitize (Username user)"

definition stamp_or_allow :: "UserInfo \<Rightarrow> ('s, 't) kobj \<Rightarrow> ('s, 't) kobj response" where
  \<comment> \<open>The end of the handler, for a creation and for what the checks before let through.\<close>
  "stamp_or_allow user ru = (if managed_annotation ru then Patched (stamp user ru) else Allowed ''The RemoteUser is not managed'')"

definition RemoteUserManaged_Handle :: "string \<Rightarrow> ('s, 't) kobj request \<Rightarrow> ('s, 't) kobj response" where
  "RemoteUserManaged_Handle managerNs req =
     (let user = ReqUser req in
      case DecodeObject req of
        Inl err \<Rightarrow> Errored 400 err
      | Inr ru \<Rightarrow>
          if ReqOperation req = ''DELETE'' then
            if doesUserBypassWebhook user managerNs then Allowed ''System user is allowed to delete any RemoteUser''
            else if managed_annotation ru then
              (case ReqOldObject req of
                 Inl err \<Rightarrow> Errored 400 err
               | Inr oldRu \<Rightarrow>
                   if \<not> owned_by user oldRu then Denied ''The user is not allowed to delete the RemoteUser of another user''
                   else Allowed ''The user is allowed to delete its own RemoteUser'')
            else stamp_or_allow user ru
          else if ReqOperation req = ''UPDATE'' then
            if doesUserBypassWebhook user managerNs then Allowed ''System user is allowed to update any RemoteUser''
            else (case ReqOldObject req of
                 Inl err \<Rightarrow> Errored 400 err
               | Inr oldRu \<Rightarrow>
                   if managed_annotation oldRu \<and> \<not> owned_by user oldRu
                   then Denied ''The user is not allowed to update the RemoteUser of another user''
                   else stamp_or_allow user ru)
          else stamp_or_allow user ru)"

definition admitted_object :: "'o response \<Rightarrow> 'o \<Rightarrow> 'o" where
  \<comment> \<open>What is stored: the patched object, or the object as it was sent.\<close>
  "admitted_object r x = (case r of Patched y \<Rightarrow> y | _ \<Rightarrow> x)"

subsection \<open>Whose user it is\<close>

lemma managed_stamp [simp]: "managed_annotation (stamp user x) = managed_annotation x"
  by (simp add: managed_annotation_def stamp_def alist_get_def alist_set_def RubAnnotationKeyManaged_def K8sUserLabelKey_def)

lemma owned_stamp [simp]: "owned_by user (stamp user x)"
  by (simp add: owned_by_def user_label_def stamp_def alist_get_def alist_set_def)

lemma stamp_annotation [simp]: "alist_get (Annotations (Meta (stamp user x))) K8sUserLabelKey = Username user"
  by (simp add: stamp_def alist_get_def alist_set_def)


definition demo_writer :: UserInfo where
  "demo_writer = no_user\<lparr>Username := ''jane''\<rparr>"

definition demo_managed_user :: RemoteUser where
  "demo_managed_user = \<lparr>Meta = no_meta\<lparr>Name := ''ru'', Namespace := ''team'',
       Annotations := [(RubAnnotationKeyManaged, ''true''), (K8sUserLabelKey, ''root'')]\<rparr>,
     Spec = \<lparr>SecretRef = no_secret_ref, Email = '''', GitBaseDomainFQDN = ''''\<rparr>, Status = no_user_status\<rparr>"

definition demo_create :: "RemoteUser request" where
  "demo_create = \<lparr>ReqOperation = ''CREATE'', ReqUser = demo_writer, ReqObject = Inr demo_managed_user, ReqOldObject = Inl (PlainError '''')\<rparr>"


end
