(* ===== verification/Association.thy ===== *)
theory Association
  imports Managed_Users
begin

text \<open>
  What the association policy does to the stored bindings (\<open>internal/policy/association_policy.go\<close>, \<open>pkg/managed\<close>): which binding
  a managed remote user ends up in, and whose binding that is.
\<close>

subsection \<open>Retried writes of bindings\<close>

lemma retry_success:
  assumes "\<And>w e w'. f w = (Some e, w') \<Longrightarrow> g w' = g w" and "retry_on_conflict n f w = (None, w')"
  shows "\<exists>w0. g w0 = g w \<and> f w0 = (None, w')"
  using assms(2)
proof (induction n arbitrary: w)
  case (Suc n)
  obtain r w1 where f: "f w = (r, w1)" by fastforce
  show ?case
  proof (cases "r = Some Conflict \<and> n \<noteq> 0")
    case True
    then obtain m where "n = Suc m" by (cases n) auto
    with True Suc.prems f have "retry_on_conflict n f w1 = (None, w')" by simp
    from Suc.IH [OF this] assms(1) f True show ?thesis by fastforce
  next
    case False
    with Suc.prems f have "f w = (None, w')" by (cases n; cases r) (auto split: api_error.splits)
    then show ?thesis by blast
  qed
qed simp

text \<open>What a client writes that is not being deleted is stored as not being deleted.\<close>

definition writes_alive :: "('w, ('s, 't) kobj) kind_api \<Rightarrow> ('w \<Rightarrow> NamespacedName \<Rightarrow> ('s, 't) kobj option) \<Rightarrow> bool" where
  "writes_alive api obj \<longleftrightarrow> (\<forall>x y w w'. DeletionTimestamp (Meta x) = None \<longrightarrow> obj w' (key_of x) = Some y \<longrightarrow>
     kcreate api x w = (None, w') \<or> kupdate api x w = (None, w') \<longrightarrow> DeletionTimestamp (Meta y) = None)"

definition all_alive :: "('w \<Rightarrow> NamespacedName \<Rightarrow> ('s, 't) kobj option) \<Rightarrow> 'w \<Rightarrow> bool" where
  "all_alive obj w \<longleftrightarrow> (\<forall>k x. obj w k = Some x \<longrightarrow> DeletionTimestamp (Meta x) = None)"

lemma mutate_success:
  assumes "store_laws (RemoteUserBindings c) bobj" and "writes_alive (RemoteUserBindings c) bobj" and "all_alive bobj w"
    and "MutateOrDeleteRemoteUserBinding c k mutate w = (None, w')"
    and "\<And>w0 fresh x. bobj w k = Some fresh \<Longrightarrow> mutate w0 fresh = Inr x \<Longrightarrow> Meta x = Meta fresh \<and> RemoteUserRefs (Spec x) \<noteq> []"
  shows "\<exists>w0 fresh x y. bobj w k = Some fresh \<and> mutate w0 fresh = Inr x \<and> Spec y = Spec x \<and> Labels (Meta y) = Labels (Meta fresh) \<and>
    bobj w' = (bobj w)(k := Some y) \<and> all_alive bobj w'"
proof -
  note laws = assms(1)
  have failed: "bobj v' = bobj v" if "mutate_or_delete_once c k mutate v = (Some e, v')" for v e v'
    using that by (auto simp: mutate_or_delete_once_def split: sum.splits if_splits dest: store_failed(3,4) [OF laws])
  have "\<exists>w0. bobj w0 = bobj w \<and> mutate_or_delete_once c k mutate w0 = (None, w')"
    using failed assms(4) unfolding MutateOrDeleteRemoteUserBinding_def by (rule retry_success)
  then obtain w0 where w0: "bobj w0 = bobj w" "mutate_or_delete_once c k mutate w0 = (None, w')" by (elim exE conjE)
  then obtain fresh x where get: "kget (RemoteUserBindings c) w0 k = Inr fresh" and m: "mutate w0 fresh = Inr x"
    by (auto simp: mutate_or_delete_once_def split: sum.splits)
  from store_get(1) [OF laws get] w0(1) have f: "bobj w k = Some fresh" by simp
  from assms(5) [OF f m] have x: "Meta x = Meta fresh" "RemoteUserRefs (Spec x) \<noteq> []" by simp_all
  with w0(2) get m have u: "kupdate (RemoteUserBindings c) x w0 = (None, w')" by (simp add: mutate_or_delete_once_def)
  have k: "key_of x = k" using store_get(3) [OF laws f] x(1) by (simp add: key_of_def)
  have d: "DeletionTimestamp (Meta x) = None" using f assms(3) x(1) by (simp add: all_alive_def)
  from store_update [OF laws u d] obtain y where y: "same_desired x y" "bobj w' = (bobj w)(k := Some y)" using k w0(1) by metis
  have "DeletionTimestamp (Meta y) = None" using assms(2) d u y(2) k unfolding writes_alive_def by (metis fun_upd_same)
  with y(2) assms(3) have "all_alive bobj w'" by (simp add: all_alive_def)
  with y x f m show ?thesis by (auto simp: same_desired_def)
qed

subsection \<open>Whose binding it is\<close>

definition managed_for :: "string \<Rightarrow> RemoteUserBinding \<Rightarrow> bool" where
  "managed_for sanitized b \<longleftrightarrow> alist_get (Labels (Meta b)) ManagedByLabelKey = ManagedByLabelValue \<and> user_label b = sanitized"

text \<open>
  Between two states one binding was made or changed: the one under \<open>k\<close>.  It carries the labels of the user; a new one has
  the raw name of the user as its subject, an old one keeps its subject.
\<close>

definition settled :: "('w \<Rightarrow> NamespacedName \<Rightarrow> RemoteUserBinding option) \<Rightarrow> string \<Rightarrow> string \<Rightarrow> NamespacedName \<Rightarrow> 'w \<Rightarrow> 'w \<Rightarrow> bool" where
  "settled bobj sanitized raw k w w' \<longleftrightarrow>
     (case bobj w' k of None \<Rightarrow> False | Some b \<Rightarrow> managed_for sanitized b \<and>
        (case bobj w k of None \<Rightarrow> SubjName (RubSubject (Spec b)) = raw
         | Some old \<Rightarrow> managed_for sanitized old \<and> RubSubject (Spec b) = RubSubject (Spec old))) \<and>
     (\<forall>k'. k' \<noteq> k \<longrightarrow> bobj w' k' = bobj w k')"

lemma settled_step:
  assumes "settled bobj sanitized raw k w w1" and "bobj w1 k = Some b" and "bobj w2 = (bobj w1)(k := Some y)"
    and "RubSubject (Spec y) = RubSubject (Spec b)" and "Labels (Meta y) = Labels (Meta b)"
  shows "settled bobj sanitized raw k w w2"
  using assms by (simp add: settled_def managed_for_def user_label_def split: option.splits)

lemma settled_found:
  assumes "bobj w1 = bobj w" and "bobj w1 (key_of b) = Some b" and "managed_for sanitized b"
  shows "settled bobj sanitized raw (key_of b) w w1"
  using assms by (simp add: settled_def)

lemma claim_name_settles:
  assumes "store_laws (RemoteUserBindings c) bobj" and "writes_alive (RemoteUserBindings c) bobj"
  shows "all_alive bobj w \<Longrightarrow> claim_name c ru base sanitized raw n i w = (Inr rub, w') \<Longrightarrow>
    NsnNamespace (key_of rub) = Namespace (Meta ru) \<and> settled bobj sanitized raw (key_of rub) w w' \<and> all_alive bobj w'"
proof (induction n arbitrary: i w)
  case (Suc n)
  note laws = assms(1)
  let ?name = "if i > 0 then base @ ''-'' @ Itoa i else base"
  let ?new = "managed_binding ru ?name sanitized raw"
  have key: "key_of ?new = nsn (Namespace (Meta ru)) ?name" by (simp add: key_of_def managed_binding_def nsn_def)
  obtain r w1 where create: "kcreate (RemoteUserBindings c) ?new w = (r, w1)" by fastforce
  show ?case
  proof (cases r)
    case None
    with create Suc.prems(2) have rub: "rub = ?new" "w' = w1" by (simp_all add: Let_def)
    from create None have c: "kcreate (RemoteUserBindings c) ?new w = (None, w1)" by simp
    obtain y where y: "same_desired ?new y" "bobj w1 = (bobj w)(key_of ?new := Some y)" by (rule store_create [OF laws c])
    have none: "bobj w (key_of ?new) = None" by (rule store_others(1) [OF laws c])
    have "DeletionTimestamp (Meta ?new) = None" by (simp add: managed_binding_def no_meta_def)
    then have "DeletionTimestamp (Meta y) = None" using assms(2) c y(2) unfolding writes_alive_def by (metis fun_upd_same)
    then have "all_alive bobj w1" using Suc.prems(1) y(2) by (simp add: all_alive_def)
    moreover have "Labels (Meta y) = [(ManagedByLabelKey, ManagedByLabelValue), (K8sUserLabelKey, sanitized)]"
      "SubjName (RubSubject (Spec y)) = raw"
      using y(1) by (simp_all add: same_desired_def managed_binding_def)
    then have "settled bobj sanitized raw (key_of ?new) w w1"
      using y(2) none by (simp add: settled_def managed_for_def user_label_def alist_get_def ManagedByLabelKey_def K8sUserLabelKey_def)
    ultimately show ?thesis using rub key by (simp add: nsn_def)
  next
    case (Some e)
    with Suc.prems(2) create have e: "e = AlreadyExists" by (auto simp: Let_def split: api_error.splits)
    from store_failed(1) [OF laws, of ?new w e w1] create Some have w1: "bobj w1 = bobj w" by simp
    then have alive: "all_alive bobj w1" using Suc.prems(1) by (simp add: all_alive_def)
    have next_name: ?thesis if "claim_name c ru base sanitized raw n (Suc i) w1 = (Inr rub, w')"
      using Suc.IH [OF alive that] unfolding settled_def w1 .
    show ?thesis
    proof (cases "kget (RemoteUserBindings c) w1 (nsn (Namespace (Meta ru)) ?name)")
      case (Inl err)
      with Suc.prems(2) create Some e next_name show ?thesis by (cases err) (simp_all add: Let_def)
    next
      case (Inr existing)
      show ?thesis
      proof (cases "managed_for sanitized existing")
        case True
        with Inr Suc.prems(2) create Some e have "rub = existing" "w' = w1" by (simp_all add: Let_def managed_for_def)
        moreover from store_get(1) [OF laws Inr] have ex: "bobj w1 (nsn (Namespace (Meta ru)) ?name) = Some existing" .
        moreover from store_get(3) [OF laws ex] have k: "key_of existing = nsn (Namespace (Meta ru)) ?name" .
        ultimately show ?thesis using settled_found [OF w1, of existing sanitized raw] True alive ex by (simp add: nsn_def)
      next
        case False
        with Inr Suc.prems(2) create Some e have "claim_name c ru base sanitized raw n (Suc i) w1 = (Inr rub, w')"
          by (auto simp: Let_def managed_for_def split: if_splits)
        then show ?thesis by (rule next_name)
      qed
    qed
  qed
qed simp

lemma selected_managed_for:
  "(case managed_selector [(K8sUserLabelKey, sanitized)] of None \<Rightarrow> True | Some p \<Rightarrow> p (Labels (Meta b))) \<Longrightarrow> managed_for sanitized b"
  by (simp add: managed_selector_def SelectorFromSet_def managed_for_def user_label_def alist_get_def)

lemma find_or_create_settles:
  assumes "store_laws (RemoteUserBindings c) bobj" and "writes_alive (RemoteUserBindings c) bobj" and "all_alive bobj w"
    and "Namespace (Meta ru) \<noteq> ''''" and "findOrCreateManagedRUB c ru sanitized raw w = (Inr rub, w')"
  shows "NsnNamespace (key_of rub) = Namespace (Meta ru) \<and> settled bobj sanitized raw (key_of rub) w w' \<and> all_alive bobj w'"
proof -
  note laws = assms(1)
  let ?sel = "managed_selector [(K8sUserLabelKey, sanitized)]"
  from assms(5) obtain rubs where l: "klist (RemoteUserBindings c) w (Namespace (Meta ru)) ?sel = Inr rubs"
    by (auto simp: findOrCreateManagedRUB_def split: sum.splits)
  show ?thesis
  proof (cases rubs)
    case Nil
    with l assms(5) claim_name_settles [OF assms(1-3)] show ?thesis by (simp add: findOrCreateManagedRUB_def)
  next
    case (Cons first rest)
    with store_list [OF laws l, of first] assms(4) have f: "bobj w (key_of first) = Some first" "Namespace (Meta first) = Namespace (Meta ru)"
      "managed_for sanitized first"
      using selected_managed_for [of first sanitized] by simp_all
    then have k: "key_of first = nsn (Namespace (Meta ru)) (Name (Meta first))" by (simp add: key_of_def nsn_def)
    from l Cons assms(5) obtain fresh where g: "kget (RemoteUserBindings c) w (key_of first) = Inr fresh" "rub = fresh" "w' = w"
      unfolding k by (auto simp: findOrCreateManagedRUB_def split: sum.splits)
    from store_get(1) [OF laws g(1)] f(1) have "fresh = first" by simp
    with f g k settled_found [of bobj w w first sanitized raw] assms(3) show ?thesis by (simp add: nsn_def)
  qed
qed

lemma fold_AddRemoteTargetRef:
  "Meta (fold (\<lambda>rt. AddRemoteTargetRef (Name (Meta rt))) rts b) = Meta b \<and>
   RemoteUserRefs (Spec (fold (\<lambda>rt. AddRemoteTargetRef (Name (Meta rt))) rts b)) = RemoteUserRefs (Spec b) \<and>
   RubSubject (Spec (fold (\<lambda>rt. AddRemoteTargetRef (Name (Meta rt))) rts b)) = RubSubject (Spec b)"
  by (induction rts arbitrary: b) (simp_all add: AddRemoteTargetRef_def set_target_refs_def)

definition refers_by_name :: "string \<Rightarrow> RemoteUserBinding \<Rightarrow> bool" where
  "refers_by_name n b \<longleftrightarrow> list_ex (\<lambda>ref. RefName ref = n) (RemoteUserRefs (Spec b))"

lemma refers_not_empty: "refers_by_name n b \<Longrightarrow> RemoteUserRefs (Spec b) \<noteq> []"
  by (auto simp: refers_by_name_def)

definition add_user_ref :: "string \<Rightarrow> RemoteUserBinding \<Rightarrow> RemoteUserBinding" where
  "add_user_ref n b = (if refers_by_name n b then b else set_user_refs b (RemoteUserRefs (Spec b) @ [name_ref n]))"

lemma add_user_ref_simps [simp]:
  "Meta (add_user_ref n b) = Meta b" "refers_by_name n (add_user_ref n b)" "RubSubject (Spec (add_user_ref n b)) = RubSubject (Spec b)"
  by (simp_all add: add_user_ref_def set_user_refs_def refers_by_name_def name_ref_def)

text \<open>Both writes of the policy go to the binding under one key, keep its labels and subject, and leave a reference to the user.\<close>

lemma ensureRemoteUserRef_effect:
  fixes w :: 'w
  assumes "store_laws (RemoteUserBindings c) bobj" and "writes_alive (RemoteUserBindings c) bobj" and "all_alive bobj w"
    and "ensureRemoteUserRef c rub n w = (None, w')"
  shows "\<exists>b y. bobj w (key_of rub) = Some b \<and> refers_by_name n y \<and> RubSubject (Spec y) = RubSubject (Spec b) \<and>
    Labels (Meta y) = Labels (Meta b) \<and> bobj w' = (bobj w)(key_of rub := Some y) \<and> all_alive bobj w'"
proof -
  have run: "MutateOrDeleteRemoteUserBinding c (key_of rub) (\<lambda>_ fresh. Inr (add_user_ref n fresh)) w = (None, w')"
    using assms(4) by (simp add: ensureRemoteUserRef_def add_user_ref_def refers_by_name_def)
  have "\<exists>(w0 :: 'w) fresh x y. bobj w (key_of rub) = Some fresh \<and> Inr (add_user_ref n fresh) = (Inr x :: api_error + RemoteUserBinding) \<and>
      Spec y = Spec x \<and> Labels (Meta y) = Labels (Meta fresh) \<and> bobj w' = (bobj w)(key_of rub := Some y) \<and> all_alive bobj w'"
    by (rule mutate_success [OF assms(1-3) run]) (auto simp: refers_not_empty [OF add_user_ref_simps(2)])
  then obtain fresh y where y: "bobj w (key_of rub) = Some fresh" "Spec y = Spec (add_user_ref n fresh)"
    "Labels (Meta y) = Labels (Meta fresh)" "bobj w' = (bobj w)(key_of rub := Some y)" "all_alive bobj w'" by auto
  have "refers_by_name n y" "RubSubject (Spec y) = RubSubject (Spec fresh)"
    using add_user_ref_simps(2,3) [of n fresh] by (simp_all only: refers_by_name_def y(2))
  with y show ?thesis by blast
qed

lemma associateExistingRemoteTargets_effect:
  assumes "store_laws (RemoteUserBindings c) bobj" and "writes_alive (RemoteUserBindings c) bobj" and "all_alive bobj w"
    and "associateExistingRemoteTargets c rub w = (None, w')" and "bobj w (key_of rub) = Some b" and "refers_by_name n b"
  shows "\<exists>y. refers_by_name n y \<and> RubSubject (Spec y) = RubSubject (Spec b) \<and> Labels (Meta y) = Labels (Meta b) \<and>
    bobj w' = (bobj w)(key_of rub := Some y)"
proof -
  let ?all = "\<lambda>rts. fold (\<lambda>rt. AddRemoteTargetRef (Name (Meta rt))) rts b"
  let ?list = "\<lambda>w0. klist (RemoteTargets c) w0 (Namespace (Meta rub)) (managed_selector [(RtLabelKeyPolicy, RtLabelValueOneOrManyBranches)])"
  have "\<exists>w0 fresh x y. bobj w (key_of rub) = Some fresh \<and>
      map_sum id (\<lambda>rts. fold (\<lambda>rt. AddRemoteTargetRef (Name (Meta rt))) rts fresh) (?list w0) = Inr x \<and>
      Spec y = Spec x \<and> Labels (Meta y) = Labels (Meta fresh) \<and> bobj w' = (bobj w)(key_of rub := Some y) \<and> all_alive bobj w'"
    by (rule mutate_success [OF assms(1-3) assms(4) [unfolded associateExistingRemoteTargets_def]])
      (use assms(5) refers_not_empty [OF assms(6)] in \<open>auto simp: fold_AddRemoteTargetRef map_sum_def split: sum.splits\<close>)
  then obtain w0 x y where x: "map_sum id ?all (?list w0) = Inr x"
    and y: "Spec y = Spec x" "Labels (Meta y) = Labels (Meta b)" "bobj w' = (bobj w)(key_of rub := Some y)"
    using assms(5) by auto
  from x obtain rts where "?list w0 = Inr rts" by (cases "?list w0") auto
  with x have "x = ?all rts" by simp
  note y = y [unfolded this]
  have "RemoteUserRefs (Spec y) = RemoteUserRefs (Spec b)" "RubSubject (Spec y) = RubSubject (Spec b)"
    using fold_AddRemoteTargetRef [of rts b] by (simp_all only: y(1))
  moreover from this(1) assms(6) have "refers_by_name n y" by (simp add: refers_by_name_def)
  ultimately show ?thesis using y(2,3) by blast
qed

lemma patched_is_stamped: "RemoteUserManaged_Handle managerNs req = Patched ru \<Longrightarrow> \<exists>sent. ru = stamp (ReqUser req) sent"
  by (auto simp: RemoteUserManaged_Handle_def stamp_or_allow_def Let_def split: sum.splits if_splits)

lemma stamped_label [simp]: "user_label (stamp user x) = Sanitize (Username user)"
  using owned_stamp by (simp add: owned_by_def)

text \<open>
  C15. A managed remote user joins the binding its labels lead to: when the webhook has stamped it and the association policy has
  reconciled it, exactly one binding of its namespace was made or changed, that binding refers to it and carries the label of who
  wrote it. A binding made for it has the writer as its subject; one that was found by its labels keeps the subject it had,
  whoever that is.
\<close>

theorem managed_user_joins_the_binding_of_its_label:
  assumes "store_laws (RemoteUserBindings c) bobj" and "writes_alive (RemoteUserBindings c) bobj" and "all_alive bobj w"
    and "RemoteUserManaged_Handle managerNs req = Patched ru" and "Username (ReqUser req) \<noteq> ''''" and "Namespace (Meta ru) \<noteq> ''''"
    and "Association_Reconcile c rdm ru w = ((delay, None), w')"
  shows "\<exists>k b. NsnNamespace k = Namespace (Meta ru) \<and> bobj w' k = Some b \<and> refers_by_name (Name (Meta ru)) b \<and>
    managed_for (Sanitize (Username (ReqUser req))) b \<and>
    (case bobj w k of None \<Rightarrow> SubjName (RubSubject (Spec b)) = Username (ReqUser req)
     | Some old \<Rightarrow> RubSubject (Spec b) = RubSubject (Spec old)) \<and>
    (\<forall>k'. k' \<noteq> k \<longrightarrow> bobj w' k' = bobj w k')"
proof -
  let ?s = "Sanitize (Username (ReqUser req))" and ?raw = "Username (ReqUser req)"
  from patched_is_stamped [OF assms(4)] obtain sent where ru: "ru = stamp (ReqUser req) sent" by blast
  have s: "user_label ru = ?s" "alist_get (Annotations (Meta ru)) K8sUserLabelKey = ?raw" by (simp_all add: ru)
  have "?s \<noteq> ''''" using Sanitize_hex(1) [of ?raw] by auto
  with assms(5,7) obtain rub w1 w2 where f: "findOrCreateManagedRUB c ru ?s ?raw w = (Inr rub, w1)"
    and e: "ensureRemoteUserRef c rub (Name (Meta ru)) w1 = (None, w2)" and a: "associateExistingRemoteTargets c rub w2 = (None, w')"
    by (auto simp: Association_Reconcile_def s split: prod.splits sum.splits option.splits)
  from find_or_create_settles [OF assms(1-3,6) f] have k: "NsnNamespace (key_of rub) = Namespace (Meta ru)"
    and s1: "settled bobj ?s ?raw (key_of rub) w w1" and a1: "all_alive bobj w1" by simp_all
  from ensureRemoteUserRef_effect [OF assms(1,2) a1 e] obtain b y where b: "bobj w1 (key_of rub) = Some b"
    and y: "refers_by_name (Name (Meta ru)) y" "RubSubject (Spec y) = RubSubject (Spec b)" "Labels (Meta y) = Labels (Meta b)"
      "bobj w2 = (bobj w1)(key_of rub := Some y)" and a2: "all_alive bobj w2" by blast
  have s2: "settled bobj ?s ?raw (key_of rub) w w2" by (rule settled_step [OF s1 b y(4,2,3)])
  have y2: "bobj w2 (key_of rub) = Some y" by (simp add: y(4))
  from associateExistingRemoteTargets_effect [OF assms(1,2) a2 a y2 y(1)] obtain z where
    z: "refers_by_name (Name (Meta ru)) z" "RubSubject (Spec z) = RubSubject (Spec y)" "Labels (Meta z) = Labels (Meta y)"
      "bobj w' = (bobj w2)(key_of rub := Some z)" by blast
  from settled_step [OF s2 y2 z(4,2,3)] have "settled bobj ?s ?raw (key_of rub) w w'" .
  moreover have "bobj w' (key_of rub) = Some z" by (simp add: z(4))
  ultimately show ?thesis using k z(1) unfolding settled_def by (auto split: option.splits)
qed

subsection \<open>Example\<close>

text \<open>A binding of another subject carries the label of \<open>jane\<close>; her managed user is added to it.\<close>

definition demo_labelled :: "ObjectReference list \<Rightarrow> RemoteUserBinding" where
  "demo_labelled refs = \<lparr>Meta = no_meta\<lparr>Name := ''b'', Namespace := ''team'',
       Labels := [(ManagedByLabelKey, ManagedByLabelValue), (K8sUserLabelKey, Sanitize ''jane'')]\<rparr>,
     Spec = \<lparr>RubSubject = no_subject\<lparr>SubjKind := ''User'', SubjName := ''mallory''\<rparr>, RemoteUserRefs = refs, RemoteTargetRefs = []\<rparr>,
     Status = no_rub_status\<rparr>"

definition demo_bindings :: "RemoteUserBinding list client" where
  "demo_bindings = (flat_client (\<lambda>_ _. True))\<lparr>RemoteUserBindings := mem_api\<rparr>"

lemma mem_writes_alive: "writes_alive mem_api mem_obj"
  by (auto simp: writes_alive_def mem_api_calls mem_obj_put split: if_splits)

lemma demo_stamped: "RemoteUserManaged_Handle ''syngit'' demo_create = Patched (stamp demo_writer demo_managed_user)"
  by (simp add: RemoteUserManaged_Handle_def demo_create_def DecodeObject_def stamp_or_allow_def managed_annotation_def
      demo_managed_user_def alist_get_def)

lemma demo_takeover:
  "Association_Reconcile demo_bindings 0 (stamp demo_writer demo_managed_user) [demo_labelled []] =
     ((0, None), [demo_labelled [name_ref ''ru'']])"
proof -
  have ne: "Sanitize ''jane'' \<noteq> ''''" using Sanitize_hex(1) [of "''jane''"] by auto
  have api: "RemoteUserBindings demo_bindings = mem_api" "klist (RemoteTargets demo_bindings) w ns sel = Inr []" for w ns sel
    by (simp_all add: demo_bindings_def flat_client_def no_api_def)
  have key: "key_of (demo_labelled refs) = nsn ''team'' ''b''" "Name (Meta (demo_labelled refs)) = ''b''"
    "Namespace (Meta (demo_labelled refs)) = ''team''" "RemoteUserRefs (Spec (demo_labelled refs)) = refs" for refs
    by (simp_all add: demo_labelled_def key_of_def nsn_def)
  have get: "mem_obj [demo_labelled refs] (nsn ''team'' ''b'') = Some (demo_labelled refs)" for refs by (simp add: mem_obj_def key)
  have put: "mem_put (demo_labelled refs') [demo_labelled refs] = [demo_labelled refs']" for refs refs' by (simp add: mem_put_def key)
  have ru: "Namespace (Meta (stamp demo_writer demo_managed_user)) = ''team''" "Name (Meta (stamp demo_writer demo_managed_user)) = ''ru''"
    "Username demo_writer = ''jane''"
    by (simp_all add: stamp_def demo_managed_user_def demo_writer_def)
  have sel: "case managed_selector [(K8sUserLabelKey, Sanitize ''jane'')] of None \<Rightarrow> True | Some p \<Rightarrow> p (Labels (Meta (demo_labelled refs)))" for refs
    by (simp add: managed_selector_def SelectorFromSet_def demo_labelled_def ManagedByLabelKey_def K8sUserLabelKey_def)
  have f: "findOrCreateManagedRUB demo_bindings (stamp demo_writer demo_managed_user) (Sanitize ''jane'') ''jane'' [demo_labelled []] =
      (Inr (demo_labelled []), [demo_labelled []])"
    using sel by (simp add: findOrCreateManagedRUB_def api mem_api_calls get ru key)
  have set: "set_user_refs (demo_labelled []) [name_ref ''ru''] = demo_labelled [name_ref ''ru'']" by (simp add: set_user_refs_def demo_labelled_def)
  have e: "ensureRemoteUserRef demo_bindings (demo_labelled []) ''ru'' [demo_labelled []] = (None, [demo_labelled [name_ref ''ru'']])"
    by (simp add: ensureRemoteUserRef_def MutateOrDeleteRemoteUserBinding_def DefaultRetrySteps_def numeral_eq_Suc
        mutate_or_delete_once_def api mem_api_calls get key put set)
  have a: "associateExistingRemoteTargets demo_bindings (demo_labelled []) [demo_labelled [name_ref ''ru'']] = (None, [demo_labelled [name_ref ''ru'']])"
    by (simp add: associateExistingRemoteTargets_def MutateOrDeleteRemoteUserBinding_def DefaultRetrySteps_def numeral_eq_Suc
        mutate_or_delete_once_def api mem_api_calls get key put)
  show ?thesis using ne by (simp add: Association_Reconcile_def ru f e a)
qed

theorem managed_user_joins_the_binding_of_its_label_witness:
  "\<exists>b. mem_obj [demo_labelled [name_ref ''ru'']] (nsn ''team'' ''b'') = Some b \<and> refers_by_name ''ru'' b \<and>
     managed_for (Sanitize ''jane'') b \<and> SubjName (RubSubject (Spec b)) = ''mallory''"
proof -
  have laws: "store_laws (RemoteUserBindings demo_bindings) mem_obj" "writes_alive (RemoteUserBindings demo_bindings) mem_obj"
    by (simp_all add: demo_bindings_def mem_api_laws mem_writes_alive)
  have alive: "all_alive mem_obj [demo_labelled []]"
    by (auto simp: all_alive_def mem_obj_def demo_labelled_def no_meta_def split: if_splits)
  have ns: "Namespace (Meta (stamp demo_writer demo_managed_user)) = ''team''" "Name (Meta (stamp demo_writer demo_managed_user)) = ''ru''"
    "Username (ReqUser demo_create) = ''jane''"
    by (simp_all add: stamp_def demo_managed_user_def demo_create_def demo_writer_def)
  obtain k b where b: "mem_obj [demo_labelled [name_ref ''ru'']] k = Some b" "refers_by_name ''ru'' b" "managed_for (Sanitize ''jane'') b"
    using managed_user_joins_the_binding_of_its_label [OF laws alive demo_stamped _ _ demo_takeover] ns by auto
  from b(1) have "k = nsn ''team'' ''b''" "b = demo_labelled [name_ref ''ru'']"
    by (auto simp: mem_obj_def key_of_def nsn_def demo_labelled_def split: if_splits)
  with b show ?thesis by (simp add: demo_labelled_def)
qed

end
