(* ===== verification/Api_V1beta4.thy ===== *)
theory Api_V1beta4
  imports Api_Types
begin

text \<open>
  The deprecated API version (\<open>pkg/api/v1beta4\<close>) and its conversion to and from the stored one.

  The specs of users, targets and bindings and all the status structs have the same fields in both
  versions; only the spec of a syncer differs.  A conversion writes into the object it is given,
  which is empty when the API server asks for it.
\<close>

subsection \<open>Types\<close>

record RemoteSyncerSpec4 =
  RemoteRepository4 :: string
  DefaultBranch4 :: string
  ScopedResources4 :: ScopedResources
  Strategy4 :: string
  TargetStrategy4 :: string
  RemoteTargetSelector4 :: "LabelSelector option"
  DefaultBlockAppliedMessage4 :: string
  ExcludedFields4 :: "string list"
  ExcludedFieldsConfigMapRef4 :: "ObjectReference option"
  RootPath4 :: string
  ResourceFinder4 :: bool
  RemoteUserBindingSelector4 :: "LabelSelector option"
  BypassInterceptionSubjects4 :: "Subject list"
  DefaultUnauthorizedUserMode4 :: string
  DefaultRemoteUserRef4 :: "ObjectReference option"
  DefaultRemoteTargetRef4 :: "ObjectReference option"
  InsecureSkipTlsVerify4 :: bool
  CABundleSecretRef4 :: SecretReference

type_synonym RemoteSyncerStatus4 = RemoteSyncerStatus
type_synonym RemoteTargetSpec4 = RemoteTargetSpec
type_synonym RemoteUserSpec4 = RemoteUserSpec
type_synonym RemoteUserStatus4 = RemoteUserStatus
type_synonym RemoteUserBindingSpec4 = RemoteUserBindingSpec
type_synonym RemoteUserBindingStatus4 = RemoteUserBindingStatus

type_synonym RemoteSyncer4 = "(RemoteSyncerSpec4, RemoteSyncerStatus4) kobj"
type_synonym RemoteTarget4 = RemoteTarget
type_synonym RemoteUser4 = RemoteUser
type_synonym RemoteUserBinding4 = RemoteUserBinding

definition no_syncer_spec4 :: RemoteSyncerSpec4 where
  "no_syncer_spec4 = \<lparr>RemoteRepository4 = '''', DefaultBranch4 = '''',
     ScopedResources4 = \<lparr>MatchPolicy = None, ScopedObjectSelector = None, Rules = []\<rparr>,
     Strategy4 = '''', TargetStrategy4 = '''', RemoteTargetSelector4 = None, DefaultBlockAppliedMessage4 = '''',
     ExcludedFields4 = [], ExcludedFieldsConfigMapRef4 = None, RootPath4 = '''', ResourceFinder4 = False,
     RemoteUserBindingSelector4 = None, BypassInterceptionSubjects4 = [], DefaultUnauthorizedUserMode4 = '''',
     DefaultRemoteUserRef4 = None, DefaultRemoteTargetRef4 = None, InsecureSkipTlsVerify4 = False,
     CABundleSecretRef4 = no_secret_ref\<rparr>"

subsection \<open>Syncers\<close>

definition syncer_status_conversion :: "RemoteSyncerStatus \<Rightarrow> RemoteSyncerStatus \<Rightarrow> RemoteSyncerStatus" where
  "syncer_status_conversion src dst =
     (if SyncerConditions src \<noteq> []
      then dst\<lparr>SyncerConditions := SyncerConditions src, LastBypassed := LastBypassed src,
             LastObserved := LastObserved src, LastPushed := LastPushed src\<rparr>
      else dst)"

definition RemoteSyncer_ConvertTo :: "RemoteSyncer4 \<Rightarrow> RemoteSyncer \<Rightarrow> RemoteSyncer" where
  "RemoteSyncer_ConvertTo src dst =
     (let s = Spec src in
      \<lparr>Meta = Meta src,
       Spec = (Spec dst)\<lparr>RemoteRepository := RemoteRepository4 s, DefaultBranch := DefaultBranch4 s,
         ScopedRes := ScopedResources4 s, Strategy := Strategy4 s, TargetStrategy := TargetStrategy4 s,
         RemoteTargetSelector := RemoteTargetSelector4 s, DefaultBlockAppliedMessage := DefaultBlockAppliedMessage4 s,
         ExcludedFields := ExcludedFields4 s, ExcludedFieldsConfigMapsRef := [ExcludedFieldsConfigMapRef4 s],
         RootPath := RootPath4 s, RemoteUserBindingSelector := RemoteUserBindingSelector4 s,
         BypassInterceptionSubjects := BypassInterceptionSubjects4 s,
         DefaultUnauthorizedUserMode := DefaultUnauthorizedUserMode4 s, DefaultRemoteUserRef := DefaultRemoteUserRef4 s,
         DefaultRemoteTargetRef := DefaultRemoteTargetRef4 s, InsecureSkipTlsVerify := InsecureSkipTlsVerify4 s,
         CABundleSecretRef := CABundleSecretRef4 s, ResourceFinder := ResourceFinder4 s\<rparr>,
       Status = syncer_status_conversion (Status src) (Status dst)\<rparr>)"

definition RemoteSyncer_ConvertFrom :: "RemoteSyncer \<Rightarrow> RemoteSyncer4 \<Rightarrow> RemoteSyncer4" where
  "RemoteSyncer_ConvertFrom src dst =
     (let s = Spec src in
      \<lparr>Meta = Meta src,
       Spec = (Spec dst)\<lparr>RemoteRepository4 := RemoteRepository s, DefaultBranch4 := DefaultBranch s,
         ScopedResources4 := ScopedRes s, Strategy4 := Strategy s, TargetStrategy4 := TargetStrategy s,
         RemoteTargetSelector4 := RemoteTargetSelector s, DefaultBlockAppliedMessage4 := DefaultBlockAppliedMessage s,
         ExcludedFields4 := ExcludedFields s,
         ExcludedFieldsConfigMapRef4 := (case ExcludedFieldsConfigMapsRef s of
            [] \<Rightarrow> ExcludedFieldsConfigMapRef4 (Spec dst) | ref # _ \<Rightarrow> ref),
         RootPath4 := RootPath s, RemoteUserBindingSelector4 := RemoteUserBindingSelector s,
         BypassInterceptionSubjects4 := BypassInterceptionSubjects s,
         DefaultUnauthorizedUserMode4 := DefaultUnauthorizedUserMode s, DefaultRemoteUserRef4 := DefaultRemoteUserRef s,
         DefaultRemoteTargetRef4 := DefaultRemoteTargetRef s, InsecureSkipTlsVerify4 := InsecureSkipTlsVerify s,
         CABundleSecretRef4 := CABundleSecretRef s, ResourceFinder4 := ResourceFinder s\<rparr>,
       Status = syncer_status_conversion (Status src) (Status dst)\<rparr>)"

subsection \<open>Targets, users and bindings\<close>

definition RemoteTarget_ConvertTo :: "RemoteTarget4 \<Rightarrow> RemoteTarget \<Rightarrow> RemoteTarget" where
  "RemoteTarget_ConvertTo src dst =
     \<lparr>Meta = Meta src,
      Spec = (Spec dst)\<lparr>UpstreamRepository := UpstreamRepository (Spec src), UpstreamBranch := UpstreamBranch (Spec src),
        TargetRepository := TargetRepository (Spec src), TargetBranch := TargetBranch (Spec src),
        MergeStrategy := MergeStrategy (Spec src)\<rparr>,
      Status = (if Status src \<noteq> [] then Status src else Status dst)\<rparr>"

definition RemoteTarget_ConvertFrom :: "RemoteTarget \<Rightarrow> RemoteTarget4 \<Rightarrow> RemoteTarget4" where
  "RemoteTarget_ConvertFrom src dst =
     \<lparr>Meta = Meta src,
      Spec = (Spec dst)\<lparr>UpstreamRepository := UpstreamRepository (Spec src), UpstreamBranch := UpstreamBranch (Spec src),
        TargetRepository := TargetRepository (Spec src), TargetBranch := TargetBranch (Spec src),
        MergeStrategy := MergeStrategy (Spec src)\<rparr>,
      Status = (if Status src \<noteq> [] then Status src else Status dst)\<rparr>"

definition user_status_conversion :: "RemoteUserStatus \<Rightarrow> RemoteUserStatus \<Rightarrow> RemoteUserStatus" where
  "user_status_conversion src dst =
     (if UserConditions src \<noteq> [] \<or> SecretBoundStatus src \<noteq> ''''
      then dst\<lparr>UserConditions := UserConditions src,
             ConnexionStatus := \<lparr>ConnStatus = ConnStatus (ConnexionStatus src), ConnDetails = ConnDetails (ConnexionStatus src)\<rparr>,
             GitUser := GitUser src, SecretBoundStatus := SecretBoundStatus src\<rparr>
      else dst)"

definition RemoteUser_ConvertTo :: "RemoteUser4 \<Rightarrow> RemoteUser \<Rightarrow> RemoteUser" where
  "RemoteUser_ConvertTo src dst =
     \<lparr>Meta = Meta src,
      Spec = (Spec dst)\<lparr>Email := Email (Spec src), GitBaseDomainFQDN := GitBaseDomainFQDN (Spec src), SecretRef := SecretRef (Spec src)\<rparr>,
      Status = user_status_conversion (Status src) (Status dst)\<rparr>"

definition RemoteUser_ConvertFrom :: "RemoteUser \<Rightarrow> RemoteUser4 \<Rightarrow> RemoteUser4" where
  "RemoteUser_ConvertFrom src dst =
     \<lparr>Meta = Meta src,
      Spec = (Spec dst)\<lparr>Email := Email (Spec src), GitBaseDomainFQDN := GitBaseDomainFQDN (Spec src), SecretRef := SecretRef (Spec src)\<rparr>,
      Status = user_status_conversion (Status src) (Status dst)\<rparr>"

definition RemoteUserBinding_ConvertTo :: "RemoteUserBinding4 \<Rightarrow> RemoteUserBinding \<Rightarrow> RemoteUserBinding" where
  "RemoteUserBinding_ConvertTo src dst =
     \<lparr>Meta = Meta src,
      Spec = (Spec dst)\<lparr>RemoteUserRefs := RemoteUserRefs (Spec src), RemoteTargetRefs := RemoteTargetRefs (Spec src),
        RubSubject := RubSubject (Spec src)\<rparr>,
      Status = (if RubConditions (Status src) \<noteq> []
        then (Status dst)\<lparr>RubConditions := RubConditions (Status src), RemoteUserHosts := RemoteUserHosts (Status src),
          RemoteUserState := RemoteUserState (Status src), UserKubernetesID := UserKubernetesID (Status src)\<rparr>
        else Status dst)\<rparr>"

definition RemoteUserBinding_ConvertFrom :: "RemoteUserBinding \<Rightarrow> RemoteUserBinding4 \<Rightarrow> RemoteUserBinding4" where
  "RemoteUserBinding_ConvertFrom src dst =
     \<lparr>Meta = Meta src,
      Spec = (Spec dst)\<lparr>RemoteUserRefs := RemoteUserRefs (Spec src), RemoteTargetRefs := RemoteTargetRefs (Spec src),
        RubSubject := RubSubject (Spec src)\<rparr>,
      Status = Status dst\<rparr>"

subsection \<open>Round trips\<close>

text \<open>The empty objects the API server converts into.\<close>

definition new_syncer :: RemoteSyncer where
  "new_syncer = \<lparr>Meta = no_meta, Spec = no_syncer_spec, Status = no_syncer_status\<rparr>"
definition new_syncer4 :: RemoteSyncer4 where
  "new_syncer4 = \<lparr>Meta = no_meta, Spec = no_syncer_spec4, Status = no_syncer_status\<rparr>"
definition new_user :: RemoteUser where
  "new_user = \<lparr>Meta = no_meta, Spec = \<lparr>SecretRef = no_secret_ref, Email = '''', GitBaseDomainFQDN = ''''\<rparr>, Status = no_user_status\<rparr>"
definition new_target :: RemoteTarget where
  "new_target = \<lparr>Meta = no_meta, Spec = \<lparr>UpstreamRepository = '''', UpstreamBranch = '''', TargetRepository = '''',
     TargetBranch = '''', MergeStrategy = ''''\<rparr>, Status = []\<rparr>"
definition new_binding :: RemoteUserBinding where
  "new_binding = \<lparr>Meta = no_meta, Spec = \<lparr>RubSubject = no_subject, RemoteUserRefs = [], RemoteTargetRefs = []\<rparr>, Status = no_rub_status\<rparr>"

text \<open>A status that a conversion carries over as it is: it was reported, or never written.\<close>

definition reported_syncer :: "RemoteSyncerStatus \<Rightarrow> bool" where
  "reported_syncer s \<longleftrightarrow> SyncerConditions s \<noteq> [] \<or> s = no_syncer_status"

definition reported_user :: "RemoteUserStatus \<Rightarrow> bool" where
  "reported_user s \<longleftrightarrow> UserConditions s \<noteq> [] \<or> SecretBoundStatus s \<noteq> '''' \<or> s = no_user_status"

lemma syncer_status_kept: "reported_syncer s \<Longrightarrow> syncer_status_conversion s no_syncer_status = s"
  by (auto simp: reported_syncer_def syncer_status_conversion_def)

lemma user_status_kept: "reported_user s \<Longrightarrow> user_status_conversion s no_user_status = s"
  by (auto simp: reported_user_def user_status_conversion_def)

text \<open>
  C34. What is written in the deprecated version is read back as it was written: storing a deprecated object and reading it again
  gives the object back, for syncers and users with a reported status, for targets always, and for
  bindings up to their status, which is not converted back.
\<close>

theorem deprecated_objects_round_trip:
  assumes "reported_syncer (Status rs)" and "reported_user (Status ru)"
  shows "RemoteSyncer_ConvertFrom (RemoteSyncer_ConvertTo rs new_syncer) new_syncer4 = rs \<and>
    RemoteUser_ConvertFrom (RemoteUser_ConvertTo ru new_user) new_user = ru \<and>
    RemoteTarget_ConvertFrom (RemoteTarget_ConvertTo rt new_target) new_target = rt \<and>
    RemoteUserBinding_ConvertFrom (RemoteUserBinding_ConvertTo rub new_binding) new_binding = rub\<lparr>Status := no_rub_status\<rparr>"
  using assms
  by (simp add: RemoteSyncer_ConvertFrom_def RemoteSyncer_ConvertTo_def new_syncer_def new_syncer4_def syncer_status_kept
      RemoteUser_ConvertFrom_def RemoteUser_ConvertTo_def new_user_def user_status_kept
      RemoteTarget_ConvertFrom_def RemoteTarget_ConvertTo_def new_target_def
      RemoteUserBinding_ConvertFrom_def RemoteUserBinding_ConvertTo_def new_binding_def Let_def)

text \<open>
  C36. A stored syncer that is read and written back in the deprecated version keeps everything that version has, but loses what it lacks:
  encryption is switched off, service accounts are no longer bypassed as a whole, push errors are
  neither passed nor retried, and of the excluded-field references only the first remains.
\<close>

theorem deprecated_rewrite_switches_encryption_off:
  assumes "reported_syncer (Status rs)"
  shows "RemoteSyncer_ConvertTo (RemoteSyncer_ConvertFrom rs new_syncer4) new_syncer =
    rs\<lparr>Spec := (Spec rs)\<lparr>SOPS := \<lparr>SopsEnabled = False, SopsSecretRef = no_secret_ref\<rparr>, BypassAllServiceAccounts := False,
      DefaultPushErrorBehavior := '''', PushErrorRetryNumber := 0,
      ExcludedFieldsConfigMapsRef := [case ExcludedFieldsConfigMapsRef (Spec rs) of [] \<Rightarrow> None | ref # _ \<Rightarrow> ref]\<rparr>\<rparr>"
  using assms
  by (cases rs; cases "Spec rs"; cases "ExcludedFieldsConfigMapsRef (Spec rs)")
    (simp_all add: RemoteSyncer_ConvertFrom_def RemoteSyncer_ConvertTo_def new_syncer_def new_syncer4_def syncer_status_kept
      no_syncer_spec_def no_syncer_spec4_def Let_def)

definition demo_old_syncer :: RemoteSyncer4 where
  "demo_old_syncer = new_syncer4\<lparr>Spec := no_syncer_spec4\<lparr>RemoteRepository4 := ''https://git.example/app.git'', RootPath4 := ''apps''\<rparr>\<rparr>"

definition demo_sops_syncer :: RemoteSyncer where
  "demo_sops_syncer = new_syncer\<lparr>Spec := no_syncer_spec\<lparr>SOPS := \<lparr>SopsEnabled = True, SopsSecretRef = no_secret_ref\<rparr>\<rparr>\<rparr>"

theorem deprecated_objects_round_trip_witness:
  "RemoteSyncer_ConvertFrom (RemoteSyncer_ConvertTo demo_old_syncer new_syncer) new_syncer4 = demo_old_syncer"
  using deprecated_objects_round_trip [of demo_old_syncer new_user]
  by (simp add: demo_old_syncer_def new_syncer4_def new_user_def reported_syncer_def reported_user_def)

theorem deprecated_rewrite_switches_encryption_off_witness:
  "SopsEnabled (SOPS (Spec demo_sops_syncer)) \<and>
   \<not> SopsEnabled (SOPS (Spec (RemoteSyncer_ConvertTo (RemoteSyncer_ConvertFrom demo_sops_syncer new_syncer4) new_syncer)))"
proof -
  have r: "reported_syncer (Status demo_sops_syncer)" by (simp add: demo_sops_syncer_def new_syncer_def reported_syncer_def)
  show ?thesis unfolding deprecated_rewrite_switches_encryption_off [OF r] by (simp add: demo_sops_syncer_def)
qed

end
