(* ===== verification/Validation.thy ===== *)
theory Validation
  imports Admission Interceptor_Targets Managed Providers
begin

text \<open>
  The validating webhooks of \<open>internal/webhook/v1beta5\<close>: which specs of syncers, targets, users and bindings are
  stored at all.

  A field error carries its path, the value it complains about and its text.  The regular expression of the
  YAML paths is a value and matched as such; that of the git URLs is written out on ASCII text.
\<close>

subsection \<open>Field errors\<close>

datatype bad_value =
  BadText string
| BadRef "ObjectReference option"
| BadSelector "LabelSelector option"

datatype field_error =
  FieldInvalid string bad_value string
| FieldRequired string string
| FieldForbidden string string

text \<open>\<open>apierrors.NewInvalid\<close>: the kind, the name and the errors.\<close>

datatype invalid = NewInvalid string string "field_error list"

definition quoted :: "string \<Rightarrow> string" where
  "quoted s = [CHR 0x22] @ s @ [CHR 0x22]"

subsection \<open>Patterns\<close>

definition in_class :: "string \<Rightarrow> char \<Rightarrow> bool" where
  \<comment> \<open>Letters, digits and the listed characters.\<close>
  "in_class extra c \<longleftrightarrow> (let n = (of_char c :: nat) in
     97 \<le> n \<and> n \<le> 122 \<or> 65 \<le> n \<and> n \<le> 90 \<or> 48 \<le> n \<and> n \<le> 57) \<or> c \<in> set extra"

definition path_char :: "char \<Rightarrow> bool" where "path_char = in_class ''_./:-''"
definition index_char :: "char \<Rightarrow> bool" where "index_char = in_class ''_*./:-''"

text \<open>Regular expressions, matched by derivatives; an expression between \<open>^\<close> and \<open>$\<close> matches the whole text.\<close>

datatype rexp = RNever | RNothing | RChar "char \<Rightarrow> bool" | RSeq rexp rexp | RAlt rexp rexp | RStar rexp

fun nullable :: "rexp \<Rightarrow> bool" where
  "nullable RNever = False"
| "nullable RNothing = True"
| "nullable (RChar p) = False"
| "nullable (RSeq r s) = (nullable r \<and> nullable s)"
| "nullable (RAlt r s) = (nullable r \<or> nullable s)"
| "nullable (RStar r) = True"

fun deriv :: "char \<Rightarrow> rexp \<Rightarrow> rexp" where
  "deriv c RNever = RNever"
| "deriv c RNothing = RNever"
| "deriv c (RChar p) = (if p c then RNothing else RNever)"
| "deriv c (RSeq r s) = (if nullable r then RAlt (RSeq (deriv c r) s) (deriv c s) else RSeq (deriv c r) s)"
| "deriv c (RAlt r s) = RAlt (deriv c r) (deriv c s)"
| "deriv c (RStar r) = RSeq (deriv c r) (RStar r)"

definition MatchString :: "rexp \<Rightarrow> string \<Rightarrow> bool" where
  "MatchString r s = nullable (fold deriv s r)"

definition yamlPathRegex :: rexp where
  "yamlPathRegex = RStar (RSeq (RStar (RChar path_char))
     (RAlt (RSeq (RChar (\<lambda>c. c = CHR ''['')) (RSeq (RStar (RChar index_char)) (RChar (\<lambda>c. c = CHR '']'')))) RNothing))"

definition isValidYAMLPath :: "string \<Rightarrow> bool" where
  "isValidYAMLPath path = MatchString yamlPathRegex path"

definition after_scheme :: "string \<Rightarrow> string \<Rightarrow> bool" where
  "after_scheme scheme s \<longleftrightarrow> HasPrefix s scheme \<and> drop (length scheme) s \<noteq> '''' \<and> CHR '' '' \<notin> set (drop (length scheme) s)"

definition gitURIPattern :: "string \<Rightarrow> bool" where
  "gitURIPattern s \<longleftrightarrow> after_scheme ''http://'' s \<or> after_scheme ''https://'' s \<or> after_scheme ''git://'' s"

definition yamlPathRegex_text :: string where
  "yamlPathRegex_text = ''^([a-zA-Z0-9_./:-]*('' @ [CHR 0x5C] @ ''[[a-zA-Z0-9_*./:-]*'' @ [CHR 0x5C] @ ''])?)*$''"

subsection \<open>Syncers\<close>

definition check :: "bool \<Rightarrow> field_error \<Rightarrow> field_error list" where
  "check failed e = (if failed then [e] else [])"

definition default_user_errors :: "RemoteSyncerSpec \<Rightarrow> field_error list" where
  "default_user_errors r =
     (if DefaultUnauthorizedUserMode r = BlockDefaultUser \<and> DefaultRemoteUserRef r \<noteq> None
      then [FieldInvalid ''spec.defaultRemoteUserRef'' (BadRef (DefaultRemoteUserRef r))
        (''should not be set when defaultUnauthorizedUserMode is set to '' @ quoted ''Block'')]
      else if DefaultUnauthorizedUserMode r = UseDefaultUser \<and> DefaultRemoteUserRef r = None
      then [FieldRequired ''spec.defaultRemoteUserRef''
        (''must be set when defaultUnauthorizedUserMode is set to '' @ quoted ''UseDefaultUser'')]
      else [])"

definition validateRemoteSyncerSpec :: "RemoteSyncerSpec \<Rightarrow> field_error list" where
  "validateRemoteSyncerSpec r =
     default_user_errors r @
     check (DefaultRemoteUserRef r \<noteq> None \<and> DefaultRemoteTargetRef r = None)
       (FieldInvalid ''spec.defaultRemoteTargetRef'' (BadRef (DefaultRemoteTargetRef r)) ''should be set when defaultRemoteUserRef is set'') @
     check (DefaultRemoteUserRef r = None \<and> DefaultRemoteTargetRef r \<noteq> None)
       (FieldInvalid ''spec.defaultRemoteUserRef'' (BadRef (DefaultRemoteUserRef r)) ''should be set when defaultRemoteTargetRef is set'') @
     check (DefaultBlockAppliedMessage r \<noteq> '''' \<and> Strategy r \<noteq> CommitOnly)
       (FieldForbidden ''spec.defaultBlockAppliedMessage'' (''should not be set if strategy is not set to '' @ quoted CommitOnly)) @
     check (Strategy r \<noteq> CommitOnly \<and> Strategy r \<noteq> CommitApply)
       (FieldInvalid ''spec.strategy'' (BadText (Strategy r)) (''must be set to '' @ quoted CommitApply @ '' or '' @ quoted CommitOnly)) @
     check (\<not> gitURIPattern (RemoteRepository r))
       (FieldInvalid ''spec.remoteRepository'' (BadText (RemoteRepository r)) ''invalid Git URI'') @
     map (\<lambda>p. FieldInvalid ''spec.excludedFields'' (BadText p) (''must be a valid YAML path. Regex : '' @ yamlPathRegex_text))
       (filter (\<lambda>p. \<not> isValidYAMLPath p) (ExcludedFields r)) @
     check (DefaultUnauthorizedUserMode r \<noteq> BlockDefaultUser \<and> DefaultBranch r = '''')
       (FieldRequired ''spec.defaultBranch'' ''must be set when the defaultUnauthorizedUserMode is set to UseDefaultUser'')"

definition validateSyncer :: "Syncer \<Rightarrow> field_error list" where
  "validateSyncer syncer =
     (let v = alist_get (Annotations (SyncerMeta syncer)) RtAnnotationKeyUserSpecific in
      validateRemoteSyncerSpec (SyncerSpec syncer) @
      check (v \<notin> set ['''', RtAnnotationValueOneUserOneBranch, RtAnnotationValueOneUserOneFork])
        (FieldInvalid (''metadata.annotations.'' @ RtAnnotationKeyUserSpecific) (BadText v)
          (''must be either '' @ RtAnnotationValueOneUserOneBranch @ '' or '' @ RtAnnotationValueOneUserOneFork @ ''; got '' @ v)))"

definition invalid_if :: "string \<Rightarrow> string \<Rightarrow> field_error list \<Rightarrow> invalid option" where
  "invalid_if kind name allErrs = (if allErrs = [] then None else Some (NewInvalid kind name allErrs))"

definition validateRemoteSyncer :: "RemoteSyncer \<Rightarrow> invalid option" where
  "validateRemoteSyncer rs = invalid_if ''RemoteSyncer'' (Name (Meta rs)) (validateSyncer (NamespacedSyncer rs))"

definition validateClusterWideRemoteSyncer :: "(UserInfo \<Rightarrow> string) \<Rightarrow> 'w client \<Rightarrow> ClusterWideRemoteSyncer \<Rightarrow> invalid option" where
  "validateClusterWideRemoteSyncer u c cwrs = invalid_if ''ClusterWideRemoteSyncer'' (Name (Meta cwrs))
     (validateSyncer (ClusterSyncer cwrs) @
      (case RemoteSyncerRefs (InlineSpec (Spec cwrs)) '''' of
         Inl err \<Rightarrow> [FieldRequired ''spec'' (Error u err)]
       | Inr _ \<Rightarrow> []) @
      check (IdentityStoreNamespace (Spec cwrs) = '''')
        (FieldRequired ''spec.identityStoreNamespace''
          ''must be set because a cluster-scoped syncer has no namespace to look for RemoteUserBindings in'') @
      (case NamespaceSelector (Spec cwrs) of
         None \<Rightarrow> []
       | Some ls \<Rightarrow> (case SelectorAs c ls of
           Inl msg \<Rightarrow> [FieldInvalid ''spec.namespaceSelector'' (BadSelector (NamespaceSelector (Spec cwrs))) msg]
         | Inr _ \<Rightarrow> [])))"

subsection \<open>Targets, bindings and users\<close>

definition same_place :: "RemoteTargetSpec \<Rightarrow> bool" where
  "same_place r \<longleftrightarrow> UpstreamBranch r = TargetBranch r \<and> UpstreamRepository r = TargetRepository r"

definition validateRemoteTargetSpec :: "(UserInfo \<Rightarrow> string) \<Rightarrow> RemoteTargetSpec \<Rightarrow> field_error list" where
  "validateRemoteTargetSpec u r =
     check (same_place r \<and> MergeStrategy r \<noteq> '''')
       (FieldInvalid ''spec.mergeStrategy'' (BadText (MergeStrategy r)) (Error u (WrongRemoteSyncerConfig
         ''should not be set when the target repo & target branch are the same as the upstream repo & branch''))) @
     check (\<not> same_place r \<and> MergeStrategy r = '''')
       (FieldInvalid ''spec.mergeStrategy'' (BadText (MergeStrategy r)) (Error u (WrongRemoteSyncerConfig
         ''should be set when the target repo & target branch are different from the upstream repo & branch'')))"

definition validateRemoteTarget :: "(UserInfo \<Rightarrow> string) \<Rightarrow> RemoteTarget \<Rightarrow> invalid option" where
  "validateRemoteTarget u rt = invalid_if ''RemoteTarget'' (Name (Meta rt)) (validateRemoteTargetSpec u (Spec rt))"

definition validateRemoteUserBindingSpec :: "RemoteUserBindingSpec \<Rightarrow> field_error list" where
  "validateRemoteUserBindingSpec r = []"

definition validateRemoteUserBinding :: "RemoteUserBinding \<Rightarrow> invalid option" where
  "validateRemoteUserBinding rub = invalid_if ''RemoteUserBinding'' (Name (Meta rub)) (validateRemoteUserBindingSpec (Spec rub))"

text \<open>\<open>ValidateCreate\<close> and \<open>ValidateUpdate\<close> run the check on the new object, \<open>ValidateDelete\<close> accepts.\<close>

definition custom_validator :: "('o \<Rightarrow> invalid option) \<Rightarrow> string \<Rightarrow> 'o \<Rightarrow> invalid option" where
  "custom_validator validate operation obj = (if operation = ''DELETE'' then None else validate obj)"

definition RemoteSyncerCustomValidator :: "string \<Rightarrow> RemoteSyncer \<Rightarrow> invalid option" where
  "RemoteSyncerCustomValidator = custom_validator validateRemoteSyncer"

definition ClusterWideRemoteSyncerCustomValidator :: "(UserInfo \<Rightarrow> string) \<Rightarrow> 'w client \<Rightarrow> string \<Rightarrow> ClusterWideRemoteSyncer \<Rightarrow> invalid option" where
  "ClusterWideRemoteSyncerCustomValidator u c = custom_validator (validateClusterWideRemoteSyncer u c)"

definition RemoteTargetCustomValidator :: "(UserInfo \<Rightarrow> string) \<Rightarrow> string \<Rightarrow> RemoteTarget \<Rightarrow> invalid option" where
  "RemoteTargetCustomValidator u = custom_validator (validateRemoteTarget u)"

definition RemoteUserBindingCustomValidator :: "string \<Rightarrow> RemoteUserBinding \<Rightarrow> invalid option" where
  "RemoteUserBindingCustomValidator = custom_validator validateRemoteUserBinding"

definition RemoteUserCustomValidator :: "string \<Rightarrow> RemoteUser \<Rightarrow> invalid option" where
  "RemoteUserCustomValidator = custom_validator (\<lambda>_. None)"

subsection \<open>The language of YAML paths\<close>

inductive rlang :: "rexp \<Rightarrow> string \<Rightarrow> bool" where
  nothing: "rlang RNothing ''''"
| char: "p c \<Longrightarrow> rlang (RChar p) [c]"
| sequence: "rlang r xs \<Longrightarrow> rlang s ys \<Longrightarrow> rlang (RSeq r s) (xs @ ys)"
| left: "rlang r xs \<Longrightarrow> rlang (RAlt r s) xs"
| right: "rlang s xs \<Longrightarrow> rlang (RAlt r s) xs"
| stop: "rlang (RStar r) ''''"
| again: "rlang r xs \<Longrightarrow> rlang (RStar r) ys \<Longrightarrow> rlang (RStar r) (xs @ ys)"

inductive_simps rlang_simps: "rlang RNever s" "rlang RNothing s" "rlang (RChar p) s" "rlang (RAlt r q) s" "rlang (RSeq r q) s"

lemma nullable_iff: "nullable r \<longleftrightarrow> rlang r ''''"
  by (induction r) (auto simp: rlang_simps intro: rlang.stop)

lemma star_Cons:
  "rlang (RStar r) (c # s) \<longleftrightarrow> (\<exists>xs ys. s = xs @ ys \<and> rlang r (c # xs) \<and> rlang (RStar r) ys)"
proof
  have "rlang q t \<Longrightarrow> q = RStar r \<Longrightarrow> t = c # s \<Longrightarrow> \<exists>xs ys. s = xs @ ys \<and> rlang r (c # xs) \<and> rlang (RStar r) ys" for q t
    by (induction q t arbitrary: s rule: rlang.induct) (auto simp: append_eq_Cons_conv)
  then show "rlang (RStar r) (c # s) \<Longrightarrow> \<exists>xs ys. s = xs @ ys \<and> rlang r (c # xs) \<and> rlang (RStar r) ys" by blast
qed (use rlang.again in force)

lemma deriv_iff: "rlang (deriv c r) s \<longleftrightarrow> rlang r (c # s)"
proof (induction r arbitrary: s)
  case (RSeq r q)
  have "rlang (RSeq r q) (c # s) \<longleftrightarrow>
      (\<exists>xs ys. s = xs @ ys \<and> rlang r (c # xs) \<and> rlang q ys) \<or> (rlang r '''' \<and> rlang q (c # s))"
    by (auto simp: rlang_simps Cons_eq_append_conv)
  with RSeq show ?case by (auto simp: rlang_simps nullable_iff)
qed (auto simp: rlang_simps star_Cons)

lemma MatchString_iff: "MatchString r s \<longleftrightarrow> rlang r s"
  unfolding MatchString_def by (induction s arbitrary: r) (simp_all add: nullable_iff deriv_iff)

lemma star_of_chars: "rlang (RStar (RChar p)) s \<longleftrightarrow> list_all p s"
proof (induction s)
  case (Cons c s)
  then show ?case by (auto simp: star_Cons rlang_simps)
qed (simp add: rlang.stop)

text \<open>In one pass over the text, with a flag that tells whether a bracket is open.\<close>

fun scan_yaml_path :: "bool \<Rightarrow> string \<Rightarrow> bool" where
  "scan_yaml_path opened [] = (\<not> opened)"
| "scan_yaml_path False (c # cs) = (if c = CHR ''['' then scan_yaml_path True cs else path_char c \<and> scan_yaml_path False cs)"
| "scan_yaml_path True (c # cs) = (if c = CHR '']'' then scan_yaml_path False cs else index_char c \<and> scan_yaml_path True cs)"

inductive yaml_path :: "string \<Rightarrow> bool" where
  empty: "yaml_path ''''"
| piece: "list_all path_char xs \<Longrightarrow> yaml_path rest \<Longrightarrow> yaml_path (xs @ rest)"
| bracket: "list_all path_char xs \<Longrightarrow> list_all index_char ys \<Longrightarrow> yaml_path rest \<Longrightarrow>
    yaml_path (xs @ ''['' @ ys @ '']'' @ rest)"

lemma no_bracket_chars: "\<not> path_char (CHR ''['')" "\<not> index_char (CHR '']'')"
  by (simp_all add: path_char_def index_char_def in_class_def)

lemma scan_plain: "list_all path_char xs \<Longrightarrow> scan_yaml_path False (xs @ rest) = scan_yaml_path False rest"
  using no_bracket_chars(1) by (induction xs) auto

lemma scan_index: "list_all index_char ys \<Longrightarrow> scan_yaml_path True (ys @ CHR '']'' # rest) = scan_yaml_path False rest"
  using no_bracket_chars(2) by (induction ys) auto

lemma scan_words:
  "scan_yaml_path opened s \<Longrightarrow> (if opened then \<exists>ys rest. s = ys @ CHR '']'' # rest \<and> list_all index_char ys \<and> yaml_path rest
     else yaml_path s)"
proof (induction opened s rule: scan_yaml_path.induct)
  case (1 opened)
  then show ?case by (simp add: yaml_path.empty)
next
  case (2 c cs)
  show ?case
  proof (cases "c = CHR ''[''")
    case True
    with 2 obtain ys rest where "cs = ys @ CHR '']'' # rest" "list_all index_char ys" "yaml_path rest" by auto
    with True yaml_path.bracket [of "''''" ys rest] show ?thesis by simp
  next
    case False
    with 2 yaml_path.piece [of "[c]" cs] show ?thesis by simp
  qed
next
  case (3 c cs)
  show ?case
  proof (cases "c = CHR '']''")
    case True
    with 3 show ?thesis by (intro iffD2 [OF if_P] exI [of _ "''''"] exI [of _ cs]) auto
  next
    case False
    with 3 obtain ys rest where "cs = ys @ CHR '']'' # rest" "list_all index_char ys" "yaml_path rest" by auto
    moreover from False 3 have "index_char c" by simp
    ultimately show ?thesis by (intro iffD2 [OF if_P] exI [of _ "c # ys"] exI [of _ rest]) auto
  qed
qed

lemma yaml_piece:
  "rlang (RSeq (RStar (RChar path_char)) (RAlt (RSeq (RChar (\<lambda>c. c = CHR ''['')) (RSeq (RStar (RChar index_char)) (RChar (\<lambda>c. c = CHR '']'')))) RNothing)) s
   \<longleftrightarrow> list_all path_char s \<or> (\<exists>xs ys. s = xs @ ''['' @ ys @ '']'' \<and> list_all path_char xs \<and> list_all index_char ys)"
  by (auto simp: rlang_simps star_of_chars)

lemma isValidYAMLPath_scan [code]: "isValidYAMLPath path \<longleftrightarrow> scan_yaml_path False path"
proof -
  have "rlang r s \<Longrightarrow> r = yamlPathRegex \<Longrightarrow> scan_yaml_path False s" for r s
    by (induction r s rule: rlang.induct)
      (auto simp: yamlPathRegex_def yaml_piece [simplified] scan_plain scan_index)
  moreover have "yaml_path s \<Longrightarrow> rlang yamlPathRegex s" for s
  proof (induction rule: yaml_path.induct)
    case (piece xs rest)
    then show ?case unfolding yamlPathRegex_def by (intro rlang.again) (auto simp: yaml_piece)
  next
    case (bracket xs ys rest)
    have "rlang yamlPathRegex ((xs @ ''['' @ ys @ '']'') @ rest)"
      using bracket unfolding yamlPathRegex_def by (intro rlang.again) (auto simp: yaml_piece)
    then show ?case by simp
  qed (simp add: yamlPathRegex_def rlang.stop)
  ultimately show ?thesis
    using scan_words [of False path] unfolding isValidYAMLPath_def MatchString_iff by auto
qed

subsection \<open>Excluded fields as they are written\<close>

definition plain_chars :: string where
  "plain_chars = ''abcdefghijklmnopqrstuvwxyzABCDEFGHIJKLMNOPQRSTUVWXYZ0123456789_./:-''"

lemma char_classes:
  "path_char c \<longleftrightarrow> c \<in> set plain_chars" "index_char c \<longleftrightarrow> c = CHR ''*'' \<or> c \<in> set plain_chars"
proof -
  have "\<forall>c. path_char c \<longleftrightarrow> c \<in> set plain_chars" by code_simp
  then show p: "path_char c \<longleftrightarrow> c \<in> set plain_chars" by blast
  have "index_char c \<longleftrightarrow> c = CHR ''*'' \<or> path_char c" by (auto simp: index_char_def path_char_def in_class_def)
  with p show "index_char c \<longleftrightarrow> c = CHR ''*'' \<or> c \<in> set plain_chars" by simp
qed

lemma scan_field: "CHR ''['' \<notin> set f \<Longrightarrow> scan_yaml_path False (f @ rest) \<longleftrightarrow> list_all path_char f \<and> scan_yaml_path False rest"
  by (induction f) auto

lemma scan_key: "CHR '']'' \<notin> set k \<Longrightarrow> scan_yaml_path True (k @ '']'' @ rest) \<longleftrightarrow> list_all index_char k \<and> scan_yaml_path False rest"
  by (induction k) auto

lemma scan_text:
  "written b segs \<Longrightarrow> scan_yaml_path False (path_text segs) \<longleftrightarrow>
     (\<forall>s \<in> set segs. case s of Field dot f \<Rightarrow> list_all path_char f | Key k \<Rightarrow> list_all index_char k)"
proof (induction segs arbitrary: b)
  case (Cons s segs)
  have dot: "path_char (CHR ''.'')" by (simp add: path_char_def in_class_def)
  show ?case
  proof (cases s)
    case (Field dt f)
    with Cons scan_field [of f "path_text segs"] dot show ?thesis by (cases dt) (auto simp: path_text_def)
  next
    case (Key k)
    with Cons scan_key [of k "path_text segs"] show ?thesis by (auto simp: path_text_def)
  qed
qed (simp add: path_text_def)

text \<open>
  C35. The validation of excluded fields and their removal read one syntax: of the paths written with fields set apart by dots
  and keys in brackets, the webhook accepts exactly those whose fields are of letters, digits and \<open>_/:-\<close> and whose keys are of
  these, the dot and the star.
\<close>

theorem accepted_paths_are_written_of_plain_characters:
  assumes "written False segs"
  shows "isValidYAMLPath (path_text segs) \<longleftrightarrow> (\<forall>s \<in> set segs. case s of
      Field dot f \<Rightarrow> set f \<subseteq> set ''abcdefghijklmnopqrstuvwxyzABCDEFGHIJKLMNOPQRSTUVWXYZ0123456789_/:-''
    | Key k \<Rightarrow> set k \<subseteq> set ''abcdefghijklmnopqrstuvwxyzABCDEFGHIJKLMNOPQRSTUVWXYZ0123456789_*./:-'')"
proof -
  define fields where "fields = set ''abcdefghijklmnopqrstuvwxyzABCDEFGHIJKLMNOPQRSTUVWXYZ0123456789_/:-''"
  define keys where "keys = set ''abcdefghijklmnopqrstuvwxyzABCDEFGHIJKLMNOPQRSTUVWXYZ0123456789_*./:-''"
  have plain: "set plain_chars = insert (CHR ''.'') fields" "keys = insert (CHR ''*'') (set plain_chars)"
    unfolding fields_def keys_def plain_chars_def by (simp_all add: insert_commute)
  have "written b xs \<Longrightarrow> Field d f \<in> set xs \<Longrightarrow> CHR ''.'' \<notin> set f" for b xs d f
    by (induction b xs rule: written.induct) auto
  with assms have dotless: "CHR ''.'' \<notin> set f" if "Field d f \<in> set segs" for d f
    using that by blast
  have "(case s of Field dot f \<Rightarrow> list_all path_char f | Key k \<Rightarrow> list_all index_char k) \<longleftrightarrow>
      (case s of Field dot f \<Rightarrow> set f \<subseteq> fields | Key k \<Rightarrow> set k \<subseteq> keys)" if "s \<in> set segs" for s
  proof (cases s)
    case (Field d f)
    with dotless [of d f] that have "x \<noteq> CHR ''.''" if "x \<in> set f" for x using \<open>x \<in> set f\<close> by metis
    then have "list_all path_char f \<longleftrightarrow> set f \<subseteq> fields"
      unfolding list_all_iff char_classes plain(1) by blast
    with Field show ?thesis by (simp only: segment.case)
  next
    case (Key k)
    have "list_all index_char k \<longleftrightarrow> set k \<subseteq> keys"
      unfolding list_all_iff char_classes plain(2) by blast
    with Key show ?thesis by (simp only: segment.case)
  qed
  then show ?thesis
    unfolding isValidYAMLPath_scan scan_text [OF assms] fields_def [symmetric] keys_def [symmetric] by (rule ball_cong [OF refl])
qed

theorem accepted_paths_are_written_of_plain_characters_witness:
  "isValidYAMLPath ''.test4[this.string-is:the/same*key]test5[test6]''"
proof -
  let ?segs = "[Field True ''test4'', Key ''this.string-is:the/same*key'', Field False ''test5'', Key ''test6'']"
  have w: "written False ?segs" and t: "path_text ?segs = ''.test4[this.string-is:the/same*key]test5[test6]''"
    by (simp_all add: path_text_def)
  show ?thesis using accepted_paths_are_written_of_plain_characters [OF w] unfolding t by simp
qed

subsection \<open>What validation guarantees\<close>

lemma invalid_if_None [simp]: "invalid_if kind name errs = None \<longleftrightarrow> errs = []"
  by (simp add: invalid_if_def)

lemma check_Nil [simp]: "check failed e = [] \<longleftrightarrow> \<not> failed"
  by (simp add: check_def)

text \<open>The collector of references resolves every namespace.\<close>

lemma ResolveNamespace_not_Nil: "ResolveNamespace ns owner q = Inr m \<Longrightarrow> m \<noteq> ''''"
  by (auto simp: ResolveNamespace_def split: if_splits)

lemma ResolveNamespace_effective: "effective_ns ns owner \<noteq> '''' \<Longrightarrow> ResolveNamespace ns owner q = Inr (effective_ns ns owner)"
  by (auto simp: ResolveNamespace_def effective_ns_def)

definition placed :: "refCollector \<Rightarrow> bool" where
  "placed c \<longleftrightarrow> (\<forall>r \<in> set (collected c). OrNamespace r \<noteq> '''')"

lemma placed_collector_add: "placed c \<Longrightarrow> placed (collector_add ns n gvr p c)"
  by (auto simp: placed_def collector_add_def dest: ResolveNamespace_not_Nil split: sum.splits prod.splits)

lemma placed_add_refs: "placed c \<Longrightarrow> placed (add_refs p gvr i rs c)"
  by (induction p gvr i rs c rule: add_refs.induct) (simp_all add: placed_collector_add)

lemma RemoteSyncerRefs_placed:
  assumes "RemoteSyncerRefs spec owner = Inr rs" and "r \<in> set rs"
  shows "OrNamespace r \<noteq> ''''"
proof -
  have opt: "placed c \<Longrightarrow> placed (add_opt_ref p gvr x c)" for p gvr x c
    by (simp add: add_opt_ref_def placed_collector_add split: option.split)
  have sec: "placed c \<Longrightarrow> placed (add_secret_ref p x c)" for p x c
    by (simp add: add_secret_ref_def placed_collector_add)
  have "placed (newRefCollector owner)" by (simp add: placed_def newRefCollector_def)
  then have "placed (add_secret_ref ''spec.sops.secretRef'' (SopsSecretRef (SOPS spec))
      (add_secret_ref ''spec.caBundleSecretRef'' (CABundleSecretRef spec)
      (add_refs ''spec.excludedFieldsConfigMapsRef'' configMapsGVR 0 (ExcludedFieldsConfigMapsRef spec)
      (add_opt_ref ''spec.defaultRemoteTargetRef'' remoteTargetsGVR (DefaultRemoteTargetRef spec)
      (add_opt_ref ''spec.defaultRemoteUserRef'' remoteUsersGVR (DefaultRemoteUserRef spec) (newRefCollector owner))))))"
    by (intro opt sec placed_add_refs)
  with assms show ?thesis by (auto simp: RemoteSyncerRefs_def collector_result_def placed_def split: option.splits)
qed

lemma held_ref_resolves:
  assumes "RemoteSyncerRefs spec owner = Inr rs" and "syncer_holds_ref spec gvr ns n" and "n \<noteq> ''''"
  shows "ResolveNamespace ns owner q = Inr (effective_ns ns owner)"
  using RemoteSyncerRefs_complete [OF assms] RemoteSyncerRefs_placed [OF assms(1)]
  by (auto simp: lists_ref_def intro: ResolveNamespace_effective)

lemma GetGitUserInfo_unplaced:
  "GetGitUserInfoByRemoteUser c w u = Inl (MissingRefNamespace p) \<Longrightarrow> p = ''spec.secretRef''"
  by (auto simp: GetGitUserInfoByRemoteUser_def ResolveNamespace_def Let_def split: sum.splits if_splits option.splits)

lemma default_targets_placed:
  assumes "RemoteSyncerRefs (ScSpec sc) (RefOwnerNamespace sc) = Inr rs"
  shows "default_targets c w sc user host \<noteq> Inl (MissingRefNamespace ''spec.defaultRemoteUserRef'')"
    and "default_targets c w sc user host \<noteq> Inl (MissingRefNamespace ''spec.defaultRemoteTargetRef'')"
proof -
  have user: "\<exists>m. ResolveNamespace (RefNamespace r) (RefOwnerNamespace sc) q = Inr m"
    if "DefaultRemoteUserRef (ScSpec sc) = Some r" "RefName r \<noteq> ''''" for r q
    using held_ref_resolves [OF assms, of remoteUsersGVR "RefNamespace r" "RefName r"] that by (auto simp: syncer_holds_ref_def)
  have target: "\<exists>m. ResolveNamespace (RefNamespace r) (RefOwnerNamespace sc) q = Inr m"
    if "DefaultRemoteTargetRef (ScSpec sc) = Some r" "RefName r \<noteq> ''''" for r q
    using held_ref_resolves [OF assms, of remoteTargetsGVR "RefNamespace r" "RefName r"] that by (auto simp: syncer_holds_ref_def)
  show "default_targets c w sc user host \<noteq> Inl (MissingRefNamespace ''spec.defaultRemoteUserRef'')"
    "default_targets c w sc user host \<noteq> Inl (MissingRefNamespace ''spec.defaultRemoteTargetRef'')"
    using user [of _ "''spec.defaultRemoteUserRef''"] target [of _ "''spec.defaultRemoteTargetRef''"]
    by (auto simp: default_targets_def dest: GetGitUserInfo_unplaced split: option.splits if_splits sum.splits)
qed

lemma FindCABundle_placed: "FindCABundle c w ns n \<noteq> Inl (MissingRefNamespace p)"
  by (auto simp: FindCABundle_def ErrCaSecretWrongType_def split: sum.splits)

lemma CABundleBuilder_placed:
  assumes "RemoteSyncerRefs (ScSpec sc) (RefOwnerNamespace sc) = Inr rs"
  shows "CABundleBuilder c w managerNs sc host \<noteq> Inl (MissingRefNamespace p)"
proof -
  let ?ref = "CABundleSecretRef (ScSpec sc)"
  have "\<exists>m. ResolveNamespace (SecNamespace ?ref) (RefOwnerNamespace sc) q = Inr m" if "SecName ?ref \<noteq> ''''" for q
    using held_ref_resolves [OF assms, of secretsGVR "SecNamespace ?ref" "SecName ?ref"] that by (auto simp: syncer_holds_ref_def)
  from this [of "''spec.caBundleSecretRef''"] show ?thesis
    by (auto simp: FindCABundle_placed CABundleBuilder_def Let_def ErrCaSecretWrongType_def split: if_splits sum.splits)
qed

lemma sopsIdentities_placed:
  assumes "RemoteSyncerRefs (ScSpec (GppSyncer (RcParams rc))) (RefOwnerNamespace (GppSyncer (RcParams rc))) = Inr rs"
  shows "sopsIdentities env rc \<noteq> Inl (MissingRefNamespace p)"
proof -
  let ?sc = "GppSyncer (RcParams rc)"
  let ?ref = "SopsSecretRef (SOPS (ScSpec ?sc))"
  have "\<exists>m. ResolveNamespace (SecNamespace ?ref) (RefOwnerNamespace ?sc) q = Inr m" if "SecName ?ref \<noteq> ''''" for q
    using held_ref_resolves [OF assms, of secretsGVR "SecNamespace ?ref" "SecName ?ref"] that by (auto simp: syncer_holds_ref_def)
  from this [of "''spec.sops.secretRef''"] show ?thesis
    by (auto simp: sopsIdentities_def Let_def split: if_splits sum.splits)
qed

lemma validated_spec:
  assumes "validateRemoteSyncerSpec r = []"
  shows "Strategy r = CommitOnly \<or> Strategy r = CommitApply"
    and "DefaultUnauthorizedUserMode r = UseDefaultUser \<Longrightarrow>
      DefaultRemoteUserRef r \<noteq> None \<and> DefaultRemoteTargetRef r \<noteq> None \<and> DefaultBranch r \<noteq> ''''"
    and "\<forall>p \<in> set (ExcludedFields r). isValidYAMLPath p"
  using assms by (auto simp: validateRemoteSyncerSpec_def default_user_errors_def filter_empty_conv
      BlockDefaultUser_def UseDefaultUser_def split: if_splits)

text \<open>
  C16. What the webhook lets through is never found incomplete while intercepting: for a validated
  cluster-wide syncer the bindings are looked up in one named namespace, the strategy is one of the two, a syncer that uses a
  default user has both default references and a branch, and the default credentials, the CA bundle and
  the SOPS identities never fail on a reference without a namespace.
\<close>

theorem validated_cluster_syncer_is_complete:
  assumes "validateClusterWideRemoteSyncer u c cwrs = None" and "sc = NewClusterWideSyncerContext cwrs intercepted"
  shows "RUBNamespace sc \<noteq> '''' \<and>
    (Strategy (ScSpec sc) = CommitOnly \<or> Strategy (ScSpec sc) = CommitApply) \<and>
    (DefaultUnauthorizedUserMode (ScSpec sc) = UseDefaultUser \<longrightarrow>
       DefaultRemoteUserRef (ScSpec sc) \<noteq> None \<and> DefaultRemoteTargetRef (ScSpec sc) \<noteq> None \<and> DefaultBranch (ScSpec sc) \<noteq> '''') \<and>
    default_targets c w sc user host \<noteq> Inl (MissingRefNamespace ''spec.defaultRemoteUserRef'') \<and>
    default_targets c w sc user host \<noteq> Inl (MissingRefNamespace ''spec.defaultRemoteTargetRef'') \<and>
    CABundleBuilder c w managerNs sc host \<noteq> Inl (MissingRefNamespace ''spec.caBundleSecretRef'') \<and>
    (\<forall>env rc. GppSyncer (RcParams rc) = sc \<longrightarrow> sopsIdentities env rc \<noteq> Inl (MissingRefNamespace ''spec.sops.secretRef''))"
proof -
  from assms(1) have v: "validateRemoteSyncerSpec (InlineSpec (Spec cwrs)) = []" and ns: "IdentityStoreNamespace (Spec cwrs) \<noteq> ''''"
    by (auto simp: validateClusterWideRemoteSyncer_def validateSyncer_def Let_def)
  from assms(1) obtain rs where "RemoteSyncerRefs (InlineSpec (Spec cwrs)) '''' = Inr rs"
    by (auto simp: validateClusterWideRemoteSyncer_def split: sum.splits)
  then have refs: "RemoteSyncerRefs (ScSpec sc) (RefOwnerNamespace sc) = Inr rs"
    by (simp add: assms(2) NewClusterWideSyncerContext_def)
  have spec: "ScSpec sc = InlineSpec (Spec cwrs)" "RUBNamespace sc = IdentityStoreNamespace (Spec cwrs)"
    by (simp_all add: assms(2) NewClusterWideSyncerContext_def)
  have sops: "\<forall>env rc. GppSyncer (RcParams rc) = sc \<longrightarrow> sopsIdentities env rc \<noteq> Inl (MissingRefNamespace ''spec.sops.secretRef'')"
    using sopsIdentities_placed refs by blast
  note vs = validated_spec [OF v, folded spec(1)]
  from ns have "RUBNamespace sc \<noteq> ''''" by (simp add: spec(2))
  with vs(1,2) default_targets_placed [OF refs, of c w user host] CABundleBuilder_placed [OF refs, of c w managerNs host] sops
  show ?thesis by blast
qed

definition demo_cwrs :: ClusterWideRemoteSyncer where
  \<comment> \<open>A cluster-wide syncer with a default user in the namespace \<open>ids\<close>.\<close>
  "demo_cwrs = \<lparr>Meta = no_meta\<lparr>Name := ''all''\<rparr>,
     Spec = \<lparr>InlineSpec = no_syncer_spec\<lparr>RemoteRepository := ''https://git.example/app.git'', DefaultBranch := ''main'',
         Strategy := CommitApply, DefaultUnauthorizedUserMode := UseDefaultUser,
         DefaultRemoteUserRef := Some ((name_ref ''bot'')\<lparr>RefNamespace := ''ids''\<rparr>),
         DefaultRemoteTargetRef := Some ((name_ref ''main'')\<lparr>RefNamespace := ''ids''\<rparr>),
         ExcludedFields := [''metadata.annotations[a/b]'']\<rparr>,
       NamespaceSelector = None, IdentityStoreNamespace = ''ids''\<rparr>,
     Status = no_syncer_status\<rparr>"

theorem validated_cluster_syncer_is_complete_witness:
  "default_targets (flat_client (\<lambda>_ _. True)) () (NewClusterWideSyncerContext demo_cwrs ''team'') ''jane'' ''git.example''
     \<noteq> Inl (MissingRefNamespace ''spec.defaultRemoteUserRef'')"
proof -
  have "validateClusterWideRemoteSyncer Username (flat_client (\<lambda>_ _. True) :: unit client) demo_cwrs = None" by code_simp
  from validated_cluster_syncer_is_complete [OF this refl] show ?thesis by blast
qed

end
