(* ===== verification/Admission_V1beta4.thy ===== *)
theory Admission_V1beta4
  imports Api_V1beta4 Validation Managed_Users
begin

text \<open>
  The webhooks of the deprecated version (\<open>internal/webhook/v1beta4\<close>): the permission handlers build
  their access reviews themselves, one namespace at a time, and the validators refuse every reference with
  a namespace of its own.
\<close>

subsection \<open>Access reviews\<close>

text \<open>The reviews of this version name the user and the groups, not the uid.\<close>

definition without_uid :: "UserInfo \<Rightarrow> UserInfo" where
  "without_uid user = user\<lparr>UserUID := ''''\<rparr>"

definition review4 :: "'w client \<Rightarrow> 'w \<Rightarrow> UserInfo \<Rightarrow> ResourceAttributes \<Rightarrow> go_error + bool" where
  "review4 c w user attrs = (case AccessReview c w (reviewed_as (without_uid user)) attrs of
     Inl e \<Rightarrow> Inl (ApiError e) | Inr ok \<Rightarrow> Inr ok)"

definition ApiVersion4 :: string where "ApiVersion4 = ''v1beta4''"

definition remoteUsersGVR4 :: "string \<times> string \<times> string" where
  "remoteUsersGVR4 = (GroupName, ApiVersion4, ''remoteusers'')"

definition get_attrs4 :: "string \<times> string \<times> string \<Rightarrow> string \<Rightarrow> string \<Rightarrow> ResourceAttributes" where
  "get_attrs4 gvr namespace name = (case gvr of (g, v, r) \<Rightarrow>
     \<lparr>AttrNamespace = namespace, AttrVerb = ''get'', AttrGroup = g, AttrVersion = v, AttrResource = r, AttrName = name\<rparr>)"

subsection \<open>Syncers\<close>

fun operation_allowed4 :: "(UserInfo \<Rightarrow> string) \<Rightarrow> 'w client \<Rightarrow> 'w \<Rightarrow> UserInfo \<Rightarrow> string \<Rightarrow> string \<Rightarrow> string \<Rightarrow> string
    \<Rightarrow> string list \<Rightarrow> go_error + bool" where
  "operation_allowed4 u c w user namespace grp version resource [] = Inr False"
| "operation_allowed4 u c w user namespace grp version resource (verb # verbs) =
     (case review4 c w user (verb_attrs namespace verb grp version resource) of
        Inl err \<Rightarrow> if isInvalidCombinationError u err then Inr True else Inl err
      | Inr ok \<Rightarrow> if ok then Inr True else operation_allowed4 u c w user namespace grp version resource verbs)"

fun forbidden_operations4 :: "(UserInfo \<Rightarrow> string) \<Rightarrow> 'w client \<Rightarrow> 'w \<Rightarrow> UserInfo \<Rightarrow> string \<Rightarrow> string \<Rightarrow> string \<Rightarrow> string
    \<Rightarrow> string list \<Rightarrow> string list \<Rightarrow> go_error + string list" where
  "forbidden_operations4 u c w user namespace grp version resource [] forbidden = Inr forbidden"
| "forbidden_operations4 u c w user namespace grp version resource (operation # ops) forbidden =
     (case OperationToVerb operation of
        None \<Rightarrow> forbidden_operations4 u c w user namespace grp version resource ops forbidden
      | Some verbs \<Rightarrow>
          (case operation_allowed4 u c w user namespace grp version resource verbs of
             Inl err \<Rightarrow> Inl err
           | Inr ok \<Rightarrow> forbidden_operations4 u c w user namespace grp version resource ops
               (if ok then forbidden else forbidden @ [operation])))"

fun forbidden_map4 :: "(UserInfo \<Rightarrow> string) \<Rightarrow> 'w client \<Rightarrow> 'w \<Rightarrow> UserInfo \<Rightarrow> string
    \<Rightarrow> (string \<times> string \<times> string \<times> string list) list \<Rightarrow> labels \<Rightarrow> go_error + labels" where
  "forbidden_map4 u c w user namespace [] m = Inr m"
| "forbidden_map4 u c w user namespace ((grp, version, resource, ops) # ts) m =
     (case forbidden_operations4 u c w user namespace grp version resource ops [] of
        Inl err \<Rightarrow> Inl err
      | Inr forbidden \<Rightarrow>
          forbidden_map4 u c w user namespace ts
            (if length forbidden > 0 then alist_set (grp @ ''/'' @ version @ '' '' @ resource) (Join forbidden '', '') m else m))"

definition hasRightResourcesPermissions4 :: "(UserInfo \<Rightarrow> string) \<Rightarrow> (nat \<Rightarrow> string \<Rightarrow> nat) \<Rightarrow> 'w client \<Rightarrow> 'w
    \<Rightarrow> RemoteSyncer4 \<Rightarrow> UserInfo \<Rightarrow> go_error + bool \<times> string list" where
  "hasRightResourcesPermissions4 u ord c w rs user =
     (case forbidden_map4 u c w user (Namespace (Meta rs)) (rule_targets (Rules (ScopedResources4 (Spec rs)))) [] of
        Inl err \<Rightarrow> Inl err
      | Inr m \<Rightarrow>
          let forbiddenResources = map (\<lambda>(k, v). k @ '' ['' @ v @ '']'') (range_map ord m)
          in Inr (forbiddenResources = [], forbiddenResources))"

definition RemoteSyncerWebhook_Handle4 :: "(UserInfo \<Rightarrow> string) \<Rightarrow> (nat \<Rightarrow> string \<Rightarrow> nat) \<Rightarrow> 'w client \<Rightarrow> 'w
    \<Rightarrow> string \<Rightarrow> RemoteSyncer4 request \<Rightarrow> RemoteSyncer4 response" where
  "RemoteSyncerWebhook_Handle4 u ord c w managerNs req =
     (let user = ReqUser req in
      if doesUserBypassWebhook user managerNs
      then Allowed ''System user is allowed to scope any resources''
      else case DecodeObject req of
        Inl err \<Rightarrow> Errored 400 err
      | Inr rs \<Rightarrow>
          (case hasRightResourcesPermissions4 u ord c w rs user of
             Inl err \<Rightarrow> Errored 500 err
           | Inr (authorized, forbiddenResources) \<Rightarrow>
               if authorized
               then Allowed (''The user '' @ u user @ '' is allowed to scope all of the listed resources'')
               else Denied (Error u (ResourceScopeForbidden user forbiddenResources))))"

subsection \<open>Remote users and bindings\<close>

definition RemoteUserPermissions_Handle4 :: "(UserInfo \<Rightarrow> string) \<Rightarrow> 'w client \<Rightarrow> 'w
    \<Rightarrow> RemoteUser4 request \<Rightarrow> RemoteUser4 response" where
  "RemoteUserPermissions_Handle4 u c w req =
     (let user = ReqUser req in
      case DecodeObject req of
        Inl err \<Rightarrow> Errored 400 err
      | Inr ru \<Rightarrow>
          let ref = SecretRef (Spec ru);
              namespace = (if SecNamespace ref \<noteq> '''' then SecNamespace ref else Namespace (Meta ru))
          in case review4 c w user (get_attrs4 secretsGVR namespace (SecName ref)) of
               Inl err \<Rightarrow> Errored 400 err
             | Inr ok \<Rightarrow>
                 if \<not> ok then Denied (Error u (CredentialsNotFound
                   (''the user '' @ u user @ '' is not allowed to get the secret for its own remote user'') (SecName ref)))
                 else Allowed (''The user '' @ u user @ '' is allowed to get the secret: '' @ SecName ref))"

fun review_users4 :: "(UserInfo \<Rightarrow> string) \<Rightarrow> 'w client \<Rightarrow> 'w \<Rightarrow> UserInfo \<Rightarrow> string \<Rightarrow> ObjectReference list
    \<Rightarrow> RemoteUserBinding4 response" where
  \<comment> \<open>The loop over the references; the namespace is declared outside it and is not set back.\<close>
  "review_users4 u c w user namespace [] =
     Allowed (''The user '' @ u user @ '' is allowed to get all the referenced remoteusers.'')"
| "review_users4 u c w user namespace (ru # rest) =
     (let namespace' = (if RefNamespace ru \<noteq> '''' then RefNamespace ru else namespace) in
      case review4 c w user (get_attrs4 remoteUsersGVR4 namespace' (RefName ru)) of
        Inl err \<Rightarrow> Errored 400 err
      | Inr ok \<Rightarrow>
          if \<not> ok then Denied (Error u (RemoteUserDenied user ru))
          else review_users4 u c w user namespace' rest)"

definition RemoteUserBindingPermissions_Handle4 :: "(UserInfo \<Rightarrow> string) \<Rightarrow> 'w client \<Rightarrow> 'w
    \<Rightarrow> RemoteUserBinding4 request \<Rightarrow> RemoteUserBinding4 response" where
  "RemoteUserBindingPermissions_Handle4 u c w req =
     (case DecodeObject req of
        Inl err \<Rightarrow> Errored 400 err
      | Inr rub \<Rightarrow> review_users4 u c w (ReqUser req) (Namespace (Meta rub)) (RemoteUserRefs (Spec rub)))"

text \<open>The managed remote users of both versions have one handler, written twice.\<close>

definition RemoteUserManaged_Handle4 :: "string \<Rightarrow> RemoteUser4 request \<Rightarrow> RemoteUser4 response" where
  "RemoteUserManaged_Handle4 = RemoteUserManaged_Handle"

subsection \<open>Validators\<close>

definition default_user_errors4 :: "RemoteSyncerSpec4 \<Rightarrow> field_error list" where
  "default_user_errors4 r =
     (if DefaultUnauthorizedUserMode4 r = BlockDefaultUser \<and> DefaultRemoteUserRef4 r \<noteq> None
      then [FieldInvalid ''spec.defaultRemoteUserRef'' (BadRef (DefaultRemoteUserRef4 r))
        (''should not be set when defaultUnauthorizedUserMode is set to '' @ quoted ''Block'')]
      else if DefaultUnauthorizedUserMode4 r = UseDefaultUser \<and> DefaultRemoteUserRef4 r = None
      then [FieldRequired ''spec.defaultRemoteUserRef''
        (''must be set when defaultUnauthorizedUserMode is set to '' @ quoted ''UseDefaultUser'')]
      else [])"

definition unsupported :: string where
  "unsupported = ''should not be set as it is not supported in this version of syngit''"

definition no_namespace :: "string \<Rightarrow> ObjectReference option \<Rightarrow> field_error list" where
  "no_namespace path ref = (case ref of None \<Rightarrow> []
     | Some r \<Rightarrow> check (RefNamespace r \<noteq> '''') (FieldInvalid path (BadText (RefNamespace r)) unsupported))"

definition validateRemoteSyncerSpec4 :: "RemoteSyncerSpec4 \<Rightarrow> field_error list" where
  "validateRemoteSyncerSpec4 r =
     default_user_errors4 r @
     check (DefaultRemoteUserRef4 r \<noteq> None \<and> DefaultRemoteTargetRef4 r = None)
       (FieldInvalid ''spec.defaultRemoteTargetRef'' (BadRef (DefaultRemoteTargetRef4 r)) ''should be set when defaultRemoteUserRef is set'') @
     check (DefaultRemoteUserRef4 r = None \<and> DefaultRemoteTargetRef4 r \<noteq> None)
       (FieldInvalid ''spec.defaultRemoteUserRef'' (BadRef (DefaultRemoteUserRef4 r)) ''should be set when defaultRemoteTargetRef is set'') @
     check (DefaultBlockAppliedMessage4 r \<noteq> '''' \<and> Strategy4 r \<noteq> CommitOnly)
       (FieldForbidden ''spec.defaultBlockAppliedMessage'' (''should not be set if strategy is not set to '' @ quoted CommitOnly)) @
     check (Strategy4 r \<noteq> CommitOnly \<and> Strategy4 r \<noteq> CommitApply)
       (FieldInvalid ''spec.strategy'' (BadText (Strategy4 r)) (''must be set to '' @ quoted CommitApply @ '' or '' @ quoted CommitOnly)) @
     check (\<not> gitURIPattern (RemoteRepository4 r))
       (FieldInvalid ''spec.remoteRepository'' (BadText (RemoteRepository4 r)) ''invalid Git URI'') @
     map (\<lambda>p. FieldInvalid ''spec.excludedFields'' (BadText p) (''must be a valid YAML path. Regex : '' @ yamlPathRegex_text))
       (filter (\<lambda>p. \<not> isValidYAMLPath p) (ExcludedFields4 r)) @
     check (DefaultUnauthorizedUserMode4 r \<noteq> BlockDefaultUser \<and> DefaultBranch4 r = '''')
       (FieldRequired ''spec.defaultBranch'' ''must be set when the defaultUnauthorizedUserMode is set to UseDefaultUser'') @
     no_namespace ''spec.defaultRemoteUserRef.namespace'' (DefaultRemoteUserRef4 r) @
     no_namespace ''spec.defaultRemoteTargetRef.namespace'' (DefaultRemoteTargetRef4 r)"

definition accepted_user_specific4 :: "string list" where
  "accepted_user_specific4 = ['''', RtAnnotationValueOneUserOneBranch, RtAnnotationValueOneUserOneBranch]"

definition validateRemoteSyncer4 :: "RemoteSyncer4 \<Rightarrow> invalid option" where
  "validateRemoteSyncer4 rs =
     (let v = alist_get (Annotations (Meta rs)) RtAnnotationKeyUserSpecific in
      invalid_if ''RemoteSyncer'' (Name (Meta rs))
       (validateRemoteSyncerSpec4 (Spec rs) @
        check (v \<notin> set accepted_user_specific4)
          (FieldInvalid (''metadata.annotations.'' @ RtAnnotationKeyUserSpecific) (BadText v)
            (''must be either '' @ RtAnnotationValueOneUserOneBranch @ '' or '' @ RtAnnotationValueOneUserOneBranch @ ''; got '' @ v))))"

fun unplaced_refs :: "string \<Rightarrow> nat \<Rightarrow> ObjectReference list \<Rightarrow> field_error list" where
  "unplaced_refs path i [] = []"
| "unplaced_refs path i (ref # rs) = no_namespace (index_path path i) (Some ref) @ unplaced_refs path (Suc i) rs"

definition validateRemoteUserBindingSpec4 :: "RemoteUserBindingSpec \<Rightarrow> field_error list" where
  "validateRemoteUserBindingSpec4 r =
     unplaced_refs ''spec.remoteUserRefs'' 0 (RemoteUserRefs r) @ unplaced_refs ''spec.remoteTargetRefs'' 0 (RemoteTargetRefs r)"

definition validateRemoteUserBinding4 :: "RemoteUserBinding4 \<Rightarrow> invalid option" where
  "validateRemoteUserBinding4 rub = invalid_if ''RemoteUserBinding'' (Name (Meta rub)) (validateRemoteUserBindingSpec4 (Spec rub))"

definition validateRemoteTarget4 :: "(UserInfo \<Rightarrow> string) \<Rightarrow> RemoteTarget4 \<Rightarrow> invalid option" where
  "validateRemoteTarget4 u rt = invalid_if ''RemoteTarget'' (Name (Meta rt)) (validateRemoteTargetSpec u (Spec rt))"

definition RemoteSyncerCustomValidator4 :: "string \<Rightarrow> RemoteSyncer4 \<Rightarrow> invalid option" where
  "RemoteSyncerCustomValidator4 = custom_validator validateRemoteSyncer4"

definition RemoteUserBindingCustomValidator4 :: "string \<Rightarrow> RemoteUserBinding4 \<Rightarrow> invalid option" where
  "RemoteUserBindingCustomValidator4 = custom_validator validateRemoteUserBinding4"

definition RemoteTargetCustomValidator4 :: "(UserInfo \<Rightarrow> string) \<Rightarrow> string \<Rightarrow> RemoteTarget4 \<Rightarrow> invalid option" where
  "RemoteTargetCustomValidator4 u = custom_validator (validateRemoteTarget4 u)"

definition RemoteUserCustomValidator4 :: "string \<Rightarrow> RemoteUser4 \<Rightarrow> invalid option" where
  "RemoteUserCustomValidator4 = custom_validator (\<lambda>_. None)"

subsection \<open>The rule reviews of both versions\<close>

lemma review4_CheckAccess: "review4 c w user attrs = CheckAccess c w (without_uid user) attrs"
  by (simp add: review4_def CheckAccess_def)

lemma operation_allowed4_is: "operation_allowed4 u c w user ns g v r verbs = isOperationAllowed u c w (without_uid user) [ns] g v r verbs"
  by (induction verbs) (auto simp: review4_CheckAccess split: sum.split option.split bool.split)

lemma forbidden_operations4_is:
  "forbidden_operations4 u c w user ns g v r ops acc =
     (case forbidden_operations u c w (without_uid user) [ns] g v r ops of Inl e \<Rightarrow> Inl e | Inr fs \<Rightarrow> Inr (acc @ fs))"
  by (induction ops arbitrary: acc) (auto simp: operation_allowed4_is simp del: isOperationAllowed.simps split: option.split sum.split)

lemma forbidden_map4_is: "forbidden_map4 u c w user ns ts m = forbidden_map u c w (without_uid user) [ns] ts m"
  by (induction ts arbitrary: m) (auto simp: forbidden_operations4_is split: sum.split)

text \<open>
  The rules of a deprecated syncer are reviewed as those of a current one: the loops that build their own reviews,
  verb by verb, find the same forbidden resources and the same errors as the shared review in the one namespace of the syncer,
  asked without the uid of the user.
\<close>

theorem deprecated_rules_reviewed_alike:
  "hasRightResourcesPermissions4 u ord c w rs user =
     hasRightResourcesPermissions u ord c w (ScopedResources4 (Spec rs)) (without_uid user) [Namespace (Meta rs)]"
  by (simp add: hasRightResourcesPermissions4_def hasRightResourcesPermissions_def forbidden_map4_is)

subsection \<open>Deprecated bindings\<close>

lemma unplaced_refs_Nil: "unplaced_refs path i rs = [] \<longleftrightarrow> (\<forall>ref \<in> set rs. RefNamespace ref = '''')"
  by (induction path i rs rule: unplaced_refs.induct) (auto simp: no_namespace_def check_def)

lemma review_users4_allowed:
  assumes "allowed (review_users4 u c w user ns refs)" and "\<forall>ref \<in> set refs. RefNamespace ref = ''''" and "ref \<in> set refs"
  shows "may_get c w (without_uid user) remoteUsersGVR4 ns (RefName ref)"
  using assms by (induction refs)
    (auto simp: Let_def may_get_def get_attrs4_def remoteUsersGVR4_def review4_CheckAccess CheckAccess_def split: sum.splits if_splits)

text \<open>
  A deprecated binding that passes both webhooks refers only to remote users its author may read: the validator leaves no
  reference with a namespace of its own, so the namespace that the review carries over from one reference
  to the next is always that of the binding.
\<close>

theorem deprecated_binding_admission_sound:
  assumes "allowed (RemoteUserBindingPermissions_Handle4 u c w req)" and "DecodeObject req = Inr rub"
    and "RemoteUserBindingCustomValidator4 (ReqOperation req) rub = None" and "ReqOperation req \<noteq> ''DELETE''"
    and "ref \<in> set (RemoteUserRefs (Spec rub))"
  shows "may_get c w (without_uid (ReqUser req)) remoteUsersGVR4 (effective_ns (RefNamespace ref) (Namespace (Meta rub))) (RefName ref)"
proof -
  from assms(3,4) have free: "\<forall>ref \<in> set (RemoteUserRefs (Spec rub)). RefNamespace ref = ''''"
    by (simp add: RemoteUserBindingCustomValidator4_def custom_validator_def validateRemoteUserBinding4_def invalid_if_def
        validateRemoteUserBindingSpec4_def unplaced_refs_Nil split: if_splits)
  with assms(1,2,5) show ?thesis
    by (simp add: RemoteUserBindingPermissions_Handle4_def review_users4_allowed effective_ns_def)
qed

definition demo_request4 :: "RemoteUserBinding4 request" where
  "demo_request4 = \<lparr>ReqOperation = ''CREATE'', ReqUser = alice, ReqObject = Inr one_binding, ReqOldObject = Inl (PlainError '''')\<rparr>"

theorem deprecated_binding_admission_sound_witness:
  "may_get (flat_client (\<lambda>user _. UserUID user = '''')) () (without_uid alice) remoteUsersGVR4 ''team'' ''ru''"
proof -
  have a: "allowed (RemoteUserBindingPermissions_Handle4 Username (flat_client (\<lambda>user _. UserUID user = '''')) () demo_request4)"
    by code_simp
  have d: "DecodeObject demo_request4 = Inr one_binding" by (simp add: DecodeObject_def demo_request4_def)
  have v: "RemoteUserBindingCustomValidator4 (ReqOperation demo_request4) one_binding = None" by code_simp
  have o: "ReqOperation demo_request4 \<noteq> ''DELETE''" and r: "ReqUser demo_request4 = alice" by (simp_all add: demo_request4_def)
  have "name_ref ''ru'' \<in> set (RemoteUserRefs (Spec one_binding))" by (simp add: one_binding_def)
  from deprecated_binding_admission_sound [OF a d v o this, unfolded r]
  show ?thesis by (simp add: effective_ns_def one_binding_def name_ref_def no_ref_def)
qed

end
