(* ===== verification/Git_Server.thy ===== *)
theory Git_Server
  imports Interceptor_Targets Go_Paths
begin

text \<open>
  The in-process git server of the integration tests (\<open>pkg/envtest\<close>: \<open>server.go\<close>, \<open>secrets.go\<close>): its users, their access to
  repositories, the push counters, and the secrets that carry its users to the operator.

  The HTTP listeners, the temporary directory and the gitkit handler are parameters: what creating them
  gives, and what the handler answers.  The lock makes each method atomic.
\<close>

subsection \<open>Strings\<close>

definition TrimSuffix :: "string \<Rightarrow> string \<Rightarrow> string" where
  "TrimSuffix s suffix = (if HasSuffix s suffix then take (length s - length suffix) s else s)"

definition Trim :: "string \<Rightarrow> char \<Rightarrow> string" where
  \<comment> \<open>With a cutset of one character.\<close>
  "Trim s c = TrimRight (dropWhile (\<lambda>x. x = c) s) c"

definition LastIndex :: "string \<Rightarrow> string \<Rightarrow> nat option" where
  "LastIndex s sub = (case Index (rev s) (rev sub) of None \<Rightarrow> None | Some i \<Rightarrow> Some (length s - i - length sub))"

subsection \<open>State\<close>

datatype AccessLevel = NoAccess | ReadOnly | ReadWrite

record GitUser =
  GuUsername :: string
  GuPassword :: string
  GuEmail :: string

record RepoRef =
  Owner :: string
  RepoName :: string

definition RepoRef_String :: "RepoRef \<Rightarrow> string" where
  "RepoRef_String r = Owner r @ ''/'' @ RepoName r"

record listener =
  ListenURL :: string
  Certificate :: "string option"

record GitServer =
  dir :: string
  httpServer :: "listener option"
  tlsServer :: "listener option"
  users :: "(string \<times> GitUser) list"
  permissions :: "(string \<times> AccessLevel) list"
  pushAttempts :: "(string \<times> nat) list"

record http_request =
  UrlPath :: string
  QueryService :: string

subsection \<open>Starting and stopping\<close>

definition new_server :: "string \<Rightarrow> GitServer" where
  "new_server d = \<lparr>dir = d, httpServer = None, tlsServer = None, users = [], permissions = [], pushAttempts = []\<rparr>"

definition NewGitServer :: "go_error + string \<Rightarrow> go_error option \<Rightarrow> listener \<Rightarrow> listener \<Rightarrow> (go_error + GitServer) \<times> string list" where
  \<comment> \<open>The result, and the directories removed on the way.\<close>
  "NewGitServer tempdir setup http tls =
     (case tempdir of
        Inl err \<Rightarrow> (Inl (WrapError ''failed to create temp dir'' err), [])
      | Inr d \<Rightarrow>
          (case setup of
             Some err \<Rightarrow> (Inl (WrapError ''failed to setup gitkit'' err), [d])
           | None \<Rightarrow> (Inr ((new_server d)\<lparr>httpServer := Some http, tlsServer := Some tls\<rparr>), [])))"

definition Stop :: "GitServer \<Rightarrow> GitServer \<times> string list" where
  \<comment> \<open>The directories removed are returned.\<close>
  "Stop gs = (gs\<lparr>httpServer := None, tlsServer := None, dir := ''''\<rparr>, if dir gs \<noteq> '''' then [dir gs] else [])"

text \<open>Reading a listener that was stopped panics: \<open>None\<close>.\<close>

definition URL :: "GitServer \<Rightarrow> string option" where
  "URL gs = map_option ListenURL (httpServer gs)"

definition TLSURL :: "GitServer \<Rightarrow> string option" where
  "TLSURL gs = map_option ListenURL (tlsServer gs)"

definition repo_url :: "string \<Rightarrow> RepoRef \<Rightarrow> string" where
  "repo_url url repo = url @ ''/'' @ Owner repo @ ''/'' @ RepoName repo @ ''.git''"

definition RepoURL :: "GitServer \<Rightarrow> RepoRef \<Rightarrow> string option" where
  "RepoURL gs repo = map_option (\<lambda>url. repo_url url repo) (URL gs)"

definition TLSRepoURL :: "GitServer \<Rightarrow> RepoRef \<Rightarrow> string option" where
  "TLSRepoURL gs repo = map_option (\<lambda>url. repo_url url repo) (TLSURL gs)"

definition hostPort :: "(string \<Rightarrow> go_error + string) \<Rightarrow> string \<Rightarrow> string" where
  "hostPort parse raw = (case parse raw of Inl _ \<Rightarrow> '''' | Inr host \<Rightarrow> host)"

definition FQDN :: "(string \<Rightarrow> go_error + string) \<Rightarrow> GitServer \<Rightarrow> string option" where
  "FQDN parse gs = map_option (hostPort parse) (URL gs)"

definition TLSFQDN :: "(string \<Rightarrow> go_error + string) \<Rightarrow> GitServer \<Rightarrow> string option" where
  "TLSFQDN parse gs = map_option (hostPort parse) (TLSURL gs)"

definition CACertX509 :: "GitServer \<Rightarrow> string option option" where
  "CACertX509 gs = map_option Certificate (tlsServer gs)"

definition CACert :: "(string \<Rightarrow> string) \<Rightarrow> GitServer \<Rightarrow> string option option" where
  \<comment> \<open>The PEM encoding is a parameter; a listener without a certificate gives nil.\<close>
  "CACert pem gs = map_option (map_option pem) (CACertX509 gs)"

subsection \<open>Users and permissions\<close>

definition AddUser :: "GitUser \<Rightarrow> GitServer \<Rightarrow> GitServer" where
  "AddUser user gs = gs\<lparr>users := alist_set (GuUsername user) user (users gs)\<rparr>"

definition GetUser :: "GitServer \<Rightarrow> string \<Rightarrow> GitUser option" where
  "GetUser gs username = map_of (users gs) username"

definition permKey :: "string \<Rightarrow> RepoRef \<Rightarrow> string" where
  "permKey username repo = username @ ''|'' @ RepoRef_String repo"

definition SetPermission :: "string \<Rightarrow> RepoRef \<Rightarrow> AccessLevel \<Rightarrow> GitServer \<Rightarrow> GitServer" where
  "SetPermission username repo level gs = gs\<lparr>permissions := alist_set (permKey username repo) level (permissions gs)\<rparr>"

definition GetPermission :: "GitServer \<Rightarrow> string \<Rightarrow> RepoRef \<Rightarrow> AccessLevel" where
  "GetPermission gs username repo = (case map_of (permissions gs) (permKey username repo) of None \<Rightarrow> NoAccess | Some level \<Rightarrow> level)"

definition parseRepoName :: "string \<Rightarrow> go_error + RepoRef" where
  "parseRepoName name0 =
     (let name = TrimSuffix name0 ''.git''; invalid = Inl (PlainError (''invalid repo name '' @ [CHR 0x22] @ name @ [CHR 0x22])) in
      case LastIndex name ''/'' of
        None \<Rightarrow> invalid
      | Some idx \<Rightarrow>
          if idx = 0 \<or> idx = length name - 1 then invalid
          else Inr \<lparr>Owner = take idx name, RepoName = drop (idx + 1) name\<rparr>)"

definition isWriteOperation :: "http_request \<Rightarrow> bool" where
  "isWriteOperation r \<longleftrightarrow> Contains (UrlPath r) ''git-receive-pack'' \<or> QueryService r = ''git-receive-pack''"

definition authFunc :: "GitServer \<Rightarrow> string \<Rightarrow> string \<Rightarrow> string \<Rightarrow> http_request \<Rightarrow> bool" where
  \<comment> \<open>The error it returns is always nil.\<close>
  "authFunc gs username password repoName r =
     (case GetUser gs username of
        None \<Rightarrow> False
      | Some user \<Rightarrow>
          if GuPassword user \<noteq> password then False
          else (case parseRepoName repoName of
             Inl _ \<Rightarrow> False
           | Inr repo \<Rightarrow>
               let level = GetPermission gs username repo in
               if level = NoAccess then False
               else if level = ReadOnly \<and> isWriteOperation r then False
               else True))"

subsection \<open>Push counters\<close>

definition PushAttempts :: "GitServer \<Rightarrow> RepoRef \<Rightarrow> nat" where
  "PushAttempts gs repo = (case map_of (pushAttempts gs) (RepoRef_String repo) of None \<Rightarrow> 0 | Some n \<Rightarrow> n)"

definition ResetPushAttempts :: "GitServer \<Rightarrow> GitServer" where
  "ResetPushAttempts gs = gs\<lparr>pushAttempts := []\<rparr>"

definition count_attempt :: "http_request \<Rightarrow> GitServer \<Rightarrow> GitServer" where
  "count_attempt r gs =
     (if QueryService r = ''git-receive-pack'' then
        (case parseRepoName (Trim (TrimSuffix (UrlPath r) ''/info/refs'') (CHR ''/'')) of
           Inl _ \<Rightarrow> gs
         | Inr repo \<Rightarrow> gs\<lparr>pushAttempts := alist_set (RepoRef_String repo) (Suc (PushAttempts gs repo)) (pushAttempts gs)\<rparr>)
      else gs)"

definition countingHandler :: "(GitServer \<Rightarrow> http_request \<Rightarrow> 'a) \<Rightarrow> http_request \<Rightarrow> GitServer \<Rightarrow> 'a \<times> GitServer" where
  \<comment> \<open>The gitkit handler sees the state after the count.\<close>
  "countingHandler serveHTTP r gs = (let gs1 = count_attempt r gs in (serveHTTP gs1 r, gs1))"

subsection \<open>Secrets\<close>

definition NewBasicAuthSecret :: "GitUser \<Rightarrow> string \<Rightarrow> string \<Rightarrow> Secret" where
  "NewBasicAuthSecret user name namespace =
     \<lparr>SecretMeta = no_meta\<lparr>Name := name, Namespace := namespace\<rparr>, SecretType = ''kubernetes.io/basic-auth'',
      SecretData = [(''username'', GuUsername user), (''password'', GuPassword user)]\<rparr>"

definition NewTLSSecret :: "(string \<Rightarrow> string) \<Rightarrow> GitServer \<Rightarrow> string \<Rightarrow> string \<Rightarrow> Secret option option" where
  "NewTLSSecret pem gs name namespace = map_option (map_option (\<lambda>ca.
     \<lparr>SecretMeta = no_meta\<lparr>Name := name, Namespace := namespace\<rparr>, SecretType = ''kubernetes.io/tls'',
      SecretData = [(''tls.crt'', ca), (''tls.key'', '''')]\<rparr>)) (CACert pem gs)"

subsection \<open>Names\<close>

lemma first_sep: "c \<notin> set xs \<Longrightarrow> c \<notin> set ys \<Longrightarrow> xs @ c # as = ys @ c # bs \<longleftrightarrow> xs = ys \<and> as = bs"
  by (induction xs arbitrary: ys) (case_tac ys; auto)+

lemma last_sep:
  assumes "c \<notin> set as" and "c \<notin> set bs"
  shows "xs @ c # as = ys @ c # bs \<longleftrightarrow> xs = ys \<and> as = bs"
proof -
  have "xs @ c # as = ys @ c # bs \<longleftrightarrow> rev as @ c # rev xs = rev bs @ c # rev ys"
    by (metis append.assoc append_Cons append_Nil rev.simps(2) rev_append rev_rev_ident)
  with assms show ?thesis by (auto simp: first_sep)
qed

lemma TrimSuffix_append [simp]: "TrimSuffix (s @ t) t = s"
  by (simp add: TrimSuffix_def HasSuffix_def)

lemma LastIndex_slash:
  assumes "CHR ''/'' \<notin> set b"
  shows "LastIndex (a @ ''/'' @ b) ''/'' = Some (length a)"
proof -
  have "Index (rev b @ slash @ rev a) slash = Some (length (rev b))"
    using assms by (intro Index_at_separator) simp_all
  then show ?thesis by (simp add: LastIndex_def slash_def)
qed

lemma LastIndex_Some:
  assumes "LastIndex s ''/'' = Some i"
  shows "\<exists>a b. s = a @ ''/'' @ b \<and> i = length a \<and> CHR ''/'' \<notin> set b"
proof -
  from assms have "Index (rev s) slash \<noteq> None" by (auto simp: LastIndex_def slash_def split: option.splits)
  then have "CHR ''/'' \<in> set s" by simp
  then obtain a b where "s = a @ CHR ''/'' # b" "CHR ''/'' \<notin> set b" by (blast dest: split_list_last)
  with LastIndex_slash [of b a] assms show ?thesis by auto
qed

definition plain_repo :: "RepoRef \<Rightarrow> bool" where
  "plain_repo r \<longleftrightarrow> Owner r \<noteq> '''' \<and> RepoName r \<noteq> '''' \<and> CHR ''/'' \<notin> set (RepoName r)"

lemma parseRepoName_String:
  assumes "plain_repo r"
  shows "parseRepoName (RepoRef_String r @ ''.git'') = Inr r"
  using assms LastIndex_slash [of "RepoName r" "Owner r"]
  by (simp add: parseRepoName_def RepoRef_String_def plain_repo_def Let_def del: append_assoc append.simps)

lemma parsed_is_plain:
  assumes "parseRepoName s = Inr r"
  shows "plain_repo r"
proof -
  from assms obtain i where i: "LastIndex (TrimSuffix s ''.git'') ''/'' = Some i" "i \<noteq> 0" "i \<noteq> length (TrimSuffix s ''.git'') - 1"
    and r: "r = \<lparr>Owner = take i (TrimSuffix s ''.git''), RepoName = drop (i + 1) (TrimSuffix s ''.git'')\<rparr>"
    by (auto simp: parseRepoName_def Let_def split: option.splits if_splits)
  from LastIndex_Some [OF i(1)] obtain a b where "TrimSuffix s ''.git'' = a @ ''/'' @ b" "i = length a" "CHR ''/'' \<notin> set b" by blast
  with i r show ?thesis by (auto simp: plain_repo_def)
qed

lemma RepoRef_String_inject:
  assumes "plain_repo r" and "plain_repo r'"
  shows "RepoRef_String r = RepoRef_String r' \<longleftrightarrow> r = r'"
  using assms last_sep [of "CHR ''/''" "RepoName r" "RepoName r'" "Owner r" "Owner r'"]
  by (auto simp: RepoRef_String_def plain_repo_def)

lemma permKey_inject:
  assumes "CHR ''|'' \<notin> set u" and "CHR ''|'' \<notin> set u'" and "plain_repo r" and "plain_repo r'"
  shows "permKey u r = permKey u' r' \<longleftrightarrow> u = u' \<and> r = r'"
  using first_sep [OF assms(1,2), of "RepoRef_String r" "RepoRef_String r'"] RepoRef_String_inject [OF assms(3,4)]
  by (simp add: permKey_def)
subsection \<open>Who may do what\<close>

text \<open>The changes a test makes to a fresh server, the newest first, and what they grant.\<close>

datatype server_change =
  UserAdded GitUser
| PermissionSet string RepoRef AccessLevel

fun server_after :: "string \<Rightarrow> server_change list \<Rightarrow> GitServer" where
  "server_after d [] = new_server d"
| "server_after d (UserAdded user # cs) = AddUser user (server_after d cs)"
| "server_after d (PermissionSet u r l # cs) = SetPermission u r l (server_after d cs)"

fun user_after :: "server_change list \<Rightarrow> string \<Rightarrow> GitUser option" where
  "user_after [] u = None"
| "user_after (UserAdded user # cs) u = (if GuUsername user = u then Some user else user_after cs u)"
| "user_after (PermissionSet _ _ _ # cs) u = user_after cs u"

fun access_after :: "server_change list \<Rightarrow> string \<Rightarrow> RepoRef \<Rightarrow> AccessLevel" where
  "access_after [] u r = NoAccess"
| "access_after (UserAdded _ # cs) u r = access_after cs u r"
| "access_after (PermissionSet u' r' l # cs) u r = (if u' = u \<and> r' = r then l else access_after cs u r)"

fun plain_change :: "server_change \<Rightarrow> bool" where
  "plain_change (UserAdded _) = True"
| "plain_change (PermissionSet u r _) \<longleftrightarrow> CHR ''|'' \<notin> set u \<and> plain_repo r"

lemma GetUser_after: "GetUser (server_after d cs) u = user_after cs u"
  by (induction cs u rule: user_after.induct) (auto simp: GetUser_def AddUser_def SetPermission_def new_server_def)

lemma GetPermission_after:
  assumes "list_all plain_change cs" and "CHR ''|'' \<notin> set u" and "plain_repo r"
  shows "GetPermission (server_after d cs) u r = access_after cs u r"
  using assms
proof (induction cs u r rule: access_after.induct)
  case (3 u' r' l cs u r)
  then have "permKey u r = permKey u' r' \<longleftrightarrow> u = u' \<and> r = r'" by (intro permKey_inject) simp_all
  with 3 show ?case by (auto simp: GetPermission_def SetPermission_def)
qed (simp_all add: GetPermission_def AddUser_def new_server_def)

text \<open>
  The credentials of a secret made for a test user open exactly what was granted to that user: the operator reads them from
  the secret, and the test server then accepts a request to a repository exactly when the user was last registered with that password and the
  last permission set for this user and this repository allows it, writing only with write access.
\<close>

theorem test_secret_opens_what_was_granted:
  assumes "list_all plain_change cs" and "CHR ''|'' \<notin> set (GuUsername user)" and "plain_repo repo" and "GuPassword user \<noteq> ''''"
    and "ResolveNamespace (SecNamespace (SecretRef (Spec ru))) (Namespace (Meta ru)) ''spec.secretRef'' = Inr ns"
    and "kget (Secrets c) w (nsn ns (SecName (SecretRef (Spec ru)))) = Inr (NewBasicAuthSecret user name ns)"
  shows "\<exists>g. GetGitUserInfoByRemoteUser c w ru = Inr g \<and>
    (authFunc (server_after d cs) (GitUserName g) (Token g) (RepoRef_String repo @ ''.git'') r \<longleftrightarrow>
       map_option GuPassword (user_after cs (GuUsername user)) = Some (GuPassword user) \<and>
       (case access_after cs (GuUsername user) repo of NoAccess \<Rightarrow> False | ReadOnly \<Rightarrow> \<not> isWriteOperation r | ReadWrite \<Rightarrow> True))"
proof -
  have g: "GetGitUserInfoByRemoteUser c w ru = Inr \<lparr>GitUserName = GuUsername user, GitEmail = Email (Spec ru), Token = GuPassword user\<rparr>"
    using assms(4-6) by (simp add: GetGitUserInfoByRemoteUser_def NewBasicAuthSecret_def alist_get_def)
  have "authFunc (server_after d cs) (GuUsername user) (GuPassword user) (RepoRef_String repo @ ''.git'') r \<longleftrightarrow>
       map_option GuPassword (user_after cs (GuUsername user)) = Some (GuPassword user) \<and>
       (case access_after cs (GuUsername user) repo of NoAccess \<Rightarrow> False | ReadOnly \<Rightarrow> \<not> isWriteOperation r | ReadWrite \<Rightarrow> True)"
    by (auto simp: authFunc_def GetUser_after parseRepoName_String [OF assms(3)] GetPermission_after [OF assms(1-3)] Let_def
        simp del: append.simps split: option.splits AccessLevel.splits)
  with g show ?thesis by simp
qed

subsection \<open>Counted pushes\<close>

definition opens_push :: "RepoRef \<Rightarrow> http_request \<Rightarrow> bool" where
  \<comment> \<open>The advertisement that opens a push to the repository.\<close>
  "opens_push repo r \<longleftrightarrow> QueryService r = ''git-receive-pack'' \<and>
     parseRepoName (Trim (TrimSuffix (UrlPath r) ''/info/refs'') (CHR ''/'')) = Inr repo"

definition handle_all :: "(GitServer \<Rightarrow> http_request \<Rightarrow> 'a) \<Rightarrow> http_request list \<Rightarrow> GitServer \<Rightarrow> GitServer" where
  "handle_all serveHTTP rs gs = fold (\<lambda>r gs. snd (countingHandler serveHTTP r gs)) rs gs"

lemma PushAttempts_count:
  assumes "plain_repo repo"
  shows "PushAttempts (count_attempt r gs) repo = PushAttempts gs repo + (if opens_push repo r then 1 else 0)"
  using RepoRef_String_inject [OF assms parsed_is_plain]
  by (auto simp: count_attempt_def opens_push_def PushAttempts_def split: sum.splits option.splits)

text \<open>
  Every push is counted, accepted or not: after any requests, whatever the git handler answers to them, the counter of a repository has
  grown by the number of advertisements that open a push to it, and users and permissions are as they were.
\<close>

theorem every_push_is_counted:
  assumes "plain_repo repo"
  shows "PushAttempts (handle_all serveHTTP rs gs) repo = PushAttempts gs repo + length (filter (opens_push repo) rs) \<and>
    users (handle_all serveHTTP rs gs) = users gs \<and> permissions (handle_all serveHTTP rs gs) = permissions gs"
proof (induction rs arbitrary: gs)
  case (Cons r rs)
  have "users (count_attempt r gs) = users gs" "permissions (count_attempt r gs) = permissions gs"
    by (simp_all add: count_attempt_def split: sum.split)
  with Cons PushAttempts_count [OF assms, of r gs] show ?case
    by (simp add: handle_all_def countingHandler_def Let_def)
qed (simp add: handle_all_def)
subsection \<open>Examples\<close>

definition demo_git_user :: GitUser where
  "demo_git_user = \<lparr>GuUsername = ''jane'', GuPassword = ''pw'', GuEmail = ''jane@example''\<rparr>"

definition demo_repo :: RepoRef where
  "demo_repo = \<lparr>Owner = ''team'', RepoName = ''app''\<rparr>"

definition demo_changes :: "server_change list" where
  \<comment> \<open>Write access was taken back to read access.\<close>
  "demo_changes = [PermissionSet ''jane'' demo_repo ReadOnly, PermissionSet ''jane'' demo_repo ReadWrite, UserAdded demo_git_user]"

definition demo_git_ru :: RemoteUser where
  "demo_git_ru = \<lparr>Meta = no_meta\<lparr>Namespace := ''team''\<rparr>,
     Spec = \<lparr>SecretRef = \<lparr>SecName = ''s'', SecNamespace = ''''\<rparr>, Email = '''', GitBaseDomainFQDN = ''''\<rparr>, Status = no_user_status\<rparr>"

definition demo_secret_client :: "unit client" where
  "demo_secret_client = (flat_client (\<lambda>_ _. True))\<lparr>Secrets := no_api\<lparr>kget := \<lambda>_ _. Inr (NewBasicAuthSecret demo_git_user ''s'' ''team'')\<rparr>\<rparr>"

definition demo_fetch :: http_request where
  "demo_fetch = \<lparr>UrlPath = ''/team/app.git/info/refs'', QueryService = ''git-upload-pack''\<rparr>"
definition demo_push :: http_request where
  "demo_push = \<lparr>UrlPath = ''/team/app.git/info/refs'', QueryService = ''git-receive-pack''\<rparr>"

theorem test_secret_opens_what_was_granted_witness:
  "\<exists>g. GetGitUserInfoByRemoteUser demo_secret_client () demo_git_ru = Inr g \<and>
     authFunc (server_after ''d'' demo_changes) (GitUserName g) (Token g) (RepoRef_String demo_repo @ ''.git'') demo_fetch"
proof -
  have a: "list_all plain_change demo_changes" "CHR ''|'' \<notin> set (GuUsername demo_git_user)" "plain_repo demo_repo" "GuPassword demo_git_user \<noteq> ''''"
    by (simp_all add: demo_changes_def demo_git_user_def demo_repo_def plain_repo_def)
  have r: "ResolveNamespace (SecNamespace (SecretRef (Spec demo_git_ru))) (Namespace (Meta demo_git_ru)) ''spec.secretRef'' = Inr ''team''"
    by (simp add: demo_git_ru_def ResolveNamespace_def)
  have k: "kget (Secrets demo_secret_client) () (nsn ''team'' (SecName (SecretRef (Spec demo_git_ru)))) = Inr (NewBasicAuthSecret demo_git_user ''s'' ''team'')"
    by (simp add: demo_secret_client_def)
  have d: "map_option GuPassword (user_after demo_changes (GuUsername demo_git_user)) = Some (GuPassword demo_git_user)"
    "access_after demo_changes (GuUsername demo_git_user) demo_repo = ReadOnly" "\<not> isWriteOperation demo_fetch"
    by code_simp+
  from test_secret_opens_what_was_granted [OF a r k, of "''d''" demo_fetch] d show ?thesis by auto
qed

theorem every_push_is_counted_witness:
  "PushAttempts (handle_all (\<lambda>_ _. ()) [demo_push, demo_fetch, demo_push] (new_server ''d'')) demo_repo = 2"
proof -
  have p: "plain_repo demo_repo" by (simp add: demo_repo_def plain_repo_def)
  have o: "opens_push demo_repo demo_push" "\<not> opens_push demo_repo demo_fetch" by code_simp+
  show ?thesis using every_push_is_counted [OF p, of "\<lambda>_ _. ()" "[demo_push, demo_fetch, demo_push]" "new_server ''d''"] o
    by (simp add: PushAttempts_def new_server_def)
qed

end
