(* ===== verification/Git_Trees.thy ===== *)
theory Git_Trees
  imports Syngit_Errors "HOL-Library.Multiset" "HOL-Library.List_Lexorder" "HOL-Library.Char_ord"
begin

text \<open>
  Merging two trees of the test git server (\<open>mergeTreeObjects\<close> and \<open>decodeTreeEntries\<close> of \<open>pkg/envtest/repository.go\<close>).

  Trees are stored under hashes.  The object storage of go-git is the parameter \<open>tree_store\<close>: reading and decoding a
  tree, encoding one, and storing one.  A merge takes fuel for its depth; the depth of the trees is shown to be enough.
\<close>

subsection \<open>Trees\<close>

datatype filemode = DirMode | RegularMode | DeprecatedMode | ExecutableMode | SymlinkMode | SubmoduleMode

record 'h TreeEntry =
  EntryName :: string
  EntryMode :: filemode
  EntryHash :: 'h

record ('h, 's) tree_store =
  ReadTree :: "'s \<Rightarrow> 'h \<Rightarrow> go_error + 'h TreeEntry list"
  EncodeTree :: "'h TreeEntry list \<Rightarrow> go_error option"
  SetEncodedTree :: "'h TreeEntry list \<Rightarrow> 's \<Rightarrow> (go_error + 'h) \<times> 's"

definition decodeTreeEntries :: "('h, 's) tree_store \<Rightarrow> 's \<Rightarrow> 'h \<Rightarrow> go_error + 'h TreeEntry list" where
  "decodeTreeEntries lib s hash = ReadTree lib s hash"

subsection \<open>Merging\<close>

text \<open>The loop over the overlay: \<open>merge\<close> is the recursive call on two subtrees.\<close>

primrec overlay_entries :: "('h \<Rightarrow> 'h \<Rightarrow> 's \<Rightarrow> ((go_error + 'h) \<times> 's) option) \<Rightarrow> 'h TreeEntry list
    \<Rightarrow> (string \<times> 'h TreeEntry) list \<Rightarrow> 's \<Rightarrow> ((go_error + (string \<times> 'h TreeEntry) list) \<times> 's) option" where
  "overlay_entries merge [] merged s = Some (Inr merged, s)"
| "overlay_entries merge (e # es) merged s =
     (case map_of merged (EntryName e) of
        Some existing \<Rightarrow>
          if EntryMode existing = DirMode \<and> EntryMode e = DirMode then
            (case merge (EntryHash existing) (EntryHash e) s of
               None \<Rightarrow> None
             | Some (Inl err, s1) \<Rightarrow> Some (Inl err, s1)
             | Some (Inr sub, s1) \<Rightarrow>
                 overlay_entries merge es
                   (alist_set (EntryName e) \<lparr>EntryName = EntryName e, EntryMode = EntryMode e, EntryHash = sub\<rparr> merged) s1)
          else overlay_entries merge es (alist_set (EntryName e) e merged) s
      | None \<Rightarrow> overlay_entries merge es (alist_set (EntryName e) e merged) s)"

definition base_entries :: "'h TreeEntry list \<Rightarrow> (string \<times> 'h TreeEntry) list" where
  "base_entries es = fold (\<lambda>e m. alist_set (EntryName e) e m) es []"

definition sorted_entries :: "(nat \<Rightarrow> string \<Rightarrow> nat) \<Rightarrow> (string \<times> 'h TreeEntry) list \<Rightarrow> 'h TreeEntry list" where
  "sorted_entries ord merged = sort_key EntryName (map snd (range_map ord merged))"

primrec mergeTreeObjects :: "nat \<Rightarrow> (nat \<Rightarrow> string \<Rightarrow> nat) \<Rightarrow> ('h, 's) tree_store \<Rightarrow> 'h \<Rightarrow> 'h \<Rightarrow> 's
    \<Rightarrow> ((go_error + 'h) \<times> 's) option" where
  "mergeTreeObjects 0 ord lib baseHash overlayHash s = None"
| "mergeTreeObjects (Suc fuel) ord lib baseHash overlayHash s =
     (if baseHash = overlayHash then Some (Inr baseHash, s)
      else case decodeTreeEntries lib s baseHash of
        Inl err \<Rightarrow> Some (Inl (WrapError ''decode base tree'' err), s)
      | Inr baseEntries \<Rightarrow>
          (case decodeTreeEntries lib s overlayHash of
             Inl err \<Rightarrow> Some (Inl (WrapError ''decode overlay tree'' err), s)
           | Inr overlayEntries \<Rightarrow>
               (case overlay_entries (mergeTreeObjects fuel ord lib) overlayEntries (base_entries baseEntries) s of
                  None \<Rightarrow> None
                | Some (Inl err, s1) \<Rightarrow> Some (Inl err, s1)
                | Some (Inr merged, s1) \<Rightarrow>
                    let entries = sorted_entries ord merged in
                    case EncodeTree lib entries of
                      Some err \<Rightarrow> Some (Inl (WrapError ''encode merged tree'' err), s1)
                    | None \<Rightarrow> Some (SetEncodedTree lib entries s1))))"

subsection \<open>What a tree holds\<close>

definition entry_of :: "('h, 's) tree_store \<Rightarrow> 's \<Rightarrow> 'h \<Rightarrow> string \<Rightarrow> 'h TreeEntry option" where
  "entry_of lib s h n = (case ReadTree lib s h of Inl _ \<Rightarrow> None | Inr es \<Rightarrow> find (\<lambda>e. EntryName e = n) es)"

fun file_at :: "('h, 's) tree_store \<Rightarrow> 's \<Rightarrow> 'h \<Rightarrow> string list \<Rightarrow> (filemode \<times> 'h) option" where
  \<comment> \<open>The mode and hash of the file at a path.\<close>
  "file_at lib s h [] = None"
| "file_at lib s h (n # ps) =
     (case entry_of lib s h n of
        None \<Rightarrow> None
      | Some e \<Rightarrow>
          if EntryMode e = DirMode then file_at lib s (EntryHash e) ps
          else if ps = [] then Some (EntryMode e, EntryHash e) else None)"

fun covered :: "('h, 's) tree_store \<Rightarrow> 's \<Rightarrow> 'h \<Rightarrow> string list \<Rightarrow> bool" where
  \<comment> \<open>The path is a directory of the tree, or leads through one of its files.\<close>
  "covered lib s h [] = True"
| "covered lib s h (n # ps) =
     (case entry_of lib s h n of
        None \<Rightarrow> False
      | Some e \<Rightarrow> if EntryMode e = DirMode then covered lib s (EntryHash e) ps else ps \<noteq> [])"

primrec readable :: "nat \<Rightarrow> ('h, 's) tree_store \<Rightarrow> 's \<Rightarrow> 'h \<Rightarrow> bool" where
  \<comment> \<open>All of the tree can be read, names are distinct, and it is at most \<open>n\<close> directories deep.\<close>
  "readable 0 lib s h = False"
| "readable (Suc n) lib s h = (case ReadTree lib s h of Inl _ \<Rightarrow> False
     | Inr es \<Rightarrow> distinct (map EntryName es) \<and> (\<forall>e \<in> set es. EntryMode e = DirMode \<longrightarrow> readable n lib s (EntryHash e)))"

text \<open>Storing an encoded tree never fails, gives a hash that reads back as the tree, and keeps every stored tree.\<close>

definition grows :: "('h, 's) tree_store \<Rightarrow> 's \<Rightarrow> 's \<Rightarrow> bool" where
  "grows lib s s' \<longleftrightarrow> (\<forall>h es. ReadTree lib s h = Inr es \<longrightarrow> ReadTree lib s' h = Inr es)"

definition tree_laws :: "('h, 's) tree_store \<Rightarrow> bool" where
  "tree_laws lib \<longleftrightarrow> (\<forall>es s. EncodeTree lib es = None \<longrightarrow>
     (\<exists>h s'. SetEncodedTree lib es s = (Inr h, s') \<and> ReadTree lib s' h = Inr es \<and> grows lib s s'))"

subsection \<open>Stored trees stay\<close>

lemma grows_refl [simp]: "grows lib s s"
  by (simp add: grows_def)

lemma grows_trans: "grows lib s s1 \<Longrightarrow> grows lib s1 s2 \<Longrightarrow> grows lib s s2"
  by (simp add: grows_def)

lemma entry_of_grows:
  assumes "grows lib s s'" and "readable n lib s h"
  shows "entry_of lib s' h = entry_of lib s h"
  using assms by (cases n) (auto simp: entry_of_def grows_def fun_eq_iff split: sum.splits)

lemma entry_of_readable:
  assumes "readable (Suc n) lib s h" and "entry_of lib s h k = Some e" and "EntryMode e = DirMode"
  shows "readable n lib s (EntryHash e)"
  using assms by (auto simp: entry_of_def find_Some_iff split: sum.splits)

lemma readable_grows: "grows lib s s' \<Longrightarrow> readable n lib s h \<Longrightarrow> readable n lib s' h"
  by (induction n arbitrary: h) (auto simp: grows_def split: sum.splits)

lemma file_at_grows: "grows lib s s' \<Longrightarrow> readable n lib s h \<Longrightarrow> file_at lib s' h p = file_at lib s h p"
proof (induction p arbitrary: n h)
  case (Cons k ps)
  show ?case
  proof (cases "\<exists>e. entry_of lib s h k = Some e \<and> EntryMode e = DirMode")
    case True
    then obtain e where e: "entry_of lib s h k = Some e" "EntryMode e = DirMode" by blast
    from Cons.prems(2) obtain m where m: "n = Suc m" by (cases n) auto
    from entry_of_readable [OF Cons.prems(2) [unfolded m] e] Cons have "file_at lib s' (EntryHash e) ps = file_at lib s (EntryHash e) ps" by blast
    with e show ?thesis by (simp add: entry_of_grows [OF Cons.prems])
  next
    case False
    then show ?thesis by (auto simp: entry_of_grows [OF Cons.prems] split: option.split)
  qed
qed simp

lemma covered_grows: "grows lib s s' \<Longrightarrow> readable n lib s h \<Longrightarrow> covered lib s' h p = covered lib s h p"
proof (induction p arbitrary: n h)
  case (Cons k ps)
  show ?case
  proof (cases "\<exists>e. entry_of lib s h k = Some e \<and> EntryMode e = DirMode")
    case True
    then obtain e where e: "entry_of lib s h k = Some e" "EntryMode e = DirMode" by blast
    from Cons.prems(2) obtain m where m: "n = Suc m" by (cases n) auto
    from entry_of_readable [OF Cons.prems(2) [unfolded m] e] Cons have "covered lib s' (EntryHash e) ps = covered lib s (EntryHash e) ps" by blast
    with e show ?thesis by (simp add: entry_of_grows [OF Cons.prems])
  next
    case False
    then show ?thesis by (auto simp: entry_of_grows [OF Cons.prems] split: option.split)
  qed
qed simp

definition overlaid :: "('h, 's) tree_store \<Rightarrow> 's \<Rightarrow> 'h \<Rightarrow> 'h \<Rightarrow> string list \<Rightarrow> (filemode \<times> 'h) option" where
  \<comment> \<open>The file of the overlay; where the overlay has nothing at all, that of the base.\<close>
  "overlaid lib s b ov p = (case file_at lib s ov p of Some f \<Rightarrow> Some f | None \<Rightarrow> if covered lib s ov p then None else file_at lib s b p)"

lemma overlaid_grows:
  assumes "grows lib s s'" and "readable n lib s b" and "readable n lib s ov"
  shows "overlaid lib s' b ov p = overlaid lib s b ov p"
  by (simp add: overlaid_def file_at_grows [OF assms(1,2)] file_at_grows [OF assms(1,3)] covered_grows [OF assms(1,3)] split: option.split)

lemma overlaid_same: "overlaid lib s h h p = file_at lib s h p"
  by (simp add: overlaid_def split: option.split)
subsection \<open>The loop over the overlay\<close>

definition refused :: "('h, 's) tree_store \<Rightarrow> go_error \<Rightarrow> bool" where
  \<comment> \<open>The library did not encode a merged tree.\<close>
  "refused lib err \<longleftrightarrow> (\<exists>es e. EncodeTree lib es = Some e \<and> err = WrapError ''encode merged tree'' e)"

definition both_dirs :: "'h TreeEntry option \<Rightarrow> 'h TreeEntry \<Rightarrow> bool" where
  "both_dirs old e \<longleftrightarrow> (case old of None \<Rightarrow> False | Some x \<Rightarrow> EntryMode x = DirMode \<and> EntryMode e = DirMode)"

text \<open>What is left under one name: the old entry, the new one, or the merge of two directories.\<close>

definition slot :: "nat \<Rightarrow> ('h, 's) tree_store \<Rightarrow> 's \<Rightarrow> 's \<Rightarrow> 'h TreeEntry option \<Rightarrow> 'h TreeEntry option \<Rightarrow> 'h TreeEntry option \<Rightarrow> bool" where
  "slot m lib s s' old new res \<longleftrightarrow> (case new of
     None \<Rightarrow> res = old
   | Some e \<Rightarrow> if both_dirs old e
       then \<exists>sub. res = Some (e\<lparr>EntryHash := sub\<rparr>) \<and> readable m lib s' sub \<and>
         (\<forall>p. file_at lib s' sub p = overlaid lib s (EntryHash (the old)) (EntryHash e) p)
       else res = Some e)"

definition dirs_readable :: "nat \<Rightarrow> ('h, 's) tree_store \<Rightarrow> 's \<Rightarrow> 'h TreeEntry set \<Rightarrow> bool" where
  "dirs_readable m lib s E \<longleftrightarrow> (\<forall>e \<in> E. EntryMode e = DirMode \<longrightarrow> readable m lib s (EntryHash e))"

lemma dirs_readable_grows: "grows lib s s' \<Longrightarrow> dirs_readable m lib s E \<Longrightarrow> dirs_readable m lib s' E"
  by (auto simp: dirs_readable_def readable_grows)

lemma slot_later:
  assumes "slot m lib s s1 old new res" and "grows lib s1 s'"
  shows "slot m lib s s' old new res"
  using assms by (auto simp: slot_def readable_grows file_at_grows split: option.splits if_splits)

lemma slot_earlier:
  assumes "slot m lib s1 s' old new res" and "grows lib s s1"
    and "dirs_readable m lib s (set_option old)" and "dirs_readable m lib s (set_option new)"
  shows "slot m lib s s' old new res"
proof (cases "\<exists>x e. old = Some x \<and> new = Some e \<and> EntryMode x = DirMode \<and> EntryMode e = DirMode")
  case True
  then obtain x e where xe: "old = Some x" "new = Some e" "EntryMode x = DirMode" "EntryMode e = DirMode" by blast
  with assms(3,4) have "readable m lib s (EntryHash x)" "readable m lib s (EntryHash e)" by (simp_all add: dirs_readable_def)
  from overlaid_grows [OF assms(2) this] assms(1) xe show ?thesis by (simp add: slot_def both_dirs_def)
next
  case False
  with assms(1) show ?thesis by (auto simp: slot_def both_dirs_def split: option.splits if_splits)
qed

definition keyed :: "(string \<times> 'h TreeEntry) list \<Rightarrow> bool" where
  "keyed m \<longleftrightarrow> distinct (map fst m) \<and> (\<forall>(k, e) \<in> set m. EntryName e = k)"

lemma keyed_set: "keyed m \<Longrightarrow> EntryName e = k \<Longrightarrow> keyed (alist_set k e m)"
  using set_alist_del [of k m] by (auto simp: keyed_def alist_set_def)

text \<open>What the recursive call promises of two subtrees.\<close>

definition merges_well :: "nat \<Rightarrow> ('h, 's) tree_store \<Rightarrow> ('h \<Rightarrow> 'h \<Rightarrow> 's \<Rightarrow> ((go_error + 'h) \<times> 's) option) \<Rightarrow> bool" where
  "merges_well m lib merge \<longleftrightarrow> (\<forall>b ov s. readable m lib s b \<longrightarrow> readable m lib s ov \<longrightarrow>
     (\<exists>r s'. merge b ov s = Some (r, s') \<and> grows lib s s' \<and>
        (case r of Inl err \<Rightarrow> refused lib err
         | Inr h \<Rightarrow> readable m lib s' h \<and> (\<forall>p. file_at lib s' h p = overlaid lib s b ov p))))"

definition loops_well :: "nat \<Rightarrow> ('h, 's) tree_store \<Rightarrow> 'h TreeEntry list \<Rightarrow> (string \<times> 'h TreeEntry) list \<Rightarrow> 's
    \<Rightarrow> ((go_error + (string \<times> 'h TreeEntry) list) \<times> 's) option \<Rightarrow> bool" where
  "loops_well m lib es merged s out \<longleftrightarrow> (\<exists>r s'. out = Some (r, s') \<and> grows lib s s' \<and>
     (case r of Inl err \<Rightarrow> refused lib err
      | Inr res \<Rightarrow> keyed res \<and> (\<forall>k. slot m lib s s' (map_of merged k) (find (\<lambda>e. EntryName e = k) es) (map_of res k))))"

lemma dirs_of_map: "dirs_readable m lib s (snd ` set merged) \<Longrightarrow> dirs_readable m lib s (set_option (map_of merged k))"
  by (auto simp: dirs_readable_def dest!: map_of_SomeD)

lemma dirs_of_find: "dirs_readable m lib s (set es) \<Longrightarrow> dirs_readable m lib s (set_option (find (\<lambda>e. EntryName e = k) es))"
  by (auto simp: dirs_readable_def find_Some_iff)

lemma loops_well_Cons:
  assumes "loops_well m lib es (alist_set (EntryName e) e' merged) s1 out" and "EntryName e \<notin> EntryName ` set es" and "grows lib s s1"
    and "slot m lib s s1 (map_of merged (EntryName e)) (Some e) (Some e')"
    and "dirs_readable m lib s (set es)" and "dirs_readable m lib s (snd ` set merged)"
  shows "loops_well m lib (e # es) merged s out"
proof -
  let ?n = "EntryName e"
  have none: "find (\<lambda>x. EntryName x = ?n) es = None" using assms(2) by (induction es) auto
  from assms(1) obtain r s' where r: "out = Some (r, s')" "grows lib s1 s'"
    "case r of Inl err \<Rightarrow> refused lib err
     | Inr res \<Rightarrow> keyed res \<and> (\<forall>k. slot m lib s1 s' (map_of (alist_set ?n e' merged) k) (find (\<lambda>e. EntryName e = k) es) (map_of res k))"
    unfolding loops_well_def by blast
  have "slot m lib s s' (map_of merged k) (find (\<lambda>e. EntryName e = k) (e # es)) (map_of res k)" if res: "r = Inr res" for res k
  proof (cases "k = ?n")
    case True
    from r(3) res have "slot m lib s1 s' (Some e') None (map_of res ?n)" using none by (auto dest: spec [of _ ?n])
    then have "map_of res ?n = Some e'" by (simp add: slot_def)
    with True slot_later [OF assms(4) r(2)] show ?thesis by simp
  next
    case False
    from r(3) res have "slot m lib s1 s' (map_of merged k) (find (\<lambda>e. EntryName e = k) es) (map_of res k)"
      using False by (auto dest: spec [of _ k])
    from slot_earlier [OF this assms(3) dirs_of_map [OF assms(6)] dirs_of_find [OF assms(5)]] False show ?thesis by simp
  qed
  with r assms(3) show ?thesis by (auto simp: loops_well_def intro: grows_trans split: sum.splits)
qed

lemma dirs_readable_set:
  assumes "dirs_readable m lib s1 {e'}" and "dirs_readable m lib s1 (snd ` set merged)"
  shows "dirs_readable m lib s1 (snd ` set (alist_set k e' merged))"
  using assms set_alist_del [of k merged] by (auto simp: dirs_readable_def alist_set_def)

lemma overlay_entries_merge:
  assumes "merges_well m lib merge"
  shows "distinct (map EntryName es) \<Longrightarrow> keyed merged \<Longrightarrow> dirs_readable m lib s (set es) \<Longrightarrow> dirs_readable m lib s (snd ` set merged) \<Longrightarrow>
    loops_well m lib es merged s (overlay_entries merge es merged s)"
proof (induction es arbitrary: merged s)
  case Nil
  then show ?case by (simp add: loops_well_def slot_def)
next
  case (Cons e es)
  let ?n = "EntryName e"
  from Cons.prems(3) have es: "dirs_readable m lib s (set es)" "dirs_readable m lib s {e}" by (simp_all add: dirs_readable_def)
  have continue: "loops_well m lib (e # es) merged s (overlay_entries merge es (alist_set ?n e' merged) s1)"
    if "EntryName e' = ?n" "dirs_readable m lib s1 {e'}" "grows lib s s1" "slot m lib s s1 (map_of merged ?n) (Some e) (Some e')" for e' s1
    using that Cons.prems es dirs_readable_grows [OF that(3)]
    by (intro loops_well_Cons [OF Cons.IH]) (auto intro: keyed_set dirs_readable_set)
  show ?case
  proof (cases "both_dirs (map_of merged ?n) e")
    case False
    then have "overlay_entries merge (e # es) merged s = overlay_entries merge es (alist_set ?n e merged) s"
      by (auto simp: both_dirs_def split: option.splits)
    moreover have "slot m lib s s (map_of merged ?n) (Some e) (Some e)" using False by (simp add: slot_def)
    ultimately show ?thesis using continue [of e s] es by simp
  next
    case True
    then obtain x where x: "map_of merged ?n = Some x" "EntryMode x = DirMode" "EntryMode e = DirMode"
      by (auto simp: both_dirs_def split: option.splits)
    have "readable m lib s (EntryHash x)" "readable m lib s (EntryHash e)"
      using dirs_of_map [OF Cons.prems(4), of ?n] es x by (simp_all add: dirs_readable_def)
    with assms obtain r s1 where r: "merge (EntryHash x) (EntryHash e) s = Some (r, s1)" "grows lib s s1"
      "case r of Inl err \<Rightarrow> refused lib err
       | Inr h \<Rightarrow> readable m lib s1 h \<and> (\<forall>p. file_at lib s1 h p = overlaid lib s (EntryHash x) (EntryHash e) p)"
      unfolding merges_well_def by blast
    show ?thesis
    proof (cases r)
      case (Inl err)
      with r x show ?thesis by (simp add: loops_well_def)
    next
      case (Inr sub)
      let ?e = "e\<lparr>EntryHash := sub\<rparr>"
      from r Inr x have "overlay_entries merge (e # es) merged s = overlay_entries merge es (alist_set ?n ?e merged) s1"
        by (cases e) simp
      moreover have "slot m lib s s1 (map_of merged ?n) (Some e) (Some ?e)" "dirs_readable m lib s1 {?e}"
        using r(3) Inr x True by (auto simp: slot_def dirs_readable_def)
      ultimately show ?thesis using continue [of ?e s1] r(2) by simp
    qed
  qed
qed
subsection \<open>Merging two trees\<close>

lemma map_of_find:
  assumes "keyed m"
  shows "find (\<lambda>e. EntryName e = k) (map snd m) = map_of m k"
  using assms by (induction m) (auto simp: keyed_def)

lemma find_unique:
  assumes "set xs = set ys" and "distinct (map f xs)" and "distinct (map f ys)"
  shows "find (\<lambda>e. f e = k) xs = find (\<lambda>e. f e = k) ys"
proof -
  have char: "find (\<lambda>e. f e = k) zs = Some z \<longleftrightarrow> z \<in> set zs \<and> f z = k" if "distinct (map f zs)" for zs z
    using that by (induction zs) auto
  from char [OF assms(2)] char [OF assms(3)] assms(1) have "find (\<lambda>e. f e = k) xs = Some z \<longleftrightarrow> find (\<lambda>e. f e = k) ys = Some z" for z
    by blast
  then show ?thesis by (metis option.exhaust)
qed

lemma keyed_names: "keyed m \<Longrightarrow> map EntryName (map snd m) = map fst m"
  by (induction m) (auto simp: keyed_def)

lemma sorted_entries_keyed:
  assumes "keyed m"
  shows "distinct (map EntryName (sorted_entries ord m))" and "set (sorted_entries ord m) = snd ` set m"
    and "find (\<lambda>e. EntryName e = k) (sorted_entries ord m) = map_of m k"
proof -
  show s: "set (sorted_entries ord m) = snd ` set m" by (simp add: sorted_entries_def)
  have "mset (sorted_entries ord m) = mset (map snd m)"
    by (simp add: sorted_entries_def range_map_def)
  then have "mset (map EntryName (sorted_entries ord m)) = mset (map EntryName (map snd m))" by (metis mset_map)
  moreover have names: "distinct (map EntryName (map snd m))" using assms unfolding keyed_names [OF assms] keyed_def by blast
  ultimately show d: "distinct (map EntryName (sorted_entries ord m))" by (metis mset_eq_imp_distinct_iff)
  show "find (\<lambda>e. EntryName e = k) (sorted_entries ord m) = map_of m k"
    using find_unique [OF _ d names] s map_of_find [OF assms] by simp
qed

lemma base_entries_keyed:
  assumes "distinct (map EntryName es)"
  shows "keyed (base_entries es) \<and> snd ` set (base_entries es) \<subseteq> set es \<and> map_of (base_entries es) k = find (\<lambda>e. EntryName e = k) es"
proof -
  have "keyed m \<Longrightarrow> distinct (map EntryName es) \<Longrightarrow> (let r = fold (\<lambda>e m. alist_set (EntryName e) e m) es m in
      keyed r \<and> snd ` set r \<subseteq> snd ` set m \<union> set es \<and>
      map_of r k = (case find (\<lambda>e. EntryName e = k) es of Some e \<Rightarrow> Some e | None \<Rightarrow> map_of m k))" for m
  proof (induction es arbitrary: m)
    case (Cons e es)
    have none: "find (\<lambda>x. EntryName x = EntryName e) es = None" using Cons.prems(2) by (induction es) auto
    have sub: "snd ` set (alist_set (EntryName e) e m) \<subseteq> insert e (snd ` set m)"
      using set_alist_del [of "EntryName e" m] by (auto simp: alist_set_def)
    let ?m = "alist_set (EntryName e) e m" let ?r = "fold (\<lambda>e m. alist_set (EntryName e) e m) es ?m"
    from Cons.IH [of ?m] Cons.prems keyed_set [OF Cons.prems(1) refl]
    have r: "keyed ?r" "snd ` set ?r \<subseteq> snd ` set ?m \<union> set es"
      "map_of ?r k = (case find (\<lambda>e. EntryName e = k) es of Some e \<Rightarrow> Some e | None \<Rightarrow> map_of ?m k)" by (simp_all add: Let_def)
    from r(2) sub have "snd ` set ?r \<subseteq> snd ` set m \<union> set (e # es)" by auto
    moreover have "map_of ?r k = (case find (\<lambda>e. EntryName e = k) (e # es) of Some e \<Rightarrow> Some e | None \<Rightarrow> map_of m k)"
      unfolding r(3) using none by (cases "EntryName e = k") (auto split: option.split)
    ultimately show ?case using r(1) by (simp add: Let_def)
  qed simp
  from this [of "[]"] assms show ?thesis by (simp add: base_entries_def keyed_def Let_def split: option.splits)
qed

lemma slot_file:
  assumes "slot m lib s s' (entry_of lib s b k) (entry_of lib s ov k) (entry_of lib s' h k)" and "grows lib s s'"
    and "dirs_readable m lib s (set_option (entry_of lib s b k))" and "dirs_readable m lib s (set_option (entry_of lib s ov k))"
  shows "file_at lib s' h (k # ps) = overlaid lib s b ov (k # ps)"
proof -
  have kept: "file_at lib s' (EntryHash e) q = file_at lib s (EntryHash e) q"
    if "EntryMode e = DirMode" "e \<in> set_option (entry_of lib s b k) \<union> set_option (entry_of lib s ov k)" for e q
    using that assms(2-4) file_at_grows by (fastforce simp: dirs_readable_def)
  show ?thesis
  proof (cases "entry_of lib s ov k")
    case None
    with assms(1) kept show ?thesis by (auto simp: slot_def overlaid_def split: option.splits)
  next
    case (Some e)
    show ?thesis
    proof (cases "both_dirs (entry_of lib s b k) e")
      case True
      then obtain x where "entry_of lib s b k = Some x" "EntryMode x = DirMode" "EntryMode e = DirMode"
        by (auto simp: both_dirs_def split: option.splits)
      with assms(1) Some True show ?thesis by (auto simp: slot_def overlaid_def split: option.split)
    next
      case False
      with assms(1) Some have "entry_of lib s' h k = Some e" by (simp add: slot_def)
      moreover from Some have "EntryMode e = DirMode \<Longrightarrow> file_at lib s' (EntryHash e) ps = file_at lib s (EntryHash e) ps"
        by (simp add: kept)
      ultimately show ?thesis using False Some
        by (cases "entry_of lib s b k"; cases ps) (auto simp: both_dirs_def overlaid_def split: option.split)
    qed
  qed
qed

lemma slot_readable:
  assumes "slot m lib s s' old new (Some e)" and "grows lib s s'" and "EntryMode e = DirMode"
    and "dirs_readable m lib s (set_option old)" and "dirs_readable m lib s (set_option new)"
  shows "readable m lib s' (EntryHash e)"
proof (cases new)
  case None
  with assms readable_grows [OF assms(2)] show ?thesis by (auto simp: slot_def dirs_readable_def)
next
  case (Some x)
  with assms readable_grows [OF assms(2)] show ?thesis by (auto simp: slot_def dirs_readable_def split: if_splits)
qed

lemma file_at_Nil [simp]: "file_at lib s h [] = None" "overlaid lib s b ov [] = None"
  by (simp_all add: overlaid_def)

lemma dirs_readable_entry: "readable (Suc m) lib s h \<Longrightarrow> dirs_readable m lib s (set_option (entry_of lib s h k))"
  using entry_of_readable by (fastforce simp: dirs_readable_def)

text \<open>A stored tree whose entries fill the slots of two trees is their overlay.\<close>

lemma stored_overlay:
  assumes "keyed res" and "grows lib s s2" and "ReadTree lib s2 h = Inr (sorted_entries ord res)"
    and "readable (Suc m) lib s b" and "readable (Suc m) lib s ov"
    and "\<And>k. slot m lib s s2 (entry_of lib s b k) (entry_of lib s ov k) (map_of res k)"
  shows "readable (Suc m) lib s2 h \<and> (\<forall>p. file_at lib s2 h p = overlaid lib s b ov p)"
proof -
  note dirs = dirs_readable_entry [OF assms(4)] dirs_readable_entry [OF assms(5)]
  have entry: "entry_of lib s2 h k = map_of res k" for k
    using assms(3) sorted_entries_keyed(3) [OF assms(1)] by (simp add: entry_of_def)
  have "readable m lib s2 (EntryHash e)" if "e \<in> set (sorted_entries ord res)" "EntryMode e = DirMode" for e
  proof -
    from that(1) assms(1) have "map_of res (EntryName e) = Some e"
      unfolding sorted_entries_keyed(2) [OF assms(1)] by (auto simp: keyed_def)
    with slot_readable [OF _ assms(2) that(2) dirs] assms(6) show ?thesis by metis
  qed
  moreover have "file_at lib s2 h p = overlaid lib s b ov p" for p
    using slot_file [OF _ assms(2) dirs] assms(6) by (cases p) (simp_all add: entry del: file_at.simps(2))
  ultimately show ?thesis using assms(3) sorted_entries_keyed(1) [OF assms(1)] by simp
qed

lemma mergeTreeObjects_merges_well:
  assumes "tree_laws lib"
  shows "merges_well n lib (mergeTreeObjects n ord lib)"
proof (induction n)
  case 0
  show ?case by (simp add: merges_well_def)
next
  case (Suc m)
  have "\<exists>r s'. mergeTreeObjects (Suc m) ord lib b ov s = Some (r, s') \<and> grows lib s s' \<and>
      (case r of Inl err \<Rightarrow> refused lib err
       | Inr h \<Rightarrow> readable (Suc m) lib s' h \<and> (\<forall>p. file_at lib s' h p = overlaid lib s b ov p))"
    if b: "readable (Suc m) lib s b" and ov: "readable (Suc m) lib s ov" and ne: "b \<noteq> ov" for b ov s
  proof -
    from b ov obtain bs os where read: "ReadTree lib s b = Inr bs" "ReadTree lib s ov = Inr os"
      and names: "distinct (map EntryName bs)" "distinct (map EntryName os)"
      and dirs: "dirs_readable m lib s (set bs)" "dirs_readable m lib s (set os)"
      by (auto simp: dirs_readable_def split: sum.splits)
    note base = base_entries_keyed [OF names(1)]
    from base dirs(1) have "dirs_readable m lib s (snd ` set (base_entries bs))" by (auto simp: dirs_readable_def)
    from overlay_entries_merge [OF Suc names(2) _ dirs(2) this] base
    obtain r s1 where r: "overlay_entries (mergeTreeObjects m ord lib) os (base_entries bs) s = Some (r, s1)" "grows lib s s1"
      "case r of Inl err \<Rightarrow> refused lib err
       | Inr res \<Rightarrow> keyed res \<and> (\<forall>k. slot m lib s s1 (map_of (base_entries bs) k) (find (\<lambda>e. EntryName e = k) os) (map_of res k))"
      unfolding loops_well_def by blast
    show ?thesis
    proof (cases r)
      case (Inl err)
      with r ne read show ?thesis by (simp add: decodeTreeEntries_def)
    next
      case (Inr res)
      let ?es = "sorted_entries ord res"
      show ?thesis
      proof (cases "EncodeTree lib ?es")
        case (Some e)
        with r Inr ne read show ?thesis by (auto simp: decodeTreeEntries_def refused_def)
      next
        case None
        with assms obtain h s2 where h: "SetEncodedTree lib ?es s1 = (Inr h, s2)" "ReadTree lib s2 h = Inr ?es" "grows lib s1 s2"
          unfolding tree_laws_def by blast
        from r(3) Inr base read have "slot m lib s s1 (entry_of lib s b k) (entry_of lib s ov k) (map_of res k)" for k
          by (simp add: entry_of_def)
        note slots = slot_later [OF this h(3)]
        from stored_overlay [OF _ grows_trans [OF r(2) h(3)] h(2) b ov slots] r(3) Inr
        have "readable (Suc m) lib s2 h \<and> (\<forall>p. file_at lib s2 h p = overlaid lib s b ov p)" by simp
        with h r Inr ne read None grows_trans [OF r(2) h(3)] show ?thesis by (simp add: decodeTreeEntries_def)
      qed
    qed
  qed
  then show ?case unfolding merges_well_def by (auto simp: overlaid_same)
qed
subsection \<open>A store of trees\<close>

text \<open>Trees kept in a list, the hash being the position: it keeps the laws.\<close>

definition list_store :: "(nat, nat TreeEntry list list) tree_store" where
  "list_store = \<lparr>ReadTree = \<lambda>s h. if h < length s then Inr (s ! h) else Inl (PlainError ''object not found''),
     EncodeTree = \<lambda>_. None,
     SetEncodedTree = \<lambda>es s. (Inr (length s), s @ [es])\<rparr>"

lemma list_store_laws: "tree_laws list_store"
  by (auto simp: tree_laws_def list_store_def grows_def nth_append)

definition demo_trees :: "nat TreeEntry list list" where
  \<comment> \<open>0: \<open>d/a\<close>; 1: \<open>d/b\<close> and \<open>d/a\<close>; 2: the base, with \<open>x\<close>; 3: the overlay.\<close>
  "demo_trees =
     [[\<lparr>EntryName = ''a'', EntryMode = RegularMode, EntryHash = 100\<rparr>],
      [\<lparr>EntryName = ''a'', EntryMode = RegularMode, EntryHash = 101\<rparr>, \<lparr>EntryName = ''b'', EntryMode = RegularMode, EntryHash = 102\<rparr>],
      [\<lparr>EntryName = ''d'', EntryMode = DirMode, EntryHash = 0\<rparr>, \<lparr>EntryName = ''x'', EntryMode = RegularMode, EntryHash = 103\<rparr>],
      [\<lparr>EntryName = ''d'', EntryMode = DirMode, EntryHash = 1\<rparr>]]"

text \<open>C30. Merging two trees whose depth is within the fuel always returns.  It keeps every stored tree, and unless the library
  refuses to encode a merged tree it returns the hash of a readable tree whose file at each path is the file of the overlay,
  and that of the base at exactly the paths where the overlay has neither a file, a directory nor a file on the way.\<close>

theorem merge_is_overlay:
  assumes "tree_laws lib" and "readable n lib s base" and "readable n lib s overlay"
  shows "\<exists>r s'. mergeTreeObjects n ord lib base overlay s = Some (r, s') \<and> grows lib s s' \<and>
    (case r of
       Inl err \<Rightarrow> \<exists>es e. EncodeTree lib es = Some e \<and> err = WrapError ''encode merged tree'' e
     | Inr h \<Rightarrow> readable n lib s' h \<and>
         (\<forall>p. file_at lib s' h p =
            (case file_at lib s overlay p of
               Some f \<Rightarrow> Some f
             | None \<Rightarrow> if covered lib s overlay p then None else file_at lib s base p)))"
  using mergeTreeObjects_merges_well [OF assms(1), of n ord] assms(2,3)
  unfolding merges_well_def refused_def overlaid_def by blast

theorem merge_is_overlay_witness:
  "(\<exists>h s'. mergeTreeObjects 2 (\<lambda>_ _. 0) list_store 2 3 demo_trees = Some (Inr h, s') \<and>
      file_at list_store s' h [''d'', ''b''] = Some (RegularMode, 102) \<and> file_at list_store s' h [''d'', ''a''] = Some (RegularMode, 101) \<and>
      file_at list_store s' h [''x''] = Some (RegularMode, 103))"
proof -
  have readable: "readable 2 list_store demo_trees 2" "readable 2 list_store demo_trees 3"
    by (simp_all add: numeral_2_eq_2 demo_trees_def list_store_def)
  obtain r s' where r: "mergeTreeObjects 2 (\<lambda>_ _. 0) list_store 2 3 demo_trees = Some (r, s')"
    and out: "case r of
       Inl err \<Rightarrow> \<exists>es e. EncodeTree list_store es = Some e \<and> err = WrapError ''encode merged tree'' e
     | Inr h \<Rightarrow> readable 2 list_store s' h \<and>
         (\<forall>p. file_at list_store s' h p =
            (case file_at list_store demo_trees 3 p of
               Some f \<Rightarrow> Some f
             | None \<Rightarrow> if covered list_store demo_trees 3 p then None else file_at list_store demo_trees 2 p))"
    using merge_is_overlay [OF list_store_laws readable, of "\<lambda>_ _. 0"] by (elim exE conjE)
  from out obtain h where h: "r = Inr h" by (cases r) (auto simp: list_store_def)
  have "file_at list_store s' h p = (case file_at list_store demo_trees 3 p of
       Some f \<Rightarrow> Some f | None \<Rightarrow> if covered list_store demo_trees 3 p then None else file_at list_store demo_trees 2 p)" for p
    using out h by simp
  moreover have "file_at list_store demo_trees 3 [''d'', ''b''] = Some (RegularMode, 102)"
    "file_at list_store demo_trees 3 [''d'', ''a''] = Some (RegularMode, 101)"
    "file_at list_store demo_trees 3 [''x''] = None" "\<not> covered list_store demo_trees 3 [''x'']"
    "file_at list_store demo_trees 2 [''x''] = Some (RegularMode, 103)"
    by (simp_all add: demo_trees_def list_store_def entry_of_def)
  ultimately show ?thesis using r h by (auto simp del: file_at.simps covered.simps)
qed

end
