(* ===== verification/Git_Repository.thy ===== *)
theory Git_Repository
  imports Git_Server Git_Trees Pusher
begin

text \<open>
  The repositories of the test git server (\<open>pkg/envtest/repository.go\<close>): creating a bare repository with its first commit,
  branches, commits through a clone in memory, reading files, and merging branches.

  go-git and the file system are the parameter \<open>bare_lib\<close> on a state \<open>'s\<close> that holds every repository.  An open
  repository is known by its path.  Hashes are the type \<open>'h\<close>; the time of a signature is an argument.
\<close>

subsection \<open>The library\<close>

record ObjectSignature =
  SigName :: string
  SigEmail :: string
  SigWhen :: nat

record 'h ObjectCommit =
  CoAuthor :: ObjectSignature
  CoCommitter :: ObjectSignature
  CoMessage :: string
  TreeHash :: 'h
  ParentHashes :: "'h list"

datatype 'h reference = HashReference 'h | SymbolicReference string

record ('h, 's) bare_lib =
  os_Stat :: "'s \<Rightarrow> string \<Rightarrow> go_error option"
  os_MkdirAll :: "string \<Rightarrow> (unit, 's) act"
  PlainInit :: "string \<Rightarrow> (unit, 's) act"
  PlainOpen :: "string \<Rightarrow> (unit, 's) act"
  RawReference :: "'s \<Rightarrow> string \<Rightarrow> string \<Rightarrow> go_error + 'h reference"
  ResolvedReference :: "'s \<Rightarrow> string \<Rightarrow> string \<Rightarrow> go_error + 'h"
  StoreReference :: "string \<Rightarrow> string \<Rightarrow> 'h reference \<Rightarrow> (unit, 's) act"
  DropReference :: "string \<Rightarrow> string \<Rightarrow> (unit, 's) act"
  CommitAt :: "'s \<Rightarrow> string \<Rightarrow> 'h \<Rightarrow> go_error + 'h ObjectCommit"
  EncodeCommit :: "'h ObjectCommit \<Rightarrow> go_error option"
  SetEncodedCommit :: "string \<Rightarrow> 'h ObjectCommit \<Rightarrow> ('h, 's) act"
  IsAncestor :: "'s \<Rightarrow> string \<Rightarrow> 'h \<Rightarrow> 'h \<Rightarrow> go_error + bool"
  RepoTrees :: "string \<Rightarrow> ('h, 's) tree_store"
  CommitTree :: "'s \<Rightarrow> string \<Rightarrow> 'h ObjectCommit \<Rightarrow> go_error + 'h"
  TreeFile :: "'s \<Rightarrow> string \<Rightarrow> 'h \<Rightarrow> string \<Rightarrow> go_error + 'h"
  FileReader :: "'s \<Rightarrow> string \<Rightarrow> 'h \<Rightarrow> go_error + string"
  TreeFiles :: "'s \<Rightarrow> string \<Rightarrow> 'h \<Rightarrow> go_error + string list"
  HashString :: "'h \<Rightarrow> string"

text \<open>A clone in memory: its worktree is a file system of its own, and closing a file may fail.\<close>

record 's clone_lib =
  CloneBranch :: "string \<Rightarrow> string \<Rightarrow> (repo, 's) act"
  CloneWorktree :: "repo \<Rightarrow> (unit, 's) act"
  FsCreate :: "repo \<Rightarrow> string \<Rightarrow> (unit, 's) act"
  FsWrite :: "repo \<Rightarrow> string \<Rightarrow> string \<Rightarrow> (unit, 's) act"
  FsClose :: "repo \<Rightarrow> string \<Rightarrow> (unit, 's) act"
  WtAdd :: "repo \<Rightarrow> string \<Rightarrow> (unit, 's) act"
  WtCommit :: "repo \<Rightarrow> string \<Rightarrow> ObjectSignature \<Rightarrow> (unit, 's) act"
  PushBranch :: "repo \<Rightarrow> string \<Rightarrow> string list \<Rightarrow> (unit, 's) act"

text \<open>A call that does not change the state.\<close>

definition look :: "('s \<Rightarrow> go_error + 'a) \<Rightarrow> ('a, 's) act" where
  "look f s = Some (f s, s)"

definition err_act :: "go_error option \<Rightarrow> (unit, 's) act" where
  "err_act e = (case e of None \<Rightarrow> ret () | Some err \<Rightarrow> fail_with err)"

subsection \<open>Creating a repository\<close>

definition defaultCommitterName :: string where
  "defaultCommitterName = ''syngit-envtest''"

definition defaultCommitterEmail :: string where
  "defaultCommitterEmail = ''envtest@syngit.io''"

definition defaultSignature :: "nat \<Rightarrow> ObjectSignature" where
  "defaultSignature now = \<lparr>SigName = defaultCommitterName, SigEmail = defaultCommitterEmail, SigWhen = now\<rparr>"

definition repoPath :: "GitServer \<Rightarrow> RepoRef \<Rightarrow> string" where
  "repoPath gs rr = filepath_Join [dir gs, Owner rr, RepoName rr @ ''.git'']"

definition store_tree :: "('h, 's) tree_store \<Rightarrow> 'h TreeEntry list \<Rightarrow> ('h, 's) act" where
  \<comment> \<open>Encode the tree, then store it.\<close>
  "store_tree lib es = seq (err_act (EncodeTree lib es)) (\<lambda>_ s. Some (SetEncodedTree lib es s))"

definition store_commit :: "('h, 's) bare_lib \<Rightarrow> string \<Rightarrow> 'h ObjectCommit \<Rightarrow> ('h, 's) act" where
  "store_commit lib path c = seq (err_act (EncodeCommit lib c)) (\<lambda>_. SetEncodedCommit lib path c)"

definition createInitialCommit :: "('h, 's) bare_lib \<Rightarrow> nat \<Rightarrow> string \<Rightarrow> string \<Rightarrow> ('h, 's) act" where
  "createInitialCommit lib now path branch =
     seq (store_tree (RepoTrees lib path) []) (\<lambda>treeHash.
     let sig = defaultSignature now;
         commit = \<lparr>CoAuthor = sig, CoCommitter = sig, CoMessage = ''Initial commit'' @ [CHR 0x0A], TreeHash = treeHash, ParentHashes = []\<rparr> in
     seq (store_commit lib path commit) (\<lambda>commitHash.
     let branchRef = NewBranchReferenceName branch in
     seq (StoreReference lib path branchRef (HashReference commitHash)) (\<lambda>_.
     seq (StoreReference lib path ''HEAD'' (SymbolicReference branchRef)) (\<lambda>_.
     ret commitHash))))"

definition CreateRepo :: "('h, 's) bare_lib \<Rightarrow> nat \<Rightarrow> GitServer \<Rightarrow> RepoRef \<Rightarrow> string \<Rightarrow> (unit, 's) act" where
  "CreateRepo lib now gs rr defaultBranch0 s =
     (let defaultBranch = (if defaultBranch0 = '''' then ''main'' else defaultBranch0);
          path = repoPath gs rr in
      if os_Stat lib s path = None then fail_with (PlainError (''repository '' @ RepoRef_String rr @ '' already exists'')) s
      else
        seq (wrap_err (WrapError ''failed to create repo dir'') (os_MkdirAll lib path)) (\<lambda>_.
        seq (wrap_err (WrapError ''failed to init bare repo'') (PlainInit lib path)) (\<lambda>_.
        seq (wrap_err (WrapError ''failed to create initial commit'') (createInitialCommit lib now path defaultBranch)) (\<lambda>_.
        ret ()))) s)"

subsection \<open>Branches\<close>

definition CreateBranch :: "('h, 's) bare_lib \<Rightarrow> GitServer \<Rightarrow> RepoRef \<Rightarrow> string \<Rightarrow> string \<Rightarrow> (unit, 's) act" where
  "CreateBranch lib gs rr branchName sourceBranch =
     (let path = repoPath gs rr; newRef = NewBranchReferenceName branchName in
      seq (PlainOpen lib path) (\<lambda>_.
      seq (try_act (look (\<lambda>s. RawReference lib s path newRef))) (\<lambda>found.
      case found of
        Inr _ \<Rightarrow> fail_with (PlainError (''branch '' @ branchName @ '' already exists''))
      | Inl _ \<Rightarrow>
          seq (wrap_err (WrapError (''source branch '' @ sourceBranch))
                 (look (\<lambda>s. ResolvedReference lib s path (NewBranchReferenceName sourceBranch)))) (\<lambda>srcHash.
          StoreReference lib path newRef (HashReference srcHash)))))"

definition DeleteBranch :: "('h, 's) bare_lib \<Rightarrow> GitServer \<Rightarrow> RepoRef \<Rightarrow> string \<Rightarrow> (unit, 's) act" where
  "DeleteBranch lib gs rr branchName =
     (let path = repoPath gs rr in
      seq (PlainOpen lib path) (\<lambda>_. DropReference lib path (NewBranchReferenceName branchName)))"

subsection \<open>Committing files\<close>

definition envtest_writeFile :: "'s clone_lib \<Rightarrow> repo \<Rightarrow> string \<Rightarrow> string \<Rightarrow> (unit, 's) act" where
  \<comment> \<open>A failed write closes the file and ignores what the close says.\<close>
  "envtest_writeFile lib r path content =
     seq (wrap_err (WrapError (''create '' @ path)) (FsCreate lib r path)) (\<lambda>_.
     seq (try_act (FsWrite lib r path content)) (\<lambda>written.
     case written of
       Inl err \<Rightarrow> seq (try_act (FsClose lib r path)) (\<lambda>_. fail_with (WrapError (''write '' @ path) err))
     | Inr _ \<Rightarrow> wrap_err (WrapError (''close '' @ path)) (FsClose lib r path)))"

definition CommitFiles :: "'s clone_lib \<Rightarrow> (nat \<Rightarrow> string \<Rightarrow> nat) \<Rightarrow> nat \<Rightarrow> GitServer \<Rightarrow> RepoRef \<Rightarrow> string
    \<Rightarrow> (string \<times> string) list \<Rightarrow> string \<Rightarrow> (unit, 's) act" where
  "CommitFiles lib ord now gs rr branch files commitMsg =
     (let branchRef = NewBranchReferenceName branch in
      seq (wrap_err (WrapError ''clone for commit'') (CloneBranch lib (repoPath gs rr) branchRef)) (\<lambda>r.
      seq (CloneWorktree lib r) (\<lambda>_.
      seq (each (\<lambda>p. seq (envtest_writeFile lib r p (case map_of files p of None \<Rightarrow> '''' | Some c \<Rightarrow> c)) (\<lambda>_.
                    wrap_err (WrapError (''add '' @ p)) (WtAdd lib r p)))
             (sort (map fst (range_map ord files)))) (\<lambda>_.
      seq (wrap_err (WrapError ''commit'') (WtCommit lib r commitMsg (defaultSignature now))) (\<lambda>_.
      PushBranch lib r ''origin'' [branchRef @ '':'' @ branchRef])))))"

definition CommitFile :: "'s clone_lib \<Rightarrow> (nat \<Rightarrow> string \<Rightarrow> nat) \<Rightarrow> nat \<Rightarrow> GitServer \<Rightarrow> RepoRef \<Rightarrow> string
    \<Rightarrow> string \<Rightarrow> string \<Rightarrow> string \<Rightarrow> (unit, 's) act" where
  "CommitFile lib ord now gs rr branch path content commitMsg = CommitFiles lib ord now gs rr branch [(path, content)] commitMsg"

definition CommitObject :: "('o \<Rightarrow> go_error + string) \<Rightarrow> 's clone_lib \<Rightarrow> (nat \<Rightarrow> string \<Rightarrow> nat) \<Rightarrow> nat \<Rightarrow> GitServer \<Rightarrow> RepoRef
    \<Rightarrow> string \<Rightarrow> string \<Rightarrow> 'o \<Rightarrow> string \<Rightarrow> (unit, 's) act" where
  "CommitObject marshal lib ord now gs rr branch path obj commitMsg =
     (case marshal obj of
        Inl err \<Rightarrow> fail_with (WrapError ''marshal object'' err)
      | Inr content \<Rightarrow> CommitFile lib ord now gs rr branch path content commitMsg)"

subsection \<open>Reading\<close>

text \<open>Opening the repository and following the branch to its commit and tree starts each of them.\<close>

definition branch_commit :: "('h, 's) bare_lib \<Rightarrow> string \<Rightarrow> string \<Rightarrow> ('h \<times> 'h ObjectCommit, 's) act" where
  "branch_commit lib path branch =
     seq (PlainOpen lib path) (\<lambda>_.
     seq (wrap_err (WrapError (''branch '' @ branch)) (look (\<lambda>s. ResolvedReference lib s path (NewBranchReferenceName branch)))) (\<lambda>h.
     seq (look (\<lambda>s. CommitAt lib s path h)) (\<lambda>commit. ret (h, commit))))"

definition branch_tree :: "('h, 's) bare_lib \<Rightarrow> string \<Rightarrow> string \<Rightarrow> ('h, 's) act" where
  "branch_tree lib path branch = seq (branch_commit lib path branch) (\<lambda>(_, commit). look (\<lambda>s. CommitTree lib s path commit))"

definition ReadFile :: "('h, 's) bare_lib \<Rightarrow> GitServer \<Rightarrow> RepoRef \<Rightarrow> string \<Rightarrow> string \<Rightarrow> (string, 's) act" where
  "ReadFile lib gs rr branch path =
     (let rp = repoPath gs rr in
      seq (branch_tree lib rp branch) (\<lambda>tree.
      seq (look (\<lambda>s. TreeFile lib s rp tree path)) (\<lambda>f.
      look (\<lambda>s. FileReader lib s rp f))))"

definition ErrFileNotFound :: go_error where
  "ErrFileNotFound = PlainError ''file not found''"

definition FileExists :: "('h, 's) bare_lib \<Rightarrow> GitServer \<Rightarrow> RepoRef \<Rightarrow> string \<Rightarrow> string \<Rightarrow> (bool, 's) act" where
  "FileExists lib gs rr branch path =
     (let rp = repoPath gs rr in
      seq (branch_tree lib rp branch) (\<lambda>tree.
      seq (try_act (look (\<lambda>s. TreeFile lib s rp tree path))) (\<lambda>found.
      case found of
        Inr _ \<Rightarrow> ret True
      | Inl err \<Rightarrow> if err = ErrFileNotFound then ret False else fail_with err)))"

definition ListFiles :: "('h, 's) bare_lib \<Rightarrow> GitServer \<Rightarrow> RepoRef \<Rightarrow> string \<Rightarrow> (string list, 's) act" where
  "ListFiles lib gs rr branch =
     (let rp = repoPath gs rr in
      seq (branch_tree lib rp branch) (\<lambda>tree.
      seq (look (\<lambda>s. TreeFiles lib s rp tree)) (\<lambda>files.
      ret (sort files))))"

definition GetLatestCommit :: "('h, 's) bare_lib \<Rightarrow> GitServer \<Rightarrow> RepoRef \<Rightarrow> string \<Rightarrow> (string \<times> string, 's) act" where
  "GetLatestCommit lib gs rr branch =
     seq (branch_commit lib (repoPath gs rr) branch) (\<lambda>(h, commit). ret (HashString lib h, CoMessage commit))"

subsection \<open>Merging branches\<close>

definition merge_commit :: "nat \<Rightarrow> string \<Rightarrow> string \<Rightarrow> 'h \<Rightarrow> 'h \<Rightarrow> 'h \<Rightarrow> 'h ObjectCommit" where
  "merge_commit now sourceBranch targetBranch mergedTreeHash targetHash sourceHash =
     (let sig = defaultSignature now in
      \<lparr>CoAuthor = sig, CoCommitter = sig,
        CoMessage = ''Merge branch '' @ [CHR 0x27] @ sourceBranch @ [CHR 0x27] @ '' into '' @ targetBranch @ [CHR 0x0A],
        TreeHash = mergedTreeHash, ParentHashes = [targetHash, sourceHash]\<rparr>)"

definition MergeBranch :: "nat \<Rightarrow> (nat \<Rightarrow> string \<Rightarrow> nat) \<Rightarrow> ('h, 's) bare_lib \<Rightarrow> nat \<Rightarrow> GitServer \<Rightarrow> RepoRef \<Rightarrow> string \<Rightarrow> string
    \<Rightarrow> (unit, 's) act" where
  "MergeBranch fuel ord lib now gs rr sourceBranch targetBranch =
     (let path = repoPath gs rr in
      seq (PlainOpen lib path) (\<lambda>_.
      seq (wrap_err (WrapError (''source branch '' @ sourceBranch))
             (look (\<lambda>s. ResolvedReference lib s path (NewBranchReferenceName sourceBranch)))) (\<lambda>sourceHash.
      seq (wrap_err (WrapError (''target branch '' @ targetBranch))
             (look (\<lambda>s. ResolvedReference lib s path (NewBranchReferenceName targetBranch)))) (\<lambda>targetHash.
      if sourceHash = targetHash then ret () else
      seq (look (\<lambda>s. CommitAt lib s path sourceHash)) (\<lambda>sourceCommit.
      seq (look (\<lambda>s. CommitAt lib s path targetHash)) (\<lambda>targetCommit.
      seq (look (\<lambda>s. IsAncestor lib s path targetHash sourceHash)) (\<lambda>canFF.
      let targetBranchRef = NewBranchReferenceName targetBranch in
      if canFF then StoreReference lib path targetBranchRef (HashReference sourceHash) else
      seq (wrap_err (WrapError ''merge trees'')
             (mergeTreeObjects fuel ord (RepoTrees lib path) (TreeHash targetCommit) (TreeHash sourceCommit))) (\<lambda>mergedTreeHash.
      seq (store_commit lib path (merge_commit now sourceBranch targetBranch mergedTreeHash targetHash sourceHash)) (\<lambda>hash.
      StoreReference lib path targetBranchRef (HashReference hash))))))))))"

subsection \<open>What the library keeps\<close>

text \<open>
  References, commits and trees are kept apart, and repositories too: storing one kind leaves the others as they are.  Storing
  a reference sets it or fails and changes none; storing an encoded commit succeeds and reads back; a reference that holds a hash resolves to it.
\<close>

definition same_refs :: "('h, 's) bare_lib \<Rightarrow> 's \<Rightarrow> 's \<Rightarrow> bool" where
  "same_refs lib s s' \<longleftrightarrow> (\<forall>path name. RawReference lib s' path name = RawReference lib s path name)"

definition same_trees :: "('h, 's) bare_lib \<Rightarrow> 's \<Rightarrow> 's \<Rightarrow> bool" where
  "same_trees lib s s' \<longleftrightarrow> (\<forall>path. ReadTree (RepoTrees lib path) s' = ReadTree (RepoTrees lib path) s)"

definition same_commits :: "('h, 's) bare_lib \<Rightarrow> 's \<Rightarrow> 's \<Rightarrow> bool" where
  "same_commits lib s s' \<longleftrightarrow> (\<forall>path h c. CommitAt lib s path h = Inr c \<longrightarrow> CommitAt lib s' path h = Inr c)"

definition ref_laws :: "('h, 's) bare_lib \<Rightarrow> bool" where
  "ref_laws lib \<longleftrightarrow>
     (\<forall>s path name h. RawReference lib s path name = Inr (HashReference h) \<longrightarrow> ResolvedReference lib s path name = Inr h) \<and>
     (\<forall>s path. \<exists>r. PlainOpen lib path s = Some (r, s)) \<and>
     (\<forall>s path name v. \<exists>r s'. StoreReference lib path name v s = Some (r, s') \<and> same_trees lib s s' \<and> same_commits lib s s' \<and>
        (case r of Inl _ \<Rightarrow> same_refs lib s s'
         | Inr _ \<Rightarrow> \<forall>p n. RawReference lib s' p n = (if p = path \<and> n = name then Inr v else RawReference lib s p n)))"

definition object_laws :: "('h, 's) bare_lib \<Rightarrow> bool" where
  "object_laws lib \<longleftrightarrow>
     (\<forall>s path c. EncodeCommit lib c = None \<longrightarrow>
        (\<exists>h s'. SetEncodedCommit lib path c s = Some (Inr h, s') \<and> CommitAt lib s' path h = Inr c \<and>
           same_refs lib s s' \<and> same_trees lib s s' \<and> same_commits lib s s')) \<and>
     (\<forall>path. tree_laws (RepoTrees lib path)) \<and>
     (\<forall>path es s. same_refs lib s (snd (SetEncodedTree (RepoTrees lib path) es s)))"

subsection \<open>Merging two branches\<close>

lemma overlay_entries_inv:
  assumes "\<And>b ov s r s'. merge b ov s = Some (r, s') \<Longrightarrow> P s \<Longrightarrow> P s'"
  shows "overlay_entries merge es merged s = Some (r, s') \<Longrightarrow> P s \<Longrightarrow> P s'"
  using assms by (induction es arbitrary: merged s) (fastforce split: option.splits if_splits prod.splits sum.splits)+

lemma mergeTreeObjects_inv:
  assumes "\<And>es s. P s \<Longrightarrow> P (snd (SetEncodedTree lib es s))"
  shows "mergeTreeObjects n ord lib b ov s = Some (r, s') \<Longrightarrow> P s \<Longrightarrow> P s'"
proof (induction n arbitrary: b ov s r s')
  case (Suc n)
  have loop: "overlay_entries (mergeTreeObjects n ord lib) es merged s = Some (x, s1) \<Longrightarrow> P s1" for es merged x s1
    using overlay_entries_inv [where merge = "mergeTreeObjects n ord lib" and P = P] Suc.IH Suc.prems(2) by blast
  have set: "SetEncodedTree lib es s1 = (x, s2) \<Longrightarrow> P s1 \<Longrightarrow> P s2" for es s1 x s2
    using assms [of s1 es] by simp
  from Suc.prems show ?case
    by (auto simp: Let_def split: if_splits sum.splits option.splits prod.splits dest!: loop intro: set)
qed simp

lemma file_at_same: "ReadTree lib s' = ReadTree lib s \<Longrightarrow> file_at lib s' h p = file_at lib s h p"
  by (induction lib s h p rule: file_at.induct) (auto simp: entry_of_def split: option.split)

lemma same_refs_trans: "same_refs lib s s1 \<Longrightarrow> same_refs lib s1 s2 \<Longrightarrow> same_refs lib s s2"
  by (simp add: same_refs_def)

definition points :: "('h, 's) bare_lib \<Rightarrow> 's \<Rightarrow> string \<Rightarrow> string \<Rightarrow> (go_error + unit) \<Rightarrow> 'h \<Rightarrow> 's \<Rightarrow> bool" where
  \<comment> \<open>One reference points at the hash, and no other has changed; after an error none has.\<close>
  "points lib s path name r h s' \<longleftrightarrow> (case r of Inl _ \<Rightarrow> same_refs lib s s'
     | Inr _ \<Rightarrow> ResolvedReference lib s' path name = Inr h \<and>
         (\<forall>p m. (p, m) \<noteq> (path, name) \<longrightarrow> RawReference lib s' p m = RawReference lib s p m))"

lemma StoreReference_points:
  assumes "ref_laws lib" and "same_refs lib s s1"
  shows "\<exists>r s'. StoreReference lib path name (HashReference h) s1 = Some (r, s') \<and> same_trees lib s1 s' \<and> same_commits lib s1 s' \<and>
    points lib s path name r h s'"
proof -
  from assms(1) obtain r s' where r: "StoreReference lib path name (HashReference h) s1 = Some (r, s')" "same_trees lib s1 s'" "same_commits lib s1 s'"
    "case r of Inl _ \<Rightarrow> same_refs lib s1 s'
     | Inr _ \<Rightarrow> \<forall>p m. RawReference lib s' p m = (if p = path \<and> m = name then Inr (HashReference h) else RawReference lib s1 p m)"
    unfolding ref_laws_def by blast
  have resolve: "RawReference lib s' path name = Inr (HashReference h) \<Longrightarrow> ResolvedReference lib s' path name = Inr h"
    using assms(1) by (simp add: ref_laws_def)
  from r(4) assms(2) resolve have "points lib s path name r h s'"
    by (cases r) (auto simp: points_def same_refs_def)
  with r show ?thesis by blast
qed

text \<open>Storing a commit and pointing a branch at it.\<close>

lemma commit_and_point:
  assumes "ref_laws lib" and "object_laws lib" and "same_refs lib s s1"
  shows "\<exists>r s' h. seq (store_commit lib path c) (\<lambda>hash. StoreReference lib path name (HashReference hash)) s1 = Some (r, s') \<and>
    points lib s path name r h s' \<and> same_trees lib s1 s' \<and> (r = Inr () \<longrightarrow> CommitAt lib s' path h = Inr c)"
proof (cases "EncodeCommit lib c")
  case (Some err)
  with assms(3) show ?thesis by (simp add: store_commit_def err_act_def act_defs points_def same_trees_def)
next
  case None
  with assms(2) obtain h s2 where h: "SetEncodedCommit lib path c s1 = Some (Inr h, s2)" "CommitAt lib s2 path h = Inr c"
    "same_refs lib s1 s2" "same_trees lib s1 s2" unfolding object_laws_def by blast
  from StoreReference_points [OF assms(1) same_refs_trans [OF assms(3) h(3)], of path name h]
  obtain r s' where "StoreReference lib path name (HashReference h) s2 = Some (r, s')" "same_trees lib s2 s'" "same_commits lib s2 s'"
    "points lib s path name r h s'" by blast
  with h None show ?thesis
    by (intro exI [of _ r] exI [of _ s'] exI [of _ h]) (auto simp: store_commit_def err_act_def act_defs same_trees_def same_commits_def)
qed

lemma mergeTreeObjects_in_repo:
  assumes "object_laws lib" and "readable n (RepoTrees lib path) s b" and "readable n (RepoTrees lib path) s ov"
  shows "\<exists>r s1. mergeTreeObjects n ord (RepoTrees lib path) b ov s = Some (r, s1) \<and> same_refs lib s s1 \<and>
    (case r of Inl _ \<Rightarrow> True | Inr h \<Rightarrow> \<forall>p. file_at (RepoTrees lib path) s1 h p = overlaid (RepoTrees lib path) s b ov p)"
proof -
  from assms(1) have laws: "tree_laws (RepoTrees lib path)"
    and set: "\<And>es s. same_refs lib s (snd (SetEncodedTree (RepoTrees lib path) es s))" by (simp_all add: object_laws_def)
  from mergeTreeObjects_merges_well [OF laws, of n ord] assms(2,3)
  obtain r s1 where r: "mergeTreeObjects n ord (RepoTrees lib path) b ov s = Some (r, s1)"
    "case r of Inl err \<Rightarrow> refused (RepoTrees lib path) err
     | Inr h \<Rightarrow> readable n (RepoTrees lib path) s1 h \<and> (\<forall>p. file_at (RepoTrees lib path) s1 h p = overlaid (RepoTrees lib path) s b ov p)"
    unfolding merges_well_def by blast
  have "same_refs lib s s1"
    using set by (intro mergeTreeObjects_inv [where P = "same_refs lib s", OF _ r(1)]) (auto simp: same_refs_def)
  with r show ?thesis by (auto split: sum.splits)
qed

lemma merge_and_point:
  assumes "ref_laws lib" and "object_laws lib"
    and "readable n (RepoTrees lib path) s b" and "readable n (RepoTrees lib path) s ov"
  shows "\<exists>r s' h. seq (wrap_err (WrapError m) (mergeTreeObjects n ord (RepoTrees lib path) b ov)) (\<lambda>th.
      seq (store_commit lib path (f th)) (\<lambda>hash. StoreReference lib path name (HashReference hash))) s = Some (r, s') \<and>
    points lib s path name r h s' \<and> (r = Inr () \<longrightarrow> (\<exists>th. CommitAt lib s' path h = Inr (f th) \<and>
      (\<forall>p. file_at (RepoTrees lib path) s' th p = overlaid (RepoTrees lib path) s b ov p)))"
proof -
  from mergeTreeObjects_in_repo [OF assms(2-4), of ord] obtain t s1 where
    t: "mergeTreeObjects n ord (RepoTrees lib path) b ov s = Some (t, s1)" "same_refs lib s s1"
      "case t of Inl _ \<Rightarrow> True | Inr h \<Rightarrow> \<forall>p. file_at (RepoTrees lib path) s1 h p = overlaid (RepoTrees lib path) s b ov p"
    by blast
  show ?thesis
  proof (cases t)
    case (Inl err)
    with t show ?thesis by (auto simp: act_defs points_def)
  next
    case (Inr th)
    from commit_and_point [OF assms(1,2) t(2), of path "f th" name] obtain r s' h where
      r: "seq (store_commit lib path (f th)) (\<lambda>hash. StoreReference lib path name (HashReference hash)) s1 = Some (r, s')"
        "points lib s path name r h s'" "same_trees lib s1 s'" "r = Inr () \<longrightarrow> CommitAt lib s' path h = Inr (f th)" by blast
    have "file_at (RepoTrees lib path) s' th p = file_at (RepoTrees lib path) s1 th p" for p
      using r(3) by (intro file_at_same) (simp add: same_trees_def)
    with r t(3) Inr have "r = Inr () \<longrightarrow> (\<exists>th. CommitAt lib s' path h = Inr (f th) \<and>
      (\<forall>p. file_at (RepoTrees lib path) s' th p = overlaid (RepoTrees lib path) s b ov p))" by auto
    moreover from r(1) t(1) Inr have "seq (wrap_err (WrapError m) (mergeTreeObjects n ord (RepoTrees lib path) b ov)) (\<lambda>th.
      seq (store_commit lib path (f th)) (\<lambda>hash. StoreReference lib path name (HashReference hash))) s = Some (r, s')"
      by (simp add: seq_def [of "wrap_err _ _"] wrap_err_def)
    ultimately show ?thesis using r(2) by blast
  qed
qed

text \<open>C31. Merging a branch into another always returns, and touches no reference of any repository but the target branch; after an
  error not even that one.  A merge that succeeds does nothing when the branches meet, moves the target to the tip of the
  source when the target is its ancestor, and otherwise points the target at a commit whose parents are the two tips, target
  first, and whose tree has at each path the file of the source, or that of the target where the source has nothing.\<close>

theorem MergeBranch_merges:
  assumes "ref_laws lib" and "object_laws lib"
    and "PlainOpen lib (repoPath gs rr) s = Some (Inr (), s)"
    and "ResolvedReference lib s (repoPath gs rr) (NewBranchReferenceName source) = Inr src"
    and "ResolvedReference lib s (repoPath gs rr) (NewBranchReferenceName target) = Inr tgt"
    and "CommitAt lib s (repoPath gs rr) src = Inr sc" and "CommitAt lib s (repoPath gs rr) tgt = Inr tc"
    and "IsAncestor lib s (repoPath gs rr) tgt src = Inr ff"
    and "readable n (RepoTrees lib (repoPath gs rr)) s (TreeHash tc)" and "readable n (RepoTrees lib (repoPath gs rr)) s (TreeHash sc)"
  shows "\<exists>r s'. MergeBranch n ord lib now gs rr source target s = Some (r, s') \<and>
    (\<forall>p m. (p, m) \<noteq> (repoPath gs rr, NewBranchReferenceName target) \<longrightarrow> RawReference lib s' p m = RawReference lib s p m) \<and>
    (case r of
       Inl _ \<Rightarrow> RawReference lib s' (repoPath gs rr) (NewBranchReferenceName target) = RawReference lib s (repoPath gs rr) (NewBranchReferenceName target)
     | Inr _ \<Rightarrow>
         if src = tgt then s' = s
         else if ff then ResolvedReference lib s' (repoPath gs rr) (NewBranchReferenceName target) = Inr src
         else \<exists>h c. ResolvedReference lib s' (repoPath gs rr) (NewBranchReferenceName target) = Inr h \<and>
           CommitAt lib s' (repoPath gs rr) h = Inr c \<and> ParentHashes c = [tgt, src] \<and>
           (\<forall>p. file_at (RepoTrees lib (repoPath gs rr)) s' (TreeHash c) p =
              overlaid (RepoTrees lib (repoPath gs rr)) s (TreeHash tc) (TreeHash sc) p))"
proof -
  let ?path = "repoPath gs rr" let ?name = "NewBranchReferenceName target"
  note start = MergeBranch_def Let_def act_defs look_def assms(3-8)
  consider "src = tgt" | "src \<noteq> tgt" "ff" | "src \<noteq> tgt" "\<not> ff" by blast
  then show ?thesis
  proof cases
    case 1
    then show ?thesis by (simp add: start)
  next
    case 2
    have "same_refs lib s s" by (simp add: same_refs_def)
    from StoreReference_points [OF assms(1) this, of ?path ?name src] obtain r s' where
      "StoreReference lib ?path ?name (HashReference src) s = Some (r, s')" "points lib s ?path ?name r src s'" by blast
    with 2 show ?thesis by (cases r) (auto simp: start points_def same_refs_def)
  next
    case 3
    from merge_and_point [OF assms(1,2,9,10), of "''merge trees''" ord "\<lambda>th. merge_commit now source target th tgt src" ?name]
    obtain r s' h where r: "MergeBranch n ord lib now gs rr source target s = Some (r, s')" "points lib s ?path ?name r h s'"
      "r = Inr () \<longrightarrow> (\<exists>th. CommitAt lib s' ?path h = Inr (merge_commit now source target th tgt src) \<and>
        (\<forall>p. file_at (RepoTrees lib ?path) s' th p = overlaid (RepoTrees lib ?path) s (TreeHash tc) (TreeHash sc) p))"
      using 3 by (simp add: start) blast
    then show ?thesis using 3 by (cases r) (auto simp: points_def same_refs_def merge_commit_def Let_def)
  qed
qed

subsection \<open>A library that keeps the laws\<close>

record disk =
  disk_refs :: "(string \<times> string) \<Rightarrow> nat reference option"
  disk_commits :: "nat ObjectCommit list"
  disk_trees :: "nat TreeEntry list list"

definition disk_tree_store :: "(nat, disk) tree_store" where
  "disk_tree_store = \<lparr>ReadTree = \<lambda>d h. ReadTree list_store (disk_trees d) h, EncodeTree = \<lambda>_. None,
     SetEncodedTree = \<lambda>es d. (Inr (length (disk_trees d)), d\<lparr>disk_trees := disk_trees d @ [es]\<rparr>)\<rparr>"

definition disk_ref :: "disk \<Rightarrow> string \<Rightarrow> string \<Rightarrow> go_error + nat reference" where
  "disk_ref d path name = (case disk_refs d (path, name) of None \<Rightarrow> Inl (GitSentinel ErrReferenceNotFound) | Some v \<Rightarrow> Inr v)"

definition disk_resolve :: "disk \<Rightarrow> string \<Rightarrow> string \<Rightarrow> go_error + nat" where
  "disk_resolve d path name = (case disk_ref d path name of Inr (HashReference h) \<Rightarrow> Inr h | _ \<Rightarrow> Inl (GitSentinel ErrReferenceNotFound))"

definition disk_commit :: "disk \<Rightarrow> nat \<Rightarrow> go_error + nat ObjectCommit" where
  "disk_commit d h = (if h < length (disk_commits d) then Inr (disk_commits d ! h) else Inl (PlainError ''object not found''))"

definition disk_lib :: "(nat, disk) bare_lib" where
  "disk_lib = \<lparr>os_Stat = \<lambda>d path. if disk_refs d (path, ''HEAD'') = None then Some (PlainError ''no such file'') else None, os_MkdirAll = \<lambda>_. ret (), PlainInit = \<lambda>_. ret (), PlainOpen = \<lambda>_. ret (),
     RawReference = disk_ref, ResolvedReference = disk_resolve,
     StoreReference = \<lambda>path name v d. Some (Inr (), d\<lparr>disk_refs := (disk_refs d)((path, name) := Some v)\<rparr>),
     DropReference = \<lambda>path name d. Some (Inr (), d\<lparr>disk_refs := (disk_refs d)((path, name) := None)\<rparr>),
     CommitAt = \<lambda>d _. disk_commit d, EncodeCommit = \<lambda>_. None,
     SetEncodedCommit = \<lambda>_ c d. Some (Inr (length (disk_commits d)), d\<lparr>disk_commits := disk_commits d @ [c]\<rparr>),
     IsAncestor = \<lambda>d _ a b. (case disk_commit d b of Inl e \<Rightarrow> Inl e | Inr c \<Rightarrow> Inr (a \<in> set (ParentHashes c))),
     RepoTrees = \<lambda>_. disk_tree_store, CommitTree = \<lambda>_ _ c. Inr (TreeHash c),
     TreeFile = \<lambda>_ _ _ _. Inl ErrFileNotFound, FileReader = \<lambda>_ _ _. Inr '''', TreeFiles = \<lambda>_ _ _. Inr [], HashString = \<lambda>_. ''''\<rparr>"

lemma disk_ref_laws: "ref_laws disk_lib"
  by (auto simp: ref_laws_def disk_lib_def disk_ref_def disk_resolve_def disk_commit_def disk_tree_store_def same_trees_def same_commits_def ret_def split: option.splits)

lemma disk_object_laws: "object_laws disk_lib"
  by (auto simp: object_laws_def disk_lib_def disk_ref_def disk_commit_def disk_tree_store_def list_store_def tree_laws_def grows_def
      same_refs_def same_trees_def same_commits_def nth_append split: if_splits)

definition demo_server :: GitServer where
  "demo_server = new_server ''/srv''"

definition demo_rr :: RepoRef where
  "demo_rr = \<lparr>Owner = ''o'', RepoName = ''r''\<rparr>"

definition demo_tip :: "nat \<Rightarrow> nat ObjectCommit" where
  "demo_tip tree = \<lparr>CoAuthor = defaultSignature 0, CoCommitter = defaultSignature 0, CoMessage = '''', TreeHash = tree, ParentHashes = []\<rparr>"

definition demo_disk :: disk where
  "demo_disk = \<lparr>disk_refs = \<lambda>k. map_of [((repoPath demo_server demo_rr, ''refs/heads/main''), HashReference 0),
       ((repoPath demo_server demo_rr, ''refs/heads/feature''), HashReference 1)] k,
     disk_commits = [demo_tip 2, demo_tip 3], disk_trees = demo_trees\<rparr>"

lemma demo_disk_branches:
  "disk_resolve demo_disk (repoPath demo_server demo_rr) (NewBranchReferenceName ''main'') = Inr 0"
  "disk_resolve demo_disk (repoPath demo_server demo_rr) (NewBranchReferenceName ''feature'') = Inr 1"
  "disk_commit demo_disk 0 = Inr (demo_tip 2)" "disk_commit demo_disk (Suc 0) = Inr (demo_tip 3)"
  by (simp_all add: disk_resolve_def disk_ref_def disk_commit_def demo_disk_def NewBranchReferenceName_def)

lemma demo_disk_readable: "readable 2 disk_tree_store demo_disk 2" "readable 2 disk_tree_store demo_disk 3"
  by (simp_all add: numeral_2_eq_2 disk_tree_store_def demo_disk_def demo_trees_def list_store_def)

theorem MergeBranch_merges_witness:
  "\<exists>r s'. MergeBranch 2 (\<lambda>_ _. 0) disk_lib 7 demo_server demo_rr ''feature'' ''main'' demo_disk = Some (r, s') \<and>
     RawReference disk_lib s' (repoPath demo_server demo_rr) (NewBranchReferenceName ''feature'') = Inr (HashReference 1)"
proof -
  let ?path = "repoPath demo_server demo_rr"
  have lib: "PlainOpen disk_lib = (\<lambda>_. ret ())" "ResolvedReference disk_lib = disk_resolve" "CommitAt disk_lib = (\<lambda>d _. disk_commit d)"
    "IsAncestor disk_lib = (\<lambda>d _ a b. (case disk_commit d b of Inl e \<Rightarrow> Inl e | Inr c \<Rightarrow> Inr (a \<in> set (ParentHashes c))))"
    "RepoTrees disk_lib = (\<lambda>_. disk_tree_store)" "RawReference disk_lib = disk_ref" by (simp_all add: disk_lib_def)
  have tips: "TreeHash (demo_tip 2) = 2" "TreeHash (demo_tip 3) = 3" "ParentHashes (demo_tip 3) = []" by (simp_all add: demo_tip_def)
  obtain r s' where r: "MergeBranch 2 (\<lambda>_ _. 0) disk_lib 7 demo_server demo_rr ''feature'' ''main'' demo_disk = Some (r, s')"
    and kept: "\<forall>p m. (p, m) \<noteq> (?path, NewBranchReferenceName ''main'') \<longrightarrow> RawReference disk_lib s' p m = RawReference disk_lib demo_disk p m"
    using MergeBranch_merges [OF disk_ref_laws disk_object_laws, of demo_server demo_rr demo_disk "''feature''" 1 "''main''" 0
        "demo_tip 3" "demo_tip 2" False 2 "\<lambda>_ _. 0" 7]
    by (simp add: lib ret_def demo_disk_branches demo_disk_readable tips) blast
  have "disk_ref demo_disk ?path (NewBranchReferenceName ''feature'') = Inr (HashReference 1)"
    by (simp add: disk_ref_def demo_disk_def NewBranchReferenceName_def)
  with kept have "RawReference disk_lib s' ?path (NewBranchReferenceName ''feature'') = Inr (HashReference 1)"
    by (simp add: lib NewBranchReferenceName_def)
  with r show ?thesis by blast
qed

subsection \<open>New branches and new repositories\<close>

text \<open>A new branch points where its source does; nothing else changes, and an existing branch is refused.\<close>

lemma CreateBranch_points:
  assumes "ref_laws lib" and "PlainOpen lib (repoPath gs rr) s = Some (Inr (), s)"
    and "ResolvedReference lib s (repoPath gs rr) (NewBranchReferenceName source) = Inr h"
  shows "\<exists>r s'. CreateBranch lib gs rr name source s = Some (r, s') \<and>
    (case RawReference lib s (repoPath gs rr) (NewBranchReferenceName name) of
       Inr _ \<Rightarrow> r = Inl (PlainError (''branch '' @ name @ '' already exists'')) \<and> s' = s
     | Inl _ \<Rightarrow> points lib s (repoPath gs rr) (NewBranchReferenceName name) r h s')"
proof -
  note start = CreateBranch_def Let_def act_defs look_def assms(2,3)
  have "same_refs lib s s" by (simp add: same_refs_def)
  from StoreReference_points [OF assms(1) this, of "repoPath gs rr" "NewBranchReferenceName name" h] show ?thesis
    by (cases "RawReference lib s (repoPath gs rr) (NewBranchReferenceName name)") (auto simp: start)
qed

lemma seq_success: "seq m f s = Some (Inr y, s') \<Longrightarrow> \<exists>x s1. m s = Some (Inr x, s1) \<and> f x s1 = Some (Inr y, s')"
  by (auto simp: seq_def split: option.splits sum.splits)

lemma wrap_success: "wrap_err w m s = Some (Inr y, s') \<Longrightarrow> m s = Some (Inr y, s')"
  by (auto simp: wrap_err_def split: option.splits sum.splits)

lemma stored_empty_tree:
  assumes "object_laws lib" and "store_tree (RepoTrees lib path) [] s = Some (Inr h, s')"
  shows "ReadTree (RepoTrees lib path) s' h = Inr []"
proof -
  from assms(2) have "EncodeTree (RepoTrees lib path) [] = None" "SetEncodedTree (RepoTrees lib path) [] s = (Inr h, s')"
    by (auto simp: store_tree_def err_act_def act_defs split: option.splits)
  moreover from assms(1) have "tree_laws (RepoTrees lib path)" by (simp add: object_laws_def)
  ultimately show ?thesis unfolding tree_laws_def by (metis Pair_inject sum.inject(2))
qed

lemma stored_commit:
  assumes "object_laws lib" and "store_commit lib path c s = Some (Inr h, s')"
  shows "CommitAt lib s' path h = Inr c \<and> same_trees lib s s'"
proof -
  from assms(2) have "EncodeCommit lib c = None" "SetEncodedCommit lib path c s = Some (Inr h, s')"
    by (auto simp: store_commit_def err_act_def act_defs split: option.splits)
  moreover from this(1) assms(1) obtain h2 s2 where "SetEncodedCommit lib path c s = Some (Inr h2, s2)"
    "CommitAt lib s2 path h2 = Inr c" "same_trees lib s s2" unfolding object_laws_def by blast
  ultimately show ?thesis by simp
qed

lemma stored_reference:
  assumes "ref_laws lib" and "StoreReference lib path name v s = Some (Inr u, s')"
  shows "RawReference lib s' p m = (if p = path \<and> m = name then Inr v else RawReference lib s p m)"
    and "same_trees lib s s'" and "same_commits lib s s'"
proof -
  from assms(1) obtain r s2 where "StoreReference lib path name v s = Some (r, s2)" "same_trees lib s s2 \<and> same_commits lib s s2"
    "case r of Inl _ \<Rightarrow> same_refs lib s s2
     | Inr _ \<Rightarrow> \<forall>p n. RawReference lib s2 p n = (if p = path \<and> n = name then Inr v else RawReference lib s p n)"
    unfolding ref_laws_def by blast
  with assms(2) show "RawReference lib s' p m = (if p = path \<and> m = name then Inr v else RawReference lib s p m)"
    "same_trees lib s s'" "same_commits lib s s'" by simp_all
qed

text \<open>A repository that was created did not exist before.  Its default branch, \<open>main\<close> when none is named, points at a
  commit without parents whose tree holds no file, and \<open>HEAD\<close> names that branch.\<close>

theorem CreateRepo_starts_empty:
  assumes "ref_laws lib" and "object_laws lib" and "CreateRepo lib now gs rr branch s = Some (Inr (), s')"
  shows "os_Stat lib s (repoPath gs rr) \<noteq> None \<and>
    (let ref = NewBranchReferenceName (if branch = '''' then ''main'' else branch) in
      RawReference lib s' (repoPath gs rr) ''HEAD'' = Inr (SymbolicReference ref) \<and>
      (\<exists>h c. ResolvedReference lib s' (repoPath gs rr) ref = Inr h \<and> CommitAt lib s' (repoPath gs rr) h = Inr c \<and>
         ParentHashes c = [] \<and> (\<forall>p. file_at (RepoTrees lib (repoPath gs rr)) s' (TreeHash c) p = None)))"
proof -
  let ?path = "repoPath gs rr" let ?b = "if branch = '''' then ''main'' else branch" let ?ref = "NewBranchReferenceName ?b"
  from assms(3) have fresh: "os_Stat lib s ?path \<noteq> None" by (auto simp: CreateRepo_def Let_def fail_with_def split: if_splits)
  with assms(3) obtain s1 h where "createInitialCommit lib now ?path ?b s1 = Some (Inr h, s')"
    by (auto simp: CreateRepo_def Let_def ret_def dest!: seq_success wrap_success split: if_splits)
  then obtain th s2 c s3 s4 where t: "store_tree (RepoTrees lib ?path) [] s1 = Some (Inr th, s2)"
    and c: "store_commit lib ?path c s2 = Some (Inr h, s3)" "TreeHash c = th" "ParentHashes c = []"
    and b: "StoreReference lib ?path ?ref (HashReference h) s3 = Some (Inr (), s4)"
    and hd: "StoreReference lib ?path ''HEAD'' (SymbolicReference ?ref) s4 = Some (Inr (), s')"
    by (fastforce simp: createInitialCommit_def Let_def ret_def dest!: seq_success)
  note refs = stored_reference [OF assms(1) b] stored_reference [OF assms(1) hd]
  note kept = stored_empty_tree [OF assms(2) t] stored_commit [OF assms(2) c(1)]
  have "?ref \<noteq> ''HEAD''" by (simp add: NewBranchReferenceName_def)
  then have raw: "RawReference lib s' ?path ?ref = Inr (HashReference h)" using refs by simp
  have "ResolvedReference lib s' ?path ?ref = Inr h" using assms(1) raw by (simp add: ref_laws_def)
  moreover have "CommitAt lib s' ?path h = Inr c" using refs kept by (simp add: same_commits_def)
  moreover have "ReadTree (RepoTrees lib ?path) s' th = Inr []" using refs kept by (simp add: same_trees_def)
  then have "file_at (RepoTrees lib ?path) s' (TreeHash c) p = None" for p
    using c(2) by (cases p) (simp_all add: entry_of_def)
  moreover have "RawReference lib s' ?path ''HEAD'' = Inr (SymbolicReference ?ref)" using refs by simp
  ultimately show ?thesis using fresh c(3) unfolding Let_def by blast
qed

theorem CreateRepo_starts_empty_witness:
  "\<exists>s'. CreateRepo disk_lib 7 demo_server demo_rr '''' demo_disk = Some (Inr (), s') \<and>
     RawReference disk_lib s' (repoPath demo_server demo_rr) ''HEAD'' = Inr (SymbolicReference ''refs/heads/main'')"
proof -
  obtain s' where run: "CreateRepo disk_lib 7 demo_server demo_rr '''' demo_disk = Some (Inr (), s')"
    by (simp add: CreateRepo_def createInitialCommit_def store_tree_def store_commit_def err_act_def act_defs Let_def disk_lib_def
        disk_tree_store_def demo_disk_def)
  from CreateRepo_starts_empty [OF disk_ref_laws disk_object_laws run] run show ?thesis by (auto simp: Let_def NewBranchReferenceName_def)
qed

end
