(* ===== verification/Git_Search.thy ===== *)
theory Git_Search
  imports Git_Repository Kube_Json
begin

text \<open>
  Looking for Kubernetes objects in the repositories of the test git server (\<open>pkg/envtest/assertions.go\<close>).

  An object is the type \<open>'o\<close>; what apimachinery and the YAML and JSON libraries say of it is the parameter \<open>object_lib\<close>.
\<close>

record 'o object_lib =
  ObjGroup :: "'o \<Rightarrow> string"
  ObjVersion :: "'o \<Rightarrow> string"
  ObjKind :: "'o \<Rightarrow> string"
  Accessor :: "'o \<Rightarrow> go_error + (string \<times> string)"
  ObjMarshal :: "'o \<Rightarrow> go_error + string"
  DocUnmarshal :: "string \<Rightarrow> go_error + jobj"
  JsonMarshal :: "json \<Rightarrow> go_error + string"

record ObjectFile =
  OfPath :: string
  OfContent :: string

subsection \<open>Documents and fields\<close>

definition splitYamlDocuments :: "string \<Rightarrow> string list" where
  "splitYamlDocuments content =
     (let docs = filter (\<lambda>t. t \<noteq> '''' \<and> t \<noteq> ''---'') (map TrimSpace (Split content ([newline] @ ''---'' @ [newline]))) in
      if docs = [] then [content] else docs)"

fun lookup_keys :: "string list \<Rightarrow> json \<Rightarrow> json option" where
  "lookup_keys [] current = Some current"
| "lookup_keys (k # ks) current =
     (case assert_obj (Some current) of
        None \<Rightarrow> None
      | Some m \<Rightarrow> (case map_of m k of None \<Rightarrow> None | Some v \<Rightarrow> lookup_keys ks v))"

definition lookupYamlField :: "jobj \<Rightarrow> string \<Rightarrow> json option" where
  "lookupYamlField parsed path = lookup_keys (Split path ''.'') (JObj parsed)"

definition asString :: "json option \<Rightarrow> string" where
  \<comment> \<open>A missing field reads as nil.\<close>
  "asString v = (case v of Some (JStr s) \<Rightarrow> s | _ \<Rightarrow> '''')"

definition fieldsMatch :: "(json \<Rightarrow> go_error + string) \<Rightarrow> jobj \<Rightarrow> jobj \<Rightarrow> string \<Rightarrow> bool" where
  "fieldsMatch marshal a b field =
     (case (map_of a field, map_of b field) of
        (None, None) \<Rightarrow> True
      | (Some va, Some vb) \<Rightarrow>
          (case marshal va of
             Inl _ \<Rightarrow> False
           | Inr ja \<Rightarrow> (case marshal vb of Inl _ \<Rightarrow> False | Inr jb \<Rightarrow> ja = jb))
      | _ \<Rightarrow> False)"

definition group_version :: "string \<Rightarrow> string \<Rightarrow> string" where
  \<comment> \<open>\<open>GroupVersion.String\<close>\<close>
  "group_version g v = (if g \<noteq> '''' then g @ ''/'' @ v else v)"

subsection \<open>Matching\<close>

definition matches_identity :: "string \<Rightarrow> string \<Rightarrow> string \<Rightarrow> string \<Rightarrow> jobj \<Rightarrow> bool" where
  \<comment> \<open>One turn of the loop over the documents.\<close>
  "matches_identity wantAPIVersion wantKind wantName wantNamespace parsed \<longleftrightarrow>
     asString (lookupYamlField parsed ''kind'') = wantKind \<and>
     asString (lookupYamlField parsed ''metadata.name'') = wantName \<and>
     asString (lookupYamlField parsed ''metadata.namespace'') = wantNamespace \<and>
     \<not> (wantAPIVersion \<noteq> '''' \<and> \<not> HasPrefix wantAPIVersion ''/'' \<and> asString (lookupYamlField parsed ''apiVersion'') \<noteq> wantAPIVersion)"

definition any_document :: "(string \<Rightarrow> go_error + jobj) \<Rightarrow> (jobj \<Rightarrow> bool) \<Rightarrow> string \<Rightarrow> bool" where
  \<comment> \<open>The loop that returns true at the first document that passes; one that does not parse is skipped.\<close>
  "any_document unmarshal P content = list_ex (\<lambda>doc. case unmarshal doc of Inl _ \<Rightarrow> False | Inr parsed \<Rightarrow> P parsed) (splitYamlDocuments content)"

definition documentMatchesIdentity :: "'o object_lib \<Rightarrow> string \<Rightarrow> 'o \<Rightarrow> string \<times> string \<Rightarrow> bool" where
  "documentMatchesIdentity lib content obj metadata =
     any_document (DocUnmarshal lib)
       (matches_identity (group_version (ObjGroup lib obj) (ObjVersion lib obj)) (ObjKind lib obj) (fst metadata) (snd metadata)) content"

definition matches_spec :: "(json \<Rightarrow> go_error + string) \<Rightarrow> jobj \<Rightarrow> jobj \<Rightarrow> bool" where
  "matches_spec marshal objSpec parsed \<longleftrightarrow>
     fieldsMatch marshal parsed objSpec ''spec'' \<and> fieldsMatch marshal parsed objSpec ''data'' \<and>
     (map_of parsed ''spec'' \<noteq> None \<or> map_of parsed ''data'' \<noteq> None)"

definition documentMatchesSpec :: "'o object_lib \<Rightarrow> string \<Rightarrow> jobj \<Rightarrow> bool" where
  "documentMatchesSpec lib content objSpec = any_document (DocUnmarshal lib) (matches_spec (JsonMarshal lib) objSpec) content"

subsection \<open>Searching\<close>

definition object_spec :: "'o object_lib \<Rightarrow> bool \<Rightarrow> 'o \<Rightarrow> go_error + jobj" where
  "object_spec lib matchSpec obj =
     (if \<not> matchSpec then Inr []
      else case ObjMarshal lib obj of
        Inl err \<Rightarrow> Inl (WrapError ''marshal object'' err)
      | Inr objYaml \<Rightarrow>
          (case DocUnmarshal lib objYaml of Inl err \<Rightarrow> Inl (WrapError ''unmarshal object'' err) | Inr objSpec \<Rightarrow> Inr objSpec))"

primrec search_files :: "(string \<Rightarrow> (string, 's) act) \<Rightarrow> (string \<Rightarrow> bool) \<Rightarrow> string list \<Rightarrow> (ObjectFile list, 's) act" where
  \<comment> \<open>The loop over the paths; a file that cannot be read is skipped.\<close>
  "search_files read keep [] = ret []"
| "search_files read keep (p # ps) =
     seq (try_act (read p)) (\<lambda>content.
     seq (search_files read keep ps) (\<lambda>rest.
     ret (case content of Inl _ \<Rightarrow> rest | Inr c \<Rightarrow> if keep c then \<lparr>OfPath = p, OfContent = c\<rparr> # rest else rest)))"

definition searchForObject :: "'o object_lib \<Rightarrow> ('h, 's) bare_lib \<Rightarrow> GitServer \<Rightarrow> RepoRef \<Rightarrow> string \<Rightarrow> 'o \<Rightarrow> bool \<Rightarrow> (ObjectFile list, 's) act" where
  "searchForObject olib lib gs rr branch obj matchSpec =
     seq (ListFiles lib gs rr branch) (\<lambda>paths.
     seq (wrap_err (WrapError ''access metadata'') (look (\<lambda>_. Accessor olib obj))) (\<lambda>metadata.
     seq (look (\<lambda>_. object_spec olib matchSpec obj)) (\<lambda>objSpec.
     search_files (ReadFile lib gs rr branch)
       (\<lambda>content. documentMatchesIdentity olib content obj metadata \<and> (matchSpec \<longrightarrow> documentMatchesSpec olib content objSpec)) paths)))"

definition IsObjectInRepo :: "'o object_lib \<Rightarrow> ('h, 's) bare_lib \<Rightarrow> GitServer \<Rightarrow> RepoRef \<Rightarrow> string \<Rightarrow> 'o \<Rightarrow> (bool, 's) act" where
  "IsObjectInRepo olib lib gs rr branch obj = seq (searchForObject olib lib gs rr branch obj False) (\<lambda>files. ret (0 < length files))"

definition SearchForObjectInRepo :: "'o object_lib \<Rightarrow> ('h, 's) bare_lib \<Rightarrow> GitServer \<Rightarrow> RepoRef \<Rightarrow> string \<Rightarrow> 'o \<Rightarrow> (ObjectFile list, 's) act" where
  "SearchForObjectInRepo olib lib gs rr branch obj = searchForObject olib lib gs rr branch obj True"

definition IsFieldDefined :: "'o object_lib \<Rightarrow> ('h, 's) bare_lib \<Rightarrow> GitServer \<Rightarrow> RepoRef \<Rightarrow> string \<Rightarrow> 'o \<Rightarrow> string \<Rightarrow> (bool, 's) act" where
  "IsFieldDefined olib lib gs rr branch obj yamlPath =
     seq (searchForObject olib lib gs rr branch obj False) (\<lambda>files.
     ret (list_ex (\<lambda>f. case DocUnmarshal olib (OfContent f) of
        Inl _ \<Rightarrow> False | Inr parsed \<Rightarrow> lookupYamlField parsed yamlPath \<noteq> None) files))"

subsection \<open>What a search finds\<close>

definition pure_act :: "('a, 's) act \<Rightarrow> bool" where
  \<comment> \<open>It returns, and the state is as before.\<close>
  "pure_act m \<longleftrightarrow> (\<forall>s. \<exists>r. m s = Some (r, s))"

named_theorems act_pure

lemma pure_ret [act_pure]: "pure_act (ret x)"
  by (simp add: pure_act_def ret_def)

lemma pure_look [act_pure]: "pure_act (look f)"
  by (simp add: pure_act_def look_def)

lemma pure_actD: "pure_act m \<Longrightarrow> m s = Some (r, s1) \<Longrightarrow> s1 = s"
  unfolding pure_act_def by (metis option.inject prod.inject)

lemma pure_seq [act_pure]:
  assumes "pure_act m" and "\<And>x. pure_act (f x)"
  shows "pure_act (seq m f)"
  unfolding pure_act_def
proof
  fix s
  from assms(1) obtain r where r: "m s = Some (r, s)" unfolding pure_act_def by blast
  show "\<exists>r. seq m f s = Some (r, s)"
  proof (cases r)
    case (Inr x)
    from assms(2) [of x] obtain r2 where "f x s = Some (r2, s)" unfolding pure_act_def by blast
    with r Inr show ?thesis by (simp add: seq_def)
  qed (simp add: seq_def r)
qed

lemma pure_wrap [act_pure]: "pure_act m \<Longrightarrow> pure_act (wrap_err w m)"
  unfolding pure_act_def
proof
  fix s
  assume "\<forall>s. \<exists>r. m s = Some (r, s)"
  then obtain r where "m s = Some (r, s)" by blast
  then show "\<exists>r. wrap_err w m s = Some (r, s)" by (cases r) (simp_all add: wrap_err_def)
qed

lemma pure_branch_tree [act_pure]: "ref_laws lib \<Longrightarrow> pure_act (branch_tree lib path branch)"
proof -
  assume "ref_laws lib"
  then have [act_pure]: "pure_act (PlainOpen lib path)" by (simp add: pure_act_def ref_laws_def)
  show ?thesis unfolding branch_tree_def branch_commit_def split_beta by (intro act_pure)
qed

lemma pure_ReadFile: "ref_laws lib \<Longrightarrow> pure_act (ReadFile lib gs rr branch path)"
  unfolding ReadFile_def Let_def by (intro act_pure)

lemma pure_ListFiles: "ref_laws lib \<Longrightarrow> pure_act (ListFiles lib gs rr branch)"
  unfolding ListFiles_def Let_def by (intro act_pure)

definition file_content :: "('h, 's) bare_lib \<Rightarrow> GitServer \<Rightarrow> RepoRef \<Rightarrow> string \<Rightarrow> 's \<Rightarrow> string \<Rightarrow> string option" where
  \<comment> \<open>The content of a file that can be read.\<close>
  "file_content lib gs rr branch s p = (case ReadFile lib gs rr branch p s of Some (Inr c, _) \<Rightarrow> Some c | _ \<Rightarrow> None)"

lemma search_files_all:
  assumes "\<And>p. pure_act (read p)"
  shows "search_files read keep ps s = Some (Inr (concat (map (\<lambda>p. case read p s of
    Some (Inr c, _) \<Rightarrow> if keep c then [\<lparr>OfPath = p, OfContent = c\<rparr>] else [] | _ \<Rightarrow> []) ps)), s)"
proof (induction ps)
  case (Cons p ps)
  from assms [of p] obtain r where "read p s = Some (r, s)" unfolding pure_act_def by blast
  with Cons show ?case by (cases r) (simp_all add: act_defs)
qed (simp add: ret_def)

lemma any_document_iff:
  "any_document unmarshal P content \<longleftrightarrow> (\<exists>doc \<in> set (splitYamlDocuments content). \<exists>m. unmarshal doc = Inr m \<and> P m)"
proof -
  have "(case unmarshal doc of Inl _ \<Rightarrow> False | Inr m \<Rightarrow> P m) \<longleftrightarrow> (\<exists>m. unmarshal doc = Inr m \<and> P m)" for doc
    by (cases "unmarshal doc") auto
  then show ?thesis by (simp add: any_document_def list_ex_iff)
qed

lemma set_matches:
  "set (concat (map (\<lambda>p. case g p of Some c \<Rightarrow> if k c then [f p c] else [] | None \<Rightarrow> []) ps)) = {f p c | p c. p \<in> set ps \<and> g p = Some c \<and> k c}"
proof (induction ps)
  case (Cons p ps)
  have "{f q c | q c. q \<in> set (p # ps) \<and> g q = Some c \<and> k c} =
      {f p c | c. g p = Some c \<and> k c} \<union> {f q c | q c. q \<in> set ps \<and> g q = Some c \<and> k c}" by auto
  with Cons show ?case by (cases "g p") auto
qed simp

lemma searchForObject_files:
  assumes "ref_laws lib" and "ListFiles lib gs rr branch s = Some (Inr paths, s1)" and "Accessor olib obj = Inr metadata"
    and "object_spec olib matchSpec obj = Inr objSpec"
  shows "\<exists>files. searchForObject olib lib gs rr branch obj matchSpec s = Some (Inr files, s) \<and>
    set files = {\<lparr>OfPath = p, OfContent = c\<rparr> | p c. p \<in> set paths \<and> file_content lib gs rr branch s p = Some c \<and>
      documentMatchesIdentity olib c obj metadata \<and> (matchSpec \<longrightarrow> documentMatchesSpec olib c objSpec)}"
proof -
  from pure_ListFiles [OF assms(1), of gs rr branch] assms(2) have "s1 = s" by (rule pure_actD)
  let ?keep = "\<lambda>c. documentMatchesIdentity olib c obj metadata \<and> (matchSpec \<longrightarrow> documentMatchesSpec olib c objSpec)"
  note all = search_files_all [where read = "ReadFile lib gs rr branch" and keep = ?keep and ps = paths and s = s, OF pure_ReadFile [OF assms(1)]]
  from assms(2-4) \<open>s1 = s\<close> have "searchForObject olib lib gs rr branch obj matchSpec s = search_files (ReadFile lib gs rr branch) ?keep paths s"
    by (simp add: searchForObject_def act_defs look_def)
  moreover have "(case ReadFile lib gs rr branch p s of Some (Inr c, _) \<Rightarrow> if ?keep c then [\<lparr>OfPath = p, OfContent = c\<rparr>] else [] | _ \<Rightarrow> []) =
      (case file_content lib gs rr branch s p of Some c \<Rightarrow> if ?keep c then [\<lparr>OfPath = p, OfContent = c\<rparr>] else [] | None \<Rightarrow> [])" for p
    by (simp add: file_content_def split: option.split sum.split)
  ultimately have "searchForObject olib lib gs rr branch obj matchSpec s = Some (Inr (concat (map (\<lambda>p.
      case file_content lib gs rr branch s p of Some c \<Rightarrow> if ?keep c then [\<lparr>OfPath = p, OfContent = c\<rparr>] else [] | None \<Rightarrow> []) paths)), s)"
    using all by simp
  then show ?thesis by (intro exI conjI) (assumption, rule set_matches)
qed

text \<open>An object is reported to be in a repository exactly when some file of the branch can be read and has a document that
  parses, with the kind, name and namespace of the object, and with its API version unless the object carries none.\<close>

theorem IsObjectInRepo_iff:
  assumes "ref_laws lib" and "ListFiles lib gs rr branch s = Some (Inr paths, s1)" and "Accessor olib obj = Inr (name, ns)"
  shows "IsObjectInRepo olib lib gs rr branch obj s = Some (Inr (\<exists>p \<in> set paths. \<exists>content. file_content lib gs rr branch s p = Some content \<and>
    (\<exists>doc \<in> set (splitYamlDocuments content). \<exists>m. DocUnmarshal olib doc = Inr m \<and>
       asString (lookupYamlField m ''kind'') = ObjKind olib obj \<and>
       asString (lookupYamlField m ''metadata.name'') = name \<and>
       asString (lookupYamlField m ''metadata.namespace'') = ns \<and>
       (let want = group_version (ObjGroup olib obj) (ObjVersion olib obj) in
        want = '''' \<or> HasPrefix want ''/'' \<or> asString (lookupYamlField m ''apiVersion'') = want))), s)"
proof -
  have "object_spec olib False obj = Inr []" by (simp add: object_spec_def)
  from searchForObject_files [OF assms this] obtain files where
    files: "searchForObject olib lib gs rr branch obj False s = Some (Inr files, s)"
      "set files = {\<lparr>OfPath = p, OfContent = c\<rparr> | p c. p \<in> set paths \<and> file_content lib gs rr branch s p = Some c \<and>
        documentMatchesIdentity olib c obj (name, ns)}" by auto
  have "0 < length files \<longleftrightarrow> (\<exists>p \<in> set paths. \<exists>c. file_content lib gs rr branch s p = Some c \<and> documentMatchesIdentity olib c obj (name, ns))"
    unfolding length_greater_0_conv set_empty [symmetric] files(2) by blast
  moreover have "documentMatchesIdentity olib c obj (name, ns) \<longleftrightarrow>
    (\<exists>doc \<in> set (splitYamlDocuments c). \<exists>m. DocUnmarshal olib doc = Inr m \<and>
       asString (lookupYamlField m ''kind'') = ObjKind olib obj \<and>
       asString (lookupYamlField m ''metadata.name'') = name \<and>
       asString (lookupYamlField m ''metadata.namespace'') = ns \<and>
       (let want = group_version (ObjGroup olib obj) (ObjVersion olib obj) in
        want = '''' \<or> HasPrefix want ''/'' \<or> asString (lookupYamlField m ''apiVersion'') = want))" for c
    by (simp only: documentMatchesIdentity_def any_document_iff matches_identity_def Let_def fst_conv snd_conv de_Morgan_conj not_not)
  ultimately show ?thesis using files(1) by (simp only: IsObjectInRepo_def seq_def ret_def option.case sum.case prod.case)
qed

subsection \<open>A small library\<close>

text \<open>Documents are known by their text: a config map, and a document that has the data of another one.\<close>

definition demo_meta :: "string \<Rightarrow> json" where
  "demo_meta name = JObj [(''name'', JStr name), (''namespace'', JStr ''ns'')]"

definition demo_wanted :: jobj where
  "demo_wanted = [(''apiVersion'', JStr ''v1''), (''kind'', JStr ''ConfigMap''), (''metadata'', demo_meta ''cm''), (''data'', JStr ''new'')]"

definition demo_unmarshal :: "string \<Rightarrow> go_error + jobj" where
  "demo_unmarshal doc =
     (if doc = ''A'' then Inr [(''apiVersion'', JStr ''v1''), (''kind'', JStr ''ConfigMap''), (''metadata'', demo_meta ''cm''), (''data'', JStr ''old'')]
      else if doc = ''B'' then Inr [(''apiVersion'', JStr ''v1''), (''kind'', JStr ''ConfigMap''), (''metadata'', demo_meta ''other''), (''data'', JStr ''new'')]
      else if doc = ''O'' then Inr demo_wanted
      else Inl (PlainError ''not yaml''))"

definition demo_objects :: "unit object_lib" where
  "demo_objects = \<lparr>ObjGroup = \<lambda>_. '''', ObjVersion = \<lambda>_. ''v1'', ObjKind = \<lambda>_. ''ConfigMap'', Accessor = \<lambda>_. Inr (''cm'', ''ns''),
     ObjMarshal = \<lambda>_. Inr ''O'', DocUnmarshal = demo_unmarshal, JsonMarshal = \<lambda>v. Inr (asString (Some v))\<rparr>"

definition search_disk :: "(nat, disk) bare_lib" where
  \<comment> \<open>Every tree holds one file with two documents.\<close>
  "search_disk = disk_lib\<lparr>TreeFiles := \<lambda>_ _ _. Inr [''cm.yaml''], TreeFile := \<lambda>_ _ _ _. Inr 9,
     FileReader := \<lambda>_ _ _. Inr (''A'' @ [newline] @ ''---'' @ [newline] @ ''B'')\<rparr>"

lemma search_disk_laws: "ref_laws search_disk"
  by (auto simp: search_disk_def ref_laws_def disk_lib_def disk_ref_def disk_resolve_def disk_commit_def disk_tree_store_def same_trees_def
      same_commits_def ret_def split: option.splits)

lemma search_disk_run:
  "ListFiles search_disk demo_server demo_rr ''main'' demo_disk = Some (Inr [''cm.yaml''], demo_disk)"
  "ReadFile search_disk demo_server demo_rr ''main'' ''cm.yaml'' demo_disk = Some (Inr (''A'' @ [newline] @ ''---'' @ [newline] @ ''B''), demo_disk)"
proof -
  have sel: "PlainOpen search_disk = (\<lambda>_. ret ())" "ResolvedReference search_disk = disk_resolve" "CommitAt search_disk = (\<lambda>d _. disk_commit d)"
    "CommitTree search_disk = (\<lambda>_ _ c. Inr (TreeHash c))" "TreeFiles search_disk = (\<lambda>_ _ _. Inr [''cm.yaml''])"
    "TreeFile search_disk = (\<lambda>_ _ _ _. Inr 9)" "FileReader search_disk = (\<lambda>_ _ _. Inr (''A'' @ [newline] @ ''---'' @ [newline] @ ''B''))"
    by (simp_all add: search_disk_def disk_lib_def)
  note defs = branch_tree_def branch_commit_def act_defs look_def Let_def sel demo_disk_branches
  show "ListFiles search_disk demo_server demo_rr ''main'' demo_disk = Some (Inr [''cm.yaml''], demo_disk)"
    by (simp add: ListFiles_def defs)
  show "ReadFile search_disk demo_server demo_rr ''main'' ''cm.yaml'' demo_disk = Some (Inr (''A'' @ [newline] @ ''---'' @ [newline] @ ''B''), demo_disk)"
    by (simp add: ReadFile_def defs)
qed

lemma demo_documents: "splitYamlDocuments (''A'' @ [newline] @ ''---'' @ [newline] @ ''B'') = [''A'', ''B'']"
  by code_simp

lemma demo_identity: "matches_identity ''v1'' ''ConfigMap'' ''cm'' ''ns'' [(''apiVersion'', JStr ''v1''), (''kind'', JStr ''ConfigMap''), (''metadata'', demo_meta ''cm''), (''data'', JStr ''old'')]"
  by code_simp

theorem IsObjectInRepo_iff_witness:
  "IsObjectInRepo demo_objects search_disk demo_server demo_rr ''main'' () demo_disk = Some (Inr True, demo_disk)"
proof -
  have acc: "Accessor demo_objects () = Inr (''cm'', ''ns'')" by (simp add: demo_objects_def)
  have content: "file_content search_disk demo_server demo_rr ''main'' demo_disk ''cm.yaml'' = Some (''A'' @ [newline] @ ''---'' @ [newline] @ ''B'')"
    by (simp add: file_content_def search_disk_run)
  have doc: "\<exists>m. DocUnmarshal demo_objects ''A'' = Inr m \<and>
       asString (lookupYamlField m ''kind'') = ObjKind demo_objects () \<and>
       asString (lookupYamlField m ''metadata.name'') = ''cm'' \<and>
       asString (lookupYamlField m ''metadata.namespace'') = ''ns'' \<and>
       (let want = group_version (ObjGroup demo_objects ()) (ObjVersion demo_objects ()) in
        want = '''' \<or> HasPrefix want ''/'' \<or> asString (lookupYamlField m ''apiVersion'') = want)"
    using demo_identity by (simp add: demo_objects_def demo_unmarshal_def matches_identity_def group_version_def)
  have "''A'' \<in> set (splitYamlDocuments (''A'' @ [newline] @ ''---'' @ [newline] @ ''B''))" unfolding demo_documents by simp
  with doc content IsObjectInRepo_iff [OF search_disk_laws search_disk_run(1) acc] show ?thesis by auto
qed

text \<open>
  A file is returned by a search on identity and content when one of its documents has the identity of the object and
  another one its data: the two are not asked of the same document.
\<close>

lemma search_mixes_documents:
  "SearchForObjectInRepo demo_objects search_disk demo_server demo_rr ''main'' () demo_disk \<noteq> Some (Inr [], demo_disk) \<and>
   (\<forall>doc \<in> {''A'', ''B''}. \<not> (documentMatchesIdentity demo_objects doc () (''cm'', ''ns'') \<and>
      documentMatchesSpec demo_objects doc demo_wanted))"
proof
  have "documentMatchesSpec demo_objects ''A'' demo_wanted = False"
    "documentMatchesIdentity demo_objects ''B'' () (''cm'', ''ns'') = False" by code_simp+
  then show "\<forall>doc \<in> {''A'', ''B''}. \<not> (documentMatchesIdentity demo_objects doc () (''cm'', ''ns'') \<and>
      documentMatchesSpec demo_objects doc demo_wanted)"
    by simp
  have spec: "object_spec demo_objects True () = Inr demo_wanted"
    by code_simp
  have acc: "Accessor demo_objects () = Inr (''cm'', ''ns'')" by (simp add: demo_objects_def)
  have content: "file_content search_disk demo_server demo_rr ''main'' demo_disk ''cm.yaml'' = Some (''A'' @ [newline] @ ''---'' @ [newline] @ ''B'')"
    by (simp add: file_content_def search_disk_run)
  have "documentMatchesIdentity demo_objects (''A'' @ [newline] @ ''---'' @ [newline] @ ''B'') () (''cm'', ''ns'')"
    "documentMatchesSpec demo_objects (''A'' @ [newline] @ ''---'' @ [newline] @ ''B'') demo_wanted"
    by code_simp+
  moreover obtain files where files: "searchForObject demo_objects search_disk demo_server demo_rr ''main'' () True demo_disk = Some (Inr files, demo_disk)"
    "set files = {\<lparr>OfPath = p, OfContent = c\<rparr> | p c. p \<in> set [''cm.yaml''] \<and> file_content search_disk demo_server demo_rr ''main'' demo_disk p = Some c \<and>
      documentMatchesIdentity demo_objects c () (''cm'', ''ns'') \<and> (True \<longrightarrow> documentMatchesSpec demo_objects c
        demo_wanted)}"
    using searchForObject_files [OF search_disk_laws search_disk_run(1) acc spec] by blast
  ultimately have "\<exists>f. f \<in> set files" unfolding files(2) using content list.set_intros(1) [of "''cm.yaml''" "[]"] by blast
  with files(1) show "SearchForObjectInRepo demo_objects search_disk demo_server demo_rr ''main'' () demo_disk \<noteq> Some (Inr [], demo_disk)"
    unfolding SearchForObjectInRepo_def by (metis empty_iff list.set(1) option.inject prod.inject sum.inject(2))
qed

end
