(* ===== verification/Spec2Isabelle.thy ===== *)
theory Spec2Isabelle
  imports Placement Manager User_Policy Association Admission_V1beta4 Git_Search
begin

text \<open>
  \<^bold>\<open>Syngit.\<close>  Syngit is a Kubernetes operator that keeps a git repository in line with a cluster: an admission webhook
  intercepts the changes a \<open>RemoteSyncer\<close> (or a \<open>ClusterWideRemoteSyncer\<close>) scopes, renders the object, commits
  and pushes it with the credentials of the author, and lets the change through or blocks it.  This development models
  the Go code under \<open>src/internal\<close>, \<open>src/pkg\<close> and \<open>src/cmd\<close> and states what it promises.

  \<^bold>\<open>How the parts work together.\<close>  Objects of the API group are admitted by webhooks (permissions, validation, stamping
  of managed users).  The controllers reconcile them: a syncer gets a handler on its path and an entry in the one shared
  webhook configuration, and its policies create and prune managed targets and bindings.  A request for a scoped
  resource reaches the handler of its path; the interception pipeline finds the binding and the targets of the author,
  reviews the references of the syncer, and runs one git pipeline per target: lease the repository from the cache,
  build the worktree by the merge strategy, run the mutation providers, place their artifacts, commit, push.

  \<^bold>\<open>Theories, in the order of their imports.\<close>
  \<^item> \<open>Syngit_Prelude\<close>, \<open>Go_Strings\<close>, \<open>Go_Paths\<close>, \<open>Kube_Json\<close>, \<open>Sha256\<close>: association lists and map iteration in any order; the
    functions of the standard library the program uses, on strings, paths, JSON values and bytes.
  \<^item> \<open>Api_Types\<close> (\<open>pkg/api/v1beta5\<close>), \<open>Syngit_Errors\<close> (\<open>pkg/errors\<close>), \<open>Syncer_Context\<close> (\<open>pkg/interceptor\<close>, \<open>pkg/kube\<close>): records for
    the structs, one error constructor per error struct with its text, \<open>Is\<close> and \<open>Unwrap\<close>.  Shown: wrapped errors are
    recognised, and the standard \<open>errors.Is\<close> does not return on most of them.
  \<^item> \<open>Lfu_Cache\<close> (\<open>internal/cache\<close>): counters are 32-bit words.  Shown: capacity and counter bounds after any sequence of
    operations, eviction of a least-used entry, refinement of a map that may forget; the contract of a cache is the
    locale \<open>bounded_cache\<close> with its extension \<open>loading_cache\<close>.
  \<^item> \<open>Walker_Docs\<close>, \<open>Walker\<close> (\<open>internal/walker\<close>): documents of a YAML file and the walk over the worktree, over a filesystem given
    by its calls.  Shown: siblings survive byte for byte, every copy is rewritten, untouched documents are not transformed.
  \<^item> \<open>Features\<close> (\<open>pkg/feature\<close>), \<open>Render\<close> (\<open>pkg/render\<close>): feature gates and excluded fields; printing and setting gates is a round
    trip, and for a path written in the documented syntax, removing a field removes exactly the field it spells.
  \<^item> \<open>Kube_Client\<close>: the API server as a record of calls over a cluster state, with the laws \<open>store_laws\<close> that some properties assume.
  \<^item> \<open>Refs_Rbac\<close> (\<open>pkg/refs\<close>, \<open>pkg/rbac\<close>), \<open>Admission\<close> (permission handlers of \<open>internal/webhook/v1beta5\<close>): an admitted object only
    references what its author may read, and only scopes what its author may do.
  \<^item> \<open>Interceptor_Targets\<close> (\<open>target.go\<close>, \<open>k8s_references.go\<close>, \<open>subject.go\<close>, \<open>tls.go\<close>): whose credentials push where.  Shown: the
    credentials of a bound author stay on the host of their remote user.
  \<^item> \<open>Providers\<close>, \<open>Mutator\<close>, \<open>Placement\<close> (\<open>internal/mutator\<close>): Helm, Flux, Kustomize and SOPS providers, artifacts and their placement.
    Shown: the default layout keeps objects apart, and with SOPS on nothing is placed that was not encrypted or exempt.
  \<^item> \<open>Git_Lib\<close>, \<open>Repo_Lease\<close>, \<open>Pusher\<close>, \<open>Pusher_Safety\<close> (\<open>internal/pusher\<close>): go-git as a record of calls on an opaque state, leases of
    cached repositories, and the pipeline.  Shown: two pipelines never hold one repository, leases are given back on every path, a pipeline
    on its own returns, the network calls stay within the parameters, a push survives exactly its number of
    retries; two crossed pipelines can wait for each other for ever.
  \<^item> \<open>Interceptor_Pipeline\<close> (\<open>pipeline.go\<close>, \<open>response.go\<close>, \<open>k8s_utils.go\<close>, \<open>dynamic_webhook_handlers.go\<close>): the interception, the review,
    the status updates, the routes, and the registry of handlers, whose contract is the locale \<open>handler_registry\<close>.
  \<^item> \<open>Managed\<close> (\<open>pkg/naming\<close>, \<open>pkg/managed\<close>), \<open>Policies\<close>, \<open>User_Policy\<close> (\<open>internal/policy\<close>): derived names, managed bindings, and the policies behind
    their finalizers.  Shown: pruning deletes only orphans, and the user policy creates targets only for users with a managed binding.
  \<^item> \<open>Dynamic_Webhook\<close>, \<open>Controllers\<close> (\<open>internal/controller\<close>): the shared configuration and all five reconciles.  Shown: interleaved reconciles
    keep every entry, and a reconcile brings the interception of its syncer in line.
  \<^item> \<open>Validation\<close> (validators of \<open>internal/webhook/v1beta5\<close>), \<open>Managed_Users\<close>: a validated cluster-wide syncer is complete when
    it intercepts; an accepted excluded path is built of the characters of its regular expression; a managed user belongs to who wrote it.
  \<^item> \<open>Association\<close> (\<open>association_policy.go\<close> over the store): which binding a stamped user joins, and that its subject is not checked.
  \<^item> \<open>Api_V1beta4\<close> (\<open>pkg/api/v1beta4\<close>), \<open>Admission_V1beta4\<close> (\<open>internal/webhook/v1beta4\<close>): the deprecated version, its conversion, and its
    webhooks, which the program no longer registers.
  \<^item> \<open>Manager\<close> (\<open>cmd/main.go\<close>, the \<open>SetupWithManager\<close> functions): the start of the program as a chain of steps that exits on the first error,
    and what each controller watches.  Shown: a running program has every controller and handler, changes reach the objects
    that depend on them, and the filter of secure metrics gets lost.
  \<^item> \<open>Git_Server\<close>, \<open>Git_Trees\<close>, \<open>Git_Repository\<close>, \<open>Git_Search\<close> (\<open>pkg/envtest\<close>): the git server of the integration tests, its users and
    permissions, its repositories over a record of go-git calls, merges, and the search for objects.  Shown: a merge is the overlay of two trees
    and moves only the target branch, a new repository starts empty, and what a search finds.

  \<^bold>\<open>Conventions.\<close>  A Go function that returns a value and an error returns \<open>error + 'a\<close>; state is passed explicitly; a
  loop that may wait for a lock returns \<open>None\<close> when it waits for ever.  The order of a Go map is an argument.
  Third-party code (the API server, go-git, YAML and JSON coding, URL parsing, Helm, Flux, Kustomize, SOPS, the
  filesystem) is an argument of the definitions; what a property relies on is a named predicate of its statement
  (\<open>store_laws\<close>, \<open>fs_laws\<close>, \<open>tree_laws\<close>, \<open>ref_laws\<close>, \<open>object_laws\<close>, \<open>bindings_apart\<close>, \<open>targets_apart\<close>, \<open>status_apart\<close>, \<open>nested_within\<close>, \<open>total_git\<close>, \<open>flaky\<close>), shown to hold of a concrete instance in the witness.
  They idealise where they say so: under \<open>tree_laws\<close> storing an encoded tree never fails.

  \<^bold>\<open>Bounds.\<close>  The walk over a worktree takes fuel for its depth, and the depth of the tree is proved to be enough; so does a merge of git trees.  That a
  pipeline on its own returns is shown for worktrees nested within that fuel (\<open>nested_within\<close>).  A
  conflict is retried as often as \<open>retry.DefaultRetry\<close> does (five attempts); a managed binding tries the hundred names the
  code tries; a push is tried once more than its retry number.

  \<^bold>\<open>Not modelled.\<close>  The manager of controller-runtime is an argument, and so is which of its calls fail; the HTTP servers
  (listening, certificates, decoding of a body) are library code, so a route takes the decoded
  request; events and logs have no effect on the state; \<open>zz_generated.deepcopy.go\<close> is generated, and a value of HOL is its own copy;
  \<open>pkg/kube/client.go\<close> carries the client through a context, which is an argument here;
  \<open>test\<close> runs kubectl, kind and helm.  Random delays, clocks and the environment are arguments.
\<close>

section \<open>From the reconcile to the answer\<close>

lemma reconciled_handler:
  assumes "reconcileWebhook cenv now req hs w = (err, hs', w')" and "RemoteSyncerWebhookPath req \<notin> fst ` set later"
  shows "handlerFor (apply_changes register Unregister later hs') (RemoteSyncerWebhookPath req) =
    (case kget (RemoteSyncers (CtlClient cenv)) w req of Inl _ \<Rightarrow> None | Inr rs \<Rightarrow> Some (NamespacedSyncer rs))"
  using assms(1) registry.untouched_path [OF assms(2), of hs']
  by (auto simp: reconcileWebhook_def Register_def registry.look_reg registry.look_unreg split: prod.splits sum.splits)

text \<open>
  C4. A reconciled syncer guards its resources with the spec that was reconciled: whatever is served on its path
  afterwards is answered by it, however the handlers of other paths change in between. A body that is no admission review is refused without any effect; every other
  request gets a review, and the review lets a change through only for an author the syncer bypasses,
  for an object already being deleted, or in CommitApply mode when the push errors are set to pass or after the manifest of the
  request was pushed once for every pair of credentials and target associated with the author.
  Once the syncer cannot be read any more, its path answers nothing.
\<close>

theorem reconciled_syncer_guards_its_resources:
  assumes "reconcileWebhook cenv now req hs w = (err, hs', w')" and "RemoteSyncerWebhookPath req \<notin> fst ` set later"
    and "hs1 = apply_changes register Unregister later hs'"
    and "route_namespaced ienv req body hs1 (v, ps) = Some (answer, hs2, v', ps')"
  shows "(case kget (RemoteSyncers (CtlClient cenv)) w req of
      Inr rs \<Rightarrow> hs2 = hs1 \<and>
        (case body of
           None \<Rightarrow> answer = BadRequest \<and> v' = v \<and> ps' = ps
         | Some admReq \<Rightarrow> \<exists>rv sc. answer = Reply rv \<and> sc = NewRemoteSyncerContext rs (AdmNamespace admReq) \<and>
             (RevAllowed rv \<longrightarrow> bypasses admReq sc \<or>
               (\<exists>host m. ParseURL ienv (RemoteRepository (Spec rs)) = Inr host \<and>
                  GetUserInfoRemoteTargetsAssociation (ParseURL ienv) (KubeClient ienv) v (AdmUserInfo admReq) host sc = Inr m \<and>
                  (terminating ienv admReq \<or> Strategy (Spec rs) = CommitApply \<and>
                    (all_pushed ienv admReq sc host m v ps ps' \<or> DefaultPushErrorBehavior (Spec rs) = Pass)))))
    | Inl _ \<Rightarrow> (\<exists>e. kget (RemoteSyncers (KubeClient ienv)) v req = Inl e) \<longrightarrow> answer = NotFoundPage \<and> v' = v \<and> ps' = ps)"
proof (cases "kget (RemoteSyncers (CtlClient cenv)) w req")
  case (Inl e)
  with reconciled_handler [OF assms(1,2)] assms(3,4) show ?thesis by (auto simp: route_namespaced_def)
next
  case (Inr rs)
  with reconciled_handler [OF assms(1,2)] assms(3,4)
  have route: "map_option (\<lambda>(r, st1). (r, hs1, st1)) (serve ienv (NamespacedSyncer rs) body (v, ps)) = Some (answer, hs2, v', ps')"
    by (simp add: route_namespaced_def)
  show ?thesis
  proof (cases body)
    case None
    with route Inr show ?thesis by (auto simp: serve_def)
  next
    case (Some admReq)
    let ?sc = "NewRemoteSyncerContext rs (AdmNamespace admReq)"
    from route Some obtain rv where answer: "answer = Reply rv" "hs2 = hs1"
      and run: "RunInterceptionPipeline ienv admReq ?sc (v, ps) = Some (rv, v', ps')"
      by (auto simp: serve_def syncerContext_def split: option.splits)
    have "ScSpec ?sc = Spec rs" by (simp add: NewRemoteSyncerContext_def)
    with allowed_only_pushed [OF run] answer Some Inr show ?thesis by simp
  qed
qed

definition demo_stored_syncer :: RemoteSyncer where
  "demo_stored_syncer = \<lparr>Meta = no_meta\<lparr>Name := ''rs'', Namespace := ''team''\<rparr>, Spec = ScSpec demo_apply, Status = no_syncer_status\<rparr>"

text \<open>The syncer is reconciled and then serves the change of an author with a binding.\<close>

lemma demo_reconciled: "case reconcileWebhook (demo_ctl [demo_stored_syncer]) 0 (nsn ''team'' ''rs'') [] [demo_config []] of
    (err, hs, w) \<Rightarrow> err = None \<and> hs = [(RemoteSyncerWebhookPath (nsn ''team'' ''rs''), NamespacedSyncer demo_stored_syncer)]"
  by code_simp

lemma demo_context: "NewRemoteSyncerContext demo_stored_syncer (AdmNamespace demo_request) = demo_apply"
  by code_simp

theorem reconciled_syncer_guards_its_resources_witness:
  "\<exists>host m ps. GetUserInfoRemoteTargetsAssociation (ParseURL demo_ienv) (KubeClient demo_ienv) ()
     (AdmUserInfo demo_request) host demo_apply = Inr m \<and> PsGit ps = [(''team/v1/configmaps/cm.yaml'', ''data'')] \<and>
     (terminating demo_ienv demo_request \<or> all_pushed demo_ienv demo_request demo_apply host m () (quiet_state 2 []) ps)"
proof -
  let ?req = "nsn ''team'' ''rs''"
  obtain hs w where rec: "reconcileWebhook (demo_ctl [demo_stored_syncer]) 0 ?req [] [demo_config []] = (None, hs, w)"
    using demo_reconciled by (auto split: prod.splits)
  have get: "kget (RemoteSyncers (CtlClient (demo_ctl [demo_stored_syncer]))) [demo_config []] ?req = Inr demo_stored_syncer"
    by code_simp
  obtain rv ps where run: "RunInterceptionPipeline demo_ienv demo_request demo_apply ((), quiet_state 2 []) = Some (rv, (), ps)"
    and ok: "RevAllowed rv" and git: "PsGit ps = [(''team/v1/configmaps/cm.yaml'', ''data'')]"
    using demo_interception by (auto split: option.splits)
  let ?later = "[(RemoteSyncerWebhookPath (nsn ''team'' ''other''), None)]"
  have other: "RemoteSyncerWebhookPath ?req \<notin> fst ` set ?later" by (simp add: RemoteSyncerWebhookPath_def nsn_def)
  let ?hs = "apply_changes register Unregister ?later hs"
  have route: "route_namespaced demo_ienv ?req (Some demo_request) ?hs ((), quiet_state 2 []) = Some (Reply rv, ?hs, (), ps)"
    using run demo_context reconciled_handler [OF rec other]
    by (simp add: get route_namespaced_def serve_def syncerContext_def del: apply_changes.simps)
  have block: "DefaultPushErrorBehavior (Spec demo_stored_syncer) \<noteq> Pass" by code_simp
  show ?thesis
    using reconciled_syncer_guards_its_resources [OF rec other refl route] ok git block demo_not_bypassing by (auto simp: get demo_context)
qed

end
